(* ===== verification/Prelude.thy ===== *)
theory Prelude
  imports Main "HOL-Library.Monad_Syntax" "HOL-Library.Char_ord" "HOL-Library.List_Lexorder"
begin

text \<open>
  Shared vocabulary of the development: Python exceptions as values, the result type of a
  call that may raise, the checks a dataclass runs in \<open>__post_init__\<close>, and the string
  operations the sources use, with the lemmas about them that every component needs.

  A Python \<open>str\<close> is modelled by its UTF-8 bytes as a list of \<open>char\<close>. Concatenation,
  equality, prefix tests, splitting at an ASCII character, \<open>sorted\<close> and \<open>encode\<close> are the same
  on both views. \<open>casefold\<close>, \<open>isdecimal\<close> and the classes of regular expressions are modelled on ASCII.
\<close>

named_theorems str_defs \<open>definitions of string operations, for evaluation\<close>

section \<open>Exceptions and results\<close>

datatype py_error =
    ValueError string
  | StageCursorError string
  | PostingPlanError string
  | KeyError string
  | IndexError
  | RunnerError string

type_synonym 'a result = "py_error + 'a"

fun bindE :: "'a result \<Rightarrow> ('a \<Rightarrow> 'b result) \<Rightarrow> 'b result" where
  "bindE (Inl e) f = Inl e"
| "bindE (Inr x) f = f x"

fun is_ok :: "'a result \<Rightarrow> bool" where
  "is_ok (Inl e) = False"
| "is_ok (Inr x) = True"

lemma bindE_Inr_iff: "bindE m f = Inr y \<longleftrightarrow> (\<exists>x. m = Inr x \<and> f x = Inr y)"
  by (cases m) auto

lemma bindE_Inl_iff: "bindE m f = Inl e \<longleftrightarrow> m = Inl e \<or> (\<exists>x. m = Inr x \<and> f x = Inl e)"
  by (cases m) auto

lemma is_ok_iff: "is_ok m \<longleftrightarrow> (\<exists>x. m = Inr x)"
  by (cases m) auto

lemma is_ok_bindE: "is_ok (bindE m f) \<longleftrightarrow> (\<exists>x. m = Inr x \<and> is_ok (f x))"
  by (cases m) auto

section \<open>Dataclass checks\<close>

text \<open>
  \<open>__post_init__\<close> is a sequence of checks, each with the message of the \<open>ValueError\<close> it raises:
  the first check that fails decides.
\<close>

fun first_failure :: "(bool \<times> string) list \<Rightarrow> string option" where
  "first_failure [] = None"
| "first_failure ((ok, msg) # cs) = (if ok then first_failure cs else Some msg)"

lemma first_failure_append:
  "first_failure (xs @ ys) =
     (case first_failure xs of None \<Rightarrow> first_failure ys | Some m \<Rightarrow> Some m)"
  by (induction xs rule: first_failure.induct) auto

lemma first_failure_None_iff: "first_failure cs = None \<longleftrightarrow> (\<forall>c \<in> set cs. fst c)"
  by (induction cs rule: first_failure.induct) auto

definition mk_checked :: "('a \<Rightarrow> string option) \<Rightarrow> 'a \<Rightarrow> 'a result" where
  "mk_checked check x = (case check x of None \<Rightarrow> Inr x | Some m \<Rightarrow> Inl (ValueError m))"

lemma mk_checked_Inr_iff: "mk_checked check x = Inr y \<longleftrightarrow> check x = None \<and> y = x"
  by (auto simp: mk_checked_def split: option.splits)

lemma mk_checked_ok: "check x = None \<Longrightarrow> mk_checked check x = Inr x"
  by (simp add: mk_checked_def)

lemma mk_checked_error: "check x = Some m \<Longrightarrow> mk_checked check x = Inl (ValueError m)"
  by (simp add: mk_checked_def)

text \<open>A check that applies to an optional value only when it is present.\<close>

fun opt_ok :: "('a \<Rightarrow> bool) \<Rightarrow> 'a option \<Rightarrow> bool" where
  "opt_ok P None = True"
| "opt_ok P (Some x) = P x"

lemma opt_ok_iff: "opt_ok P v \<longleftrightarrow> (\<forall>x. v = Some x \<longrightarrow> P x)"
  by (cases v) auto

text \<open>\<open>value in xs\<close> for an optional value and a collection that holds no \<open>None\<close>.\<close>

fun opt_mem :: "'a option \<Rightarrow> 'a list \<Rightarrow> bool" where
  "opt_mem None xs = False"
| "opt_mem (Some x) xs = (x \<in> set xs)"

abbreviation non_empty :: "string \<Rightarrow> bool" where
  "non_empty s \<equiv> s \<noteq> []"

section \<open>Characters\<close>

definition LF :: char where "LF = CHR 10"
definition CR :: char where "CR = CHR 13"

definition is_digit :: "char \<Rightarrow> bool" where
  "is_digit c \<longleftrightarrow> 48 \<le> (of_char c :: nat) \<and> (of_char c :: nat) \<le> 57"

definition is_upper :: "char \<Rightarrow> bool" where
  "is_upper c \<longleftrightarrow> 65 \<le> (of_char c :: nat) \<and> (of_char c :: nat) \<le> 90"

definition is_lower :: "char \<Rightarrow> bool" where
  "is_lower c \<longleftrightarrow> 97 \<le> (of_char c :: nat) \<and> (of_char c :: nat) \<le> 122"

definition is_alnum :: "char \<Rightarrow> bool" where
  "is_alnum c \<longleftrightarrow> is_digit c \<or> is_upper c \<or> is_lower c"

definition hexdigits :: string where "hexdigits = ''0123456789abcdef''"

definition digit_value :: "char \<Rightarrow> nat" where
  "digit_value c = of_char c - 48"

definition digit_char :: "nat \<Rightarrow> char" where
  "digit_char d = char_of (48 + d)"

definition lower_char :: "char \<Rightarrow> char" where
  "lower_char c = (if is_upper c then char_of ((of_char c :: nat) + 32) else c)"

text \<open>\<open>str.casefold\<close> on ASCII text.\<close>

definition casefold :: "string \<Rightarrow> string" where
  "casefold s = map lower_char s"

lemmas [str_defs] = LF_def CR_def is_digit_def is_upper_def is_lower_def is_alnum_def
  hexdigits_def digit_value_def digit_char_def lower_char_def casefold_def

lemma length_casefold [simp]: "length (casefold s) = length s"
  by (simp add: casefold_def)

lemma lower_char_idem [simp]: "lower_char (lower_char c) = lower_char c"
  by (auto simp: lower_char_def is_upper_def of_char_of)

lemma casefold_idem [simp]: "casefold (casefold s) = casefold s"
  by (simp add: casefold_def)

lemma LF_neq_CR [simp]: "LF \<noteq> CR" "CR \<noteq> LF"
  by (simp_all add: LF_def CR_def)

section \<open>Prefixes, substrings\<close>

fun strip_prefix :: "string \<Rightarrow> string \<Rightarrow> string option" where
  "strip_prefix [] s = Some s"
| "strip_prefix (p # ps) [] = None"
| "strip_prefix (p # ps) (c # cs) = (if p = c then strip_prefix ps cs else None)"

definition starts_with :: "string \<Rightarrow> string \<Rightarrow> bool" where
  "starts_with p s \<longleftrightarrow> take (length p) s = p"

definition ends_with :: "string \<Rightarrow> string \<Rightarrow> bool" where
  "ends_with q s \<longleftrightarrow> length q \<le> length s \<and> drop (length s - length q) s = q"

fun contains :: "string \<Rightarrow> string \<Rightarrow> bool" where
  "contains p [] = (p = [])"
| "contains p (c # cs) = (starts_with p (c # cs) \<or> contains p cs)"

lemma strip_prefix_Some_iff: "strip_prefix p s = Some r \<longleftrightarrow> s = p @ r"
  by (induction p s rule: strip_prefix.induct) auto

lemma strip_prefix_append [simp]: "strip_prefix p (p @ r) = Some r"
  by (simp add: strip_prefix_Some_iff)

lemma starts_with_iff: "starts_with p s \<longleftrightarrow> (\<exists>r. s = p @ r)"
  unfolding starts_with_def
proof
  assume "take (length p) s = p"
  then have "s = p @ drop (length p) s" by (metis append_take_drop_id)
  then show "\<exists>r. s = p @ r" ..
qed auto

lemma starts_with_append [simp]: "starts_with p (p @ r)"
  by (simp add: starts_with_def)

lemma starts_with_strip: "starts_with p s \<longleftrightarrow> strip_prefix p s \<noteq> None"
  by (auto simp: starts_with_iff strip_prefix_Some_iff)

lemma ends_with_iff: "ends_with q s \<longleftrightarrow> (\<exists>r. s = r @ q)"
proof
  assume "ends_with q s"
  then have "s = take (length s - length q) s @ q"
    unfolding ends_with_def by (metis append_take_drop_id)
  then show "\<exists>r. s = r @ q" ..
qed (auto simp: ends_with_def)

lemma ends_with_append [simp]: "ends_with q (r @ q)"
  by (auto simp: ends_with_iff)

lemma contains_iff: "contains p s \<longleftrightarrow> (\<exists>a b. s = a @ p @ b)"
proof (induction s)
  case Nil
  show ?case by simp
next
  case (Cons c cs)
  have "(\<exists>a b. c # cs = a @ p @ b) \<longleftrightarrow> (\<exists>b. c # cs = p @ b) \<or> (\<exists>a b. cs = a @ p @ b)"
    by (metis append.simps append_eq_Cons_conv)
  then show ?case by (simp add: Cons.IH starts_with_iff)
qed

section \<open>Splitting and joining\<close>

fun split_on :: "char \<Rightarrow> string \<Rightarrow> string list" where
  "split_on c [] = [[]]"
| "split_on c (x # xs) =
     (if x = c then [] # split_on c xs
      else (case split_on c xs of [] \<Rightarrow> [[x]] | y # ys \<Rightarrow> (x # y) # ys))"

fun join :: "string \<Rightarrow> string list \<Rightarrow> string" where
  "join sep [] = []"
| "join sep [x] = x"
| "join sep (x # y # ys) = x @ sep @ join sep (y # ys)"

text \<open>\<open>s.split(c, 1)\<close> for a separator that occurs: the part before it and the part after it.\<close>

definition split_once :: "char \<Rightarrow> string \<Rightarrow> string \<times> string" where
  "split_once c s = (takeWhile (\<lambda>x. x \<noteq> c) s, drop (Suc (length (takeWhile (\<lambda>x. x \<noteq> c) s))) s)"

lemma split_on_not_Nil [simp]: "split_on c s \<noteq> []"
  by (induction c s rule: split_on.induct) (auto split: list.splits)

lemma length_split_on [simp]: "0 < length (split_on c s)"
  by simp

lemma join_split_on [simp]: "join [c] (split_on c s) = s"
proof (induction c s rule: split_on.induct)
  case (1 c)
  show ?case by simp
next
  case (2 c x xs)
  obtain y ys where y: "split_on c xs = y # ys" by (cases "split_on c xs") auto
  with 2 have IH: "join [c] (y # ys) = xs" by (cases "x = c") auto
  show ?case
  proof (cases "x = c")
    case True
    with y IH show ?thesis by simp
  next
    case False
    from IH have "join [c] ((x # y) # ys) = x # xs" by (cases ys) auto
    with False y show ?thesis by simp
  qed
qed

lemma split_on_no_sep: "c \<notin> set s \<Longrightarrow> split_on c s = [s]"
  by (induction s) auto

lemma split_on_append_sep: "split_on c (a @ c # b) = split_on c a @ split_on c b"
proof (induction a)
  case Nil
  show ?case by simp
next
  case (Cons x xs)
  then show ?case by (cases "split_on c xs") auto
qed

lemma split_on_pieces: "p \<in> set (split_on c s) \<Longrightarrow> c \<notin> set p"
proof (induction c s arbitrary: p rule: split_on.induct)
  case (1 c)
  then show ?case by simp
next
  case (2 c x xs)
  then show ?case by (cases "split_on c xs") (auto split: if_splits)
qed

lemma split_on_join:
  assumes "xs \<noteq> []" and "\<forall>x \<in> set xs. c \<notin> set x"
  shows "split_on c (join [c] xs) = xs"
  using assms
proof (induction "[c]" xs rule: join.induct)
  case (3 x y ys)
  then have "split_on c (x @ c # join [c] (y # ys)) = [x] @ (y # ys)"
    by (simp add: split_on_append_sep split_on_no_sep del: split_on.simps)
  then show ?case by simp
qed (auto simp: split_on_no_sep)

lemma split_on_sep_last: "split_on c (a @ [c]) = split_on c a @ [[]]"
  using split_on_append_sep[of c a "[]"] by simp

lemma join_append_single:
  "xs \<noteq> [] \<Longrightarrow> join sep (xs @ [y]) = join sep xs @ sep @ y"
  by (induction sep xs rule: join.induct) auto

lemma set_split_on: "p \<in> set (split_on c s) \<Longrightarrow> set p \<subseteq> set s"
proof (induction c s arbitrary: p rule: split_on.induct)
  case (1 c)
  then show ?case by simp
next
  case (2 c x xs)
  show ?case
  proof (cases "split_on c xs")
    case Nil
    then show ?thesis by simp
  next
    case (Cons y ys)
    with 2 show ?thesis by (cases "x = c") fastforce+
  qed
qed

lemma split_once_append:
  assumes "c \<notin> set a"
  shows "split_once c (a @ c # b) = (a, b)"
proof -
  from assms have "takeWhile (\<lambda>x. x \<noteq> c) (a @ c # b) = a"
    by (induction a) auto
  then show ?thesis by (simp add: split_once_def)
qed

lemma split_once_join:
  assumes "c \<in> set s"
  shows "s = fst (split_once c s) @ c # snd (split_once c s)"
proof -
  from assms obtain a b where "s = a @ c # b" "c \<notin> set a"
    by (blast dest: split_list_first)
  then show ?thesis by (simp add: split_once_append)
qed

section \<open>Decimal numbers\<close>

fun nat_str :: "nat \<Rightarrow> string" where
  "nat_str n = (if n < 10 then [digit_char n] else nat_str (n div 10) @ [digit_char (n mod 10)])"

declare nat_str.simps [simp del]

text \<open>\<open>str(n)\<close> of a Python integer.\<close>

definition int_str :: "int \<Rightarrow> string" where
  "int_str i = (if i < 0 then ''-'' @ nat_str (nat (- i)) else nat_str (nat i))"

text \<open>The value of a string of decimal digits.\<close>

definition digits_value :: "string \<Rightarrow> nat" where
  "digits_value s = foldl (\<lambda>a c. 10 * a + digit_value c) 0 s"

lemma digit_char_is_digit: "d < 10 \<Longrightarrow> is_digit (digit_char d)"
  by (simp add: is_digit_def digit_char_def of_char_of)

lemma digit_value_char: "d < 10 \<Longrightarrow> digit_value (digit_char d) = d"
  by (simp add: digit_value_def digit_char_def of_char_of)

lemma nat_str_digits: "\<forall>c \<in> set (nat_str n). is_digit c"
proof (induction n rule: nat_str.induct)
  case (1 n)
  then show ?case
    by (subst nat_str.simps) (auto simp: digit_char_is_digit)
qed

lemma nat_str_not_Nil [simp]: "nat_str n \<noteq> []"
  by (subst nat_str.simps) simp

lemma digits_value_snoc: "digits_value (s @ [c]) = 10 * digits_value s + digit_value c"
  by (simp add: digits_value_def)

lemma digits_value_nat_str: "digits_value (nat_str n) = n"
proof (induction n rule: nat_str.induct)
  case (1 n)
  show ?case
  proof (cases "n < 10")
    case True
    then show ?thesis
      by (subst nat_str.simps) (simp add: digits_value_def digit_value_char)
  next
    case False
    with 1 show ?thesis
      by (subst nat_str.simps) (simp add: digits_value_snoc digit_value_char)
  qed
qed

lemma nat_str_inject: "nat_str a = nat_str b \<longleftrightarrow> a = b"
  by (metis digits_value_nat_str)

lemma int_str_not_Nil [simp]: "int_str i \<noteq> []"
  by (simp add: int_str_def)

lemma minus_notin_nat_str: "CHR ''-'' \<notin> set (nat_str n)"
  using nat_str_digits[of n] by (auto simp: is_digit_def)

lemma int_str_inject: "int_str a = int_str b \<longleftrightarrow> a = b"
proof
  assume eq: "int_str a = int_str b"
  have hd: "hd (nat_str n) \<noteq> CHR ''-''" for n
    using minus_notin_nat_str[of n] by (metis hd_in_set nat_str_not_Nil)
  show "a = b"
  proof (cases "a < 0"; cases "b < 0")
    assume "a < 0" "b < 0"
    with eq show ?thesis by (simp add: int_str_def nat_str_inject)
  next
    assume "a < 0" "\<not> b < 0"
    with eq hd[of "nat b"] show ?thesis by (metis append_Cons int_str_def list.sel(1))
  next
    assume "\<not> a < 0" "b < 0"
    with eq hd[of "nat a"] show ?thesis by (metis append_Cons int_str_def list.sel(1))
  next
    assume "\<not> a < 0" "\<not> b < 0"
    with eq show ?thesis by (simp add: int_str_def nat_str_inject)
  qed
qed simp

section \<open>Lists\<close>

text \<open>\<open>len(set(xs)) != len(xs)\<close> is the sources' test for duplicates.\<close>

definition has_duplicates :: "'a list \<Rightarrow> bool" where
  "has_duplicates xs \<longleftrightarrow> length (remdups xs) \<noteq> length xs"

lemma has_duplicates_iff: "has_duplicates xs \<longleftrightarrow> \<not> distinct xs"
  by (metis distinct_card has_duplicates_def length_remdups_card_conv card_distinct)

text \<open>\<open>d.get(k)\<close> on the dict a comprehension builds: the last entry for the key wins.\<close>

definition dict_get :: "('k \<times> 'v) list \<Rightarrow> 'k \<Rightarrow> 'v option" where
  "dict_get kvs k = map_of (rev kvs) k"

lemma dict_get_Some_in: "dict_get kvs k = Some v \<Longrightarrow> (k, v) \<in> set kvs"
  by (auto simp: dict_get_def dest: map_of_SomeD)

lemma dict_get_None_iff: "dict_get kvs k = None \<longleftrightarrow> k \<notin> fst ` set kvs"
  by (simp add: dict_get_def map_of_eq_None_iff)

lemma dict_get_distinct:
  assumes "distinct (map fst kvs)"
  shows "dict_get kvs k = Some v \<longleftrightarrow> (k, v) \<in> set kvs"
proof -
  from assms have "distinct (map fst (rev kvs))" by (simp add: rev_map [symmetric])
  then show ?thesis by (simp add: dict_get_def map_of_eq_Some_iff)
qed

section \<open>Loops that may raise\<close>

text \<open>A loop that appends one result per element, and one that only checks.\<close>

fun mapE :: "('a \<Rightarrow> 'b result) \<Rightarrow> 'a list \<Rightarrow> 'b list result" where
  "mapE f [] = Inr []"
| "mapE f (x # xs) = bindE (f x) (\<lambda>y. bindE (mapE f xs) (\<lambda>ys. Inr (y # ys)))"

fun checkE :: "('a \<Rightarrow> py_error option) \<Rightarrow> 'a list \<Rightarrow> unit result" where
  "checkE f [] = Inr ()"
| "checkE f (x # xs) = (case f x of Some e \<Rightarrow> Inl e | None \<Rightarrow> checkE f xs)"

lemma mapE_Inr_iff: "mapE f xs = Inr ys \<longleftrightarrow> list_all2 (\<lambda>x y. f x = Inr y) xs ys"
  by (induction xs arbitrary: ys) (auto simp: bindE_Inr_iff list_all2_Cons1)

lemma mapE_ok: "\<forall>x \<in> set xs. f x = Inr (g x) \<Longrightarrow> mapE f xs = Inr (map g xs)"
  by (induction xs) auto

lemma mapE_append: "mapE f (xs @ ys) = bindE (mapE f xs) (\<lambda>as. bindE (mapE f ys) (\<lambda>bs. Inr (as @ bs)))"
proof (induction xs)
  case (Cons x xs)
  then show ?case by (cases "f x"; cases "mapE f xs"; cases "mapE f ys") auto
qed (cases "mapE f ys"; simp)

lemma checkE_Inr_iff: "checkE f xs = Inr u \<longleftrightarrow> (\<forall>x \<in> set xs. f x = None)"
  by (induction xs) (auto split: option.splits)

lemma list_all2_right: "list_all2 R xs ys \<Longrightarrow> (\<And>x y. R x y \<Longrightarrow> Q y) \<Longrightarrow> \<forall>y \<in> set ys. Q y"
  by (induction rule: list_all2_induct) auto

text \<open>A loop that carries a state.\<close>

fun foldE :: "('s \<Rightarrow> 'a \<Rightarrow> 's result) \<Rightarrow> 's \<Rightarrow> 'a list \<Rightarrow> 's result" where
  "foldE f s [] = Inr s"
| "foldE f s (x # xs) = bindE (f s x) (\<lambda>s'. foldE f s' xs)"

lemma foldE_append: "foldE f s (xs @ ys) = bindE (foldE f s xs) (\<lambda>s'. foldE f s' ys)"
proof (induction xs arbitrary: s)
  case (Cons x xs)
  then show ?case by (cases "f s x") auto
qed simp

lemma foldE_ok: "\<forall>s. \<forall>x \<in> set xs. f s x = Inr (g s x) \<Longrightarrow> foldE f s xs = Inr (foldl g s xs)"
  by (induction xs arbitrary: s) auto

text \<open>ASCII text.\<close>

definition is_ascii :: "string \<Rightarrow> bool" where
  "is_ascii s \<longleftrightarrow> (\<forall>c \<in> set s. (of_char c :: nat) < 128)"

end
