(* ===== verification/Sha256.thy ===== *)
theory Sha256
  imports Prelude "HOL-Library.Word"
begin

unbundle bit_operations_syntax

text \<open>
  \<open>hashlib.sha256(text.encode("utf-8")).hexdigest()\<close>, which every hash of the program is built on
  (\<open>sha256_text\<close> of \<open>hashing.py\<close>, \<open>_sha256_text\<close> of \<open>models.py\<close>): the SHA-256 function of
  FIPS 180-4 on 32-bit words, executable, with the digest as 64 lower-case hexadecimal digits. The later
  components use only the shape of a digest; nothing assumes that the function is injective.
\<close>

type_synonym w32 = "32 word"

definition sha_k :: "w32 list" where
  "sha_k =
   [1116352408, 1899447441, 3049323471, 3921009573, 961987163, 1508970993, 2453635748, 2870763221,
    3624381080, 310598401, 607225278, 1426881987, 1925078388, 2162078206, 2614888103, 3248222580,
    3835390401, 4022224774, 264347078, 604807628, 770255983, 1249150122, 1555081692, 1996064986,
    2554220882, 2821834349, 2952996808, 3210313671, 3336571891, 3584528711, 113926993, 338241895,
    666307205, 773529912, 1294757372, 1396182291, 1695183700, 1986661051, 2177026350, 2456956037,
    2730485921, 2820302411, 3259730800, 3345764771, 3516065817, 3600352804, 4094571909, 275423344,
    430227734, 506948616, 659060556, 883997877, 958139571, 1322822218, 1537002063, 1747873779,
    1955562222, 2024104815, 2227730452, 2361852424, 2428436474, 2756734187, 3204031479, 3329325298]"

type_synonym sha_state = "w32 \<times> w32 \<times> w32 \<times> w32 \<times> w32 \<times> w32 \<times> w32 \<times> w32"

definition sha_init :: sha_state where
  "sha_init = (1779033703, 3144134277, 1013904242, 2773480762, 1359893119, 2600822924, 528734635, 1541459225)"

definition rotr32 :: "nat \<Rightarrow> w32 \<Rightarrow> w32" where
  "rotr32 n x = drop_bit n x OR push_bit (32 - n) x"

definition sha_ch :: "w32 \<Rightarrow> w32 \<Rightarrow> w32 \<Rightarrow> w32" where
  "sha_ch x y z = (x AND y) XOR (NOT x AND z)"

definition sha_maj :: "w32 \<Rightarrow> w32 \<Rightarrow> w32 \<Rightarrow> w32" where
  "sha_maj x y z = (x AND y) XOR (x AND z) XOR (y AND z)"

definition sha_big0 :: "w32 \<Rightarrow> w32" where "sha_big0 x = rotr32 2 x XOR rotr32 13 x XOR rotr32 22 x"
definition sha_big1 :: "w32 \<Rightarrow> w32" where "sha_big1 x = rotr32 6 x XOR rotr32 11 x XOR rotr32 25 x"
definition sha_small0 :: "w32 \<Rightarrow> w32" where "sha_small0 x = rotr32 7 x XOR rotr32 18 x XOR drop_bit 3 x"
definition sha_small1 :: "w32 \<Rightarrow> w32" where "sha_small1 x = rotr32 17 x XOR rotr32 19 x XOR drop_bit 10 x"

section \<open>Padding\<close>

definition sha_bytes :: "string \<Rightarrow> nat list" where "sha_bytes s = map of_char s"

definition be_bytes :: "nat \<Rightarrow> nat \<Rightarrow> nat list" where
  "be_bytes k n = map (\<lambda>i. (n div 256 ^ i) mod 256) (rev [0..<k])"

text \<open>A one bit, zeros up to 56 modulo 64, and the length in bits as eight bytes.\<close>

definition sha_pad :: "nat list \<Rightarrow> nat list" where
  "sha_pad bs =
     bs @ [0x80] @ replicate ((119 - length bs mod 64) mod 64) 0 @ be_bytes 8 (8 * length bs)"

lemma length_sha_pad: "64 dvd length (sha_pad bs)"
proof -
  have "length (sha_pad bs) mod 64 = (length bs + (119 - length bs mod 64) mod 64 + 9) mod 64"
    by (simp add: sha_pad_def be_bytes_def ac_simps)
  also have "\<dots> = 0"
  proof -
    obtain q r where qr: "length bs = 64 * q + r" "r < 64"
      by (metis div_mult_mod_eq mod_less_divisor mult.commute zero_less_numeral)
    have "r < 56 \<Longrightarrow> (119 - r) mod 64 = 55 - r"
      by (simp add: mod_if)
    moreover have "56 \<le> r \<Longrightarrow> (119 - r) mod 64 = 119 - r"
      using qr(2) by (simp add: mod_if)
    ultimately show ?thesis
      using qr by (cases "r < 56") (auto simp: mod_simps)
  qed
  finally show ?thesis by (simp add: dvd_eq_mod_eq_0)
qed

fun chunks :: "nat \<Rightarrow> nat \<Rightarrow> 'a list \<Rightarrow> 'a list list" where
  "chunks 0 k xs = []"
| "chunks (Suc n) k xs = take k xs # chunks n k (drop k xs)"

definition be_word :: "nat list \<Rightarrow> w32" where
  "be_word bs = foldl (\<lambda>w b. push_bit 8 w OR of_nat b) 0 bs"

section \<open>The compression function\<close>

text \<open>The message schedule, newest word first.\<close>

fun sha_schedule :: "nat \<Rightarrow> w32 list \<Rightarrow> w32 list" where
  "sha_schedule 0 ws = ws"
| "sha_schedule (Suc n) ws =
     sha_schedule n ((sha_small1 (ws ! 1) + ws ! 6 + sha_small0 (ws ! 14) + ws ! 15) # ws)"

fun sha_round :: "sha_state \<Rightarrow> w32 \<times> w32 \<Rightarrow> sha_state" where
  "sha_round (a, b, c, d, e, f, g, h) (k, w) =
     (let t1 = h + sha_big1 e + sha_ch e f g + k + w;
          t2 = sha_big0 a + sha_maj a b c
      in (t1 + t2, a, b, c, d + t1, e, f, g))"

fun sha_add :: "sha_state \<Rightarrow> sha_state \<Rightarrow> sha_state" where
  "sha_add (a, b, c, d, e, f, g, h) (a', b', c', d', e', f', g', h') =
     (a + a', b + b', c + c', d + d', e + e', f + f', g + g', h + h')"

definition sha_block :: "sha_state \<Rightarrow> nat list \<Rightarrow> sha_state" where
  "sha_block st block =
     sha_add st (foldl sha_round st
       (zip sha_k (rev (sha_schedule 48 (rev (map be_word (chunks 16 4 block)))))))"

definition hex_digit :: "nat \<Rightarrow> char" where
  "hex_digit n = hexdigits ! n"

definition hex_word :: "w32 \<Rightarrow> string" where
  "hex_word w = map (\<lambda>i. hex_digit (unat (drop_bit (4 * i) w AND 15))) [7, 6, 5, 4, 3, 2, 1, 0]"

fun hex_state :: "sha_state \<Rightarrow> string" where
  "hex_state (a, b, c, d, e, f, g, h) = concat (map hex_word [a, b, c, d, e, f, g, h])"

definition sha256_hex :: "string \<Rightarrow> string" where
  "sha256_hex s =
     (let p = sha_pad (sha_bytes s)
      in hex_state (foldl sha_block sha_init (chunks (length p div 64) 64 p)))"

section \<open>The shape of a digest\<close>

lemma hex_digit_in: "n < 16 \<Longrightarrow> hex_digit n \<in> set hexdigits"
  unfolding hex_digit_def by (rule nth_mem) (simp add: hexdigits_def)

lemma length_hex_word [simp]: "length (hex_word w) = 8"
  by (simp add: hex_word_def)

lemma nibble_bound: "unat (x AND 15 :: w32) < 16"
proof -
  have "unat (x AND 15) \<le> unat (15 :: w32)"
    by (rule word_and_le1 [THEN word_le_nat_alt [THEN iffD1]])
  then show ?thesis by simp
qed

lemma hex_word_in: "set (hex_word w) \<subseteq> set hexdigits"
  using nibble_bound by (auto simp only: hex_word_def set_map intro!: hex_digit_in)

lemma hex_state_shape: "length (hex_state st) = 64 \<and> set (hex_state st) \<subseteq> set hexdigits"
  using hex_word_in by (cases st rule: hex_state.cases) simp

lemma length_sha256_hex [simp]: "length (sha256_hex s) = 64"
  by (simp add: sha256_hex_def Let_def hex_state_shape)

lemma sha256_hex_digits: "set (sha256_hex s) \<subseteq> set hexdigits"
  by (simp add: sha256_hex_def Let_def hex_state_shape)

end
