(* ===== verification/Json.thy ===== *)
theory Json
  imports Prelude
begin

text \<open>
  \<open>json.dumps(data, sort_keys=True, separators=(",", ":"), ...)\<close> as the program uses it: JSON values
  without floats, objects as association lists in insertion order, keys sorted when printed. The two
  escaping modes are \<open>ensure_ascii=False\<close> (the hashes of \<open>hashing.py\<close> and \<open>models.py\<close>) and
  \<open>ensure_ascii=True\<close> (\<open>ReviewerRunKey.stable_key\<close>). With the lemmas of the theories
  \<open>Stable_Key\<close> and \<open>Hash_Texts\<close> both string encodings are uniquely readable, so that equal texts come from equal fields.
\<close>

datatype json =
    JNull
  | JBool bool
  | JInt int
  | JStr string
  | JArr "json list"
  | JObj "(string \<times> json) list"

section \<open>String literals\<close>

definition hex4 :: "nat \<Rightarrow> string" where
  "hex4 n = map (\<lambda>i. hexdigits ! (n div 16 ^ i mod 16)) [3, 2, 1, 0]"

definition u_escape :: "nat \<Rightarrow> string" where
  "u_escape n = [CHR 0x5C, CHR ''u''] @ hex4 n"

text \<open>The two-character escapes that both modes share.\<close>

definition short_escape :: "char \<Rightarrow> string option" where
  "short_escape c =
     (if c = CHR 0x22 then Some [CHR 0x5C, CHR 0x22]
      else if c = CHR 0x5C then Some [CHR 0x5C, CHR 0x5C]
      else if c = CHR 0x08 then Some [CHR 0x5C, CHR ''b'']
      else if c = CHR 0x0C then Some [CHR 0x5C, CHR ''f'']
      else if c = CHR 0x0A then Some [CHR 0x5C, CHR ''n'']
      else if c = CHR 0x0D then Some [CHR 0x5C, CHR ''r'']
      else if c = CHR 0x09 then Some [CHR 0x5C, CHR ''t'']
      else None)"

text \<open>\<open>ensure_ascii=False\<close>: only control characters, the quote and the backslash are escaped.\<close>

definition escape_char :: "char \<Rightarrow> string" where
  "escape_char c =
     (case short_escape c of
        Some e \<Rightarrow> e
      | None \<Rightarrow> if (of_char c :: nat) < 32 then u_escape (of_char c) else [c])"

definition json_string :: "string \<Rightarrow> string" where
  "json_string s = [CHR 0x22] @ concat (map escape_char s) @ [CHR 0x22]"

text \<open>
  \<open>ensure_ascii=True\<close>: everything outside the printable ASCII range is written as \<open>\uXXXX\<close> of its code
  point, as a surrogate pair above \<open>0xFFFF\<close>. The input is the UTF-8 bytes, so the code points are read off them
  first; a byte that cannot start a sequence does not occur in the encoding of a \<open>str\<close>.
\<close>

definition code_point_escape :: "nat \<Rightarrow> string" where
  "code_point_escape n =
     (if n < 0x10000 then u_escape n
      else u_escape (0xD800 + (n - 0x10000) div 0x400) @ u_escape (0xDC00 + (n - 0x10000) mod 0x400))"

definition cont_bits :: "char \<Rightarrow> nat" where
  "cont_bits c = of_char c mod 64"

fun utf8_code_points :: "string \<Rightarrow> nat list" where
  "utf8_code_points [] = []"
| "utf8_code_points (a # cs) =
     (let n = (of_char a :: nat)
      in if n < 0x80 then n # utf8_code_points cs
         else if n < 0xE0 then
           (case cs of b # ds \<Rightarrow> ((n mod 32) * 64 + cont_bits b) # utf8_code_points ds | [] \<Rightarrow> [n])
         else if n < 0xF0 then
           (case cs of b # c # ds \<Rightarrow> ((n mod 16) * 4096 + cont_bits b * 64 + cont_bits c) # utf8_code_points ds
            | _ \<Rightarrow> [n])
         else
           (case cs of b # c # d # ds \<Rightarrow>
              ((n mod 8) * 262144 + cont_bits b * 4096 + cont_bits c * 64 + cont_bits d) # utf8_code_points ds
            | _ \<Rightarrow> [n]))"

definition escape_ascii_point :: "nat \<Rightarrow> string" where
  "escape_ascii_point n =
     (if n < 0x80 then
        (case short_escape (char_of n) of
           Some e \<Rightarrow> e
         | None \<Rightarrow> if 32 \<le> n \<and> n < 127 then [char_of n] else u_escape n)
      else code_point_escape n)"

definition json_string_ascii :: "string \<Rightarrow> string" where
  "json_string_ascii s = [CHR 0x22] @ concat (map escape_ascii_point (utf8_code_points s)) @ [CHR 0x22]"

section \<open>Printing a value\<close>

fun dumps_with :: "(string \<Rightarrow> string) \<Rightarrow> json \<Rightarrow> string" where
  "dumps_with q JNull = ''null''"
| "dumps_with q (JBool b) = (if b then ''true'' else ''false'')"
| "dumps_with q (JInt i) = int_str i"
| "dumps_with q (JStr s) = q s"
| "dumps_with q (JArr xs) = ''['' @ join '','' (map (dumps_with q) xs) @ '']''"
| "dumps_with q (JObj kvs) =
     ''{'' @ join '','' (map snd (sort_key fst (map (\<lambda>(k, v). (k, q k @ '':'' @ dumps_with q v)) kvs))) @ ''}''"

definition json_dumps :: "json \<Rightarrow> string" where
  "json_dumps = dumps_with json_string"

definition json_dumps_ascii :: "json \<Rightarrow> string" where
  "json_dumps_ascii = dumps_with json_string_ascii"

fun json_opt_str :: "string option \<Rightarrow> json" where
  "json_opt_str None = JNull"
| "json_opt_str (Some s) = JStr s"

text \<open>An object whose keys are already in order is printed in that order.\<close>

lemma sort_key_sorted: "sorted (map f xs) \<Longrightarrow> sort_key f xs = xs"
  by (induction xs) (auto intro: insort_is_Cons)

lemma dumps_sorted_object:
  assumes "sorted (map fst kvs)"
  shows "dumps_with q (JObj kvs) = ''{'' @ join '','' (map (\<lambda>(k, v). q k @ '':'' @ dumps_with q v) kvs) @ ''}''"
proof -
  let ?es = "map (\<lambda>(k, v). (k, q k @ '':'' @ dumps_with q v)) kvs"
  have "map fst ?es = map fst kvs" by (simp add: case_prod_unfold)
  with assms have "sort_key fst ?es = ?es" by (intro sort_key_sorted) (simp only:)
  moreover have "map snd ?es = map (\<lambda>(k, v). q k @ '':'' @ dumps_with q v) kvs" by (simp add: case_prod_unfold)
  ultimately show ?thesis by (simp only: dumps_with.simps)
qed

section \<open>Escapes are uniquely readable\<close>

text \<open>
  An encoding of the elements of a list is uniquely readable before a terminator when no code word is a
  proper prefix of another and none begins with the terminator.
\<close>

definition readable :: "('a \<Rightarrow> 'b list) \<Rightarrow> 'b \<Rightarrow> 'a set \<Rightarrow> bool" where
  "readable enc q A \<longleftrightarrow>
     (\<forall>x \<in> A. enc x \<noteq> [] \<and> hd (enc x) \<noteq> q) \<and>
     (\<forall>x \<in> A. \<forall>y \<in> A. \<forall>r s. enc x @ r = enc y @ s \<longrightarrow> x = y \<and> r = s)"

lemma readable_concat:
  assumes rd: "readable enc q A"
  shows "set xs \<subseteq> A \<Longrightarrow> set ys \<subseteq> A \<Longrightarrow>
    concat (map enc xs) @ q # r = concat (map enc ys) @ q # s \<Longrightarrow> xs = ys \<and> r = s"
proof (induction xs arbitrary: ys)
  case Nil
  show ?case
  proof (cases ys)
    case Nil
    with Nil.prems show ?thesis by simp
  next
    case (Cons y zs)
    with Nil.prems rd have "enc y \<noteq> []" "hd (enc y) \<noteq> q" by (auto simp: readable_def)
    with Nil.prems Cons show ?thesis by (cases "enc y") auto
  qed
next
  case (Cons x xs)
  show ?case
  proof (cases ys)
    case Nil
    from Cons.prems rd have "enc x \<noteq> []" "hd (enc x) \<noteq> q" by (auto simp: readable_def)
    with Cons.prems Nil show ?thesis by (cases "enc x") auto
  next
    case (Cons y zs)
    with Cons.prems have "x \<in> A" "y \<in> A"
      and eq: "enc x @ (concat (map enc xs) @ q # r) = enc y @ (concat (map enc zs) @ q # s)"
      by auto
    with rd have "x = y" and "concat (map enc xs) @ q # r = concat (map enc zs) @ q # s"
      unfolding readable_def by blast+
    with Cons.IH[of zs] Cons.prems \<open>ys = y # zs\<close> show ?thesis by auto
  qed
qed

end
