(* ===== verification/Hashing.thy ===== *)
theory Hashing
  imports Sha256 Json
begin

text \<open>
  The model of \<open>src/src/reviewgraph/hashing.py\<close>: canonical bodies, the ReviewGraph v1 marker grammar, and
  the hashes that bind a payload to its target, its visible body and its findings. The regular expression
  \<open>REVIEWGRAPH_MARKER_RE\<close> is used by \<open>fullmatch\<close> only; since the class of the run id contains neither a space
  nor an equals sign, the match is unique and the recogniser below reads the line from left to right.
\<close>

section \<open>Hashes\<close>

definition sha256_text :: "string \<Rightarrow> string" where
  "sha256_text text = ''sha256:'' @ sha256_hex text"

definition canonical_json_hash :: "json \<Rightarrow> string" where
  "canonical_json_hash data = sha256_text (json_dumps data)"

definition domain_json_hash :: "string \<Rightarrow> json \<Rightarrow> string" where
  "domain_json_hash domain data = sha256_text (domain @ [LF] @ json_dumps data)"

section \<open>Canonical text\<close>

text \<open>\<open>text.replace("\r\n", "\n").replace("\r", "\n")\<close>\<close>

fun replace_crlf :: "string \<Rightarrow> string" where
  "replace_crlf [] = []"
| "replace_crlf [c] = [c]"
| "replace_crlf (c # d # cs) =
     (if c = CR \<and> d = LF then LF # replace_crlf cs else c # replace_crlf (d # cs))"

definition replace_cr :: "string \<Rightarrow> string" where
  "replace_cr s = map (\<lambda>c. if c = CR then LF else c) s"

definition normalize_line_endings :: "string \<Rightarrow> string" where
  "normalize_line_endings s = replace_cr (replace_crlf s)"

definition rstrip_lf :: "string \<Rightarrow> string" where
  "rstrip_lf s = rev (dropWhile (\<lambda>c. c = LF) (rev s))"

definition canonical_text_body :: "string \<Rightarrow> string" where
  "canonical_text_body text = rstrip_lf (normalize_line_endings text) @ [LF]"

section \<open>The marker grammar\<close>

definition run_id_char :: "char \<Rightarrow> bool" where
  "run_id_char c \<longleftrightarrow> is_alnum c \<or> c \<in> set ''._:/#-''"

definition valid_run_id :: "string \<Rightarrow> bool" where
  "valid_run_id r \<longleftrightarrow>
     r \<noteq> [] \<and> length r \<le> 128 \<and> is_alnum (hd r) \<and> (\<forall>c \<in> set r. run_id_char c)"

definition strict_sha256 :: "string \<Rightarrow> bool" where
  "strict_sha256 h \<longleftrightarrow>
     starts_with ''sha256:'' h \<and> length (drop 7 h) = 64 \<and> (\<forall>c \<in> set (drop 7 h). c \<in> set hexdigits)"

record marker_fields =
  mk_run_id :: string
  mk_target :: string
  mk_payload :: string
  mk_findings :: string

definition marker_line_text :: "marker_fields \<Rightarrow> string" where
  "marker_line_text m =
     ''<!-- reviewgraph:v1 '' @ ''run_id='' @ mk_run_id m @ '' target='' @ mk_target m
     @ '' payload='' @ mk_payload m @ '' findings='' @ mk_findings m @ '' -->''"

definition wf_marker :: "marker_fields \<Rightarrow> bool" where
  "wf_marker m \<longleftrightarrow> valid_run_id (mk_run_id m) \<and> strict_sha256 (mk_target m)
     \<and> strict_sha256 (mk_payload m) \<and> strict_sha256 (mk_findings m)"

text \<open>One \<open>sha256:[0-9a-f]{64}\<close> and the rest of the line.\<close>

definition read_hash :: "string \<Rightarrow> (string \<times> string) option" where
  "read_hash s =
     (case strip_prefix ''sha256:'' s of
        None \<Rightarrow> None
      | Some r \<Rightarrow>
          if length (take 64 r) = 64 \<and> (\<forall>c \<in> set (take 64 r). c \<in> set hexdigits)
          then Some (''sha256:'' @ take 64 r, drop 64 r) else None)"

definition read_run_id :: "string \<Rightarrow> (string \<times> string) option" where
  "read_run_id s =
     (let r = takeWhile run_id_char s
      in if r \<noteq> [] \<and> is_alnum (hd r) \<and> length r \<le> 128 then Some (r, drop (length r) s) else None)"

definition parse_reviewgraph_v1_marker_line :: "string \<Rightarrow> marker_fields option" where
  "parse_reviewgraph_v1_marker_line line = do {
     r0 \<leftarrow> strip_prefix (''<!-- reviewgraph:v1 '' @ ''run_id='') line;
     (run, r1) \<leftarrow> read_run_id r0;
     r2 \<leftarrow> strip_prefix '' target='' r1;
     (t, r3) \<leftarrow> read_hash r2;
     r4 \<leftarrow> strip_prefix '' payload='' r3;
     (p, r5) \<leftarrow> read_hash r4;
     r6 \<leftarrow> strip_prefix '' findings='' r5;
     (f, r7) \<leftarrow> read_hash r6;
     if r7 = '' -->''
     then Some \<lparr>mk_run_id = run, mk_target = t, mk_payload = p, mk_findings = f\<rparr>
     else None }"

definition is_exact_reviewgraph_v1_marker_line :: "string \<Rightarrow> bool" where
  "is_exact_reviewgraph_v1_marker_line line \<longleftrightarrow> parse_reviewgraph_v1_marker_line line \<noteq> None"

section \<open>Bodies and their hashes\<close>

definition canonical_visible_body :: "string \<Rightarrow> string" where
  "canonical_visible_body text =
     (let canonical = canonical_text_body text;
          lines = split_on LF canonical
      in if 2 \<le> length lines \<and> is_exact_reviewgraph_v1_marker_line (lines ! (length lines - 2))
         then rstrip_lf (join [LF] (take (length lines - 2) lines)) @ [LF]
         else canonical)"

definition visible_body_hash :: "string \<Rightarrow> string" where
  "visible_body_hash text = sha256_text (canonical_visible_body text)"

definition marker_payload_hash :: "string \<Rightarrow> string" where
  "marker_payload_hash body = visible_body_hash body"

definition final_payload_hash :: "string \<Rightarrow> string" where
  "final_payload_hash body = sha256_text (canonical_text_body body)"

definition findings_hash :: "string list \<Rightarrow> string result" where
  "findings_hash fingerprints =
     (let ordered = sort fingerprints
      in if has_duplicates ordered
         then Inl (ValueError ''duplicate finding fingerprints are not allowed'')
         else Inr (canonical_json_hash (JArr (map JStr ordered))))"

section \<open>Lemmas on canonical text\<close>

lemma CR_notin_normalize [simp]: "CR \<notin> set (normalize_line_endings s)"
  by (auto simp: normalize_line_endings_def replace_cr_def split: if_splits)

lemma replace_crlf_id: "CR \<notin> set s \<Longrightarrow> replace_crlf s = s"
proof (induction s rule: replace_crlf.induct)
  case (3 c d cs)
  have "c \<noteq> CR" using "3.prems" by auto
  with 3 show ?case by simp
qed simp_all

lemma replace_cr_id: "CR \<notin> set s \<Longrightarrow> replace_cr s = s"
  by (induction s) (auto simp: replace_cr_def)

lemma normalize_id: "CR \<notin> set s \<Longrightarrow> normalize_line_endings s = s"
  by (simp add: normalize_line_endings_def replace_crlf_id replace_cr_id)

lemma set_rstrip_lf: "set (rstrip_lf s) \<subseteq> set s"
  unfolding rstrip_lf_def by (metis set_dropWhileD set_rev subsetI)

lemma rstrip_lf_snoc_LF [simp]: "rstrip_lf (s @ [LF]) = rstrip_lf s"
  by (simp add: rstrip_lf_def)

lemma rstrip_lf_snoc: "c \<noteq> LF \<Longrightarrow> rstrip_lf (s @ [c]) = s @ [c]"
  by (simp add: rstrip_lf_def)

lemma rstrip_lf_Nil [simp]: "rstrip_lf [] = []"
  by (simp add: rstrip_lf_def)

lemma rstrip_lf_not_LF: "s = [] \<or> last s \<noteq> LF \<Longrightarrow> rstrip_lf s = s"
  by (cases s rule: rev_cases) (auto simp: rstrip_lf_snoc)

lemma last_rstrip_lf: "rstrip_lf s \<noteq> [] \<Longrightarrow> last (rstrip_lf s) \<noteq> LF"
proof -
  assume ne: "rstrip_lf s \<noteq> []"
  then have "dropWhile (\<lambda>c. c = LF) (rev s) \<noteq> []" by (simp add: rstrip_lf_def)
  then have "hd (dropWhile (\<lambda>c. c = LF) (rev s)) \<noteq> LF" 
    by (rule hd_dropWhile [where P = "\<lambda>c. c = LF"])
  with ne show ?thesis by (simp add: rstrip_lf_def last_rev)
qed

lemma rstrip_lf_idem [simp]: "rstrip_lf (rstrip_lf s) = rstrip_lf s"
  using last_rstrip_lf by (blast intro: rstrip_lf_not_LF)

text \<open>A canonical text: no carriage return, and exactly one final newline.\<close>

definition canonical_text :: "string \<Rightarrow> bool" where
  "canonical_text s \<longleftrightarrow> (\<exists>v. s = v @ [LF] \<and> CR \<notin> set v \<and> (v = [] \<or> last v \<noteq> LF))"

lemma canonical_text_body_canonical: "canonical_text (canonical_text_body s)"
proof -
  have "CR \<notin> set (rstrip_lf (normalize_line_endings s))"
    using set_rstrip_lf[of "normalize_line_endings s"] CR_notin_normalize[of s] by auto
  moreover have "rstrip_lf (normalize_line_endings s) = []
      \<or> last (rstrip_lf (normalize_line_endings s)) \<noteq> LF"
    using last_rstrip_lf by blast
  ultimately show ?thesis
    unfolding canonical_text_def canonical_text_body_def by blast
qed

lemma canonical_text_body_id:
  assumes "canonical_text s"
  shows "canonical_text_body s = s"
proof -
  from assms obtain v where v: "s = v @ [LF]" "CR \<notin> set v" "v = [] \<or> last v \<noteq> LF"
    by (auto simp: canonical_text_def)
  then have "normalize_line_endings s = v @ [LF]" by (simp add: normalize_id)
  with v show ?thesis by (simp add: canonical_text_body_def rstrip_lf_not_LF)
qed

lemma canonical_text_body_idem [simp]:
  "canonical_text_body (canonical_text_body s) = canonical_text_body s"
  by (simp add: canonical_text_body_canonical canonical_text_body_id)

section \<open>The marker grammar: printing and reading agree\<close>

lemma strict_sha256_iff:
  "strict_sha256 h \<longleftrightarrow> (\<exists>d. h = ''sha256:'' @ d \<and> length d = 64 \<and> set d \<subseteq> set hexdigits)"
  by (auto simp: strict_sha256_def starts_with_iff)

lemma strict_sha256_text [simp]: "strict_sha256 (sha256_text s)"
  using sha256_hex_digits by (auto simp: strict_sha256_iff sha256_text_def)

lemma strict_domain_json_hash [simp]: "strict_sha256 (domain_json_hash d j)"
  by (simp add: domain_json_hash_def)

lemma strict_canonical_json_hash [simp]: "strict_sha256 (canonical_json_hash j)"
  by (simp add: canonical_json_hash_def)

lemma strict_visible_body_hash [simp]: "strict_sha256 (visible_body_hash b)"
  by (simp add: visible_body_hash_def)

lemma strict_final_payload_hash [simp]: "strict_sha256 (final_payload_hash b)"
  by (simp add: final_payload_hash_def)

lemma strict_findings_hash: "findings_hash fs = Inr h \<Longrightarrow> strict_sha256 h"
  by (auto simp: findings_hash_def Let_def split: if_splits)

lemma read_hash_Some_iff:
  "read_hash s = Some (h, r) \<longleftrightarrow> s = h @ r \<and> strict_sha256 h"
proof
  assume "read_hash s = Some (h, r)"
  then obtain t where t: "s = ''sha256:'' @ t" "length (take 64 t) = 64"
      "\<forall>c \<in> set (take 64 t). c \<in> set hexdigits" "h = ''sha256:'' @ take 64 t" "r = drop 64 t"
    unfolding read_hash_def by (auto simp: strip_prefix_Some_iff split: option.splits if_splits)
  then show "s = h @ r \<and> strict_sha256 h" by (auto simp: strict_sha256_iff)
next
  assume a: "s = h @ r \<and> strict_sha256 h"
  then obtain d where d: "h = ''sha256:'' @ d" "length d = 64" "set d \<subseteq> set hexdigits"
    by (auto simp: strict_sha256_iff)
  have "strip_prefix ''sha256:'' s = Some (d @ r)" using a d by (simp add: strip_prefix_Some_iff)
  with d show "read_hash s = Some (h, r)" unfolding read_hash_def by auto
qed

lemma space_not_run_id_char [simp]: "\<not> run_id_char (CHR '' '')"
  by (simp add: run_id_char_def is_alnum_def is_digit_def is_upper_def is_lower_def)

lemma read_run_id_Some_iff:
  "read_run_id s = Some (r, t) \<longleftrightarrow> s = r @ t \<and> valid_run_id r \<and> (t = [] \<or> \<not> run_id_char (hd t))"
proof
  assume "read_run_id s = Some (r, t)"
  then have r: "r = takeWhile run_id_char s" "t = drop (length r) s" "r \<noteq> []" "is_alnum (hd r)" "length r \<le> 128"
    unfolding read_run_id_def by (auto simp: Let_def split: if_splits)
  have t: "t = dropWhile run_id_char s" using r(1,2) by (simp add: dropWhile_eq_drop)
  then have "t = [] \<or> \<not> run_id_char (hd t)" using hd_dropWhile by blast
  moreover have "s = r @ t" using r(1) t by simp
  moreover have "valid_run_id r" using r by (auto simp: valid_run_id_def dest: set_takeWhileD)
  ultimately show "s = r @ t \<and> valid_run_id r \<and> (t = [] \<or> \<not> run_id_char (hd t))" by blast
next
  assume a: "s = r @ t \<and> valid_run_id r \<and> (t = [] \<or> \<not> run_id_char (hd t))"
  then have "takeWhile run_id_char s = r"
    by (cases t) (auto simp: valid_run_id_def takeWhile_append)
  with a show "read_run_id s = Some (r, t)"
    by (simp add: read_run_id_def valid_run_id_def)
qed

lemma parse_marker_Some_iff:
  "parse_reviewgraph_v1_marker_line line = Some m \<longleftrightarrow> wf_marker m \<and> line = marker_line_text m"
proof
  assume "parse_reviewgraph_v1_marker_line line = Some m"
  then obtain r0 run r1 r2 t r3 r4 p r5 r6 f where
    *: "strip_prefix (''<!-- reviewgraph:v1 '' @ ''run_id='') line = Some r0" "read_run_id r0 = Some (run, r1)"
      "strip_prefix '' target='' r1 = Some r2" "read_hash r2 = Some (t, r3)"
      "strip_prefix '' payload='' r3 = Some r4" "read_hash r4 = Some (p, r5)"
      "strip_prefix '' findings='' r5 = Some r6" "read_hash r6 = Some (f, '' -->'')"
      "m = \<lparr>mk_run_id = run, mk_target = t, mk_payload = p, mk_findings = f\<rparr>"
    unfolding parse_reviewgraph_v1_marker_line_def
    by (auto simp: bind_eq_Some_conv split: if_splits)
  from *(1-8) show "wf_marker m \<and> line = marker_line_text m"
    unfolding strip_prefix_Some_iff read_run_id_Some_iff read_hash_Some_iff
    by (simp add: *(9) wf_marker_def marker_line_text_def)
next
  assume a: "wf_marker m \<and> line = marker_line_text m"
  then have h: "read_hash (mk_target m @ r) = Some (mk_target m, r)"
      "read_hash (mk_payload m @ r) = Some (mk_payload m, r)"
      "read_hash (mk_findings m @ r) = Some (mk_findings m, r)" for r
    by (simp_all add: read_hash_Some_iff wf_marker_def)
  from a have "read_run_id (mk_run_id m @ '' target='' @ r) = Some (mk_run_id m, '' target='' @ r)" for r
    by (subst read_run_id_Some_iff) (simp add: wf_marker_def)
  with a h show "parse_reviewgraph_v1_marker_line line = Some m"
    by (simp add: parse_reviewgraph_v1_marker_line_def marker_line_text_def)
qed

lemma is_exact_marker_iff:
  "is_exact_reviewgraph_v1_marker_line line \<longleftrightarrow> (\<exists>m. wf_marker m \<and> line = marker_line_text m)"
  using parse_marker_Some_iff[of line]
  by (auto simp: is_exact_reviewgraph_v1_marker_line_def)

lemma parse_marker_line_text: "wf_marker m \<Longrightarrow> parse_reviewgraph_v1_marker_line (marker_line_text m) = Some m"
  by (simp add: parse_marker_Some_iff)

text \<open>A marker is one line: it holds neither a newline nor a carriage return, and it is not empty.\<close>

lemma hexdigits_no_newline: "LF \<notin> set hexdigits" "CR \<notin> set hexdigits"
  by (simp_all add: hexdigits_def LF_def CR_def)

lemma strict_sha256_not_Nil: "strict_sha256 h \<Longrightarrow> h \<noteq> []"
  by (auto simp: strict_sha256_def)

lemma strict_sha256_no_newline: "strict_sha256 h \<Longrightarrow> LF \<notin> set h \<and> CR \<notin> set h"
  using hexdigits_no_newline by (auto simp: strict_sha256_iff LF_def CR_def)

lemma run_id_char_no_newline [simp]: "\<not> run_id_char LF" "\<not> run_id_char CR"
  by (simp_all add: run_id_char_def is_alnum_def is_digit_def is_upper_def is_lower_def LF_def CR_def)

lemma marker_line_no_newline:
  assumes "wf_marker m"
  shows "LF \<notin> set (marker_line_text m)" "CR \<notin> set (marker_line_text m)"
proof -
  have "LF \<notin> set (mk_run_id m)" "CR \<notin> set (mk_run_id m)"
    using assms run_id_char_no_newline by (auto simp: wf_marker_def valid_run_id_def)
  then show "LF \<notin> set (marker_line_text m)" "CR \<notin> set (marker_line_text m)"
    using assms strict_sha256_no_newline[of "mk_target m"] strict_sha256_no_newline[of "mk_payload m"]
      strict_sha256_no_newline[of "mk_findings m"]
    by (simp_all add: wf_marker_def marker_line_text_def) (simp_all add: LF_def CR_def)
qed

lemma exact_marker_no_newline:
  "is_exact_reviewgraph_v1_marker_line l \<Longrightarrow> LF \<notin> set l \<and> CR \<notin> set l"
  using marker_line_no_newline by (auto simp: is_exact_marker_iff)

lemma not_exact_marker_Nil [simp]: "\<not> is_exact_reviewgraph_v1_marker_line []"
  by (simp add: is_exact_marker_iff marker_line_text_def)

section \<open>A marker appended to a canonical body\<close>

lemma last_marker_line: "last (marker_line_text m) = CHR ''>''" "marker_line_text m \<noteq> []"
  by (simp_all add: marker_line_text_def)

lemma canonical_body_marker:
  assumes "canonical_text b" and "is_exact_reviewgraph_v1_marker_line ml"
  shows "canonical_text (b @ ml @ [LF])"
proof -
  from assms(2) obtain m where m: "wf_marker m" "ml = marker_line_text m"
    by (auto simp: is_exact_marker_iff)
  moreover have "CR \<notin> set b" using assms(1) by (auto simp: canonical_text_def)
  moreover have "last (b @ ml) \<noteq> LF" using m last_marker_line by (simp add: LF_def)
  ultimately show ?thesis
    unfolding canonical_text_def using marker_line_no_newline[of m]
    by (intro exI[of _ "b @ ml"]) simp
qed

lemma split_body_marker:
  assumes "LF \<notin> set ml"
  shows "split_on LF (v @ [LF] @ ml @ [LF]) = split_on LF v @ [ml, []]"
  using assms by (simp add: split_on_append_sep split_on_sep_last split_on_no_sep)

text \<open>Stripping the marker gives back the body it was appended to.\<close>

lemma canonical_visible_body_marker:
  assumes b: "canonical_text b" and ml: "is_exact_reviewgraph_v1_marker_line ml"
  shows "canonical_visible_body (b @ ml @ [LF]) = b"
proof -
  from b obtain v where v: "b = v @ [LF]" "v = [] \<or> last v \<noteq> LF" by (auto simp: canonical_text_def)
  have lines: "split_on LF (b @ ml @ [LF]) = split_on LF v @ [ml, []]"
    using v(1) split_body_marker[of ml v] exact_marker_no_newline[OF ml] by simp
  have "canonical_text_body (b @ ml @ [LF]) = b @ ml @ [LF]"
    using canonical_body_marker[OF b ml] by (rule canonical_text_body_id)
  then show ?thesis
    using lines ml v by (simp add: canonical_visible_body_def Let_def nth_append rstrip_lf_not_LF)
qed

lemma canonical_visible_body_no_marker:
  assumes "\<forall>l \<in> set (split_on LF (canonical_text_body b)). \<not> is_exact_reviewgraph_v1_marker_line l"
  shows "canonical_visible_body b = canonical_text_body b"
proof -
  let ?ls = "split_on LF (canonical_text_body b)"
  have "2 \<le> length ?ls \<Longrightarrow> ?ls ! (length ?ls - 2) \<in> set ?ls" by (rule nth_mem) simp
  with assms show ?thesis unfolding canonical_visible_body_def Let_def by auto
qed

end
