(* ===== verification/Models_Review.thy ===== *)
theory Models_Review
  imports Hashing
begin

text \<open>
  The first half of \<open>src/src/reviewgraph/models.py\<close>: the enumerations with their string values, the
  review target and its hash, findings, notes, run keys, clarifications, memory, the pull request, risk and
  reviewer configuration, and the posting plan. Each dataclass is a record; its \<open>__post_init__\<close> is the
  \<open>_check\<close> function, which gives the message of the first check that raises, or \<open>None\<close>. Checks of the
  form \<open>isinstance\<close> and \<open>type(x) is\<close> hold by the types of the fields and are not repeated.
\<close>

section \<open>Enumerations\<close>

datatype severity = SevCritical | SevWarning | SevSuggestion | SevNit

fun severity_value :: "severity \<Rightarrow> string" where
  "severity_value SevCritical = ''critical''"
| "severity_value SevWarning = ''warning''"
| "severity_value SevSuggestion = ''suggestion''"
| "severity_value SevNit = ''nit''"

datatype confidence = ConfHigh | ConfMedium | ConfLow

fun confidence_value :: "confidence \<Rightarrow> string" where
  "confidence_value ConfHigh = ''high''"
| "confidence_value ConfMedium = ''medium''"
| "confidence_value ConfLow = ''low''"

datatype output_classification =
  PostableFinding | LocalNoteOutput | ClarificationRequestOutput | SuggestedReplyOutput | NonFinding

fun classification_value :: "output_classification \<Rightarrow> string" where
  "classification_value PostableFinding = ''postable_finding''"
| "classification_value LocalNoteOutput = ''local_note''"
| "classification_value ClarificationRequestOutput = ''clarification_request''"
| "classification_value SuggestedReplyOutput = ''suggested_reply''"
| "classification_value NonFinding = ''non_finding''"

datatype review_verdict = VComment | VRequestChanges | VNeedsClarification | VNoFindings

fun verdict_value :: "review_verdict \<Rightarrow> string" where
  "verdict_value VComment = ''comment''"
| "verdict_value VRequestChanges = ''request_changes''"
| "verdict_value VNeedsClarification = ''needs_clarification''"
| "verdict_value VNoFindings = ''no_findings''"

datatype artifact_kind = IssueComment

datatype run_mode = DryRun | PostMode

datatype review_stage = InitialTriage | SpecializedReview | LogicReview | ClarificationReview

fun stage_value :: "review_stage \<Rightarrow> string" where
  "stage_value InitialTriage = ''initial_triage''"
| "stage_value SpecializedReview = ''specialized_review''"
| "stage_value LogicReview = ''logic_review''"
| "stage_value ClarificationReview = ''clarification_review''"

datatype run_status_value = Selected | Running | Completed | Failed | Skipped

datatype risk_level = RiskLow | RiskMedium | RiskHigh

fun risk_value :: "risk_level \<Rightarrow> string" where
  "risk_value RiskLow = ''low''"
| "risk_value RiskMedium = ''medium''"
| "risk_value RiskHigh = ''high''"

datatype gate_status = GatePass | GateFail | GateUnknown

datatype clarification_state = CPending | CAnswered | CInReview | CResolved | CRejected | CTimedOut

datatype posting_destination =
  LocalOnly | TopLevelSummaryItem | ReviewBodyItem | InlineCandidate | SuggestedReplyDestination

lemma stage_value_inject [simp]: "stage_value a = stage_value b \<longleftrightarrow> a = b"
  by (cases a; cases b) simp_all

lemma classification_value_inject [simp]: "classification_value a = classification_value b \<longleftrightarrow> a = b"
  by (cases a; cases b) simp_all

text \<open>\<open>ReviewStage(value)\<close>: the member with that value, or \<open>ValueError\<close>.\<close>

definition stage_of_value :: "string \<Rightarrow> review_stage result" where
  "stage_of_value s =
     (if s = ''initial_triage'' then Inr InitialTriage
      else if s = ''specialized_review'' then Inr SpecializedReview
      else if s = ''logic_review'' then Inr LogicReview
      else if s = ''clarification_review'' then Inr ClarificationReview
      else Inl (ValueError ([CHR 0x27] @ s @ [CHR 0x27] @ '' is not a valid ReviewStage'')))"

lemma stage_of_value_Inr_iff: "stage_of_value s = Inr st \<longleftrightarrow> s = stage_value st"
  by (cases st) (auto simp: stage_of_value_def)

section \<open>Shared checks\<close>

definition validate_priority :: "int \<Rightarrow> int result" where
  "validate_priority p =
     (if p < 0 \<or> 3 < p then Inl (ValueError ''priority must be an integer from 0 through 3'') else Inr p)"

text \<open>\<open>_require_non_empty\<close>, its optional form, and the tuple checks, as entries of a check list.\<close>

definition require_non_empty :: "string \<Rightarrow> string \<Rightarrow> bool \<times> string" where
  "require_non_empty v name = (v \<noteq> [], name @ '' is required'')"

definition require_optional_non_empty :: "string option \<Rightarrow> string \<Rightarrow> bool \<times> string" where
  "require_optional_non_empty v name = (opt_ok (\<lambda>s. s \<noteq> []) v, name @ '' is required'')"

definition require_string_tuple :: "string list \<Rightarrow> string \<Rightarrow> bool \<times> string" where
  "require_string_tuple vs name = (list_all (\<lambda>s. s \<noteq> []) vs, name @ '' must be a tuple of non-empty strings'')"

definition require_positive_int :: "int \<Rightarrow> string \<Rightarrow> bool \<times> string" where
  "require_positive_int n name = (0 < n, name @ '' must be a positive integer'')"

definition require_optional_positive_int :: "int option \<Rightarrow> string \<Rightarrow> bool \<times> string" where
  "require_optional_positive_int n name = (opt_ok (\<lambda>i. 0 < i) n, name @ '' must be a positive integer'')"

definition require_non_negative_int :: "int \<Rightarrow> string \<Rightarrow> bool \<times> string" where
  "require_non_negative_int n name = (0 \<le> n, name @ '' must be a non-negative integer'')"

text \<open>\<open>_require_hash_like\<close>: two checks, in order.\<close>

definition require_hash_like :: "string \<Rightarrow> string \<Rightarrow> (bool \<times> string) list" where
  "require_hash_like v name =
     [require_non_empty v name, (starts_with ''sha256:'' v, name @ '' must be a sha256 hash'')]"

definition require_optional_hash_like :: "string option \<Rightarrow> string \<Rightarrow> (bool \<times> string) list" where
  "require_optional_hash_like v name = (case v of None \<Rightarrow> [] | Some h \<Rightarrow> require_hash_like h name)"

definition require_strict_sha256 :: "string \<Rightarrow> string \<Rightarrow> (bool \<times> string) list" where
  "require_strict_sha256 v name =
     require_hash_like v name @
     [(length (drop 7 v) = 64 \<and> (\<forall>c \<in> set (drop 7 v). c \<in> set hexdigits), name @ '' must be a strict sha256 hash'')]"

definition require_allowed_str_tuple :: "string list \<Rightarrow> string \<Rightarrow> string list \<Rightarrow> (bool \<times> string) list" where
  "require_allowed_str_tuple vs name allowed =
     [require_string_tuple vs name,
      (list_all (\<lambda>v. v \<in> set allowed) vs,
       name @ '' contains unsupported values: '' @ join '', '' (sort (filter (\<lambda>v. v \<notin> set allowed) vs)))]"

lemmas check_defs = require_non_empty_def require_optional_non_empty_def require_string_tuple_def
  require_positive_int_def require_optional_positive_int_def require_non_negative_int_def
  require_hash_like_def require_optional_hash_like_def require_allowed_str_tuple_def

lemma hash_like_None_iff:
  "first_failure (require_hash_like v n) = None \<longleftrightarrow> starts_with ''sha256:'' v"
  by (auto simp: check_defs starts_with_iff)

lemma optional_hash_like_None_iff:
  "first_failure (require_optional_hash_like v n) = None \<longleftrightarrow> opt_ok (starts_with ''sha256:'') v"
  by (cases v) (simp_all add: require_optional_hash_like_def hash_like_None_iff)

lemma strict_sha256_check_None_iff:
  "first_failure (require_strict_sha256 v n) = None \<longleftrightarrow> strict_sha256 v"
  using hash_like_None_iff[of v n]
  by (auto simp: require_strict_sha256_def first_failure_append strict_sha256_def split: option.splits)

section \<open>Review target\<close>

record review_target =
  rt_owner_repo :: string
  rt_pr_number :: int
  rt_base_sha :: string
  rt_head_sha :: string
  rt_merge_base_sha :: "string option"
  rt_diff_basis :: string

definition review_target_check :: "review_target \<Rightarrow> string option" where
  "review_target_check t = first_failure
     [(CHR ''/'' \<in> set (rt_owner_repo t), ''owner_repo must be in owner/repo form''),
      (0 < rt_pr_number t, ''pr_number must be positive''),
      (rt_base_sha t \<noteq> [], ''base_sha is required''),
      (rt_head_sha t \<noteq> [], ''head_sha is required''),
      (rt_diff_basis t \<noteq> [], ''diff_basis is required'')]"

abbreviation valid_target :: "review_target \<Rightarrow> bool" where
  "valid_target t \<equiv> review_target_check t = None"

definition to_ordered_dict :: "review_target \<Rightarrow> (string \<times> json) list" where
  "to_ordered_dict t =
     [(''owner_repo'', JStr (rt_owner_repo t)),
      (''pr_number'', JInt (rt_pr_number t)),
      (''base_sha'', JStr (rt_base_sha t)),
      (''head_sha'', JStr (rt_head_sha t)),
      (''merge_base_sha'', json_opt_str (rt_merge_base_sha t)),
      (''diff_basis'', JStr (rt_diff_basis t))]"

definition target_hash :: "review_target \<Rightarrow> string" where
  "target_hash t = domain_json_hash ''reviewgraph.review_target.v1'' (JObj (to_ordered_dict t))"

lemma strict_target_hash [simp]: "strict_sha256 (target_hash t)"
  by (simp add: target_hash_def)

lemma strict_starts_with: "strict_sha256 h \<Longrightarrow> starts_with ''sha256:'' h"
  by (simp add: strict_sha256_def)

lemma json_opt_str_inject [simp]: "json_opt_str a = json_opt_str b \<longleftrightarrow> a = b"
  by (cases a; cases b) simp_all

lemma to_ordered_dict_inject [simp]: "to_ordered_dict a = to_ordered_dict b \<longleftrightarrow> a = b"
  by (cases a; cases b) (auto simp: to_ordered_dict_def)

text \<open>\<open>/repos/{owner}/{repo}/issues/{pr_number}/comments\<close>, split at the first slash.\<close>

definition issue_comment_endpoint :: "review_target \<Rightarrow> string" where
  "issue_comment_endpoint t =
     (let (owner, repo) = split_once (CHR ''/'') (rt_owner_repo t)
      in ''/repos/'' @ owner @ ''/'' @ repo @ ''/issues/'' @ int_str (rt_pr_number t) @ ''/comments'')"

text \<open>For a valid target the split and the join cancel.\<close>

lemma issue_comment_endpoint_valid:
  assumes "valid_target t"
  shows "issue_comment_endpoint t =
    ''/repos/'' @ rt_owner_repo t @ ''/issues/'' @ int_str (rt_pr_number t) @ ''/comments''"
proof -
  from assms have "CHR ''/'' \<in> set (rt_owner_repo t)"
    by (simp add: review_target_check_def split: if_splits)
  from split_once_join[OF this] show ?thesis
    by (simp add: issue_comment_endpoint_def split: prod.splits) (metis append_Cons append_assoc fst_conv snd_conv)
qed

section \<open>Diff anchors\<close>

record diff_anchor =
  da_path :: string
  da_line :: int
  da_target_commit_sha :: string
  da_hunk_start :: int
  da_hunk_end :: int
  da_side :: string
  da_file_status :: string
  da_hunk_id :: string
  da_start_line :: "int option"
  da_start_side :: string
  da_old_path :: "string option"

definition diff_anchor_check :: "diff_anchor \<Rightarrow> string option" where
  "diff_anchor_check a = first_failure
     [(da_path a \<noteq> [], ''diff anchor path is required''),
      (0 < da_line a, ''diff anchor line must be positive''),
      (da_side a = ''RIGHT'', ''diff anchor side must be RIGHT for MVP inline candidates''),
      (0 < da_hunk_start a \<and> da_hunk_start a \<le> da_hunk_end a, ''diff anchor hunk bounds are invalid''),
      (da_target_commit_sha a \<noteq> [], ''diff anchor target_commit_sha is required''),
      (da_hunk_id a \<noteq> [], ''diff anchor hunk_id is required''),
      ((case da_start_line a of None \<Rightarrow> False | Some l \<Rightarrow> 0 < l), ''diff anchor start_line is required''),
      (da_start_side a = ''RIGHT'', ''diff anchor start_side must be RIGHT for MVP inline candidates'')]"

definition overlaps_changed_target :: "diff_anchor \<Rightarrow> bool" where
  "overlaps_changed_target a \<longleftrightarrow>
     da_side a = ''RIGHT'' \<and> da_hunk_start a \<le> da_line a \<and> da_line a \<le> da_hunk_end a"

definition validates_finding_location ::
    "diff_anchor \<Rightarrow> string \<Rightarrow> int \<Rightarrow> string \<Rightarrow> int option \<Rightarrow> bool" where
  "validates_finding_location a path line target_commit_sha line_end \<longleftrightarrow>
     (let finding_line_end = (case line_end of None \<Rightarrow> line | Some l \<Rightarrow> l)
      in da_path a = path \<and> da_line a = line \<and> da_target_commit_sha a = target_commit_sha \<and>
         (case da_start_line a of
            None \<Rightarrow> False
          | Some s \<Rightarrow> da_hunk_start a \<le> s \<and> s \<le> da_line a \<and> da_line a \<le> finding_line_end
              \<and> finding_line_end \<le> da_hunk_end a) \<and>
         da_start_side a = ''RIGHT'' \<and> overlaps_changed_target a)"

section \<open>Classified findings and the other outputs of a reviewer\<close>

record classified_finding =
  cf_id :: string
  cf_source_reviewer :: string
  cf_source_stage :: string
  cf_title :: string
  cf_body :: string
  cf_evidence :: string
  cf_path :: string
  cf_line :: int
  cf_priority :: int
  cf_severity :: severity
  cf_confidence :: confidence
  cf_fingerprint :: string
  cf_classification :: output_classification
  cf_blocking :: bool
  cf_line_end :: "int option"
  cf_diff_anchor :: "diff_anchor option"

definition classified_finding_check :: "classified_finding \<Rightarrow> string option" where
  "classified_finding_check f = first_failure
     [(is_ok (validate_priority (cf_priority f)), ''priority must be an integer from 0 through 3''),
      (cf_classification f = PostableFinding, ''ClassifiedFinding must use postable_finding classification''),
      (cf_id f \<noteq> [], ''id is required''),
      (cf_source_reviewer f \<noteq> [], ''source_reviewer is required''),
      (cf_source_stage f \<noteq> [], ''source_stage is required''),
      (cf_title f \<noteq> [], ''title is required''),
      (cf_body f \<noteq> [], ''body is required''),
      (cf_evidence f \<noteq> [], ''evidence is required''),
      (cf_path f \<noteq> [], ''path is required''),
      (cf_fingerprint f \<noteq> [], ''fingerprint is required''),
      (0 < cf_line f, ''line must be positive'')]"

abbreviation valid_finding :: "classified_finding \<Rightarrow> bool" where
  "valid_finding f \<equiv> classified_finding_check f = None"

record local_note =
  ln_id :: string
  ln_title :: string
  ln_body :: string
  ln_evidence :: string
  ln_classification :: output_classification

definition local_note_check :: "local_note \<Rightarrow> string option" where
  "local_note_check n = first_failure
     [require_non_empty (ln_id n) ''local note id'',
      require_non_empty (ln_title n) ''local note title'',
      require_non_empty (ln_body n) ''local note body'',
      require_non_empty (ln_evidence n) ''local note evidence'',
      (ln_classification n = LocalNoteOutput, ''LocalNote must use local_note classification'')]"

record suggested_reply =
  sr_id :: string
  sr_source_comment_id :: string
  sr_proposed_body :: string
  sr_classification :: output_classification

definition suggested_reply_check :: "suggested_reply \<Rightarrow> string option" where
  "suggested_reply_check r = first_failure
     [require_non_empty (sr_id r) ''suggested reply id'',
      require_non_empty (sr_source_comment_id r) ''suggested reply source_comment_id'',
      require_non_empty (sr_proposed_body r) ''suggested reply proposed_body'',
      (sr_classification r = SuggestedReplyOutput, ''SuggestedReply must use suggested_reply classification'')]"

record suppressed_output =
  so_id :: string
  so_reason :: string
  so_classification :: output_classification

definition suppressed_output_check :: "suppressed_output \<Rightarrow> string option" where
  "suppressed_output_check o' = first_failure
     [require_non_empty (so_id o') ''suppressed reviewer output id'',
      require_non_empty (so_reason o') ''suppressed reviewer output reason'',
      (so_classification o' = NonFinding, ''SuppressedReviewerOutput must use non_finding classification'')]"

section \<open>Reviewer runs\<close>

record reviewer_run_key =
  rk_target_hash :: string
  rk_config_hash :: string
  rk_stage :: review_stage
  rk_reviewer :: string
  rk_attempt :: int
  rk_retry_of :: "string option"
  rk_clarification_id :: "string option"

definition reviewer_run_key_check :: "reviewer_run_key \<Rightarrow> string option" where
  "reviewer_run_key_check k = first_failure
     [require_non_empty (rk_target_hash k) ''target_hash'',
      require_non_empty (rk_config_hash k) ''config_hash'',
      require_non_empty (rk_reviewer k) ''reviewer'',
      (0 < rk_attempt k, ''attempt must be a positive integer''),
      require_optional_non_empty (rk_retry_of k) ''retry_of'',
      require_optional_non_empty (rk_clarification_id k) ''clarification_id'']"

definition stable_key_json :: "reviewer_run_key \<Rightarrow> json" where
  "stable_key_json k = JObj
     [(''attempt'', JInt (rk_attempt k)),
      (''clarification_id'', json_opt_str (rk_clarification_id k)),
      (''config_hash'', JStr (rk_config_hash k)),
      (''retry_of'', json_opt_str (rk_retry_of k)),
      (''reviewer'', JStr (rk_reviewer k)),
      (''stage'', JStr (stage_value (rk_stage k))),
      (''target_hash'', JStr (rk_target_hash k))]"

definition stable_key :: "reviewer_run_key \<Rightarrow> string" where
  "stable_key k = json_dumps_ascii (stable_key_json k)"

record reviewer_run_status =
  rs_status :: run_status_value
  rs_run_key :: reviewer_run_key
  rs_reason :: "string option"

definition reviewer_run_status_check :: "reviewer_run_status \<Rightarrow> string option" where
  "reviewer_run_status_check s = first_failure
     [require_optional_non_empty (rs_reason s) ''reviewer run status reason'']"

record selected_reviewer =
  sel_name :: string
  sel_stage :: string
  sel_reasons :: "string list"

definition selected_reviewer_check :: "selected_reviewer \<Rightarrow> string option" where
  "selected_reviewer_check s = first_failure
     [(sel_name s \<noteq> [], ''selected reviewer name is required''),
      (sel_stage s \<noteq> [], ''selected reviewer stage is required''),
      (sel_reasons s \<noteq> [], ''selected reviewer reasons are required'')]"

section \<open>Clarifications\<close>

definition raw_finding_evidence_sources :: "string list" where
  "raw_finding_evidence_sources = [''diff'', ''trusted_memory'']"

record clarification_request =
  cr_id :: string
  cr_reviewer :: string
  cr_question :: string
  cr_why_it_matters :: string
  cr_blocks_verdict :: bool
  cr_classification :: output_classification
  cr_source_stage :: "string option"
  cr_source_run_key :: "reviewer_run_key option"
  cr_status :: "clarification_state option"
  cr_resume_target_stage :: "review_stage option"
  cr_resume_target_reviewers :: "string list"
  cr_evidence_sources :: "string list"
  cr_evidence_memory_ids :: "string list"

definition clarification_request_check :: "clarification_request \<Rightarrow> string option" where
  "clarification_request_check r = first_failure
     ([require_non_empty (cr_id r) ''clarification request id'',
       require_non_empty (cr_reviewer r) ''clarification request reviewer'',
       require_non_empty (cr_question r) ''clarification request question'',
       require_non_empty (cr_why_it_matters r) ''clarification request why_it_matters'',
       (cr_classification r = ClarificationRequestOutput,
        ''ClarificationRequest must use clarification_request classification''),
       require_optional_non_empty (cr_source_stage r) ''clarification request source_stage'',
       require_string_tuple (cr_resume_target_reviewers r) ''clarification request resume_target_reviewers'']
      @ require_allowed_str_tuple (cr_evidence_sources r) ''clarification request evidence_sources''
          raw_finding_evidence_sources
      @ [require_string_tuple (cr_evidence_memory_ids r) ''clarification request evidence_memory_ids''])"

record clarification_answer =
  ca_id :: string
  ca_request_id :: string
  ca_answer :: string
  ca_answered_by :: string
  ca_answered_at :: string

definition clarification_answer_check :: "clarification_answer \<Rightarrow> string option" where
  "clarification_answer_check a = first_failure
     [require_non_empty (ca_id a) ''clarification answer id'',
      require_non_empty (ca_request_id a) ''clarification answer request_id'',
      require_non_empty (ca_answer a) ''clarification answer answer'',
      require_non_empty (ca_answered_by a) ''clarification answer answered_by'',
      require_non_empty (ca_answered_at a) ''clarification answer answered_at'']"

record clarification_status =
  cs_request_id :: string
  cs_status :: clarification_state
  cs_reason :: "string option"

definition clarification_status_check :: "clarification_status \<Rightarrow> string option" where
  "clarification_status_check s = first_failure
     [require_non_empty (cs_request_id s) ''clarification status request_id'',
      require_optional_non_empty (cs_reason s) ''clarification status reason'']"

section \<open>Redaction status\<close>

record redaction_status =
  red_redacted :: bool
  red_replacement_count :: int
  red_categories :: "string list"
  red_status :: gate_status

definition redaction_status_check :: "redaction_status \<Rightarrow> string option" where
  "redaction_status_check r = first_failure
     [require_non_negative_int (red_replacement_count r) ''redaction replacement_count'',
      require_string_tuple (red_categories r) ''redaction categories'',
      (\<not> (red_redacted r \<and> red_replacement_count r \<le> 0), ''redacted payloads require replacement_count'')]"

section \<open>Posting plans\<close>

record posting_plan_item =
  pi_id :: string
  pi_source_classification :: string
  pi_destination :: posting_destination
  pi_public_payload_eligible :: bool
  pi_fingerprint :: "string option"
  pi_body :: "string option"

definition posting_plan_item_check :: "posting_plan_item \<Rightarrow> string option" where
  "posting_plan_item_check i = first_failure
     [require_non_empty (pi_id i) ''posting plan item id'',
      require_non_empty (pi_source_classification i) ''posting plan item source_classification'',
      require_optional_non_empty (pi_fingerprint i) ''posting plan item fingerprint'',
      require_optional_non_empty (pi_body i) ''posting plan item body'',
      (\<not> (pi_public_payload_eligible i \<and> pi_destination i \<notin> {TopLevelSummaryItem, ReviewBodyItem}),
       ''public payload posting plan items must use a public payload destination'')]"

record posting_plan =
  pp_items :: "posting_plan_item list"

definition posting_plan_check :: "posting_plan \<Rightarrow> string option" where
  "posting_plan_check p = first_failure
     [(\<not> has_duplicates (map pi_id (pp_items p)), ''posting plan item ids must be unique'')]"

definition public_payload_items :: "posting_plan \<Rightarrow> posting_plan_item list" where
  "public_payload_items p = filter pi_public_payload_eligible (pp_items p)"

text \<open>A plan built by the constructors: every item passed its own checks and the ids are distinct.\<close>

definition valid_plan :: "posting_plan \<Rightarrow> bool" where
  "valid_plan p \<longleftrightarrow> posting_plan_check p = None \<and> (\<forall>i \<in> set (pp_items p). posting_plan_item_check i = None)"

lemma valid_plan_distinct: "valid_plan p \<Longrightarrow> distinct (map pi_id (pp_items p))"
  by (simp add: valid_plan_def posting_plan_check_def has_duplicates_iff split: if_splits)

text \<open>A target for the examples of the development.\<close>

definition sample_target :: review_target where
  "sample_target = \<lparr>rt_owner_repo = ''o/r'', rt_pr_number = 1, rt_base_sha = ''b'', rt_head_sha = ''h'',
     rt_merge_base_sha = Some ''m'', rt_diff_basis = ''merge_base''\<rparr>"

lemma sample_target_valid: "valid_target sample_target"
  by code_simp

end
