(* ===== verification/Stable_Key.thy ===== *)
theory Stable_Key
  imports Models_Review
begin

text \<open>
  \<open>ReviewerRunKey.stable_key\<close> is the dict key of the reviewer run status. The lemmas show that it identifies the run
  key when the texts in it are ASCII: the ASCII mode of the JSON printer is uniquely readable, and the fields are
  printed in a fixed order.
\<close>

section \<open>Reading back one escaped character\<close>

definition hex_value :: "char \<Rightarrow> nat" where
  "hex_value c = (if is_digit c then of_char c - 48 else of_char c - 87)"

fun unescape :: "char \<Rightarrow> nat" where
  "unescape c =
     (if c = CHR ''b'' then 8 else if c = CHR ''f'' then 12 else if c = CHR ''n'' then 10
      else if c = CHR ''r'' then 13 else if c = CHR ''t'' then 9 else of_char c)"

fun read_point :: "string \<Rightarrow> nat \<times> string" where
  "read_point (c # d # r) =
     (if c \<noteq> CHR 0x5C then (of_char c, d # r)
      else if d \<noteq> CHR ''u'' then (unescape d, r)
      else (foldl (\<lambda>a h. 16 * a + hex_value h) 0 (take 4 r), drop 4 r))"
| "read_point [c] = (of_char c, [])"
| "read_point [] = (0, [])"

lemma hex_value_digit: "d < 16 \<Longrightarrow> hex_value (hexdigits ! d) = d"
proof -
  have "\<forall>d \<in> set [0..<16]. hex_value (hexdigits ! d) = d"
    by (simp add: upt_rec eval_nat_numeral hex_value_def hexdigits_def is_digit_def)
  then show "d < 16 \<Longrightarrow> hex_value (hexdigits ! d) = d" by simp
qed

lemma hex4_value: "n < 65536 \<Longrightarrow> foldl (\<lambda>a h. 16 * a + hex_value h) 0 (hex4 n) = n"
proof -
  assume n: "n < 65536"
  let ?q1 = "n div 16" let ?q2 = "?q1 div 16" let ?q3 = "?q2 div 16"
  have d: "n div 256 = ?q2" "n div 4096 = ?q3" by (simp_all add: div_mult2_eq[symmetric])
  have "?q3 < 16" using n d(2) by simp
  then have "foldl (\<lambda>a h. 16 * a + hex_value h) 0 (hex4 n)
      = 16 * (16 * (16 * ?q3 + ?q2 mod 16) + ?q1 mod 16) + n mod 16"
    by (simp add: hex4_def hex_value_digit d)
  also have "\<dots> = n" by (simp only: mult_div_mod_eq)
  finally show ?thesis .
qed

lemma read_point_u: "n < 65536 \<Longrightarrow> read_point (u_escape n @ r) = (n, r)"
proof -
  assume "n < 65536"
  moreover have "length (hex4 n) = 4" by (simp add: hex4_def)
  ultimately show ?thesis by (simp add: u_escape_def hex4_value)
qed

lemma read_point_escape:
  assumes "n < 128"
  shows "read_point (escape_ascii_point n @ r) = (n, r)"
proof (cases "short_escape (char_of n)")
  case None
  then have "32 \<le> n \<Longrightarrow> n < 127 \<Longrightarrow> (char_of n :: char) \<noteq> CHR 0x5C"
    by (auto simp: short_escape_def)
  moreover have "of_char (char_of n :: char) = n" using assms by simp
  ultimately show ?thesis
    using assms None read_point_u[of n r] by (cases r) (auto simp: escape_ascii_point_def)
next
  case (Some e)
  have n: "of_char (char_of n :: char) = n" using assms by simp
  from Some have "(char_of n = CHR 0x22 \<and> e = [CHR 0x5C, CHR 0x22]) \<or> (char_of n = CHR 0x5C \<and> e = [CHR 0x5C, CHR 0x5C])
      \<or> (char_of n = CHR 0x08 \<and> e = [CHR 0x5C, CHR ''b'']) \<or> (char_of n = CHR 0x0C \<and> e = [CHR 0x5C, CHR ''f''])
      \<or> (char_of n = CHR 0x0A \<and> e = [CHR 0x5C, CHR ''n'']) \<or> (char_of n = CHR 0x0D \<and> e = [CHR 0x5C, CHR ''r''])
      \<or> (char_of n = CHR 0x09 \<and> e = [CHR 0x5C, CHR ''t''])"
    by (auto simp: short_escape_def split: if_split_asm)
  then have "n = unescape (e ! 1) \<and> length e = 2 \<and> hd e = CHR 0x5C \<and> e ! 1 \<noteq> CHR ''u''"
    using n by (elim disjE conjE) (drule arg_cong[where f = "of_char :: char \<Rightarrow> nat"], simp)+
  moreover from this obtain a b where "e = [a, b]" by (auto simp: length_Suc_conv numeral_2_eq_2)
  ultimately show ?thesis using assms Some by (simp add: escape_ascii_point_def)
qed

lemma escape_point_head:
  assumes "n < 128"
  shows "escape_ascii_point n \<noteq> [] \<and> hd (escape_ascii_point n) \<noteq> CHR 0x22"
  using assms
  by (auto simp: escape_ascii_point_def short_escape_def u_escape_def split: option.split if_split_asm)

lemma readable_escape_ascii: "readable escape_ascii_point (CHR 0x22) {n. n < 128}"
  unfolding readable_def using escape_point_head read_point_escape
  by (metis (mono_tags, lifting) mem_Collect_eq prod.inject)

section \<open>Strings, options and integers before a separator\<close>

lemma code_points_ascii: "is_ascii s \<Longrightarrow> utf8_code_points s = map of_char s"
  by (induction s) (simp_all add: is_ascii_def)

lemma json_string_ascii_readable:
  assumes "is_ascii s" and "is_ascii t" and "json_string_ascii s @ r = json_string_ascii t @ u"
  shows "s = t \<and> r = u"
proof -
  let ?p = "map (of_char :: char \<Rightarrow> nat)"
  have "concat (map escape_ascii_point (?p s)) @ CHR 0x22 # r = concat (map escape_ascii_point (?p t)) @ CHR 0x22 # u"
    using assms by (simp add: json_string_ascii_def code_points_ascii)
  from readable_concat[OF readable_escape_ascii _ _ this] assms(1,2)
  have "?p s = ?p t \<and> r = u" by (auto simp: is_ascii_def)
  moreover have "inj (of_char :: char \<Rightarrow> nat)" by (rule inj_of_char)
  ultimately show ?thesis by (simp add: inj_map_eq_map)
qed

lemma json_opt_readable:
  assumes "opt_ok is_ascii a" and "opt_ok is_ascii b"
    and "json_dumps_ascii (json_opt_str a) @ r = json_dumps_ascii (json_opt_str b) @ u"
  shows "a = b \<and> r = u"
proof (cases a; cases b)
  fix s t assume "a = Some s" "b = Some t"
  with assms json_string_ascii_readable[of s t r u] show ?thesis by (simp add: json_dumps_ascii_def)
qed (use assms in \<open>simp_all add: json_dumps_ascii_def json_string_ascii_def\<close>)

lemma comma_notin_int_str: "CHR '','' \<notin> set (int_str i)"
proof -
  have "CHR '','' \<notin> set (nat_str n)" for n
    using nat_str_digits[of n] by (auto simp: is_digit_def)
  then show ?thesis by (simp add: int_str_def)
qed

lemma int_str_readable:
  assumes "int_str i @ CHR '','' # r = int_str j @ CHR '','' # u"
  shows "i = j \<and> r = u"
proof -
  have "(int_str i, r) = split_once (CHR '','') (int_str i @ CHR '','' # r)"
    by (rule split_once_append[OF comma_notin_int_str, symmetric])
  also have "\<dots> = (int_str j, u)"
    unfolding assms by (rule split_once_append[OF comma_notin_int_str])
  finally show ?thesis by (simp add: int_str_inject)
qed

section \<open>The stable key\<close>

definition ascii_run_key :: "reviewer_run_key \<Rightarrow> bool" where
  "ascii_run_key k \<longleftrightarrow> is_ascii (rk_target_hash k) \<and> is_ascii (rk_config_hash k) \<and> is_ascii (rk_reviewer k)
     \<and> opt_ok is_ascii (rk_retry_of k) \<and> opt_ok is_ascii (rk_clarification_id k)"

lemma stable_key_text:
  "stable_key k =
     ''{'' @ json_string_ascii ''attempt'' @ '':'' @ int_str (rk_attempt k)
     @ '','' @ json_string_ascii ''clarification_id'' @ '':'' @ json_dumps_ascii (json_opt_str (rk_clarification_id k))
     @ '','' @ json_string_ascii ''config_hash'' @ '':'' @ json_string_ascii (rk_config_hash k)
     @ '','' @ json_string_ascii ''retry_of'' @ '':'' @ json_dumps_ascii (json_opt_str (rk_retry_of k))
     @ '','' @ json_string_ascii ''reviewer'' @ '':'' @ json_string_ascii (rk_reviewer k)
     @ '','' @ json_string_ascii ''stage'' @ '':'' @ json_string_ascii (stage_value (rk_stage k))
     @ '','' @ json_string_ascii ''target_hash'' @ '':'' @ json_string_ascii (rk_target_hash k) @ ''}''"
proof -
  have "sorted (map fst [(''attempt'', JInt (rk_attempt k)), (''clarification_id'', json_opt_str (rk_clarification_id k)),
      (''config_hash'', JStr (rk_config_hash k)), (''retry_of'', json_opt_str (rk_retry_of k)),
      (''reviewer'', JStr (rk_reviewer k)), (''stage'', JStr (stage_value (rk_stage k))),
      (''target_hash'', JStr (rk_target_hash k))])" by simp
  from dumps_sorted_object[OF this] show ?thesis
    by (simp add: stable_key_def stable_key_json_def json_dumps_ascii_def del: dumps_with.simps(6))
qed

lemma is_ascii_stage: "is_ascii (stage_value s)"
  by (cases s) (simp_all add: is_ascii_def)

lemma stable_key_inject:
  assumes "ascii_run_key k" and "ascii_run_key l" and eq: "stable_key k = stable_key l"
  shows "k = l"
proof -
  have a: "is_ascii (rk_target_hash k)" "is_ascii (rk_config_hash k)" "is_ascii (rk_reviewer k)"
      "opt_ok is_ascii (rk_retry_of k)" "opt_ok is_ascii (rk_clarification_id k)"
    and b: "is_ascii (rk_target_hash l)" "is_ascii (rk_config_hash l)" "is_ascii (rk_reviewer l)"
      "opt_ok is_ascii (rk_retry_of l)" "opt_ok is_ascii (rk_clarification_id l)"
    using assms(1,2) by (simp_all add: ascii_run_key_def)
  let ?tail = "\<lambda>k. json_string_ascii (rk_target_hash k) @ ''}''"
  let ?stage = "\<lambda>k. json_string_ascii (stage_value (rk_stage k)) @ '','' @ json_string_ascii ''target_hash'' @ '':'' @ ?tail k"
  let ?rev = "\<lambda>k. json_string_ascii (rk_reviewer k) @ '','' @ json_string_ascii ''stage'' @ '':'' @ ?stage k"
  let ?retry = "\<lambda>k. json_dumps_ascii (json_opt_str (rk_retry_of k)) @ '','' @ json_string_ascii ''reviewer'' @ '':'' @ ?rev k"
  let ?conf = "\<lambda>k. json_string_ascii (rk_config_hash k) @ '','' @ json_string_ascii ''retry_of'' @ '':'' @ ?retry k"
  let ?clar = "\<lambda>k. json_dumps_ascii (json_opt_str (rk_clarification_id k)) @ '','' @ json_string_ascii ''config_hash'' @ '':'' @ ?conf k"
  let ?att = "\<lambda>k. int_str (rk_attempt k) @ CHR '','' # (json_string_ascii ''clarification_id'' @ '':'' @ ?clar k)"
  from eq have "?att k = ?att l" by (simp add: stable_key_text)
  from int_str_readable[OF this] have att: "rk_attempt k = rk_attempt l" and "?clar k = ?clar l" by simp_all
  from json_opt_readable[OF a(5) b(5) this(2)] have clar: "rk_clarification_id k = rk_clarification_id l"
    and "?conf k = ?conf l" by simp_all
  from json_string_ascii_readable[OF a(2) b(2) this(2)] have conf: "rk_config_hash k = rk_config_hash l"
    and "?retry k = ?retry l" by simp_all
  from json_opt_readable[OF a(4) b(4) this(2)] have retry: "rk_retry_of k = rk_retry_of l"
    and "?rev k = ?rev l" by simp_all
  from json_string_ascii_readable[OF a(3) b(3) this(2)] have rev: "rk_reviewer k = rk_reviewer l"
    and "?stage k = ?stage l" by simp_all
  from json_string_ascii_readable[OF is_ascii_stage is_ascii_stage this(2)] have stage: "rk_stage k = rk_stage l"
    and "?tail k = ?tail l" by simp_all
  from json_string_ascii_readable[OF a(1) b(1) this(2)] have "rk_target_hash k = rk_target_hash l" by simp
  with att clar conf retry rev stage show ?thesis by (cases k; cases l) simp
qed

section \<open>Properties\<close>

text \<open>C8. Two run keys over ASCII texts have the same stable key exactly when they are equal, so the status dict keeps
  the runs apart.\<close>

theorem stable_key_identifies_run:
  assumes "ascii_run_key k" and "ascii_run_key l"
  shows "stable_key k = stable_key l \<longleftrightarrow> k = l"
  using stable_key_inject[OF assms] by blast

theorem stable_key_identifies_run_witness:
  "stable_key \<lparr>rk_target_hash = ''t'', rk_config_hash = ''c'', rk_stage = LogicReview, rk_reviewer = ''r'',
       rk_attempt = 1, rk_retry_of = None, rk_clarification_id = None\<rparr>
   \<noteq> stable_key \<lparr>rk_target_hash = ''t'', rk_config_hash = ''c'', rk_stage = LogicReview, rk_reviewer = ''r'',
       rk_attempt = 2, rk_retry_of = None, rk_clarification_id = None\<rparr>"
  by (subst stable_key_identifies_run) (simp_all add: ascii_run_key_def is_ascii_def)

end
