(* ===== verification/Stage_Cursor.thy ===== *)
theory Stage_Cursor
  imports Models_Review
begin

text \<open>
  The model of \<open>src/src/reviewgraph/state.py\<close>: the cursor over the review stages, its validator, and the one
  operation that moves it. The structural protocol \<open>StageCursorFields\<close> is the extensible record
  \<open>stage_cursor\<close>; \<open>ReviewState\<close> extends it. The abstract machine \<open>phase\<close> says what the cursor is for:
  three normal stages in order, each of which may be suspended for one ready clarification at a time.
\<close>

section \<open>The cursor and its validator\<close>

record stage_cursor =
  active_stage :: "review_stage option"
  suspended_stage :: "review_stage option"
  stage_queue :: "review_stage list"
  completed_stages :: "review_stage list"
  ready_clarification_ids :: "string list"
  active_clarification_id :: "string option"

record stage_cursor_transition =
  active_stage_before :: "review_stage option"
  active_stage_after :: "review_stage option"
  suspended_stage_before :: "review_stage option"
  suspended_stage_after :: "review_stage option"
  stage_queue_before :: "review_stage list"
  stage_queue_after :: "review_stage list"
  completed_stages_before :: "review_stage list"
  completed_stages_after :: "review_stage list"
  transition_reason :: string

definition NORMAL_REVIEW_STAGES :: "review_stage list" where
  "NORMAL_REVIEW_STAGES = [InitialTriage, SpecializedReview, LogicReview]"

definition initial_stage_cursor :: stage_cursor where
  "initial_stage_cursor =
     \<lparr>active_stage = None, suspended_stage = None, stage_queue = NORMAL_REVIEW_STAGES,
      completed_stages = [], ready_clarification_ids = [], active_clarification_id = None\<rparr>"

definition validate_normal_stage_order ::
    "review_stage option \<Rightarrow> review_stage option \<Rightarrow> review_stage list \<Rightarrow> review_stage list \<Rightarrow> (bool \<times> string) list" where
  "validate_normal_stage_order active suspended queue completed =
     (let n = length completed;
          stages = length NORMAL_REVIEW_STAGES
      in (completed = take n NORMAL_REVIEW_STAGES, ''completed_stages must be an ordered normal-stage prefix'') #
         (if active = Some ClarificationReview then
            [(n < stages, ''clarification_review cannot follow completed normal stages''),
             (suspended = Some (NORMAL_REVIEW_STAGES ! n), ''suspended_stage must be the current normal stage''),
             (queue = drop (n + 1) NORMAL_REVIEW_STAGES,
              ''stage_queue must preserve normal-stage order during clarification_review'')]
          else if active = None then
            [(n = 0 \<or> n = stages, ''active_stage cannot be None between normal stages''),
             (queue = (if n = 0 then NORMAL_REVIEW_STAGES else []), ''stage_queue must preserve normal-stage order'')]
          else
            [(n < stages, ''active_stage cannot follow completed normal stages''),
             (active = Some (NORMAL_REVIEW_STAGES ! n) \<and> queue = drop (n + 1) NORMAL_REVIEW_STAGES,
              ''stage cursor must preserve normal-stage order'')]))"

definition stage_cursor_checks :: "'a stage_cursor_scheme \<Rightarrow> (bool \<times> string) list" where
  "stage_cursor_checks c =
     (let active = active_stage c; suspended = suspended_stage c;
          queue = stage_queue c; completed = completed_stages c
      in [(list_all non_empty (ready_clarification_ids c),
           ''ready_clarification_ids must contain non-empty strings''),
          (opt_ok non_empty (active_clarification_id c),
           ''active_clarification_id must be a non-empty string or None''),
          (ClarificationReview \<notin> set queue, ''clarification_review must not be in stage_queue''),
          (set queue \<subseteq> set NORMAL_REVIEW_STAGES, ''stage_queue may contain only normal review stages''),
          (set completed \<subseteq> set NORMAL_REVIEW_STAGES, ''completed_stages may contain only normal review stages''),
          (\<not> opt_mem active queue, ''stage_queue must contain only future stages''),
          (\<not> opt_mem active completed, ''active_stage must not already be completed'')]
         @ (if active = Some ClarificationReview then
              [(suspended \<noteq> None, ''clarification_review requires suspended_stage''),
               (active_clarification_id c \<noteq> None, ''clarification_review requires active_clarification_id'')]
            else
              [(suspended = None, ''suspended_stage is only valid during clarification_review''),
               (active_clarification_id c = None,
                ''active_clarification_id is only valid during clarification_review'')])
         @ [(set queue \<inter> set completed = {}, ''stage_queue must not contain completed stages''),
            (\<not> has_duplicates queue, ''stage_queue must not contain duplicate stages''),
            (\<not> has_duplicates completed, ''completed_stages must not contain duplicate stages'')]
         @ validate_normal_stage_order active suspended queue completed)"

definition validate_stage_cursor :: "'a stage_cursor_scheme \<Rightarrow> unit result" where
  "validate_stage_cursor c =
     (case first_failure (stage_cursor_checks c) of
        None \<Rightarrow> Inr () | Some m \<Rightarrow> Inl (StageCursorError m))"

section \<open>The transition\<close>

definition advance_unchecked :: "'a stage_cursor_scheme \<Rightarrow> (string \<times> 'a stage_cursor_scheme) result" where
  "advance_unchecked c =
     (case active_stage c of
        None \<Rightarrow>
          (case stage_queue c of
             [] \<Rightarrow> Inr (''finish_review_stages'', c)
           | s # q \<Rightarrow> Inr (''start_'' @ stage_value s, c\<lparr>stage_queue := q, active_stage := Some s\<rparr>))
      | Some before \<Rightarrow>
          if before = ClarificationReview then
            (case suspended_stage c of
               None \<Rightarrow> Inl (StageCursorError ''clarification_review requires suspended_stage'')
             | Some s \<Rightarrow> Inr (''finish_clarification_review_restore_'' @ stage_value s,
                 c\<lparr>active_stage := Some s, suspended_stage := None, active_clarification_id := None\<rparr>))
          else
            (case ready_clarification_ids c of
               i # ids \<Rightarrow> Inr (''enter_clarification_review'',
                 c\<lparr>ready_clarification_ids := ids, suspended_stage := Some before,
                   active_stage := Some ClarificationReview, active_clarification_id := Some i\<rparr>)
             | [] \<Rightarrow>
                 (let c' = c\<lparr>completed_stages := completed_stages c @ [before]\<rparr>
                  in case stage_queue c of
                       s # q \<Rightarrow> Inr (''complete_'' @ stage_value before @ ''_start_'' @ stage_value s,
                         c'\<lparr>stage_queue := q, active_stage := Some s\<rparr>)
                     | [] \<Rightarrow> Inr (''finish_review_stages'', c'\<lparr>active_stage := None\<rparr>))))"

definition advance_or_finish_stage ::
    "'a stage_cursor_scheme \<Rightarrow> (stage_cursor_transition \<times> 'a stage_cursor_scheme) result" where
  "advance_or_finish_stage c =
     bindE (validate_stage_cursor c) (\<lambda>_.
     bindE (advance_unchecked c) (\<lambda>(reason, c').
     bindE (validate_stage_cursor c') (\<lambda>_.
       Inr (\<lparr>active_stage_before = active_stage c, active_stage_after = active_stage c',
             suspended_stage_before = suspended_stage c, suspended_stage_after = suspended_stage c',
             stage_queue_before = stage_queue c, stage_queue_after = stage_queue c',
             completed_stages_before = completed_stages c, completed_stages_after = completed_stages c',
             transition_reason = reason\<rparr>, c'))))"

section \<open>The abstract machine\<close>

text \<open>Not started; in normal stage \<open>k\<close>; reviewing a clarification with stage \<open>k\<close> suspended; finished.\<close>

datatype phase = NotStarted | Reviewing nat | Clarifying nat string | Finished

fun phase_step :: "phase \<Rightarrow> string list \<Rightarrow> phase \<times> string list" where
  "phase_step NotStarted ids = (Reviewing 0, ids)"
| "phase_step (Reviewing k) (i # ids) = (Clarifying k i, ids)"
| "phase_step (Reviewing k) [] = (if k < 2 then Reviewing (Suc k) else Finished, [])"
| "phase_step (Clarifying k i) ids = (Reviewing k, ids)"
| "phase_step Finished ids = (Finished, ids)"

fun in_phase :: "phase \<Rightarrow> 'a stage_cursor_scheme \<Rightarrow> bool" where
  "in_phase NotStarted c \<longleftrightarrow> active_stage c = None \<and> suspended_stage c = None
     \<and> stage_queue c = NORMAL_REVIEW_STAGES \<and> completed_stages c = [] \<and> active_clarification_id c = None"
| "in_phase (Reviewing k) c \<longleftrightarrow> k < 3 \<and> active_stage c = Some (NORMAL_REVIEW_STAGES ! k)
     \<and> suspended_stage c = None \<and> stage_queue c = drop (Suc k) NORMAL_REVIEW_STAGES
     \<and> completed_stages c = take k NORMAL_REVIEW_STAGES \<and> active_clarification_id c = None"
| "in_phase (Clarifying k i) c \<longleftrightarrow> k < 3 \<and> active_stage c = Some ClarificationReview
     \<and> suspended_stage c = Some (NORMAL_REVIEW_STAGES ! k) \<and> stage_queue c = drop (Suc k) NORMAL_REVIEW_STAGES
     \<and> completed_stages c = take k NORMAL_REVIEW_STAGES \<and> active_clarification_id c = Some i \<and> i \<noteq> []"
| "in_phase Finished c \<longleftrightarrow> active_stage c = None \<and> suspended_stage c = None
     \<and> stage_queue c = [] \<and> completed_stages c = NORMAL_REVIEW_STAGES \<and> active_clarification_id c = None"

definition valid_cursor :: "'a stage_cursor_scheme \<Rightarrow> bool" where
  "valid_cursor c \<longleftrightarrow> (\<exists>p. in_phase p c) \<and> list_all non_empty (ready_clarification_ids c)"

section \<open>The validator accepts exactly the phases\<close>

lemma length_normal [simp]: "length NORMAL_REVIEW_STAGES = 3"
  by (simp add: NORMAL_REVIEW_STAGES_def)

lemma lt3_cases: "(k::nat) < 3 \<longleftrightarrow> k = 0 \<or> k = 1 \<or> k = 2"
  by auto

lemma le3_cases: "(k::nat) \<le> 3 \<longleftrightarrow> k = 0 \<or> k = 1 \<or> k = 2 \<or> k = 3"
  by auto

lemma distinct_normal: "distinct NORMAL_REVIEW_STAGES"
  by (simp add: NORMAL_REVIEW_STAGES_def)

lemma normal_prefix_iff:
  "xs = take (length xs) NORMAL_REVIEW_STAGES \<longleftrightarrow> (\<exists>k \<le> 3. xs = take k NORMAL_REVIEW_STAGES)"
proof
  assume "xs = take (length xs) NORMAL_REVIEW_STAGES"
  moreover from this have "length xs \<le> 3" by (metis length_normal length_take min.cobounded1)
  ultimately show "\<exists>k \<le> 3. xs = take k NORMAL_REVIEW_STAGES" by blast
qed auto

lemma validate_ok_iff:
  "validate_stage_cursor c = Inr () \<longleftrightarrow> (\<forall>k \<in> set (stage_cursor_checks c). fst k)"
  by (simp add: validate_stage_cursor_def first_failure_None_iff[symmetric] split: option.splits)

lemmas cursor_check_simps = stage_cursor_checks_def validate_normal_stage_order_def
  NORMAL_REVIEW_STAGES_def has_duplicates_iff

lemma in_phase_valid:
  assumes "in_phase p c" and "list_all non_empty (ready_clarification_ids c)"
  shows "validate_stage_cursor c = Inr ()"
proof (cases p)
  case (Reviewing k)
  then have "k = 0 \<or> k = 1 \<or> k = 2" using assms(1) by (simp add: lt3_cases)
  then show ?thesis
    using assms Reviewing by (elim disjE) (simp_all add: validate_ok_iff cursor_check_simps)
next
  case (Clarifying k i)
  then have "k = 0 \<or> k = 1 \<or> k = 2" using assms(1) by (simp add: lt3_cases)
  then show ?thesis
    using assms Clarifying by (elim disjE) (simp_all add: validate_ok_iff cursor_check_simps)
qed (use assms in \<open>simp_all add: validate_ok_iff cursor_check_simps\<close>)

lemma valid_in_phase:
  assumes "validate_stage_cursor c = Inr ()"
  shows "\<exists>p. in_phase p c"
proof -
  let ?N = NORMAL_REVIEW_STAGES
  have chk: "\<forall>k \<in> set (stage_cursor_checks c). fst k" using assms by (simp add: validate_ok_iff)
  then have pre: "completed_stages c = take (length (completed_stages c)) ?N"
    unfolding stage_cursor_checks_def validate_normal_stage_order_def Let_def by simp
  then obtain k where k: "k \<le> 3" "completed_stages c = take k ?N" using normal_prefix_iff by blast
  then have len: "length (completed_stages c) = k" by (simp only: length_take length_normal)
  consider (none) "active_stage c = None" | (cr) "active_stage c = Some ClarificationReview"
    | (other) s where "active_stage c = Some s" "s \<noteq> ClarificationReview" by (cases "active_stage c") auto
  then show ?thesis
  proof cases
    case none
    then have "(k = 0 \<or> k = 3) \<and> stage_queue c = (if k = 0 then ?N else [])
        \<and> suspended_stage c = None \<and> active_clarification_id c = None"
      using chk len by (simp add: stage_cursor_checks_def validate_normal_stage_order_def Let_def)
    with none k have "in_phase NotStarted c \<or> in_phase Finished c" by auto
    then show ?thesis by blast
  next
    case cr
    then have a: "k < 3 \<and> suspended_stage c = Some (?N ! k) \<and> stage_queue c = drop (Suc k) ?N"
      and b: "active_clarification_id c \<noteq> None \<and> opt_ok non_empty (active_clarification_id c)"
      using chk len by (simp_all add: stage_cursor_checks_def validate_normal_stage_order_def Let_def)
    then obtain i where "active_clarification_id c = Some i" "i \<noteq> []" by auto
    with a cr k have "in_phase (Clarifying k i) c" by simp
    then show ?thesis by blast
  next
    case other
    then have "k < 3 \<and> s = ?N ! k \<and> stage_queue c = drop (Suc k) ?N
        \<and> suspended_stage c = None \<and> active_clarification_id c = None"
      using chk len by (simp add: stage_cursor_checks_def validate_normal_stage_order_def Let_def)
    with other k have "in_phase (Reviewing k) c" by simp
    then show ?thesis by blast
  qed
qed

lemma validate_iff_valid: "validate_stage_cursor c = Inr () \<longleftrightarrow> valid_cursor c"
proof
  assume v: "validate_stage_cursor c = Inr ()"
  then have "list_all non_empty (ready_clarification_ids c)"
    by (auto simp: validate_ok_iff stage_cursor_checks_def Let_def)
  with valid_in_phase[OF v] show "valid_cursor c" by (simp add: valid_cursor_def)
qed (auto simp: valid_cursor_def intro: in_phase_valid)

lemma in_phase_unique: "in_phase p c \<Longrightarrow> in_phase q c \<Longrightarrow> p = q"
  by (cases p; cases q) (auto simp: lt3_cases NORMAL_REVIEW_STAGES_def)

section \<open>The transition refines the abstract machine\<close>

lemma advance_unchecked_phase:
  assumes "in_phase p c" and "phase_step p (ready_clarification_ids c) = (p', ids)"
    and "list_all non_empty (ready_clarification_ids c)"
  shows "\<exists>reason c'. advance_unchecked c = Inr (reason, c') \<and> in_phase p' c'
           \<and> ready_clarification_ids c' = ids \<and> stage_cursor.more c' = stage_cursor.more c"
proof (cases p)
  case NotStarted
  with assms show ?thesis by (auto simp: advance_unchecked_def NORMAL_REVIEW_STAGES_def)
next
  case (Reviewing k)
  then have k: "k = 0 \<or> k = 1 \<or> k = 2" using assms(1) by (auto simp: lt3_cases)
  show ?thesis
  proof (cases "ready_clarification_ids c")
    case (Cons i js)
    with Reviewing k assms show ?thesis by (auto simp: advance_unchecked_def NORMAL_REVIEW_STAGES_def)
  next
    case Nil
    with Reviewing k assms show ?thesis by (auto simp: advance_unchecked_def NORMAL_REVIEW_STAGES_def)
  qed
next
  case (Clarifying k i)
  with assms show ?thesis by (auto simp: advance_unchecked_def lt3_cases NORMAL_REVIEW_STAGES_def)
next
  case Finished
  with assms show ?thesis by (auto simp: advance_unchecked_def)
qed

lemma phase_step_ids: "phase_step p ids = (p', ids') \<Longrightarrow> set ids' \<subseteq> set ids"
  by (cases "(p, ids)" rule: phase_step.cases) (auto split: if_splits)

lemma advance_phase:
  assumes "in_phase p c" and "phase_step p (ready_clarification_ids c) = (p', ids)"
    and "list_all non_empty (ready_clarification_ids c)"
  shows "\<exists>t c'. advance_or_finish_stage c = Inr (t, c') \<and> in_phase p' c' \<and> ready_clarification_ids c' = ids
           \<and> stage_cursor.more c' = stage_cursor.more c"
proof -
  from advance_unchecked_phase[OF assms] obtain reason c' where c':
      "advance_unchecked c = Inr (reason, c')" "in_phase p' c'" "ready_clarification_ids c' = ids"
      "stage_cursor.more c' = stage_cursor.more c" by blast
  have "list_all non_empty ids" using assms(3) phase_step_ids[OF assms(2)] by (auto simp: list_all_iff)
  then have "validate_stage_cursor c' = Inr ()" using c' in_phase_valid by blast
  then show ?thesis
    using c' in_phase_valid[OF assms(1,3)] by (simp add: advance_or_finish_stage_def)
qed

lemma advance_error:
  assumes "\<not> valid_cursor c"
  shows "\<exists>m. advance_or_finish_stage c = Inl (StageCursorError m)"
  using assms validate_iff_valid[of c]
  by (auto simp: advance_or_finish_stage_def validate_stage_cursor_def split: option.splits)

lemma advance_valid:
  assumes "valid_cursor c"
  shows "\<exists>t c'. advance_or_finish_stage c = Inr (t, c') \<and> valid_cursor c'"
proof -
  from assms obtain p where p: "in_phase p c" "list_all non_empty (ready_clarification_ids c)"
    by (auto simp: valid_cursor_def)
  obtain p' ids where st: "phase_step p (ready_clarification_ids c) = (p', ids)" by fastforce
  then have "list_all non_empty ids" using p(2) phase_step_ids by (fastforce simp: list_all_iff)
  with advance_phase[OF p(1) st p(2)] show ?thesis by (auto simp: valid_cursor_def)
qed

section \<open>The cursor and its environment as a step relation\<close>

text \<open>
  Between two advances the runner may append the id of an answered clarification (\<open>ingest_clarification_answer\<close>
  checks that it is not empty).
\<close>

inductive cursor_step :: "'a stage_cursor_scheme \<Rightarrow> 'a stage_cursor_scheme \<Rightarrow> bool" where
  advance: "advance_or_finish_stage c = Inr (t, c') \<Longrightarrow> cursor_step c c'"
| answer: "i \<noteq> [] \<Longrightarrow> cursor_step c (c\<lparr>ready_clarification_ids := ready_clarification_ids c @ [i]\<rparr>)"

inductive_cases cursor_stepE: "cursor_step c c'"

inductive cursor_reachable :: "stage_cursor \<Rightarrow> bool" where
  start: "cursor_reachable initial_stage_cursor"
| step: "cursor_reachable c \<Longrightarrow> cursor_step c c' \<Longrightarrow> cursor_reachable c'"

lemma in_phase_ready [simp]: "in_phase p (c\<lparr>ready_clarification_ids := ids\<rparr>) \<longleftrightarrow> in_phase p c"
  by (cases p) simp_all

lemma cursor_step_valid: "cursor_step c c' \<Longrightarrow> valid_cursor c \<Longrightarrow> valid_cursor c'"
  by (erule cursor_stepE) (use advance_valid[of c] in \<open>auto simp: valid_cursor_def\<close>)

lemma initial_valid: "valid_cursor initial_stage_cursor"
  by (auto simp: valid_cursor_def initial_stage_cursor_def intro: exI[of _ NotStarted])

lemma reachable_valid: "cursor_reachable c \<Longrightarrow> valid_cursor c"
  by (induction rule: cursor_reachable.induct) (auto intro: initial_valid cursor_step_valid)

section \<open>Driving the cursor to the end\<close>

fun phase_remaining :: "phase \<Rightarrow> string list \<Rightarrow> nat" where
  "phase_remaining NotStarted ids = 4 + 2 * length ids"
| "phase_remaining (Reviewing k) ids = (3 - k) + 2 * length ids"
| "phase_remaining (Clarifying k i) ids = Suc (3 - k) + 2 * length ids"
| "phase_remaining Finished ids = 0"

text \<open>The number of advances that a cursor still needs, read off its fields.\<close>

definition cursor_remaining :: "'a stage_cursor_scheme \<Rightarrow> nat" where
  "cursor_remaining c =
     (if active_stage c = None \<and> stage_queue c = [] then 0
      else length (stage_queue c) + 2 * length (ready_clarification_ids c) + 1
        + (if active_stage c = Some ClarificationReview then 1 else 0))"

lemma cursor_remaining_phase:
  "in_phase p c \<Longrightarrow> cursor_remaining c = phase_remaining p (ready_clarification_ids c)"
  by (cases p) (auto simp: cursor_remaining_def lt3_cases NORMAL_REVIEW_STAGES_def)

lemma phase_step_remaining:
  assumes "phase_step p ids = (p', ids')" and "p \<noteq> Finished" and "\<And>k. p = Reviewing k \<Longrightarrow> k < 3"
  shows "phase_remaining p ids = Suc (phase_remaining p' ids')"
  using assms by (cases "(p, ids)" rule: phase_step.cases) (auto split: if_splits)

text \<open>\<open>n\<close> advances in a row, with the pairs (active stage, active clarification) they lead to.\<close>

fun run_cursor :: "nat \<Rightarrow> 'a stage_cursor_scheme
    \<Rightarrow> ((review_stage option \<times> string option) list \<times> 'a stage_cursor_scheme) result" where
  "run_cursor 0 c = Inr ([], c)"
| "run_cursor (Suc n) c =
     bindE (advance_or_finish_stage c) (\<lambda>(t, c1).
     bindE (run_cursor n c1) (\<lambda>(vs, c2). Inr ((active_stage c1, active_clarification_id c1) # vs, c2)))"

fun phase_visit :: "phase \<Rightarrow> review_stage option \<times> string option" where
  "phase_visit (Reviewing k) = (Some (NORMAL_REVIEW_STAGES ! k), None)"
| "phase_visit (Clarifying k i) = (Some ClarificationReview, Some i)"
| "phase_visit _ = (None, None)"

lemma in_phase_visit: "in_phase p c \<Longrightarrow> (active_stage c, active_clarification_id c) = phase_visit p"
  by (cases p) auto

definition visited_clarifications :: "(review_stage option \<times> string option) list \<Rightarrow> string list" where
  "visited_clarifications vs = [i. (s, Some i) \<leftarrow> vs]"

lemma visited_Cons: "visited_clarifications (phase_visit p # vs) =
    (case p of Clarifying k i \<Rightarrow> i # visited_clarifications vs | _ \<Rightarrow> visited_clarifications vs)"
  by (cases p) (simp_all add: visited_clarifications_def)

lemma run_cursor_finishes_phase:
  assumes "in_phase p c" and "list_all non_empty (ready_clarification_ids c)"
    and "phase_remaining p (ready_clarification_ids c) = n" and "p \<noteq> Finished"
  shows "\<exists>vs c'. run_cursor n c = Inr (vs, c') \<and> in_phase Finished c' \<and> ready_clarification_ids c' = []
           \<and> visited_clarifications vs = ready_clarification_ids c"
  using assms
proof (induction n arbitrary: p c)
  case 0
  then have "p = Finished" by (cases p) auto
  with "0.prems"(4) show ?case by simp
next
  case (Suc n)
  let ?ids = "ready_clarification_ids c"
  obtain p' ids' where st: "phase_step p ?ids = (p', ids')" by fastforce
  obtain t c1 where c1: "advance_or_finish_stage c = Inr (t, c1)" "in_phase p' c1"
      "ready_clarification_ids c1 = ids'"
    using advance_phase[OF Suc.prems(1) st Suc.prems(2)] by blast
  have ok: "list_all non_empty ids'" using Suc.prems(2) phase_step_ids[OF st] by (auto simp: list_all_iff)
  have rem: "phase_remaining p' ids' = n"
    using phase_step_remaining[OF st Suc.prems(4)] Suc.prems(1,3) by (cases p) auto
  have ids: "?ids = (case p' of Clarifying k i \<Rightarrow> i # ids' | _ \<Rightarrow> ids')"
    using st by (cases "(p, ?ids)" rule: phase_step.cases) (auto split: if_splits)
  show ?case
  proof (cases "p' = Finished")
    case True
    then have "n = 0" and "ids' = []" using rem st Suc.prems(1,4)
      by (cases "(p, ?ids)" rule: phase_step.cases; auto split: if_splits)+
    then show ?thesis using c1 True ids
      by (simp add: visited_clarifications_def)
  next
    case False
    from Suc.IH[OF c1(2) _ _ False] obtain vs c2 where c2: "run_cursor n c1 = Inr (vs, c2)"
        "in_phase Finished c2" "ready_clarification_ids c2 = []" "visited_clarifications vs = ids'"
      using ok rem c1(3) by auto
    then show ?thesis
      using c1(1) in_phase_visit[OF c1(2)] ids visited_Cons[of p' vs]
      by (simp split: phase.splits)
  qed
qed

lemma run_cursor_finishes:
  assumes "valid_cursor c" and "active_stage c \<noteq> None \<or> stage_queue c \<noteq> []"
  shows "\<exists>vs c'. run_cursor (cursor_remaining c) c = Inr (vs, c')
           \<and> active_stage c' = None \<and> completed_stages c' = NORMAL_REVIEW_STAGES
           \<and> stage_queue c' = [] \<and> ready_clarification_ids c' = []
           \<and> visited_clarifications vs = ready_clarification_ids c"
proof -
  from assms(1) obtain p where p: "in_phase p c" "list_all non_empty (ready_clarification_ids c)"
    by (auto simp: valid_cursor_def)
  have "p \<noteq> Finished" using p(1) assms(2) by auto
  from run_cursor_finishes_phase[OF p refl this] show ?thesis
    by (auto simp: cursor_remaining_phase[OF p(1)])
qed

section \<open>Properties\<close>

text \<open>C1. The cursor never gets stuck: every state reachable from the initial cursor, by advances and by
  clarifications that become ready at any moment, passes the validator, and the next advance does not raise.\<close>

theorem reachable_cursor_never_raises:
  "cursor_reachable c \<Longrightarrow> validate_stage_cursor c = Inr () \<and> is_ok (advance_or_finish_stage c)"
  using reachable_valid[of c] advance_valid[of c] validate_iff_valid[of c] by (auto simp: is_ok_iff)

theorem reachable_cursor_never_raises_witness:
  "is_ok (advance_or_finish_stage
     (initial_stage_cursor\<lparr>ready_clarification_ids := [''c1'']\<rparr>))"
proof -
  have "cursor_reachable (initial_stage_cursor\<lparr>ready_clarification_ids :=
      ready_clarification_ids initial_stage_cursor @ [''c1'']\<rparr>)"
    by (rule cursor_reachable.step[OF cursor_reachable.start], rule cursor_step.answer) simp
  from reachable_cursor_never_raises[OF this] show ?thesis by (simp add: initial_stage_cursor_def)
qed

text \<open>C3. The transition implements the abstract machine: in a phase \<open>p\<close>, an advance leads to the phase and the
  ready list that \<open>phase_step\<close> gives, and leaves every other field of the state alone.\<close>

theorem advance_refines_phase_step:
  assumes "in_phase p c" and "list_all non_empty (ready_clarification_ids c)"
  shows "\<exists>t c'. advance_or_finish_stage c = Inr (t, c')
           \<and> in_phase (fst (phase_step p (ready_clarification_ids c))) c'
           \<and> ready_clarification_ids c' = snd (phase_step p (ready_clarification_ids c))
           \<and> stage_cursor.more c' = stage_cursor.more c"
  using advance_phase[OF assms(1) _ assms(2)] by (metis prod.collapse)

theorem advance_refines_phase_step_witness:
  "\<exists>t c'. advance_or_finish_stage (initial_stage_cursor\<lparr>ready_clarification_ids := [''c1'']\<rparr>) = Inr (t, c')
     \<and> in_phase (Reviewing 0) c' \<and> ready_clarification_ids c' = [''c1'']"
  using advance_refines_phase_step[of NotStarted "initial_stage_cursor\<lparr>ready_clarification_ids := [''c1'']\<rparr>"]
  by (auto simp: initial_stage_cursor_def)

text \<open>C2. Driven by advances alone, a valid cursor that has not finished reaches the end after exactly
  \<open>cursor_remaining\<close> steps: all normal stages are completed in order, and the clarifications that were ready
  are each reviewed once, first in first out.\<close>

theorem cursor_runs_to_completion:
  assumes "validate_stage_cursor c = Inr ()" and "active_stage c \<noteq> None \<or> stage_queue c \<noteq> []"
  shows "\<exists>vs c'. run_cursor (cursor_remaining c) c = Inr (vs, c')
           \<and> active_stage c' = None \<and> completed_stages c' = NORMAL_REVIEW_STAGES
           \<and> stage_queue c' = [] \<and> ready_clarification_ids c' = []
           \<and> visited_clarifications vs = ready_clarification_ids c"
  using run_cursor_finishes assms validate_iff_valid by blast

theorem cursor_runs_to_completion_witness:
  "\<exists>vs c'. run_cursor (cursor_remaining (initial_stage_cursor\<lparr>ready_clarification_ids := [''a'', ''b'']\<rparr>))
         (initial_stage_cursor\<lparr>ready_clarification_ids := [''a'', ''b'']\<rparr>) = Inr (vs, c')
     \<and> completed_stages c' = NORMAL_REVIEW_STAGES \<and> visited_clarifications vs = [''a'', ''b'']"
proof -
  let ?c = "initial_stage_cursor\<lparr>ready_clarification_ids := [''a'', ''b'']\<rparr>"
  have "validate_stage_cursor ?c = Inr ()"
    by (rule in_phase_valid[of NotStarted]) (simp_all add: initial_stage_cursor_def)
  from cursor_runs_to_completion[OF this] show ?thesis
    by (fastforce simp: initial_stage_cursor_def NORMAL_REVIEW_STAGES_def)
qed

text \<open>C4. The twelve checks of the validator accept exactly the cursors of the abstract machine.\<close>

theorem cursor_validator_exact:
  "validate_stage_cursor c = Inr () \<longleftrightarrow>
     (\<exists>p. in_phase p c) \<and> list_all non_empty (ready_clarification_ids c)"
  by (simp add: validate_iff_valid valid_cursor_def)

end
