(* ===== verification/Clarification.thy ===== *)
theory Clarification
  imports Stage_Cursor "HOL-Library.AList"
begin

text \<open>
  The model of \<open>src/src/reviewgraph/clarification.py\<close> and of \<open>_ingest_available_clarification_answers\<close> in
  \<open>runner.py\<close>: the gate over clarification requests and the operation that records an answer. Both work on
  \<open>ReviewState\<close>, of which \<open>review_state\<close> holds the fields that the modelled operations read or write. A dict is an
  association list in insertion order, written with \<open>AList.update\<close>.
\<close>

section \<open>The review state\<close>

record review_state = stage_cursor +
  rv_review_target :: review_target
  rv_config_hash :: string
  rv_selected_reviewers :: "selected_reviewer list"
  rv_reviewer_run_keys :: "reviewer_run_key list"
  rv_reviewer_run_status :: "(string \<times> reviewer_run_status) list"
  rv_clarification_requests :: "clarification_request list"
  rv_pending_clarification_ids :: "string list"
  rv_clarifications :: "clarification_answer list"
  rv_clarification_status :: "(string \<times> clarification_status) list"

section \<open>The clarification gate\<close>

record clarification_gate_result =
  gate_pending_ids :: "string list"
  gate_blocking_pending_ids :: "string list"
  gate_clarification_status :: "(string \<times> clarification_status) list"
  gate_blocks_posting :: bool

text \<open>\<open>request.status or ClarificationState.PENDING\<close>\<close>

definition request_status :: "clarification_request \<Rightarrow> clarification_state" where
  "request_status r = (case cr_status r of None \<Rightarrow> CPending | Some s \<Rightarrow> s)"

fun clarification_gate_loop :: "clarification_request list \<Rightarrow> string list \<Rightarrow> string list
    \<Rightarrow> (string \<times> clarification_status) list \<Rightarrow> clarification_gate_result result" where
  "clarification_gate_loop [] pending blocking status =
     Inr \<lparr>gate_pending_ids = pending, gate_blocking_pending_ids = blocking,
          gate_clarification_status = status, gate_blocks_posting = (blocking \<noteq> [])\<rparr>"
| "clarification_gate_loop (r # rs) pending blocking status =
     bindE (mk_checked clarification_status_check
              \<lparr>cs_request_id = cr_id r, cs_status = request_status r, cs_reason = None\<rparr>) (\<lambda>st.
       let status' = AList.update (cr_id r) st status
       in if request_status r \<noteq> CPending then clarification_gate_loop rs pending blocking status'
          else clarification_gate_loop rs (pending @ [cr_id r])
                 (if cr_blocks_verdict r then blocking @ [cr_id r] else blocking) status')"

definition evaluate_clarification_gate :: "clarification_request list \<Rightarrow> clarification_gate_result result" where
  "evaluate_clarification_gate rs = clarification_gate_loop rs [] [] []"

section \<open>Recording an answer\<close>

fun pending_request :: "clarification_request list \<Rightarrow> string \<Rightarrow> nat \<Rightarrow> (nat \<times> clarification_request) result" where
  "pending_request [] i n = Inl (ValueError (''clarification request '' @ i @ '' was not found''))"
| "pending_request (r # rs) i n =
     (if cr_id r \<noteq> i then pending_request rs i (Suc n)
      else if request_status r \<noteq> CPending
           then Inl (ValueError (''clarification request '' @ i @ '' is not pending''))
      else Inr (n, r))"

definition ingest_clarification_answer :: "'a review_state_scheme \<Rightarrow> clarification_answer \<Rightarrow> 'a review_state_scheme result" where
  "ingest_clarification_answer s a =
     bindE (pending_request (rv_clarification_requests s) (ca_request_id a) 0) (\<lambda>(n, r).
     bindE (mk_checked clarification_request_check (r\<lparr>cr_status := Some CAnswered\<rparr>)) (\<lambda>answered.
     bindE (mk_checked clarification_status_check
              \<lparr>cs_request_id = ca_request_id a, cs_status = CAnswered, cs_reason = None\<rparr>) (\<lambda>st.
       Inr (s\<lparr>rv_clarifications := rv_clarifications s @ [a],
              rv_clarification_requests := (rv_clarification_requests s)[n := answered],
              rv_clarification_status := AList.update (ca_request_id a) st (rv_clarification_status s),
              rv_pending_clarification_ids := filter (\<lambda>i. i \<noteq> ca_request_id a) (rv_pending_clarification_ids s),
              ready_clarification_ids :=
                (if ca_request_id a \<in> set (ready_clarification_ids s) then ready_clarification_ids s
                 else ready_clarification_ids s @ [ca_request_id a])\<rparr>))))"

text \<open>\<open>_ingest_available_clarification_answers\<close>: its loop over the blocking ids, and the whole function.\<close>

fun ingest_answers :: "string list \<Rightarrow> (string \<times> clarification_answer) list \<Rightarrow> 'a review_state_scheme
    \<Rightarrow> bool \<Rightarrow> (bool \<times> 'a review_state_scheme) result" where
  "ingest_answers [] answers s answered = Inr (answered, s)"
| "ingest_answers (i # is') answers s answered =
     (case dict_get answers i of
        None \<Rightarrow> ingest_answers is' answers s answered
      | Some a \<Rightarrow> bindE (ingest_clarification_answer s a) (\<lambda>s'. ingest_answers is' answers s' True))"

definition ingest_available_clarification_answers :: "'a review_state_scheme \<Rightarrow> clarification_request list
    \<Rightarrow> clarification_gate_result \<Rightarrow> (string \<times> clarification_answer) list
    \<Rightarrow> (bool \<times> 'a review_state_scheme \<times> clarification_request list) result" where
  "ingest_available_clarification_answers s classified gate answers =
     bindE (ingest_answers (gate_blocking_pending_ids gate) answers
              (s\<lparr>rv_clarification_requests := classified,
                 rv_pending_clarification_ids := gate_pending_ids gate,
                 rv_clarification_status := gate_clarification_status gate\<rparr>) False) (\<lambda>(answered, s').
       Inr (answered, s', if answered then rv_clarification_requests s' else classified))"

section \<open>Lemmas on the gate\<close>

abbreviation pending_now :: "clarification_request \<Rightarrow> bool" where
  "pending_now r \<equiv> request_status r = CPending"

lemma status_check_iff [simp]: "clarification_status_check \<lparr>cs_request_id = i, cs_status = st, cs_reason = None\<rparr> = None \<longleftrightarrow> i \<noteq> []"
  by (simp add: clarification_status_check_def check_defs)

lemma gate_loop_ok:
  assumes "\<forall>r \<in> set rs. cr_id r \<noteq> []"
  shows "\<exists>g. clarification_gate_loop rs pending blocking status = Inr g
      \<and> gate_pending_ids g = pending @ map cr_id (filter pending_now rs)
      \<and> gate_blocking_pending_ids g = blocking @ map cr_id (filter (\<lambda>r. pending_now r \<and> cr_blocks_verdict r) rs)
      \<and> gate_blocks_posting g = (gate_blocking_pending_ids g \<noteq> [])
      \<and> map_of (gate_clarification_status g) = map_of status ++
          map_of (rev (map (\<lambda>r. (cr_id r, \<lparr>cs_request_id = cr_id r, cs_status = request_status r, cs_reason = None\<rparr>)) rs))"
  using assms
proof (induction rs arbitrary: pending blocking status)
  case Nil
  show ?case by simp
next
  case (Cons r rs)
  have ok: "\<forall>r \<in> set rs. cr_id r \<noteq> []" and ne: "cr_id r \<noteq> []" using Cons.prems by auto
  let ?st = "\<lparr>cs_request_id = cr_id r, cs_status = request_status r, cs_reason = None\<rparr>"
  let ?pending = "if pending_now r then pending @ [cr_id r] else pending"
  let ?blocking = "if pending_now r \<and> cr_blocks_verdict r then blocking @ [cr_id r] else blocking"
  let ?status = "AList.update (cr_id r) ?st status"
  have step: "clarification_gate_loop (r # rs) pending blocking status =
      clarification_gate_loop rs ?pending ?blocking ?status"
    using ne by (simp add: mk_checked_ok Let_def)
  let ?entry = "\<lambda>r. (cr_id r, \<lparr>cs_request_id = cr_id r, cs_status = request_status r, cs_reason = None\<rparr>)"
  have dict: "map_of ?status ++ map_of (rev (map ?entry rs)) = map_of status ++ map_of (rev (map ?entry (r # rs)))"
    by (rule ext) (simp add: update_conv' map_add_def split: option.splits)
  from Cons.IH[OF ok, of ?pending ?blocking ?status] show ?case
    unfolding step dict by (elim exE) (rule exI, auto)
qed

lemma evaluate_gate_ok:
  assumes "\<forall>r \<in> set rs. cr_id r \<noteq> []"
  obtains g where "evaluate_clarification_gate rs = Inr g"
    "gate_pending_ids g = map cr_id (filter pending_now rs)"
    "gate_blocking_pending_ids g = map cr_id (filter (\<lambda>r. pending_now r \<and> cr_blocks_verdict r) rs)"
    "gate_blocks_posting g = (\<exists>r \<in> set rs. pending_now r \<and> cr_blocks_verdict r)"
    "map_of (gate_clarification_status g) =
       map_of (rev (map (\<lambda>r. (cr_id r, \<lparr>cs_request_id = cr_id r, cs_status = request_status r, cs_reason = None\<rparr>)) rs))"
proof -
  from gate_loop_ok[OF assms, of "[]" "[]" "[]"] obtain g where g:
    "evaluate_clarification_gate rs = Inr g" "gate_pending_ids g = map cr_id (filter pending_now rs)"
    "gate_blocking_pending_ids g = map cr_id (filter (\<lambda>r. pending_now r \<and> cr_blocks_verdict r) rs)"
    "gate_blocks_posting g = (gate_blocking_pending_ids g \<noteq> [])"
    "map_of (gate_clarification_status g) =
       map_of (rev (map (\<lambda>r. (cr_id r, \<lparr>cs_request_id = cr_id r, cs_status = request_status r, cs_reason = None\<rparr>)) rs))"
    by (auto simp: evaluate_clarification_gate_def)
  from g(3,4) have "gate_blocks_posting g = (\<exists>r \<in> set rs. pending_now r \<and> cr_blocks_verdict r)"
    by (simp add: filter_empty_conv)
  with g that show thesis by blast
qed

section \<open>Lemmas on answers\<close>

text \<open>The status of an id: that of the first request that carries it.\<close>

definition answer_state :: "clarification_request list \<Rightarrow> string \<Rightarrow> clarification_state option" where
  "answer_state rs i = map_option request_status (find (\<lambda>r. cr_id r = i) rs)"

lemma answer_state_simps [simp]:
  "answer_state [] i = None"
  "answer_state (r # rs) i = (if cr_id r = i then Some (request_status r) else answer_state rs i)"
  by (simp_all add: answer_state_def)

lemma pending_request_Inr_iff:
  "pending_request rs i k = Inr (n, r) \<longleftrightarrow>
     (\<exists>xs ys. rs = xs @ r # ys \<and> n = k + length xs \<and> (\<forall>x \<in> set xs. cr_id x \<noteq> i)
        \<and> cr_id r = i \<and> pending_now r)"
proof (induction rs arbitrary: k)
  case Nil
  show ?case by simp
next
  case (Cons q rs)
  show ?case
  proof (cases "cr_id q = i")
    case True
    have "(\<exists>xs ys. q # rs = xs @ r # ys \<and> n = k + length xs \<and> (\<forall>x \<in> set xs. cr_id x \<noteq> i)
        \<and> cr_id r = i \<and> pending_now r) \<longleftrightarrow> q = r \<and> n = k \<and> pending_now r"
      using True by (auto simp: Cons_eq_append_conv)
    with True show ?thesis by auto
  next
    case False
    let ?P = "\<lambda>k xs ys. n = k + length xs \<and> (\<forall>x \<in> set xs. cr_id x \<noteq> i) \<and> cr_id r = i \<and> pending_now r"
    have "(\<exists>xs ys. q # rs = xs @ r # ys \<and> ?P k xs ys) \<longleftrightarrow> (\<exists>xs ys. rs = xs @ r # ys \<and> ?P (Suc k) xs ys)"
    proof
      assume "\<exists>xs ys. q # rs = xs @ r # ys \<and> ?P k xs ys"
      then obtain xs ys where *: "q # rs = xs @ r # ys" "?P k xs ys" by blast
      with False obtain zs where "xs = q # zs" by (cases xs) auto
      with * have "rs = zs @ r # ys \<and> ?P (Suc k) zs ys" by simp
      then show "\<exists>xs ys. rs = xs @ r # ys \<and> ?P (Suc k) xs ys" by blast
    next
      assume "\<exists>xs ys. rs = xs @ r # ys \<and> ?P (Suc k) xs ys"
      then obtain xs ys where *: "rs = xs @ r # ys" "?P (Suc k) xs ys" by blast
      with False have "q # rs = (q # xs) @ r # ys \<and> ?P k (q # xs) ys" by simp
      then show "\<exists>xs ys. q # rs = xs @ r # ys \<and> ?P k xs ys" by blast
    qed
    with False Cons.IH[of "Suc k"] show ?thesis by simp
  qed
qed

lemma pending_request_ok_iff: "is_ok (pending_request rs i k) \<longleftrightarrow> answer_state rs i = Some CPending"
  by (induction rs i k rule: pending_request.induct) (auto simp: answer_state_def)

lemma pending_request_error:
  "answer_state rs i \<noteq> Some CPending \<Longrightarrow> pending_request rs i k = Inl (ValueError (''clarification request '' @ i @
     (if answer_state rs i = None then '' was not found'' else '' is not pending'')))"
  by (induction rs i k rule: pending_request.induct) (auto simp: answer_state_def)

lemma request_check_status [simp]:
  "clarification_request_check (r\<lparr>cr_status := st\<rparr>) = clarification_request_check r"
  by (simp add: clarification_request_check_def)

lemma find_append: "find P (xs @ ys) = (case find P xs of None \<Rightarrow> find P ys | Some x \<Rightarrow> Some x)"
  by (induction xs) auto

lemma answer_state_append:
  "answer_state (xs @ ys) i = (case answer_state xs i of None \<Rightarrow> answer_state ys i | Some st \<Rightarrow> Some st)"
  by (auto simp: answer_state_def find_append split: option.splits)

lemma answer_state_None: "\<forall>x \<in> set xs. cr_id x \<noteq> i \<Longrightarrow> answer_state xs i = None"
  by (auto simp: answer_state_def find_None_iff)

lemma ingest_Inr:
  assumes "ingest_clarification_answer s a = Inr s'"
  shows "answer_state (rv_clarification_requests s) (ca_request_id a) = Some CPending"
    and "answer_state (rv_clarification_requests s') =
          (answer_state (rv_clarification_requests s))(ca_request_id a \<mapsto> CAnswered)"
    and "map cr_id (rv_clarification_requests s') = map cr_id (rv_clarification_requests s)"
    and "ca_request_id a \<noteq> []"
    and "ready_clarification_ids s' = (if ca_request_id a \<in> set (ready_clarification_ids s)
           then ready_clarification_ids s else ready_clarification_ids s @ [ca_request_id a])"
    and "in_phase p s' \<longleftrightarrow> in_phase p s"
    and "rv_clarifications s' = rv_clarifications s @ [a]"
    and "rv_pending_clarification_ids s' = filter (\<lambda>i. i \<noteq> ca_request_id a) (rv_pending_clarification_ids s)"
proof -
  let ?rs = "rv_clarification_requests s" and ?i = "ca_request_id a"
  from assms obtain n r st where *: "pending_request ?rs ?i 0 = Inr (n, r)" "?i \<noteq> []"
     "s' = s\<lparr>rv_clarifications := rv_clarifications s @ [a],
             rv_clarification_requests := ?rs[n := r\<lparr>cr_status := Some CAnswered\<rparr>],
             rv_clarification_status := AList.update ?i st (rv_clarification_status s),
             rv_pending_clarification_ids := filter (\<lambda>i. i \<noteq> ?i) (rv_pending_clarification_ids s),
             ready_clarification_ids := (if ?i \<in> set (ready_clarification_ids s) then ready_clarification_ids s
                 else ready_clarification_ids s @ [?i])\<rparr>"
    unfolding ingest_clarification_answer_def by (auto simp: bindE_Inr_iff mk_checked_Inr_iff)
  from *(1) obtain xs ys where xs: "?rs = xs @ r # ys" "n = length xs" "\<forall>x \<in> set xs. cr_id x \<noteq> ?i"
      "cr_id r = ?i" "pending_now r" by (auto simp: pending_request_Inr_iff)
  have new: "rv_clarification_requests s' = xs @ r\<lparr>cr_status := Some CAnswered\<rparr> # ys"
    using xs * by (simp add: list_update_append)
  show "answer_state ?rs ?i = Some CPending"
    using xs by (simp add: answer_state_append answer_state_None)
  show "answer_state (rv_clarification_requests s') = (answer_state ?rs)(?i \<mapsto> CAnswered)"
  proof
    fix j
    show "answer_state (rv_clarification_requests s') j = ((answer_state ?rs)(?i \<mapsto> CAnswered)) j"
      using xs(3,4) by (cases "j = ?i")
        (simp_all add: new xs(1) answer_state_append answer_state_None request_status_def split: option.splits)
  qed
  show "map cr_id (rv_clarification_requests s') = map cr_id ?rs" using new xs(1) by simp
  show "?i \<noteq> []" by fact
  show "ready_clarification_ids s' = (if ?i \<in> set (ready_clarification_ids s)
           then ready_clarification_ids s else ready_clarification_ids s @ [?i])" using *(3) by simp
  show "in_phase p s' \<longleftrightarrow> in_phase p s" using *(3) by (cases p) simp_all
  show "rv_clarifications s' = rv_clarifications s @ [a]" using *(3) by simp
  show "rv_pending_clarification_ids s' = filter (\<lambda>i. i \<noteq> ?i) (rv_pending_clarification_ids s)" using *(3) by simp
qed

lemma ingest_valid_cursor: "ingest_clarification_answer s a = Inr s' \<Longrightarrow> valid_cursor s \<Longrightarrow> valid_cursor s'"
  using ingest_Inr(4-6)[of s a s'] by (auto simp: valid_cursor_def)

lemma ingest_error:
  assumes "answer_state (rv_clarification_requests s) (ca_request_id a) \<noteq> Some CPending"
  shows "ingest_clarification_answer s a = Inl (ValueError (''clarification request '' @ ca_request_id a @
     (if answer_state (rv_clarification_requests s) (ca_request_id a) = None
      then '' was not found'' else '' is not pending'')))"
  using pending_request_error[OF assms, of 0] by (simp add: ingest_clarification_answer_def)

lemma ingest_ok:
  assumes "answer_state (rv_clarification_requests s) (ca_request_id a) = Some CPending"
    and "\<forall>r \<in> set (rv_clarification_requests s). clarification_request_check r = None"
  shows "\<exists>s'. ingest_clarification_answer s a = Inr s'"
proof -
  from assms(1) obtain n r where nr: "pending_request (rv_clarification_requests s) (ca_request_id a) 0 = Inr (n, r)"
    using pending_request_ok_iff[of "rv_clarification_requests s" "ca_request_id a" 0] by (auto simp: is_ok_iff)
  then have r: "r \<in> set (rv_clarification_requests s)" "cr_id r = ca_request_id a"
    by (auto simp: pending_request_Inr_iff)
  then have chk: "clarification_request_check r = None" using assms(2) by blast
  then have "cr_id r \<noteq> []" by (auto simp: clarification_request_check_def check_defs split: if_splits)
  with nr r chk show ?thesis by (simp add: ingest_clarification_answer_def mk_checked_ok)
qed

end
