(* ===== verification/Stage_Loop.thy ===== *)
theory Stage_Loop
  imports Clarification
begin

text \<open>
  The model of the stage loop of \<open>_run_review_stages\<close> in \<open>src/src/reviewgraph/runner.py\<close>. The cursor is a local
  object of the loop, and its fields are copied into the routing state at the head of every iteration. What the
  body does between that copy and the clarification gate (selection, budget, execution, classification) is the
  parameter \<open>review\<close>: it may raise, it may change the reviewer fields of the routing state, and it yields the
  clarification requests that the classification appended. The loop, the gate and the answers are concrete.
\<close>

section \<open>The loop\<close>

record reviewing_result =
  rr_selected_reviewers :: "selected_reviewer list"
  rr_reviewer_run_keys :: "reviewer_run_key list"
  rr_reviewer_run_status :: "(string \<times> reviewer_run_status) list"
  rr_clarification_requests :: "clarification_request list"

type_synonym reviewing = "review_state \<Rightarrow> reviewing_result result"

record stage_run =
  sr_cursor :: stage_cursor
  sr_state :: review_state
  sr_requests :: "clarification_request list"
  sr_trace :: "stage_cursor_transition list"

datatype loop_control = NextIteration | ClarificationNeeded

definition answers_by_request_id :: "clarification_answer list \<Rightarrow> (string \<times> clarification_answer) list" where
  "answers_by_request_id as = map (\<lambda>a. (ca_request_id a, a)) as"

definition copy_cursor :: "stage_cursor \<Rightarrow> review_state \<Rightarrow> review_state" where
  "copy_cursor c s =
     s\<lparr>active_stage := active_stage c, suspended_stage := suspended_stage c, stage_queue := stage_queue c,
       completed_stages := completed_stages c, ready_clarification_ids := ready_clarification_ids c,
       active_clarification_id := active_clarification_id c\<rparr>"

definition apply_reviewing :: "reviewing_result \<Rightarrow> review_state \<Rightarrow> review_state" where
  "apply_reviewing r s =
     s\<lparr>rv_selected_reviewers := rr_selected_reviewers r, rv_reviewer_run_keys := rr_reviewer_run_keys r,
       rv_reviewer_run_status := rr_reviewer_run_status r\<rparr>"

text \<open>The end of the body: the gate over all requests so far, and the answers for it.\<close>

definition stage_gate :: "stage_cursor \<Rightarrow> review_state \<Rightarrow> clarification_request list \<Rightarrow> stage_cursor_transition list
    \<Rightarrow> (string \<times> clarification_answer) list \<Rightarrow> (loop_control \<times> stage_run) result" where
  "stage_gate c s classified trace answers =
     bindE (evaluate_clarification_gate classified) (\<lambda>gate.
     if gate_blocks_posting gate then
       bindE (ingest_available_clarification_answers s classified gate answers) (\<lambda>(answered, s2, classified').
         Inr (if answered
              then (NextIteration, \<lparr>sr_cursor = c\<lparr>ready_clarification_ids := ready_clarification_ids s2\<rparr>,
                    sr_state = s2, sr_requests = classified', sr_trace = trace\<rparr>)
              else (ClarificationNeeded, \<lparr>sr_cursor = c, sr_state = s2, sr_requests = classified',
                    sr_trace = trace\<rparr>)))
     else Inr (NextIteration, \<lparr>sr_cursor = c, sr_state = s, sr_requests = classified, sr_trace = trace\<rparr>))"

definition stage_iteration ::
    "reviewing \<Rightarrow> (string \<times> clarification_answer) list \<Rightarrow> stage_run \<Rightarrow> (loop_control \<times> stage_run) result" where
  "stage_iteration review answers run =
     bindE (advance_or_finish_stage (sr_cursor run)) (\<lambda>(t, c).
       let trace = sr_trace run @ [t]; s = copy_cursor c (sr_state run) in
       if active_stage c = None then Inl (RunnerError ''stage cursor did not activate a review stage'')
       else if starts_with ''finish_clarification_review_restore_'' (transition_reason t) then
         Inr (NextIteration, run\<lparr>sr_cursor := c, sr_state := s, sr_trace := trace\<rparr>)
       else
         bindE (review s) (\<lambda>r.
           stage_gate c (apply_reviewing r s) (sr_requests run @ rr_clarification_requests r) trace answers))"

text \<open>The while loop with fuel: \<open>None\<close> when the fuel runs out, else its result, an exception or the final state with
  the flag \<open>clarification_needed\<close>.\<close>

fun stage_loop :: "nat \<Rightarrow> reviewing \<Rightarrow> (string \<times> clarification_answer) list \<Rightarrow> stage_run
    \<Rightarrow> (bool \<times> stage_run) result option" where
  "stage_loop 0 review answers run = None"
| "stage_loop (Suc n) review answers run =
     (if stage_queue (sr_cursor run) = [] then Some (Inr (False, run))
      else case stage_iteration review answers run of
             Inl e \<Rightarrow> Some (Inl e)
           | Inr (ClarificationNeeded, run') \<Rightarrow> Some (Inr (True, run'))
           | Inr (NextIteration, run') \<Rightarrow> stage_loop n review answers run')"

text \<open>\<open>_stage_cursor_terminal_trace\<close>\<close>

definition stage_cursor_terminal_trace :: "stage_cursor \<Rightarrow> string \<Rightarrow> stage_cursor_transition" where
  "stage_cursor_terminal_trace c reason =
     \<lparr>active_stage_before = active_stage c, active_stage_after = active_stage c,
      suspended_stage_before = suspended_stage c, suspended_stage_after = suspended_stage c,
      stage_queue_before = stage_queue c, stage_queue_after = stage_queue c,
      completed_stages_before = completed_stages c, completed_stages_after = completed_stages c,
      transition_reason = reason\<rparr>"

definition after_stage_loop :: "bool \<times> stage_run \<Rightarrow> (bool \<times> stage_run) result" where
  "after_stage_loop = (\<lambda>(needed, run).
     if needed then
       Inr (True, run\<lparr>sr_trace := sr_trace run @
         [stage_cursor_terminal_trace (sr_cursor run) ''clarification_needed_end'']\<rparr>)
     else
       bindE (advance_or_finish_stage (sr_cursor run)) (\<lambda>(t, c).
         Inr (False, run\<lparr>sr_cursor := c, sr_trace := sr_trace run @ [t]\<rparr>)))"

definition initial_stage_run :: "review_state \<Rightarrow> stage_run" where
  "initial_stage_run s =
     \<lparr>sr_cursor = initial_stage_cursor, sr_state = s, sr_requests = [], sr_trace = []\<rparr>"

text \<open>Every iteration advances the cursor, and an answer schedules at most one more clarification review, so three
  stages and two iterations per answer bound the loop.\<close>

definition stage_fuel :: "clarification_answer list \<Rightarrow> nat" where
  "stage_fuel as = 5 + 2 * length as"

definition run_review_stages ::
    "reviewing \<Rightarrow> clarification_answer list \<Rightarrow> review_state \<Rightarrow> (bool \<times> stage_run) result option" where
  "run_review_stages review as s =
     (case stage_loop (stage_fuel as) review (answers_by_request_id as) (initial_stage_run s) of
        None \<Rightarrow> None
      | Some r \<Rightarrow> Some (bindE r after_stage_loop))"

section \<open>One iteration\<close>

text \<open>The answers that the loop may still record: their id has no request yet, or a pending one.\<close>

definition open_answers :: "(string \<times> clarification_answer) list \<Rightarrow> clarification_request list \<Rightarrow> string set" where
  "open_answers answers rs =
     {i \<in> fst ` set answers. answer_state rs i = None \<or> answer_state rs i = Some CPending}"

definition keyed_answers :: "(string \<times> clarification_answer) list \<Rightarrow> bool" where
  "keyed_answers answers \<longleftrightarrow> (\<forall>(i, a) \<in> set answers. ca_request_id a = i)"

lemma keyed_answers_by_request_id: "keyed_answers (answers_by_request_id as)"
  by (auto simp: keyed_answers_def answers_by_request_id_def)

lemma finite_open_answers [simp]: "finite (open_answers answers rs)"
  by (simp add: open_answers_def)

lemma open_answers_append: "open_answers answers (rs @ new) \<subseteq> open_answers answers rs"
  by (auto simp: open_answers_def answer_state_append split: option.split_asm)

lemma ingest_answers_progress:
  assumes "ingest_answers is' answers s answered = Inr (answered', s')" and "keyed_answers answers"
  shows "length (ready_clarification_ids s') + card (open_answers answers (rv_clarification_requests s'))
           \<le> length (ready_clarification_ids s) + card (open_answers answers (rv_clarification_requests s))
       \<and> (list_all non_empty (ready_clarification_ids s) \<longrightarrow> list_all non_empty (ready_clarification_ids s'))"
  using assms
proof (induction is' answers s answered rule: ingest_answers.induct)
  case (1 answers s answered)
  then show ?case by simp
next
  case (2 i is' answers s answered)
  show ?case
  proof (cases "dict_get answers i")
    case None
    with 2 show ?thesis by simp
  next
    case (Some a)
    with "2.prems"(1) obtain s1 where s1: "ingest_clarification_answer s a = Inr s1"
        "ingest_answers is' answers s1 True = Inr (answered', s')" by (auto simp: bindE_Inr_iff)
    note ing = ingest_Inr[OF s1(1)]
    let ?o = "open_answers answers (rv_clarification_requests s)"
    have i: "ca_request_id a = i" "i \<in> fst ` set answers"
      using dict_get_Some_in[OF Some] "2.prems"(2) by (force simp: keyed_answers_def)+
    then have mem: "i \<in> ?o" using ing(1) by (simp add: open_answers_def)
    have "open_answers answers (rv_clarification_requests s1) = ?o - {i}"
      using ing(2) i by (auto simp: open_answers_def)
    then have "card (open_answers answers (rv_clarification_requests s1)) + 1 = card ?o"
      using card_Suc_Diff1[OF finite_open_answers mem] by simp
    then show ?thesis
      using "2.IH"(2)[OF Some s1(2) "2.prems"(2)] ing(4,5) by (auto split: if_splits)
  qed
qed

lemma ingest_available_progress:
  assumes "ingest_available_clarification_answers s classified gate answers = Inr (answered, s', classified')"
    and "keyed_answers answers"
  shows "answered \<longrightarrow> length (ready_clarification_ids s') + card (open_answers answers classified')
           \<le> length (ready_clarification_ids s) + card (open_answers answers classified)"
    and "list_all non_empty (ready_clarification_ids s) \<longrightarrow> list_all non_empty (ready_clarification_ids s')"
  using assms ingest_answers_progress
  by (auto simp: ingest_available_clarification_answers_def bindE_Inr_iff) fastforce+

lemma copy_cursor_fields [simp]:
  "ready_clarification_ids (copy_cursor c s) = ready_clarification_ids c"
  "ready_clarification_ids (apply_reviewing r s) = ready_clarification_ids s"
  by (simp_all add: copy_cursor_def apply_reviewing_def)

text \<open>What an iteration does to the cursor and to the ledger of answers.\<close>

lemma stage_iteration_cases:
  assumes "stage_iteration review answers run = Inr (ctl, run')" and "keyed_answers answers"
  obtains t c where "advance_or_finish_stage (sr_cursor run) = Inr (t, c)" "active_stage c \<noteq> None"
    "\<exists>ids. sr_cursor run' = c\<lparr>ready_clarification_ids := ids\<rparr>
       \<and> (list_all non_empty (ready_clarification_ids c) \<longrightarrow> list_all non_empty ids)
       \<and> (ctl = NextIteration \<longrightarrow> length ids + card (open_answers answers (sr_requests run'))
            \<le> length (ready_clarification_ids c) + card (open_answers answers (sr_requests run)))"
proof -
  from assms(1) obtain t c where adv: "advance_or_finish_stage (sr_cursor run) = Inr (t, c)"
    unfolding stage_iteration_def by (auto simp: bindE_Inr_iff)
  have act: "active_stage c \<noteq> None"
    using assms(1) adv by (auto simp: stage_iteration_def stage_gate_def Let_def split: if_split_asm)
  let ?s = "copy_cursor c (sr_state run)" and ?ids = "ready_clarification_ids c"
  let ?open = "\<lambda>rs. card (open_answers answers rs)"
  have mono: "?open (sr_requests run @ new) \<le> ?open (sr_requests run)" for new
    by (intro card_mono finite_open_answers open_answers_append)
  consider (restored) "run' = run\<lparr>sr_cursor := c, sr_state := ?s, sr_trace := sr_trace run @ [t]\<rparr>"
    | (passed) r where "run' = \<lparr>sr_cursor = c, sr_state = apply_reviewing r ?s,
        sr_requests = sr_requests run @ rr_clarification_requests r, sr_trace = sr_trace run @ [t]\<rparr>"
    | (gated) r g answered s2 classified' where
        "ingest_available_clarification_answers (apply_reviewing r ?s)
           (sr_requests run @ rr_clarification_requests r) g answers = Inr (answered, s2, classified')"
        "(ctl, run') = (if answered
           then (NextIteration, \<lparr>sr_cursor = c\<lparr>ready_clarification_ids := ready_clarification_ids s2\<rparr>,
                 sr_state = s2, sr_requests = classified', sr_trace = sr_trace run @ [t]\<rparr>)
           else (ClarificationNeeded, \<lparr>sr_cursor = c, sr_state = s2, sr_requests = classified',
                 sr_trace = sr_trace run @ [t]\<rparr>))"
    using assms(1) adv act
    by (auto simp: stage_iteration_def stage_gate_def bindE_Inr_iff Let_def split: if_split_asm)
  then have "\<exists>ids. sr_cursor run' = c\<lparr>ready_clarification_ids := ids\<rparr>
       \<and> (list_all non_empty ?ids \<longrightarrow> list_all non_empty ids)
       \<and> (ctl = NextIteration \<longrightarrow> length ids + ?open (sr_requests run') \<le> length ?ids + ?open (sr_requests run))"
  proof cases
    case restored
    then show ?thesis by (intro exI[of _ ?ids]) simp
  next
    case passed
    then show ?thesis using mono by (intro exI[of _ ?ids]) simp
  next
    case gated
    note prog = ingest_available_progress[OF gated(1) assms(2)]
    show ?thesis
    proof (cases answered)
      case True
      then show ?thesis using gated(2) prog mono[of "rr_clarification_requests r"]
        by (intro exI[of _ "ready_clarification_ids s2"]) auto
    next
      case False
      then show ?thesis using gated(2) by (intro exI[of _ ?ids]) simp
    qed
  qed
  with adv act that show thesis by blast
qed

lemma stage_iteration_progress:
  assumes "stage_iteration review answers run = Inr (ctl, run')" and "keyed_answers answers"
    and "valid_cursor (sr_cursor run)" and "stage_queue (sr_cursor run) \<noteq> []"
  shows "valid_cursor (sr_cursor run')"
    and "stage_queue (sr_cursor run') = [] \<Longrightarrow> in_phase (Reviewing 2) (sr_cursor run')"
    and "ctl = NextIteration \<Longrightarrow>
      cursor_remaining (sr_cursor run') + 2 * card (open_answers answers (sr_requests run'))
        < cursor_remaining (sr_cursor run) + 2 * card (open_answers answers (sr_requests run))"
proof -
  let ?c = "sr_cursor run" and ?c' = "sr_cursor run'"
  from stage_iteration_cases[OF assms(1,2)] obtain t c1 ids where it:
      "advance_or_finish_stage ?c = Inr (t, c1)" "active_stage c1 \<noteq> None"
      "?c' = c1\<lparr>ready_clarification_ids := ids\<rparr>"
      "list_all non_empty (ready_clarification_ids c1) \<longrightarrow> list_all non_empty ids"
      "ctl = NextIteration \<longrightarrow> length ids + card (open_answers answers (sr_requests run'))
            \<le> length (ready_clarification_ids c1) + card (open_answers answers (sr_requests run))"
    by metis
  from assms(3) obtain p where p: "in_phase p ?c" "list_all non_empty (ready_clarification_ids ?c)"
    by (auto simp: valid_cursor_def)
  obtain p1 ids1 where st: "phase_step p (ready_clarification_ids ?c) = (p1, ids1)" by fastforce
  from advance_phase[OF p(1) st p(2)] it(1)
  have c1: "in_phase p1 c1" "ready_clarification_ids c1 = ids1" by auto
  have ph: "in_phase p1 ?c'" using c1(1) it(3) by simp
  have fin: "p \<noteq> Finished" "p1 \<noteq> Finished" using p(1) assms(4) c1(1) it(2) by auto
  have "list_all non_empty ids1" using p(2) phase_step_ids[OF st] by (auto simp: list_all_iff)
  then show "valid_cursor ?c'" using ph it(3,4) c1(2) by (auto simp: valid_cursor_def)
  show "in_phase (Reviewing 2) ?c'" if q: "stage_queue ?c' = []"
  proof -
    have "p1 = Reviewing 2"
      using st p(1) ph q fin assms(4)
      by (cases "(p, ready_clarification_ids ?c)" rule: phase_step.cases)
        (auto simp: lt3_cases NORMAL_REVIEW_STAGES_def split: if_splits)
    with ph show ?thesis by simp
  qed
  have "\<And>k. p = Reviewing k \<Longrightarrow> k < 3" using p(1) by auto
  from phase_step_remaining[OF st fin(1) this]
  have "cursor_remaining ?c = Suc (phase_remaining p1 ids1)"
    by (simp add: cursor_remaining_phase[OF p(1)])
  moreover have "cursor_remaining ?c' + 2 * length ids1 = phase_remaining p1 ids1 + 2 * length ids"
    using fin(2) it(3) by (subst cursor_remaining_phase[OF ph]) (cases p1; simp)
  ultimately show "ctl = NextIteration \<Longrightarrow>
      cursor_remaining ?c' + 2 * card (open_answers answers (sr_requests run'))
        < cursor_remaining ?c + 2 * card (open_answers answers (sr_requests run))"
    using it(5) c1(2) by simp
qed

section \<open>The loop ends\<close>

lemma stage_loop_ends:
  assumes "cursor_remaining (sr_cursor run) + 2 * card (open_answers answers (sr_requests run)) < n"
    and "keyed_answers answers" and "valid_cursor (sr_cursor run)"
  shows "\<exists>r. stage_loop n review answers run = Some r"
  using assms(1,3)
proof (induction n arbitrary: run)
  case 0
  then show ?case by simp
next
  case (Suc n)
  show ?case
  proof (cases "stage_queue (sr_cursor run) = []")
    case True
    then show ?thesis by simp
  next
    case False
    show ?thesis
    proof (cases "stage_iteration review answers run")
      case (Inl e)
      with False show ?thesis by simp
    next
      case (Inr res)
      then obtain ctl run' where res: "stage_iteration review answers run = Inr (ctl, run')" by (cases res) auto
      note prog = stage_iteration_progress[OF res assms(2) Suc.prems(2) False]
      show ?thesis
      proof (cases ctl)
        case NextIteration
        with prog(3) Suc.prems(1)
        have "cursor_remaining (sr_cursor run') + 2 * card (open_answers answers (sr_requests run')) < n" by simp
        from Suc.IH[OF this prog(1)] show ?thesis using False res NextIteration by simp
      next
        case ClarificationNeeded
        with False res show ?thesis by simp
      qed
    qed
  qed
qed

lemma stage_loop_result:
  assumes "stage_loop n review answers run = Some (Inr (needed, run'))"
    and "keyed_answers answers" and "valid_cursor (sr_cursor run)"
    and "stage_queue (sr_cursor run) = [] \<longrightarrow> in_phase (Reviewing 2) (sr_cursor run)"
  shows "valid_cursor (sr_cursor run') \<and> (\<not> needed \<longrightarrow> in_phase (Reviewing 2) (sr_cursor run'))"
  using assms(1,3,4)
proof (induction n arbitrary: run)
  case 0
  then show ?case by simp
next
  case (Suc n)
  show ?case
  proof (cases "stage_queue (sr_cursor run) = []")
    case True
    with Suc.prems show ?thesis by auto
  next
    case False
    from Suc.prems(1) False obtain ctl run1 where res: "stage_iteration review answers run = Inr (ctl, run1)"
      by (auto split: sum.split_asm)
    note prog = stage_iteration_progress[OF res assms(2) Suc.prems(2) False]
    show ?thesis
    proof (cases ctl)
      case NextIteration
      with Suc.prems(1) False res have "stage_loop n review answers run1 = Some (Inr (needed, run'))" by simp
      from Suc.IH[OF this prog(1)] prog(2) show ?thesis by blast
    next
      case ClarificationNeeded
      with Suc.prems(1) False res prog(1) show ?thesis by simp
    qed
  qed
qed

lemma initial_run_facts:
  "valid_cursor (sr_cursor (initial_stage_run s))" "stage_queue (sr_cursor (initial_stage_run s)) \<noteq> []"
  "cursor_remaining (sr_cursor (initial_stage_run s)) = 4"
  using initial_valid
  by (simp_all add: initial_stage_run_def initial_stage_cursor_def NORMAL_REVIEW_STAGES_def cursor_remaining_def)

lemma stage_fuel_enough:
  "cursor_remaining (sr_cursor (initial_stage_run s))
     + 2 * card (open_answers (answers_by_request_id as) (sr_requests (initial_stage_run s))) < stage_fuel as"
proof -
  have "card (open_answers (answers_by_request_id as) rs) \<le> card (fst ` set (answers_by_request_id as))" for rs
    by (intro card_mono) (auto simp: open_answers_def)
  also have "card (fst ` set (answers_by_request_id as)) \<le> length (answers_by_request_id as)"
    using card_image_le card_length le_trans by (metis List.finite_set)
  finally have "card (open_answers (answers_by_request_id as) (sr_requests (initial_stage_run s))) \<le> length as"
    by (simp add: answers_by_request_id_def)
  then show ?thesis by (simp add: initial_run_facts stage_fuel_def)
qed

lemma run_review_stages_passed:
  assumes "run_review_stages review as s = Some (Inr (False, run'))"
  shows "in_phase Finished (sr_cursor run') \<or> (\<exists>i. in_phase (Clarifying 2 i) (sr_cursor run'))"
proof -
  from assms obtain run where run: "stage_loop (stage_fuel as) review (answers_by_request_id as) (initial_stage_run s)
        = Some (Inr (False, run))" "after_stage_loop (False, run) = Inr (False, run')"
    by (auto simp: run_review_stages_def bindE_Inr_iff after_stage_loop_def split: option.split_asm if_split_asm)
  have v: "valid_cursor (sr_cursor run)" "in_phase (Reviewing 2) (sr_cursor run)"
    using stage_loop_result[OF run(1) keyed_answers_by_request_id initial_run_facts(1)]
      initial_run_facts(2) by auto
  let ?ids = "ready_clarification_ids (sr_cursor run)"
  from v(1) have ne: "list_all non_empty ?ids" by (simp add: valid_cursor_def)
  obtain p ids where st: "phase_step (Reviewing 2) ?ids = (p, ids)" by fastforce
  then have p: "p = Finished \<or> (\<exists>i. p = Clarifying 2 i)" by (cases ?ids) auto
  from advance_phase[OF v(2) st ne] run(2) have "in_phase p (sr_cursor run')"
    by (auto simp: after_stage_loop_def)
  with p show ?thesis by auto
qed

lemma ingest_answers_flag: "ingest_answers is' answers s True = Inr (b, s') \<Longrightarrow> b"
  by (induction is' answers s True rule: ingest_answers.induct)
    (auto simp: bindE_Inr_iff split: option.split_asm)

lemma ingest_answers_none:
  assumes "ingest_answers is' answers s False = Inr (False, s')"
  shows "\<forall>i \<in> set is'. dict_get answers i = None"
  using assms
proof (induction is')
  case (Cons i is')
  show ?case
  proof (cases "dict_get answers i")
    case None
    with Cons show ?thesis by simp
  next
    case (Some a)
    with Cons.prems obtain s1 where "ingest_answers is' answers s1 True = Inr (False, s')"
      by (auto simp: bindE_Inr_iff)
    from ingest_answers_flag[OF this] show ?thesis by simp
  qed
qed simp

lemma stage_iteration_blocked:
  assumes "stage_iteration review answers run = Inr (ClarificationNeeded, run')"
  shows "\<exists>g. evaluate_clarification_gate (sr_requests run') = Inr g \<and> gate_blocks_posting g
           \<and> (\<forall>i \<in> set (gate_blocking_pending_ids g). dict_get answers i = None)"
  using assms ingest_answers_none
  by (fastforce simp: stage_iteration_def stage_gate_def bindE_Inr_iff Let_def ingest_available_clarification_answers_def
      split: if_split_asm)

lemma stage_loop_blocked:
  assumes "stage_loop n review answers run = Some (Inr (True, run'))"
  shows "\<exists>g. evaluate_clarification_gate (sr_requests run') = Inr g \<and> gate_blocks_posting g
           \<and> (\<forall>i \<in> set (gate_blocking_pending_ids g). dict_get answers i = None)"
  using assms
proof (induction n arbitrary: run)
  case (Suc n)
  from Suc.prems obtain ctl run1 where res: "stage_iteration review answers run = Inr (ctl, run1)"
    by (auto split: sum.split_asm if_split_asm)
  show ?case
  proof (cases ctl)
    case NextIteration
    with Suc.prems res Suc.IH show ?thesis by (simp split: if_split_asm)
  next
    case ClarificationNeeded
    with Suc.prems res stage_iteration_blocked show ?thesis by (fastforce split: if_split_asm)
  qed
qed simp

lemma dict_get_answers_None_iff:
  "dict_get (answers_by_request_id as) i = None \<longleftrightarrow> i \<notin> ca_request_id ` set as"
  by (auto simp: dict_get_None_iff answers_by_request_id_def image_image)

lemma run_review_stages_blocked:
  assumes "run_review_stages review as s = Some (Inr (True, run'))"
  shows "\<exists>g. evaluate_clarification_gate (sr_requests run') = Inr g \<and> gate_blocks_posting g
           \<and> (\<forall>i \<in> set (gate_blocking_pending_ids g). i \<notin> ca_request_id ` set as)"
proof -
  from assms obtain run where run: "stage_loop (stage_fuel as) review (answers_by_request_id as) (initial_stage_run s)
        = Some (Inr (True, run))" "sr_requests run' = sr_requests run"
    by (auto simp: run_review_stages_def bindE_Inr_iff after_stage_loop_def split: option.split_asm if_split_asm)
  from stage_loop_blocked[OF run(1)] run(2) show ?thesis by (simp add: dict_get_answers_None_iff)
qed

section \<open>Clarifications of the last stage\<close>

text \<open>While stages are queued, no step of the cursor enters the clarification review of the last stage.\<close>

abbreviation clarifies_last_stage :: "'a stage_cursor_scheme \<Rightarrow> bool" where
  "clarifies_last_stage c \<equiv> active_stage c = Some ClarificationReview \<and> suspended_stage c = Some LogicReview"

lemma queued_never_clarifies_last:
  assumes "valid_cursor c" and "stage_queue c \<noteq> []" and "advance_or_finish_stage c = Inr (t, c')"
  shows "\<not> clarifies_last_stage c'" and "set (ready_clarification_ids c') \<subseteq> set (ready_clarification_ids c)"
proof -
  from assms(1) obtain p where p: "in_phase p c" "list_all non_empty (ready_clarification_ids c)"
    by (auto simp: valid_cursor_def)
  obtain p' ids where st: "phase_step p (ready_clarification_ids c) = (p', ids)" by fastforce
  from advance_phase[OF p(1) st p(2)] assms(3)
  have c': "in_phase p' c'" "ready_clarification_ids c' = ids" by auto
  show "\<not> clarifies_last_stage c'"
    using st p(1) c'(1) assms(2)
    by (cases "(p, ready_clarification_ids c)" rule: phase_step.cases)
      (auto simp: lt3_cases NORMAL_REVIEW_STAGES_def split: if_splits)
  show "set (ready_clarification_ids c') \<subseteq> set (ready_clarification_ids c)"
    using phase_step_ids[OF st] c'(2) by simp
qed

lemma stage_iteration_cong:
  assumes "\<And>s. \<not> clarifies_last_stage s \<Longrightarrow> review s = review' s"
    and "valid_cursor (sr_cursor run)" and "stage_queue (sr_cursor run) \<noteq> []"
  shows "stage_iteration review answers run = stage_iteration review' answers run"
proof (cases "advance_or_finish_stage (sr_cursor run)")
  case (Inl e)
  then show ?thesis by (simp add: stage_iteration_def)
next
  case (Inr tc)
  then obtain t c where adv: "advance_or_finish_stage (sr_cursor run) = Inr (t, c)" by (cases tc) auto
  from queued_never_clarifies_last(1)[OF assms(2,3) adv]
  have "\<not> clarifies_last_stage (copy_cursor c (sr_state run))" by (simp add: copy_cursor_def)
  from assms(1)[OF this] adv show ?thesis by (simp add: stage_iteration_def Let_def)
qed

lemma stage_loop_cong:
  assumes same: "\<And>s. \<not> clarifies_last_stage s \<Longrightarrow> review s = review' s"
    and "keyed_answers answers" and "valid_cursor (sr_cursor run)"
  shows "stage_loop n review answers run = stage_loop n review' answers run"
  using assms(3)
proof (induction n arbitrary: run)
  case 0
  show ?case by simp
next
  case (Suc n)
  show ?case
  proof (cases "stage_queue (sr_cursor run) = []")
    case True
    then show ?thesis by simp
  next
    case False
    have "stage_loop n review answers run' = stage_loop n review' answers run'"
      if "stage_iteration review answers run = Inr (NextIteration, run')" for run'
      by (rule Suc.IH[OF stage_iteration_progress(1)[OF that assms(2) Suc.prems False]])
    with False stage_iteration_cong[OF same Suc.prems False, where answers = answers] show ?thesis
      by (auto split: sum.split loop_control.split)
  qed
qed

text \<open>Every id that is ready for a clarification review has an answer that the state records.\<close>

definition ready_recorded :: "(string \<times> clarification_answer) list \<Rightarrow> string list \<Rightarrow> 'a review_state_scheme \<Rightarrow> bool" where
  "ready_recorded answers ids s \<longleftrightarrow>
     (\<forall>i \<in> set ids. \<exists>a. (i, a) \<in> set answers \<and> a \<in> set (rv_clarifications s))"

lemma ready_recorded_cong:
  "ready_recorded answers ids s \<Longrightarrow> set ids' \<subseteq> set ids \<Longrightarrow> set (rv_clarifications s) \<subseteq> set (rv_clarifications s')
     \<Longrightarrow> ready_recorded answers ids' s'"
  by (fastforce simp: ready_recorded_def)

lemma ingest_answers_recorded:
  assumes "ingest_answers is' answers s answered = Inr (answered', s')" and "keyed_answers answers"
    and "ready_recorded answers (ready_clarification_ids s) s"
  shows "ready_recorded answers (ready_clarification_ids s') s'
     \<and> set (rv_clarifications s) \<subseteq> set (rv_clarifications s')"
  using assms
proof (induction is' answers s answered rule: ingest_answers.induct)
  case (2 i is' answers s answered)
  show ?case
  proof (cases "dict_get answers i")
    case None
    with 2 show ?thesis by simp
  next
    case (Some a)
    with "2.prems"(1) obtain s1 where s1: "ingest_clarification_answer s a = Inr s1"
        "ingest_answers is' answers s1 True = Inr (answered', s')" by (auto simp: bindE_Inr_iff)
    have mem: "(i, a) \<in> set answers" by (rule dict_get_Some_in[OF Some])
    then have "ca_request_id a = i" using "2.prems"(2) by (auto simp: keyed_answers_def)
    with mem ingest_Inr(5,7)[OF s1(1)] "2.prems"(3)
    have "ready_recorded answers (ready_clarification_ids s1) s1"
      by (auto simp: ready_recorded_def split: if_splits)
    from "2.IH"(2)[OF Some s1(2) "2.prems"(2) this] ingest_Inr(7)[OF s1(1)] show ?thesis by auto
  qed
qed simp

lemma stage_iteration_recorded:
  assumes "stage_iteration review answers run = Inr (ctl, run')" and "keyed_answers answers"
    and "valid_cursor (sr_cursor run)" and "stage_queue (sr_cursor run) \<noteq> []"
    and "ready_recorded answers (ready_clarification_ids (sr_cursor run)) (sr_state run)"
  shows "ready_recorded answers (ready_clarification_ids (sr_cursor run')) (sr_state run')"
proof -
  from assms(1) obtain t c where adv: "advance_or_finish_stage (sr_cursor run) = Inr (t, c)"
    by (auto simp: stage_iteration_def bindE_Inr_iff)
  note ids = queued_never_clarifies_last(2)[OF assms(3,4) adv]
  have rec: "ready_recorded answers (ready_clarification_ids c) s"
    if "rv_clarifications s = rv_clarifications (sr_state run)" for s :: review_state
    by (rule ready_recorded_cong[OF assms(5) ids]) (simp add: that)
  have same: "rv_clarifications (copy_cursor c (sr_state run)) = rv_clarifications (sr_state run)"
    "rv_clarifications (apply_reviewing r (copy_cursor c (sr_state run))) = rv_clarifications (sr_state run)" for r
    by (simp_all add: copy_cursor_def apply_reviewing_def)
  show ?thesis
  proof (cases "\<exists>r g answered s2 classified'. ingest_available_clarification_answers
      (apply_reviewing r (copy_cursor c (sr_state run))) (sr_requests run @ rr_clarification_requests r) g answers
        = Inr (answered, s2, classified') \<and> sr_state run' = s2
      \<and> sr_cursor run' = (if answered then c\<lparr>ready_clarification_ids := ready_clarification_ids s2\<rparr> else c)")
    case True
    then obtain r g answered s2 cl where gated: "ingest_available_clarification_answers
        (apply_reviewing r (copy_cursor c (sr_state run))) (sr_requests run @ rr_clarification_requests r) g answers
        = Inr (answered, s2, cl)" "sr_state run' = s2"
      "sr_cursor run' = (if answered then c\<lparr>ready_clarification_ids := ready_clarification_ids s2\<rparr> else c)"
      by blast
    then have "ready_recorded answers (ready_clarification_ids s2) s2
        \<and> set (rv_clarifications (sr_state run)) \<subseteq> set (rv_clarifications s2)"
      using ingest_answers_recorded[OF _ assms(2)] rec same
      by (fastforce simp: ingest_available_clarification_answers_def bindE_Inr_iff)
    then show ?thesis using gated by (auto intro: ready_recorded_cong[OF assms(5) ids])
  next
    case False
    with assms(1) adv have "sr_cursor run' = c \<and> rv_clarifications (sr_state run') = rv_clarifications (sr_state run)"
      by (auto simp: stage_iteration_def stage_gate_def bindE_Inr_iff Let_def same split: if_split_asm) blast+
    with rec show ?thesis by simp
  qed
qed

lemma stage_loop_recorded:
  assumes "stage_loop n review answers run = Some (Inr (needed, run'))" and "keyed_answers answers"
    and "valid_cursor (sr_cursor run)"
    and "ready_recorded answers (ready_clarification_ids (sr_cursor run)) (sr_state run)"
  shows "ready_recorded answers (ready_clarification_ids (sr_cursor run')) (sr_state run')"
  using assms(1,3,4)
proof (induction n arbitrary: run)
  case (Suc n)
  show ?case
  proof (cases "stage_queue (sr_cursor run) = []")
    case True
    with Suc.prems show ?thesis by simp
  next
    case False
    from Suc.prems(1) False obtain ctl run1 where res: "stage_iteration review answers run = Inr (ctl, run1)"
      by (auto split: sum.split_asm)
    note valid = stage_iteration_progress(1)[OF res assms(2) Suc.prems(2) False]
    note rec = stage_iteration_recorded[OF res assms(2) Suc.prems(2) False Suc.prems(3)]
    show ?thesis
    proof (cases ctl)
      case NextIteration
      with Suc.prems(1) False res Suc.IH[OF _ valid rec] show ?thesis by simp
    next
      case ClarificationNeeded
      with Suc.prems(1) False res rec show ?thesis by simp
    qed
  qed
qed simp

text \<open>The one step after the loop: from the last stage, with the cursor's ready ids.\<close>

lemma advance_from_last_stage:
  assumes "in_phase (Reviewing 2) c" and "list_all non_empty (ready_clarification_ids c)"
    and "advance_or_finish_stage c = Inr (t, c')" and "active_stage c' \<noteq> None"
  shows "clarifies_last_stage c' \<and> LogicReview \<notin> set (completed_stages c')
     \<and> transition_reason t = ''enter_clarification_review''
     \<and> (\<exists>i \<in> set (ready_clarification_ids c). active_clarification_id c' = Some i)"
proof (cases "ready_clarification_ids c")
  case Nil
  with advance_phase[OF assms(1) _ assms(2), of Finished "[]"] assms(3,4) show ?thesis by simp
next
  case (Cons i ids)
  with advance_phase[OF assms(1) _ assms(2), of "Clarifying 2 i" ids] assms(3)
  have "in_phase (Clarifying 2 i) c'" by simp
  moreover have "transition_reason t = ''enter_clarification_review''"
    using assms(1,3) Cons
    by (auto simp: advance_or_finish_stage_def bindE_Inr_iff advance_unchecked_def Let_def NORMAL_REVIEW_STAGES_def
        split: if_split_asm)
  ultimately show ?thesis using Cons by (auto simp: NORMAL_REVIEW_STAGES_def)
qed

lemma run_review_stages_left_active:
  assumes "run_review_stages review as s = Some (Inr (False, run))" and "active_stage (sr_cursor run) \<noteq> None"
  shows "clarifies_last_stage (sr_cursor run) \<and> LogicReview \<notin> set (completed_stages (sr_cursor run))
     \<and> transition_reason (last (sr_trace run)) = ''enter_clarification_review''
     \<and> (\<exists>a \<in> set as. active_clarification_id (sr_cursor run) = Some (ca_request_id a)
          \<and> a \<in> set (rv_clarifications (sr_state run)))"
proof -
  from assms(1) obtain run1 where run1: "stage_loop (stage_fuel as) review (answers_by_request_id as) (initial_stage_run s)
        = Some (Inr (False, run1))" "after_stage_loop (False, run1) = Inr (False, run)"
    by (auto simp: run_review_stages_def bindE_Inr_iff after_stage_loop_def split: option.split_asm if_split_asm)
  from run1(2) obtain t c where adv: "advance_or_finish_stage (sr_cursor run1) = Inr (t, c)"
    "run = run1\<lparr>sr_cursor := c, sr_trace := sr_trace run1 @ [t]\<rparr>"
    by (auto simp: after_stage_loop_def bindE_Inr_iff)
  have v: "valid_cursor (sr_cursor run1)" "in_phase (Reviewing 2) (sr_cursor run1)"
    using stage_loop_result[OF run1(1) keyed_answers_by_request_id initial_run_facts(1)]
      initial_run_facts(2) by auto
  then have "list_all non_empty (ready_clarification_ids (sr_cursor run1))" by (simp add: valid_cursor_def)
  note step = advance_from_last_stage[OF v(2) this adv(1)]
  have "ready_recorded (answers_by_request_id as) (ready_clarification_ids (sr_cursor run1)) (sr_state run1)"
    by (rule stage_loop_recorded[OF run1(1) keyed_answers_by_request_id initial_run_facts(1)])
      (simp add: ready_recorded_def initial_stage_run_def initial_stage_cursor_def)
  then have "\<forall>i \<in> set (ready_clarification_ids (sr_cursor run1)). \<exists>a \<in> set as. ca_request_id a = i
      \<and> a \<in> set (rv_clarifications (sr_state run1))"
    by (fastforce simp: ready_recorded_def answers_by_request_id_def)
  with step assms(2) adv(2) show ?thesis by auto
qed

section \<open>A concrete run\<close>

definition sample_state :: review_state where
  "sample_state = \<lparr>active_stage = None, suspended_stage = None, stage_queue = NORMAL_REVIEW_STAGES,
     completed_stages = [], ready_clarification_ids = [], active_clarification_id = None,
     rv_review_target = sample_target, rv_config_hash = ''c'', rv_selected_reviewers = [], rv_reviewer_run_keys = [],
     rv_reviewer_run_status = [], rv_clarification_requests = [], rv_pending_clarification_ids = [],
     rv_clarifications = [], rv_clarification_status = []\<rparr>"

definition sample_request :: clarification_request where
  "sample_request = \<lparr>cr_id = ''c1'', cr_reviewer = ''logic'', cr_question = ''q'', cr_why_it_matters = ''w'',
     cr_blocks_verdict = True, cr_classification = ClarificationRequestOutput, cr_source_stage = None,
     cr_source_run_key = None, cr_status = None, cr_resume_target_stage = None, cr_resume_target_reviewers = [],
     cr_evidence_sources = [], cr_evidence_memory_ids = []\<rparr>"

definition sample_answer :: clarification_answer where
  "sample_answer = \<lparr>ca_id = ''a1'', ca_request_id = ''c1'', ca_answer = ''yes'', ca_answered_by = ''me'',
     ca_answered_at = ''now''\<rparr>"

text \<open>A reviewer that asks one blocking question in the given stage and finds nothing else.\<close>

definition asks_in :: "review_stage \<Rightarrow> reviewing" where
  "asks_in st s = Inr \<lparr>rr_selected_reviewers = [], rr_reviewer_run_keys = [], rr_reviewer_run_status = [],
     rr_clarification_requests = (if active_stage s = Some st then [sample_request] else [])\<rparr>"

section \<open>Properties\<close>

text \<open>C5. The stage loop terminates: whatever the reviewers do and whatever clarifications they raise, again and
  again, five iterations plus two per supplied answer suffice for the loop to end, with a result or an exception.\<close>

theorem run_review_stages_terminates:
  "\<exists>r. run_review_stages review as s = Some r"
proof -
  from stage_loop_ends[OF stage_fuel_enough keyed_answers_by_request_id initial_run_facts(1)]
  obtain r where "stage_loop (stage_fuel as) review (answers_by_request_id as) (initial_stage_run s) = Some r"
    by blast
  then show ?thesis by (simp add: run_review_stages_def)
qed

text \<open>C6. How the loop ends. When it reports that no clarification is needed, the cursor has either completed all
  stages or entered a clarification review on top of the last one; when it reports that one is needed, the
  gate over the requests it returns blocks posting, and none of the blocking ids has an answer.\<close>

theorem run_review_stages_outcome:
  assumes "run_review_stages review as s = Some (Inr (needed, run))"
  shows "(\<not> needed \<longrightarrow> in_phase Finished (sr_cursor run) \<or> (\<exists>i. in_phase (Clarifying 2 i) (sr_cursor run)))
    \<and> (needed \<longrightarrow> (\<exists>g. evaluate_clarification_gate (sr_requests run) = Inr g \<and> gate_blocks_posting g
         \<and> (\<forall>i \<in> set (gate_blocking_pending_ids g). i \<notin> ca_request_id ` set as)))"
  using assms run_review_stages_passed[of review as s run] run_review_stages_blocked[of review as s run]
  by (cases needed) auto

lemmas run_eval = run_review_stages_def stage_fuel_def initial_stage_run_def sample_state_def sample_answer_def
  sample_request_def asks_in_def eval_nat_numeral stage_iteration_def stage_gate_def advance_or_finish_stage_def
  validate_stage_cursor_def stage_cursor_checks_def validate_normal_stage_order_def NORMAL_REVIEW_STAGES_def
  initial_stage_cursor_def has_duplicates_def advance_unchecked_def copy_cursor_def apply_reviewing_def starts_with_def
  evaluate_clarification_gate_def request_status_def mk_checked_def clarification_status_check_def
  clarification_request_check_def check_defs raw_finding_evidence_sources_def
  ingest_available_clarification_answers_def ingest_clarification_answer_def answers_by_request_id_def
  dict_get_def after_stage_loop_def stage_cursor_terminal_trace_def Let_def

theorem run_review_stages_outcome_witness:
  "\<exists>run. run_review_stages (asks_in SpecializedReview) [] sample_state = Some (Inr (True, run))
     \<and> (\<exists>g. evaluate_clarification_gate (sr_requests run) = Inr g \<and> gate_blocks_posting g)"
proof -
  have "\<exists>run. run_review_stages (asks_in SpecializedReview) [] sample_state = Some (Inr (True, run))"
    by (simp add: run_eval)
  then obtain run where run: "run_review_stages (asks_in SpecializedReview) [] sample_state = Some (Inr (True, run))" ..
  from run_review_stages_outcome[OF run] run show ?thesis by blast
qed

text \<open>C7. A clarification that is answered in the last stage is never reviewed. Whatever the reviewers would do in a
  clarification review of \<open>logic_review\<close>, even raise, no run changes: they are never called there. And whenever a
  run succeeds with a stage still active, that stage is the clarification review of \<open>logic_review\<close> for a supplied and
  recorded answer, entered by the last transition of the trace, and \<open>logic_review\<close> is not completed. The witness
  is a run that ends this way.\<close>

theorem last_stage_answer_unreviewed:
  assumes "\<And>s. \<not> (active_stage s = Some ClarificationReview \<and> suspended_stage s = Some LogicReview)
      \<Longrightarrow> review s = review' s"
  shows "run_review_stages review as s = run_review_stages review' as s
    \<and> (\<forall>run. run_review_stages review as s = Some (Inr (False, run)) \<and> active_stage (sr_cursor run) \<noteq> None \<longrightarrow>
         active_stage (sr_cursor run) = Some ClarificationReview \<and> suspended_stage (sr_cursor run) = Some LogicReview
       \<and> LogicReview \<notin> set (completed_stages (sr_cursor run))
       \<and> transition_reason (last (sr_trace run)) = ''enter_clarification_review''
       \<and> (\<exists>a \<in> set as. active_clarification_id (sr_cursor run) = Some (ca_request_id a)
            \<and> a \<in> set (rv_clarifications (sr_state run))))"
proof -
  have "run_review_stages review as s = run_review_stages review' as s"
    unfolding run_review_stages_def
    using stage_loop_cong[where review = review and review' = review', OF assms keyed_answers_by_request_id initial_run_facts(1)]
    by simp
  then show ?thesis using run_review_stages_left_active[of review as s] by blast
qed

text \<open>The reviewer that asks in the last stage, and one that does the same but would fail in its clarification review.\<close>

definition asks_then_fails :: reviewing where
  "asks_then_fails s = (if clarifies_last_stage s then Inl (RunnerError ''never reached'') else asks_in LogicReview s)"

theorem last_stage_answer_unreviewed_witness:
  "\<exists>run. run_review_stages asks_then_fails [sample_answer] sample_state = Some (Inr (False, run))
     \<and> active_stage (sr_cursor run) = Some ClarificationReview \<and> LogicReview \<notin> set (completed_stages (sr_cursor run))
     \<and> active_clarification_id (sr_cursor run) = Some ''c1'' \<and> sample_answer \<in> set (rv_clarifications (sr_state run))"
proof -
  have "asks_in LogicReview s = asks_then_fails s"
    if "\<not> (active_stage s = Some ClarificationReview \<and> suspended_stage s = Some LogicReview)" for s
    using that by (auto simp: asks_then_fails_def)
  note unreviewed = last_stage_answer_unreviewed[OF this, where as = "[sample_answer]" and s = sample_state]
  have "\<exists>run. run_review_stages (asks_in LogicReview) [sample_answer] sample_state = Some (Inr (False, run))
     \<and> active_stage (sr_cursor run) \<noteq> None"
    by (simp add: run_eval)
  then obtain run where run: "run_review_stages (asks_in LogicReview) [sample_answer] sample_state = Some (Inr (False, run))"
    "active_stage (sr_cursor run) \<noteq> None" by blast
  with unreviewed have "run_review_stages asks_then_fails [sample_answer] sample_state = Some (Inr (False, run))" by simp
  moreover have "sample_answer \<in> set (rv_clarifications (sr_state run))" "LogicReview \<notin> set (completed_stages (sr_cursor run))"
    "active_clarification_id (sr_cursor run) = Some ''c1''" "active_stage (sr_cursor run) = Some ClarificationReview"
    using unreviewed run by (auto simp: sample_answer_def)
  ultimately show ?thesis by blast
qed

end
