(* ===== verification/Keyed_Dict.thy ===== *)
theory Keyed_Dict
  imports Prelude "HOL-Library.AList"
begin

text \<open>
  The interface of the dicts whose entries carry their own key. The reviewer run ledger interprets it on its run status,
  whose entries are kept under the stable key of their run key.
\<close>

locale keyed_dict =
  fixes key :: "'e \<Rightarrow> string"
    and put :: "'e \<Rightarrow> 'd \<Rightarrow> 'd"
    and get :: "'d \<Rightarrow> string \<Rightarrow> 'e option"
    and empty :: 'd
  assumes get_empty: "get empty k = None"
    and get_put: "get (put e d) (key e) = Some e"
    and get_put_other: "k \<noteq> key e \<Longrightarrow> get (put e d) k = get d k"
begin

definition consistent :: "'d \<Rightarrow> bool" where
  "consistent d \<longleftrightarrow> (\<forall>k e. get d k = Some e \<longrightarrow> key e = k)"

lemma consistentD: "consistent d \<Longrightarrow> get d k = Some e \<Longrightarrow> key e = k"
  by (simp add: consistent_def)

lemma consistent_empty: "consistent empty"
  by (simp add: consistent_def get_empty)

lemma get_put_if: "get (put e d) k = (if k = key e then Some e else get d k)"
  by (simp add: get_put get_put_other)

lemma consistent_put: "consistent d \<Longrightarrow> consistent (put e d)"
  by (simp add: consistent_def get_put_if)

lemma get_puts:
  "get (foldl (\<lambda>d e. put e d) d es) k =
     (case find (\<lambda>e. key e = k) (rev es) of None \<Rightarrow> get d k | Some e \<Rightarrow> Some e)"
  by (induction es rule: rev_induct) (auto simp: get_put_if)

lemma consistent_puts: "consistent d \<Longrightarrow> consistent (foldl (\<lambda>d e. put e d) d es)"
  by (induction es arbitrary: d) (simp_all add: consistent_put)

end

text \<open>An association list updated at the key of the entry is such a dict.\<close>

lemma keyed_alist: "keyed_dict key (\<lambda>e d. AList.update (key e) e d) map_of []"
  by unfold_locales (auto simp: update_conv')

end
