(* ===== verification/Reviewer_Runs.thy ===== *)
theory Reviewer_Runs
  imports Stable_Key Stage_Loop Keyed_Dict
begin

text \<open>
  The model of \<open>src/src/reviewgraph/reviewer_runs.py\<close>: the ledger of reviewer runs in \<open>ReviewState\<close>, that is the run
  keys in the order of their registration and the status dict under their stable keys. A reviewer that completed, was
  skipped or exhausted its retries is not registered again; a failed run is retried a bounded number of times.
\<close>

section \<open>Run keys and statuses\<close>

record retry_policy =
  max_attempts :: int

definition retry_policy_check :: "retry_policy \<Rightarrow> string option" where
  "retry_policy_check p = first_failure [(0 < max_attempts p, ''max_attempts must be a positive integer'')]"

record retry_decision =
  rd_run_key :: "reviewer_run_key option"
  rd_exhausted :: bool
  rd_reason :: string

definition make_reviewer_run_key ::
    "'a review_state_scheme \<Rightarrow> selected_reviewer \<Rightarrow> int \<Rightarrow> string option \<Rightarrow> string option \<Rightarrow> reviewer_run_key result" where
  "make_reviewer_run_key s reviewer attempt retry_of clarification_id =
     bindE (stage_of_value (sel_stage reviewer)) (\<lambda>stage.
       mk_checked reviewer_run_key_check
         \<lparr>rk_target_hash = target_hash (rv_review_target s), rk_config_hash = rv_config_hash s, rk_stage = stage,
          rk_reviewer = sel_name reviewer, rk_attempt = attempt, rk_retry_of = retry_of,
          rk_clarification_id = clarification_id\<rparr>)"

definition retry_exhausted_prefix :: string where
  "retry_exhausted_prefix = ''retry exhausted:''"

definition is_retry_exhausted_failure :: "reviewer_run_status \<Rightarrow> bool" where
  "is_retry_exhausted_failure st \<longleftrightarrow>
     rs_status st = Failed \<and> (case rs_reason st of None \<Rightarrow> False | Some r \<Rightarrow> starts_with retry_exhausted_prefix r)"

definition suppresses_rerun :: "reviewer_run_status \<Rightarrow> bool" where
  "suppresses_rerun st \<longleftrightarrow> rs_status st \<in> {Completed, Skipped} \<or> is_retry_exhausted_failure st"

definition same_reviewer_identity :: "reviewer_run_key \<Rightarrow> reviewer_run_key \<Rightarrow> bool" where
  "same_reviewer_identity l r \<longleftrightarrow>
     (if rk_clarification_id l \<noteq> None \<or> rk_clarification_id r \<noteq> None
      then rk_target_hash l = rk_target_hash r \<and> rk_config_hash l = rk_config_hash r \<and> rk_stage l = rk_stage r
        \<and> rk_reviewer l = rk_reviewer r \<and> rk_clarification_id l = rk_clarification_id r
      else rk_target_hash l = rk_target_hash r \<and> rk_config_hash l = rk_config_hash r \<and> rk_stage l = rk_stage r
        \<and> rk_reviewer l = rk_reviewer r)"

definition has_suppressing_status_for_reviewer :: "'a review_state_scheme \<Rightarrow> reviewer_run_key \<Rightarrow> bool" where
  "has_suppressing_status_for_reviewer s k \<longleftrightarrow>
     (\<exists>st \<in> snd ` set (rv_reviewer_run_status s). same_reviewer_identity (rs_run_key st) k \<and> suppresses_rerun st)"

section \<open>The operations\<close>

definition put_run_status :: "reviewer_run_status \<Rightarrow> (string \<times> reviewer_run_status) list
    \<Rightarrow> (string \<times> reviewer_run_status) list" where
  "put_run_status st d = AList.update (stable_key (rs_run_key st)) st d"

definition register_selected_reviewer :: "'a review_state_scheme \<Rightarrow> selected_reviewer \<Rightarrow> string option
    \<Rightarrow> (reviewer_run_key option \<times> 'a review_state_scheme) result" where
  "register_selected_reviewer s reviewer clarification_id =
     bindE (make_reviewer_run_key s reviewer 1 None clarification_id) (\<lambda>k.
       if has_suppressing_status_for_reviewer s k then Inr (None, s)
       else case map_of (rv_reviewer_run_status s) (stable_key k) of
              Some _ \<Rightarrow> Inr (Some k, s)
            | None \<Rightarrow>
                bindE (mk_checked reviewer_run_status_check
                  \<lparr>rs_status = Selected, rs_run_key = k, rs_reason = Some ''selected by active-stage routing''\<rparr>) (\<lambda>st.
                Inr (Some k, s\<lparr>rv_reviewer_run_keys := rv_reviewer_run_keys s @ [k],
                               rv_reviewer_run_status := put_run_status st (rv_reviewer_run_status s),
                               rv_selected_reviewers := rv_selected_reviewers s @ [reviewer]\<rparr>)))"

definition record_reviewer_run_status :: "'a review_state_scheme \<Rightarrow> reviewer_run_key \<Rightarrow> run_status_value \<Rightarrow> string
    \<Rightarrow> (reviewer_run_status \<times> 'a review_state_scheme) result" where
  "record_reviewer_run_status s k status reason =
     bindE (mk_checked reviewer_run_status_check \<lparr>rs_status = status, rs_run_key = k, rs_reason = Some reason\<rparr>) (\<lambda>st.
       Inr (st, s\<lparr>rv_reviewer_run_status := put_run_status st (rv_reviewer_run_status s),
                  rv_reviewer_run_keys := (if k \<in> set (rv_reviewer_run_keys s) then rv_reviewer_run_keys s
                                           else rv_reviewer_run_keys s @ [k])\<rparr>))"

definition retry_after_failure :: "'a review_state_scheme \<Rightarrow> reviewer_run_key \<Rightarrow> retry_policy \<Rightarrow> string
    \<Rightarrow> (retry_decision \<times> 'a review_state_scheme) result" where
  "retry_after_failure s k policy reason =
     (if max_attempts policy \<le> rk_attempt k then
        bindE (record_reviewer_run_status s k Failed (''retry exhausted: '' @ reason)) (\<lambda>(_, s').
          Inr (\<lparr>rd_run_key = None, rd_exhausted = True,
                rd_reason = ''retry exhausted after attempt '' @ int_str (rk_attempt k)\<rparr>, s'))
      else
        bindE (mk_checked reviewer_run_key_check (k\<lparr>rk_attempt := rk_attempt k + 1, rk_retry_of := Some (stable_key k)\<rparr>)) (\<lambda>next_key.
        bindE (record_reviewer_run_status s next_key Selected (''retry selected after failure: '' @ reason)) (\<lambda>(_, s').
          Inr (\<lparr>rd_run_key = Some next_key, rd_exhausted = False,
                rd_reason = ''retry attempt '' @ int_str (rk_attempt next_key) @ '' selected''\<rparr>, s'))))"

text \<open>\<open>max(xs, key=f)\<close>: the first element with the greatest key.\<close>

fun first_max :: "('a \<Rightarrow> int) \<Rightarrow> 'a \<Rightarrow> 'a list \<Rightarrow> 'a" where
  "first_max f best [] = best"
| "first_max f best (x # xs) = first_max f (if f best < f x then x else best) xs"

definition selection_candidates :: "'a review_state_scheme \<Rightarrow> selected_reviewer \<Rightarrow> reviewer_run_key list" where
  "selection_candidates s reviewer =
     filter (\<lambda>k. rk_reviewer k = sel_name reviewer \<and> stage_value (rk_stage k) = sel_stage reviewer
       \<and> (rk_stage k = ClarificationReview \<longrightarrow> rk_clarification_id k = active_clarification_id s))
       (rv_reviewer_run_keys s)"

definition is_active_candidate :: "'a review_state_scheme \<Rightarrow> reviewer_run_key \<Rightarrow> bool" where
  "is_active_candidate s k \<longleftrightarrow>
     (case map_of (rv_reviewer_run_status s) (stable_key k) of
        None \<Rightarrow> True | Some st \<Rightarrow> rs_status st \<in> {Selected, Running})"

definition reviewer_run_key_for_selection ::
    "'a review_state_scheme \<Rightarrow> selected_reviewer \<Rightarrow> reviewer_run_key result" where
  "reviewer_run_key_for_selection s reviewer =
     (let candidates = selection_candidates s reviewer;
          active = filter (is_active_candidate s) candidates
      in case (if active \<noteq> [] then active else candidates) of
           [] \<Rightarrow> Inl (ValueError (''reviewer run key missing for '' @ sel_stage reviewer @ '':'' @ sel_name reviewer))
         | k # ks \<Rightarrow> Inr (first_max rk_attempt k ks))"

interpretation run_status: keyed_dict "\<lambda>st. stable_key (rs_run_key st)" put_run_status map_of "[]"
  unfolding put_run_status_def by (rule keyed_alist)

section \<open>Lemmas\<close>

lemma run_key_check_iff:
  "reviewer_run_key_check k = None \<longleftrightarrow> rk_target_hash k \<noteq> [] \<and> rk_config_hash k \<noteq> [] \<and> rk_reviewer k \<noteq> []
     \<and> 0 < rk_attempt k \<and> rk_retry_of k \<noteq> Some [] \<and> rk_clarification_id k \<noteq> Some []"
  by (cases "rk_retry_of k"; cases "rk_clarification_id k") (auto simp: reviewer_run_key_check_def check_defs)

lemma run_status_check_iff:
  "reviewer_run_status_check st = None \<longleftrightarrow> rs_reason st \<noteq> Some []"
  by (cases "rs_reason st") (auto simp: reviewer_run_status_check_def check_defs)

lemma stable_key_not_Nil [simp]: "stable_key k \<noteq> []"
  by (simp add: stable_key_text)

lemma set_put_run_status: "st \<in> snd ` set (put_run_status st d)"
  unfolding put_run_status_def
  using run_status.get_put[of st d] by (force simp: put_run_status_def dest: map_of_SomeD)

lemma record_ok:
  assumes "reason \<noteq> []"
  shows "record_reviewer_run_status s k status reason =
     (let st = \<lparr>rs_status = status, rs_run_key = k, rs_reason = Some reason\<rparr>
      in Inr (st, s\<lparr>rv_reviewer_run_status := put_run_status st (rv_reviewer_run_status s),
                  rv_reviewer_run_keys := (if k \<in> set (rv_reviewer_run_keys s) then rv_reviewer_run_keys s
                                           else rv_reviewer_run_keys s @ [k])\<rparr>))"
  using assms by (simp add: record_reviewer_run_status_def run_status_check_iff mk_checked_ok Let_def)

lemma retry_exhausted:
  assumes "max_attempts policy \<le> rk_attempt k"
  shows "\<exists>d s'. retry_after_failure s k policy reason = Inr (d, s') \<and> rd_exhausted d \<and> rd_run_key d = None
     \<and> rv_reviewer_run_status s' = put_run_status \<lparr>rs_status = Failed, rs_run_key = k,
          rs_reason = Some (''retry exhausted: '' @ reason)\<rparr> (rv_reviewer_run_status s)
     \<and> rv_review_target s' = rv_review_target s \<and> rv_config_hash s' = rv_config_hash s"
  using assms by (simp add: retry_after_failure_def record_ok Let_def)

lemma retry_selected:
  assumes "rk_attempt k < max_attempts policy" and "reviewer_run_key_check k = None"
  shows "\<exists>d s' k'. retry_after_failure s k policy reason = Inr (d, s') \<and> \<not> rd_exhausted d \<and> rd_run_key d = Some k'
     \<and> k' = k\<lparr>rk_attempt := rk_attempt k + 1, rk_retry_of := Some (stable_key k)\<rparr>
     \<and> reviewer_run_key_check k' = None \<and> same_reviewer_identity k k'
     \<and> map_of (rv_reviewer_run_status s') (stable_key k') =
         Some \<lparr>rs_status = Selected, rs_run_key = k', rs_reason = Some (''retry selected after failure: '' @ reason)\<rparr>
     \<and> rv_review_target s' = rv_review_target s \<and> rv_config_hash s' = rv_config_hash s"
proof -
  let ?k = "k\<lparr>rk_attempt := rk_attempt k + 1, rk_retry_of := Some (stable_key k)\<rparr>"
  let ?st = "\<lparr>rs_status = Selected, rs_run_key = ?k, rs_reason = Some (''retry selected after failure: '' @ reason)\<rparr>"
  have "reviewer_run_key_check ?k = None" using assms(2) by (simp add: run_key_check_iff)
  with assms(1) run_status.get_put[of ?st "rv_reviewer_run_status s"] show ?thesis
    by (simp add: retry_after_failure_def record_ok Let_def mk_checked_ok same_reviewer_identity_def)
qed

lemma exhausted_suppresses:
  assumes "rv_reviewer_run_status s' = put_run_status \<lparr>rs_status = Failed, rs_run_key = k,
          rs_reason = Some (''retry exhausted: '' @ reason)\<rparr> d"
    and "same_reviewer_identity k k'"
  shows "has_suppressing_status_for_reviewer s' k'"
proof -
  let ?st = "\<lparr>rs_status = Failed, rs_run_key = k, rs_reason = Some (''retry exhausted: '' @ reason)\<rparr>"
  have "suppresses_rerun ?st"
    by (simp add: suppresses_rerun_def is_retry_exhausted_failure_def retry_exhausted_prefix_def starts_with_def)
  with set_put_run_status[of ?st d] assms show ?thesis
    by (force simp: has_suppressing_status_for_reviewer_def)
qed

lemma register_suppressed:
  assumes "make_reviewer_run_key s reviewer 1 None cid = Inr k" and "has_suppressing_status_for_reviewer s k"
  shows "register_selected_reviewer s reviewer cid = Inr (None, s)"
  using assms by (simp add: register_selected_reviewer_def)

lemma first_max_in: "first_max f b xs \<in> insert b (set xs)"
proof (induction xs arbitrary: b)
  case (Cons y ys)
  from Cons[of b] Cons[of y] show ?case by simp blast
qed simp

lemma first_max_greatest: "x \<in> insert b (set xs) \<Longrightarrow> f x \<le> f (first_max f b xs)"
proof (induction xs arbitrary: b x)
  case (Cons y ys)
  let ?m = "if f b < f y then y else b"
  have m: "f b \<le> f ?m" "f y \<le> f ?m" by auto
  consider "x = b" | "x = y" | "x \<in> set ys" using Cons.prems by auto
  then show ?case
  proof cases
    case 3
    then show ?thesis using Cons.IH[of x ?m] by simp
  qed (use Cons.IH[of ?m ?m] m in \<open>auto split: if_splits\<close>)
qed simp

lemma selection_Inr:
  assumes "reviewer_run_key_for_selection s reviewer = Inr k"
  defines "cs \<equiv> selection_candidates s reviewer"
  shows "k \<in> set cs" and "(\<exists>c \<in> set cs. is_active_candidate s c) \<Longrightarrow> is_active_candidate s k"
    and "c \<in> set cs \<Longrightarrow> is_active_candidate s c = is_active_candidate s k \<Longrightarrow> rk_attempt c \<le> rk_attempt k"
proof -
  define xs where "xs = (if filter (is_active_candidate s) cs \<noteq> [] then filter (is_active_candidate s) cs else cs)"
  from assms(1) obtain y ys where ys: "xs = y # ys" "k = first_max rk_attempt y ys"
    by (auto simp: reviewer_run_key_for_selection_def cs_def[symmetric] xs_def[symmetric] Let_def split: list.splits)
  have k: "k \<in> set xs" using first_max_in[of rk_attempt y ys] ys by auto
  then show "k \<in> set cs" by (auto simp: xs_def split: if_splits)
  show act: "is_active_candidate s k" if "\<exists>c \<in> set cs. is_active_candidate s c"
    using that k by (auto simp: xs_def filter_empty_conv split: if_splits)
  show "rk_attempt c \<le> rk_attempt k" if "c \<in> set cs" "is_active_candidate s c = is_active_candidate s k"
  proof -
    have "c \<in> set xs" using that act by (auto simp: xs_def filter_empty_conv)
    then show ?thesis using first_max_greatest[of c y ys rk_attempt] ys by auto
  qed
qed

lemma make_key_cong:
  assumes "rv_review_target s' = rv_review_target s" and "rv_config_hash s' = rv_config_hash s"
  shows "make_reviewer_run_key s' = make_reviewer_run_key s"
  using assms by (intro ext) (simp add: make_reviewer_run_key_def)

lemma set_put_run_status_new:
  "map_of d (stable_key (rs_run_key st)) = None \<Longrightarrow> snd ` set (put_run_status st d) = insert st (snd ` set d)"
  by (induction d) (auto simp: put_run_status_def split: if_split_asm)

lemma not_suppressing_selected: "rs_status st = Selected \<Longrightarrow> \<not> suppresses_rerun st"
  by (simp add: suppresses_rerun_def is_retry_exhausted_failure_def)

section \<open>A reviewer that fails on every attempt\<close>

text \<open>Every attempt fails and the failure is reported to \<open>retry_after_failure\<close>, until it decides that the retries are
  exhausted: the number of retries it granted and the final state.\<close>

fun fail_repeatedly :: "nat \<Rightarrow> 'a review_state_scheme \<Rightarrow> reviewer_run_key \<Rightarrow> retry_policy \<Rightarrow> string
    \<Rightarrow> (nat \<times> 'a review_state_scheme) result option" where
  "fail_repeatedly 0 s k policy reason = None"
| "fail_repeatedly (Suc n) s k policy reason =
     (case retry_after_failure s k policy reason of
        Inl e \<Rightarrow> Some (Inl e)
      | Inr (d, s') \<Rightarrow>
          (case rd_run_key d of
             None \<Rightarrow> Some (Inr (0, s'))
           | Some k' \<Rightarrow> map_option (\<lambda>r. bindE r (\<lambda>(m, s''). Inr (Suc m, s''))) (fail_repeatedly n s' k' policy reason)))"

lemma same_identity_trans:
  "same_reviewer_identity a b \<Longrightarrow> same_reviewer_identity b c \<Longrightarrow> same_reviewer_identity a c"
  by (auto simp: same_reviewer_identity_def split: if_splits)

lemma same_identity_sym: "same_reviewer_identity a b \<Longrightarrow> same_reviewer_identity b a"
  by (auto simp: same_reviewer_identity_def split: if_splits)

lemma fail_repeatedly_result:
  assumes "reviewer_run_key_check k = None" and "rk_attempt k \<le> max_attempts policy"
    and "n = nat (max_attempts policy - rk_attempt k)"
  shows "\<exists>s' kl. fail_repeatedly (Suc n) s k policy reason = Some (Inr (n, s'))
     \<and> rv_review_target s' = rv_review_target s \<and> rv_config_hash s' = rv_config_hash s
     \<and> (\<forall>k'. same_reviewer_identity k k' \<longrightarrow> has_suppressing_status_for_reviewer s' k')"
  using assms
proof (induction n arbitrary: s k)
  case 0
  then have "max_attempts policy \<le> rk_attempt k" by simp
  from retry_exhausted[OF this, of s reason] obtain d s' where r:
    "retry_after_failure s k policy reason = Inr (d, s')" "rd_run_key d = None"
    "rv_reviewer_run_status s' = put_run_status \<lparr>rs_status = Failed, rs_run_key = k,
          rs_reason = Some (''retry exhausted: '' @ reason)\<rparr> (rv_reviewer_run_status s)"
    "rv_review_target s' = rv_review_target s" "rv_config_hash s' = rv_config_hash s" by blast
  then show ?case using exhausted_suppresses[OF r(3)] by simp
next
  case (Suc n)
  then have "rk_attempt k < max_attempts policy" by linarith
  from retry_selected[OF this Suc.prems(1), of s reason] obtain d s' k' where r:
    "retry_after_failure s k policy reason = Inr (d, s')" "rd_run_key d = Some k'"
    "k' = k\<lparr>rk_attempt := rk_attempt k + 1, rk_retry_of := Some (stable_key k)\<rparr>"
    "reviewer_run_key_check k' = None" "same_reviewer_identity k k'"
    "rv_review_target s' = rv_review_target s" "rv_config_hash s' = rv_config_hash s" by blast
  have "n = nat (max_attempts policy - rk_attempt k')" "rk_attempt k' \<le> max_attempts policy"
    using Suc.prems(2,3) r(3) by simp_all
  from Suc.IH[OF r(4) this(2,1), of s'] obtain s'' where s'':
    "fail_repeatedly (Suc n) s' k' policy reason = Some (Inr (n, s''))"
    "rv_review_target s'' = rv_review_target s'" "rv_config_hash s'' = rv_config_hash s'"
    "\<forall>k''. same_reviewer_identity k' k'' \<longrightarrow> has_suppressing_status_for_reviewer s'' k''" by blast
  have "fail_repeatedly (Suc (Suc n)) s k policy reason = Some (Inr (Suc n, s''))"
    using r(1,2) s''(1) by (simp del: fail_repeatedly.simps(2) add: fail_repeatedly.simps(2)[of "Suc n"])
  moreover have "has_suppressing_status_for_reviewer s'' k2" if "same_reviewer_identity k k2" for k2
    using s''(4) same_identity_trans[OF same_identity_sym[OF r(5)] that] by blast
  ultimately show ?case using s''(2,3) r(6,7) by simp
qed

section \<open>Properties\<close>

text \<open>C9. A reviewer that fails on every attempt is retried exactly \<open>max_attempts - 1\<close> times, and once the retries are
  exhausted it is never registered again for the same target, configuration, stage and clarification.\<close>

theorem failing_reviewer_bounded_and_suppressed:
  assumes "make_reviewer_run_key s reviewer 1 None cid = Inr k" and "0 < max_attempts policy"
  shows "\<exists>s'. fail_repeatedly (nat (max_attempts policy)) s k policy reason
                = Some (Inr (nat (max_attempts policy) - 1, s'))
           \<and> register_selected_reviewer s' reviewer cid = Inr (None, s')"
proof -
  from assms(1) have k: "reviewer_run_key_check k = None" "rk_attempt k = 1"
    by (auto simp: make_reviewer_run_key_def bindE_Inr_iff mk_checked_Inr_iff)
  have n: "nat (max_attempts policy - rk_attempt k) = nat (max_attempts policy) - 1"
      "Suc (nat (max_attempts policy) - 1) = nat (max_attempts policy)"
    using assms(2) k(2) by simp_all
  have "rk_attempt k \<le> max_attempts policy" using assms(2) k(2) by simp
  from fail_repeatedly_result[OF k(1) this refl, of s reason] n obtain s' where s':
    "fail_repeatedly (nat (max_attempts policy)) s k policy reason = Some (Inr (nat (max_attempts policy) - 1, s'))"
    "rv_review_target s' = rv_review_target s" "rv_config_hash s' = rv_config_hash s"
    "has_suppressing_status_for_reviewer s' k"
    by (auto simp: same_reviewer_identity_def)
  then have "make_reviewer_run_key s' reviewer 1 None cid = Inr k"
    using assms(1) by (simp add: make_reviewer_run_key_def)
  from register_suppressed[OF this s'(4)] s'(1) show ?thesis by blast
qed

definition sample_reviewer :: selected_reviewer where
  "sample_reviewer = \<lparr>sel_name = ''logic'', sel_stage = ''logic_review'', sel_reasons = [''always'']\<rparr>"

definition sample_key :: reviewer_run_key where
  "sample_key = \<lparr>rk_target_hash = target_hash sample_target, rk_config_hash = ''c'', rk_stage = LogicReview,
     rk_reviewer = ''logic'', rk_attempt = 1, rk_retry_of = None, rk_clarification_id = None\<rparr>"

lemma sample_make_key: "make_reviewer_run_key sample_state sample_reviewer 1 None None = Inr sample_key"
proof -
  have "target_hash sample_target \<noteq> []"
    using strict_target_hash[of sample_target] by (auto simp: strict_sha256_def starts_with_def)
  then show ?thesis
    by (simp add: make_reviewer_run_key_def sample_reviewer_def sample_state_def sample_key_def stage_of_value_def
        mk_checked_ok run_key_check_iff)
qed

theorem failing_reviewer_bounded_and_suppressed_witness:
  "\<exists>s'. fail_repeatedly 3 sample_state sample_key \<lparr>max_attempts = 3\<rparr> ''e'' = Some (Inr (2, s'))
     \<and> register_selected_reviewer s' sample_reviewer None = Inr (None, s')"
  using failing_reviewer_bounded_and_suppressed[OF sample_make_key, of "\<lparr>max_attempts = 3\<rparr>" "''e''"]
  by (simp del: fail_repeatedly.simps)

text \<open>C10. Registration is idempotent: repeating it gives the same answer and leaves the ledger as it is, whether the
  reviewer was new, already registered or suppressed.\<close>

theorem register_idempotent:
  assumes "register_selected_reviewer s reviewer cid = Inr (x, s')"
  shows "register_selected_reviewer s' reviewer cid = Inr (x, s')"
proof -
  from assms obtain k where k: "make_reviewer_run_key s reviewer 1 None cid = Inr k"
    by (auto simp: register_selected_reviewer_def bindE_Inr_iff)
  let ?st = "\<lparr>rs_status = Selected, rs_run_key = k, rs_reason = Some ''selected by active-stage routing''\<rparr>"
  show ?thesis
  proof (cases "has_suppressing_status_for_reviewer s k \<or> map_of (rv_reviewer_run_status s) (stable_key k) \<noteq> None")
    case True
    with assms k have "s' = s" by (auto simp: register_selected_reviewer_def split: if_splits)
    with assms show ?thesis by simp
  next
    case False
    with assms k have s': "x = Some k" "s' = s\<lparr>rv_reviewer_run_keys := rv_reviewer_run_keys s @ [k],
        rv_reviewer_run_status := put_run_status ?st (rv_reviewer_run_status s),
        rv_selected_reviewers := rv_selected_reviewers s @ [reviewer]\<rparr>"
      by (auto simp: register_selected_reviewer_def mk_checked_ok run_status_check_iff)
    have "\<not> has_suppressing_status_for_reviewer s' k"
      using False s'(2) set_put_run_status_new[of "rv_reviewer_run_status s" ?st]
      by (auto simp: has_suppressing_status_for_reviewer_def not_suppressing_selected)
    moreover have "map_of (rv_reviewer_run_status s') (stable_key k) = Some ?st"
      using s'(2) run_status.get_put[of ?st] by simp
    moreover have "make_reviewer_run_key s' = make_reviewer_run_key s"
      by (rule make_key_cong) (simp_all add: s'(2))
    ultimately show ?thesis using k s'(1) by (simp add: register_selected_reviewer_def)
  qed
qed

theorem register_idempotent_witness:
  "\<exists>s'. register_selected_reviewer sample_state sample_reviewer None = Inr (Some sample_key, s')
     \<and> register_selected_reviewer s' sample_reviewer None = Inr (Some sample_key, s')"
proof -
  have "\<exists>s'. register_selected_reviewer sample_state sample_reviewer None = Inr (Some sample_key, s')"
    by (simp add: register_selected_reviewer_def sample_make_key has_suppressing_status_for_reviewer_def
        mk_checked_ok run_status_check_iff) (simp add: sample_state_def mk_checked_ok run_status_check_iff)
  then show ?thesis using register_idempotent by blast
qed

text \<open>C11. The run key chosen for a selected reviewer is one of that reviewer and stage (and of the active
  clarification during a clarification review); if some candidate is still selected or running, or has no status, the
  choice is such a one; and no candidate of the same kind has a higher attempt.\<close>

theorem run_key_for_selection_latest:
  assumes "reviewer_run_key_for_selection s reviewer = Inr k"
  shows "k \<in> set (selection_candidates s reviewer)
    \<and> ((\<exists>c \<in> set (selection_candidates s reviewer). is_active_candidate s c) \<longrightarrow> is_active_candidate s k)
    \<and> (\<forall>c \<in> set (selection_candidates s reviewer).
         is_active_candidate s c = is_active_candidate s k \<longrightarrow> rk_attempt c \<le> rk_attempt k)"
  using selection_Inr[OF assms] by blast

theorem run_key_for_selection_latest_witness:
  "is_active_candidate (sample_state\<lparr>rv_reviewer_run_keys := [sample_key]\<rparr>) sample_key"
proof -
  let ?s = "sample_state\<lparr>rv_reviewer_run_keys := [sample_key]\<rparr>"
  have a: "is_active_candidate ?s sample_key" by (simp add: is_active_candidate_def sample_state_def)
  have c: "selection_candidates ?s sample_reviewer = [sample_key]"
    by (simp add: selection_candidates_def sample_reviewer_def sample_key_def)
  with a have "reviewer_run_key_for_selection ?s sample_reviewer = Inr sample_key"
    by (simp add: reviewer_run_key_for_selection_def)
  from run_key_for_selection_latest[OF this] c a show ?thesis by simp
qed

end
