(* ===== verification/Marker_Parsers.thy ===== *)
theory Marker_Parsers
  imports Models_Review
begin

text \<open>
  The second marker parser of the program, \<open>_parse_reviewgraph_marker\<close> in \<open>src/src/reviewgraph/models.py\<close>, which splits
  the line at spaces and equals signs, and its equivalence with the regular expression of \<open>hashing.py\<close>.
\<close>

definition marker_prefix :: string where "marker_prefix = ''<!-- reviewgraph:v1 ''"
definition marker_suffix :: string where "marker_suffix = '' -->''"

definition marker_keys :: "string list" where
  "marker_keys = [''run_id'', ''target'', ''payload'', ''findings'']"

text \<open>The loop that fills the dict \<open>fields\<close>.\<close>

fun marker_fields_loop :: "string list \<Rightarrow> (string \<times> string) list \<Rightarrow> (string \<times> string) list option" where
  "marker_fields_loop [] fds = Some fds"
| "marker_fields_loop (p # ps) fds =
     (if CHR ''='' \<notin> set p then None
      else let (key, value) = split_once (CHR ''='') p
           in if key \<in> fst ` set fds \<or> key \<notin> set marker_keys then None
              else marker_fields_loop ps (fds @ [(key, value)]))"

definition parse_reviewgraph_marker :: "string \<Rightarrow> (string \<times> string) list option" where
  "parse_reviewgraph_marker line =
     (if \<not> starts_with marker_prefix line \<or> \<not> ends_with marker_suffix line then None
      else let body = take (length line - length marker_suffix - length marker_prefix) (drop (length marker_prefix) line);
               parts = split_on (CHR '' '') body
           in if length parts \<noteq> 4 then None
              else case marker_fields_loop parts [] of
                None \<Rightarrow> None
              | Some fds \<Rightarrow>
                  if map fst fds \<noteq> marker_keys then None
                  else let run_id = the (map_of fds ''run_id'')
                       in if run_id = [] \<or> 128 < length run_id \<or> \<not> is_alnum (hd run_id) \<or> \<not> list_all run_id_char run_id
                          then None
                          else if list_all (\<lambda>k. strict_sha256 (the (map_of fds k))) [''target'', ''payload'', ''findings'']
                          then Some fds else None)"

definition marker_dict :: "marker_fields \<Rightarrow> (string \<times> string) list" where
  "marker_dict m = [(''run_id'', mk_run_id m), (''target'', mk_target m), (''payload'', mk_payload m),
     (''findings'', mk_findings m)]"

section \<open>Lemmas\<close>

lemma marker_fields_loop_Some:
  "marker_fields_loop ps fds = Some fs \<Longrightarrow>
     \<exists>kvs. fs = fds @ kvs \<and> ps = map (\<lambda>(k, v). k @ CHR ''='' # v) kvs"
proof (induction ps arbitrary: fds)
  case (Cons p ps)
  obtain key val where kv: "split_once (CHR ''='') p = (key, val)" by fastforce
  from Cons.prems kv have eq: "CHR ''='' \<in> set p" and rest: "marker_fields_loop ps (fds @ [(key, val)]) = Some fs"
    by (auto simp: Let_def split: if_split_asm)
  from split_once_join[OF eq] kv have "p = key @ CHR ''='' # val" by simp
  moreover from Cons.IH[OF rest] obtain kvs where "fs = (fds @ [(key, val)]) @ kvs"
    "ps = map (\<lambda>(k, v). k @ CHR ''='' # v) kvs" by blast
  ultimately show ?case by (intro exI[of _ "(key, val) # kvs"]) simp
qed simp

lemma parse_marker_dict_Some:
  assumes "parse_reviewgraph_marker line = Some fs"
  shows "\<exists>m. fs = marker_dict m \<and> wf_marker m \<and> line = marker_line_text m"
proof -
  let ?body = "take (length line - length marker_suffix - length marker_prefix) (drop (length marker_prefix) line)"
  from assms have *: "starts_with marker_prefix line" "ends_with marker_suffix line"
      "length (split_on (CHR '' '') ?body) = 4" "marker_fields_loop (split_on (CHR '' '') ?body) [] = Some fs"
      "map fst fs = marker_keys"
      "valid_run_id (the (map_of fs ''run_id''))"
      "list_all (\<lambda>k. strict_sha256 (the (map_of fs k))) [''target'', ''payload'', ''findings'']"
    unfolding parse_reviewgraph_marker_def valid_run_id_def
    by (auto simp: Let_def list_all_iff split: if_split_asm option.split_asm)
  from marker_fields_loop_Some[OF *(4)] have parts: "split_on (CHR '' '') ?body = map (\<lambda>(k, v). k @ CHR ''='' # v) fs"
    by simp
  from *(5) obtain r t p f where fs: "fs = [(''run_id'', r), (''target'', t), (''payload'', p), (''findings'', f)]"
    unfolding marker_keys_def by (auto simp: map_eq_Cons_conv)
  let ?m = "\<lparr>mk_run_id = r, mk_target = t, mk_payload = p, mk_findings = f\<rparr>"
  have wf: "wf_marker ?m" using *(6,7) fs by (simp add: wf_marker_def)
  have body: "?body = ''run_id='' @ r @ '' target='' @ t @ '' payload='' @ p @ '' findings='' @ f"
  proof -
    have "?body = join [CHR '' ''] (map (\<lambda>(k, v). k @ CHR ''='' # v) fs)"
      unfolding parts[symmetric] by (rule join_split_on[symmetric])
    then show ?thesis by (simp add: fs)
  qed
  then have "?body \<noteq> []" by simp
  then have len: "length marker_prefix + length marker_suffix \<le> length line" by (cases "length line \<le> 24") (auto simp: marker_prefix_def marker_suffix_def)
  from *(1) obtain a where a: "line = marker_prefix @ a" unfolding starts_with_iff by blast
  from *(2) obtain b where b: "line = b @ marker_suffix" unfolding ends_with_iff by blast
  have "a = take (length a - length marker_suffix) a @ marker_suffix"
  proof -
    have la: "length marker_suffix \<le> length a" using len a by simp
    have "drop (length a - length marker_suffix) a = drop (length line - length marker_suffix) line"
      using a la by simp
    also have "\<dots> = marker_suffix" using b by simp
    finally show ?thesis by (metis append_take_drop_id)
  qed
  moreover have "take (length a - length marker_suffix) a = ?body" using a by simp
  ultimately have "line = marker_prefix @ ?body @ marker_suffix" using a by metis
  then have "line = marker_line_text ?m"
    unfolding body by (simp add: marker_line_text_def marker_prefix_def marker_suffix_def)
  with wf fs show ?thesis by (intro exI[of _ ?m]) (simp add: marker_dict_def)
qed

lemma hash_no_space: "strict_sha256 h \<Longrightarrow> CHR '' '' \<notin> set h"
  by (auto simp: strict_sha256_iff hexdigits_def)

lemma run_id_no_space: "valid_run_id r \<Longrightarrow> CHR '' '' \<notin> set r"
  using space_not_run_id_char by (auto simp: valid_run_id_def)

lemma split_equals: "split_once (CHR ''='') (k @ CHR ''='' # v) = (k, v)" if "CHR ''='' \<notin> set k"
  using that by (rule split_once_append)

lemma slice_between: "take (length (p @ b @ s) - length s - length p) (drop (length p) (p @ b @ s)) = b"
  by simp

lemma parse_marker_dict_line:
  assumes "wf_marker m"
  shows "parse_reviewgraph_marker (marker_line_text m) = Some (marker_dict m)"
proof -
  let ?parts = "[''run_id='' @ mk_run_id m, ''target='' @ mk_target m, ''payload='' @ mk_payload m, ''findings='' @ mk_findings m]"
  let ?body = "join [CHR '' ''] ?parts"
  have line: "marker_line_text m = marker_prefix @ ?body @ marker_suffix"
    by (simp add: marker_line_text_def marker_prefix_def marker_suffix_def)
  have body: "take (length (marker_line_text m) - length marker_suffix - length marker_prefix)
      (drop (length marker_prefix) (marker_line_text m)) = ?body"
    unfolding line by (rule slice_between)
  have sp: "starts_with marker_prefix (marker_line_text m)" "ends_with marker_suffix (marker_line_text m)"
    unfolding line by (simp, metis append_assoc ends_with_append)
  have hs: "strict_sha256 (mk_target m)" "strict_sha256 (mk_payload m)" "strict_sha256 (mk_findings m)"
    and run: "valid_run_id (mk_run_id m)" using assms by (simp_all add: wf_marker_def)
  have parts: "split_on (CHR '' '') ?body = ?parts"
    by (rule split_on_join) (simp_all add: hash_no_space[OF hs(1)] hash_no_space[OF hs(2)] hash_no_space[OF hs(3)]
        run_id_no_space[OF run])
  have loop: "marker_fields_loop ?parts [] = Some (marker_dict m)"
    using split_equals[of "''run_id''" "mk_run_id m"] split_equals[of "''target''" "mk_target m"]
      split_equals[of "''payload''" "mk_payload m"] split_equals[of "''findings''" "mk_findings m"]
    by (simp add: marker_keys_def marker_dict_def)
  have run': "mk_run_id m \<noteq> []" "length (mk_run_id m) \<le> 128" "is_alnum (hd (mk_run_id m))"
      "list_all run_id_char (mk_run_id m)"
    using run by (simp_all add: valid_run_id_def list_all_iff)
  show ?thesis
    unfolding parse_reviewgraph_marker_def body Let_def parts loop
    using sp run' hs by (simp add: marker_dict_def marker_keys_def)
qed

section \<open>Properties\<close>

text \<open>C26. The two marker parsers of the program agree: on every line, the splitting parser of \<open>models.py\<close> gives the
  fields that the regular expression of \<open>hashing.py\<close> captures, or both reject the line; and a line is accepted
  exactly if it is the printed form of a well-formed marker.\<close>

theorem marker_parsers_agree:
  "parse_reviewgraph_marker line = map_option marker_dict (parse_reviewgraph_v1_marker_line line)
   \<and> (parse_reviewgraph_v1_marker_line line = Some m \<longleftrightarrow> wf_marker m \<and> line = marker_line_text m)"
proof -
  have "parse_reviewgraph_marker line = map_option marker_dict (parse_reviewgraph_v1_marker_line line)"
  proof (cases "parse_reviewgraph_v1_marker_line line")
    case (Some m)
    then have "wf_marker m" "line = marker_line_text m" by (simp_all add: parse_marker_Some_iff)
    with Some parse_marker_dict_line[of m] show ?thesis by simp
  next
    case None
    have "parse_reviewgraph_marker line = None"
    proof (cases "parse_reviewgraph_marker line")
      case (Some fs)
      from parse_marker_dict_Some[OF this] obtain m where "wf_marker m" "line = marker_line_text m" by blast
      with None show ?thesis using parse_marker_line_text[of m] by simp
    qed simp
    with None show ?thesis by simp
  qed
  then show ?thesis using parse_marker_Some_iff by blast
qed

end
