(* ===== verification/Models_Markers.thy ===== *)
theory Models_Markers
  imports Models_Review
begin

text \<open>
  The dataclasses of the marker reconciliation in \<open>src/src/reviewgraph/models.py\<close>, with the checks that make a result
  consistent: a safe result carries no existing comment, a reconciled one does, a failed one carries its failure.
\<close>

datatype marker_status = SafeToPost | ReconciledExisting | FailedClosed

datatype marker_reason =
    MR_safe_to_post | MR_matched_existing | MR_pagination_incomplete | MR_repeated_cursor | MR_page_cap_exceeded
  | MR_comment_cap_exceeded | MR_malformed_page | MR_timeout | MR_rate_limited | MR_forbidden | MR_not_found
  | MR_unavailable | MR_transport_unknown | MR_trusted_marker_conflict | MR_trusted_marker_malformed

definition retryable_marker_reasons :: "marker_reason list" where
  "retryable_marker_reasons = [MR_timeout, MR_rate_limited, MR_unavailable, MR_transport_unknown]"

definition request_id_chars :: "char \<Rightarrow> bool" where
  "request_id_chars c \<longleftrightarrow> is_alnum c \<or> c \<in> set ''._:/#-''"

definition secret_request_id_fragments :: "string list" where
  "secret_request_id_fragments = [''token'', ''ghp_'', ''github_pat_'', ''gho_'', ''ghs_'', ''ghu_'']"

definition has_secret_fragment :: "string \<Rightarrow> bool" where
  "has_secret_fragment s \<longleftrightarrow> list_ex (\<lambda>f. contains f (casefold s)) secret_request_id_fragments"

record marker_summary =
  ms_endpoint_kind :: string
  ms_page_count :: nat
  ms_comment_count :: nat
  ms_marker_count :: nat
  ms_retryable :: bool
  ms_reason_code :: "marker_reason option"
  ms_request_id :: "string option"

definition marker_summary_check :: "marker_summary \<Rightarrow> string option" where
  "marker_summary_check s = first_failure
     ([require_non_empty (ms_endpoint_kind s) ''marker scan transport summary endpoint_kind'',
       (ms_endpoint_kind s = ''issue_comments'', ''marker scan transport summary endpoint_kind must be issue_comments''),
       (\<not> (ms_reason_code s = None \<and> ms_retryable s), ''marker scan transport summary without failure cannot be retryable''),
       (opt_ok (\<lambda>r. ms_retryable s = (r \<in> set retryable_marker_reasons)) (ms_reason_code s),
        ''marker scan transport summary retryable mismatch''),
       require_optional_non_empty (ms_request_id s) ''marker scan transport summary request_id'',
       (opt_ok (\<lambda>r. length r \<le> 128 \<and> list_all request_id_chars r) (ms_request_id s),
        ''marker scan transport summary request_id must be allowlisted''),
       (opt_ok (\<lambda>r. \<not> has_secret_fragment r) (ms_request_id s),
        ''marker scan transport summary request_id must not contain secrets'')])"

record marker_result =
  mr_status :: marker_status
  mr_reason_code :: marker_reason
  mr_summary :: marker_summary
  mr_trusted_actor :: "string option"
  mr_existing_comment_id :: "string option"
  mr_duplicate_comment_ids :: "string list"
  mr_writer_input_released :: bool
  mr_finalization_passed :: bool
  mr_reason :: "string option"

definition no_existing_data :: "marker_result \<Rightarrow> bool" where
  "no_existing_data r \<longleftrightarrow>
     mr_trusted_actor r = None \<and> mr_existing_comment_id r = None \<and> mr_duplicate_comment_ids r = []"

definition no_summary_failure :: "marker_result \<Rightarrow> bool" where
  "no_summary_failure r \<longleftrightarrow> ms_reason_code (mr_summary r) = None \<and> \<not> ms_retryable (mr_summary r)"

definition marker_result_check :: "marker_result \<Rightarrow> string option" where
  "marker_result_check r = first_failure
     ([require_optional_non_empty (mr_trusted_actor r) ''marker reconciliation trusted_actor'',
       require_optional_non_empty (mr_existing_comment_id r) ''marker reconciliation existing_comment_id'',
       require_string_tuple (mr_duplicate_comment_ids r) ''marker reconciliation duplicate_comment_ids'',
       (\<not> (mr_writer_input_released r \<or> mr_finalization_passed r),
        ''marker reconciliation cannot release writer input by itself''),
       require_optional_non_empty (mr_reason r) ''marker reconciliation reason'']
      @ (case mr_status r of
           SafeToPost \<Rightarrow>
             [(mr_reason_code r = MR_safe_to_post, ''safe marker reconciliation requires safe_to_post reason''),
              (no_existing_data r, ''safe marker reconciliation must not include existing marker data''),
              (no_summary_failure r, ''safe marker reconciliation transport summary must not include failure'')]
         | ReconciledExisting \<Rightarrow>
             [(mr_reason_code r = MR_matched_existing, ''reconciled marker requires matched_existing reason''),
              (mr_trusted_actor r \<noteq> None \<and> mr_existing_comment_id r \<noteq> None,
               ''reconciled marker requires trusted actor and existing comment''),
              (no_summary_failure r, ''reconciled marker transport summary must not include failure'')]
         | FailedClosed \<Rightarrow>
             [(mr_reason_code r \<notin> {MR_safe_to_post, MR_matched_existing},
               ''failed marker reconciliation requires failure reason''),
              (no_existing_data r, ''failed marker reconciliation must not include existing marker data''),
              (ms_reason_code (mr_summary r) = Some (mr_reason_code r),
               ''failed marker reconciliation transport summary reason mismatch'')]))"

end
