(* ===== verification/Timestamps.thy ===== *)
theory Timestamps
  imports Complex_Main Prelude
begin

text \<open>
  The three readings of an RFC 3339 UTC timestamp in the sources: the syntactic test of \<open>models.py\<close>
  (\<open>_is_rfc3339_utc_z\<close>, \<open>_is_realistic_rfc3339_utc_z\<close>), the regular expression and
  \<open>datetime.fromisoformat\<close> of \<open>permissions.py\<close> (\<open>_parse_optional_utc_z\<close>), and the arithmetic of
  \<open>approval.py\<close> (\<open>_utc_z_seconds\<close>). A parsed \<open>datetime\<close> is its number of microseconds from the first
  day of year 1; the program only compares and subtracts such values. The seconds of \<open>approval.py\<close> are floats
  there and exact rationals here: the rounding of that sum is not modelled.
\<close>

section \<open>The test of models.py\<close>

definition is_decimal :: "string \<Rightarrow> bool" where
  "is_decimal s \<longleftrightarrow> s \<noteq> [] \<and> (\<forall>c \<in> set s. is_digit c)"

definition slice :: "nat \<Rightarrow> nat \<Rightarrow> string \<Rightarrow> string" where
  "slice i j s = take (j - i) (drop i s)"

definition char_at :: "string \<Rightarrow> nat \<Rightarrow> char \<Rightarrow> bool" where
  "char_at s i c \<longleftrightarrow> i < length s \<and> s ! i = c"

definition is_rfc3339_utc_z :: "string \<Rightarrow> bool" where
  "is_rfc3339_utc_z value \<longleftrightarrow>
     20 \<le> length value \<and> ends_with ''Z'' value \<and>
     (let date_time = butlast value
      in CHR ''T'' \<in> set date_time \<and>
         (let (date, time) = split_once (CHR ''T'') date_time
          in length date = 10 \<and> char_at date 4 (CHR ''-'') \<and> char_at date 7 (CHR ''-'') \<and>
             8 \<le> length time \<and> char_at time 2 (CHR '':'') \<and> char_at time 5 (CHR '':'') \<and>
             list_all is_decimal [slice 0 4 date, slice 5 7 date, slice 8 10 date,
                                  slice 0 2 time, slice 3 5 time, slice 6 8 time] \<and>
             (let remainder = drop 8 time
              in remainder = [] \<or>
                 (1 < length remainder \<and> char_at remainder 0 (CHR ''.'') \<and>
                  (\<forall>c \<in> set (drop 1 remainder). is_digit c)))))"

definition is_leap_year :: "int \<Rightarrow> bool" where
  "is_leap_year year \<longleftrightarrow> year mod 4 = 0 \<and> (year mod 100 \<noteq> 0 \<or> year mod 400 = 0)"

definition days_by_month :: "int \<Rightarrow> int list" where
  "days_by_month year = [31, if is_leap_year year then 29 else 28, 31, 30, 31, 30, 31, 31, 30, 31, 30, 31]"

definition valid_civil :: "int \<Rightarrow> int \<Rightarrow> int \<Rightarrow> int \<Rightarrow> int \<Rightarrow> int \<Rightarrow> bool" where
  "valid_civil year month day hour minute second \<longleftrightarrow>
     1 \<le> month \<and> month \<le> 12 \<and> 1 \<le> day \<and> day \<le> 31 \<and> hour \<le> 23 \<and> minute \<le> 59 \<and> second \<le> 59 \<and>
     day \<le> days_by_month year ! nat (month - 1)"

definition dec :: "string \<Rightarrow> int" where
  "dec s = int (digits_value s)"

definition is_realistic_rfc3339_utc_z :: "string \<Rightarrow> bool" where
  "is_realistic_rfc3339_utc_z value \<longleftrightarrow>
     is_rfc3339_utc_z value \<and>
     (let (date, time) = split_once (CHR ''T'') (butlast value)
      in valid_civil (dec (slice 0 4 date)) (dec (slice 5 7 date)) (dec (slice 8 10 date))
           (dec (slice 0 2 time)) (dec (slice 3 5 time)) (dec (slice 6 8 time)))"

section \<open>The regular expression and the datetime of permissions.py\<close>

text \<open>\<open>^\d{4}-\d{2}-\d{2}T\d{2}:\d{2}:\d{2}(?:\.\d+)?Z$\<close> under \<open>fullmatch\<close>\<close>

definition rfc3339_shape :: "string \<Rightarrow> bool" where
  "rfc3339_shape s \<longleftrightarrow>
     20 \<le> length s \<and>
     (\<forall>i \<in> set [0, 1, 2, 3, 5, 6, 8, 9, 11, 12, 14, 15, 17, 18]. is_digit (s ! i)) \<and>
     s ! 4 = CHR ''-'' \<and> s ! 7 = CHR ''-'' \<and> s ! 10 = CHR ''T'' \<and> s ! 13 = CHR '':'' \<and> s ! 16 = CHR '':'' \<and>
     last s = CHR ''Z'' \<and>
     (let fr = drop 19 (butlast s)
      in fr = [] \<or> (hd fr = CHR ''.'' \<and> is_decimal (tl fr)))"

definition days_before_year :: "int \<Rightarrow> int" where
  "days_before_year y = (y - 1) * 365 + (y - 1) div 4 - (y - 1) div 100 + (y - 1) div 400"

definition days_before_month :: "int \<Rightarrow> int \<Rightarrow> int" where
  "days_before_month y m = sum_list (take (nat (m - 1)) (days_by_month y))"

definition micros_of :: "int \<Rightarrow> int \<Rightarrow> int \<Rightarrow> int \<Rightarrow> int \<Rightarrow> int \<Rightarrow> int \<Rightarrow> int" where
  "micros_of y mo d h mi s us =
     ((((days_before_year y + days_before_month y mo + d) * 24 + h) * 60 + mi) * 60 + s) * 1000000 + us"

text \<open>\<open>fromisoformat\<close> keeps the first six digits of the fraction.\<close>

definition fraction_micros :: "string \<Rightarrow> int" where
  "fraction_micros fr = dec (take 6 (tl fr @ ''000000''))"

definition parse_optional_utc_z :: "string option \<Rightarrow> int option" where
  "parse_optional_utc_z value =
     (case value of
        None \<Rightarrow> None
      | Some v \<Rightarrow>
          if \<not> rfc3339_shape v then None
          else
            (let (date, time) = split_once (CHR ''T'') (butlast v);
                 year = dec (slice 0 4 date); month = dec (slice 5 7 date); day = dec (slice 8 10 date);
                 hour = dec (slice 0 2 time); minute = dec (slice 3 5 time); second = dec (slice 6 8 time)
             in if \<not> valid_civil year month day hour minute second then None
                else if year < 1 then None \<comment> \<open>\<open>fromisoformat\<close> raises, which is caught\<close>
                else Some (micros_of year month day hour minute second (fraction_micros (drop 8 time)))))"

section \<open>The seconds of approval.py\<close>

text \<open>\<open>int(s)\<close> of an ASCII string: surrounding white space, one sign, digits with single underscores.\<close>

definition is_space :: "char \<Rightarrow> bool" where
  "is_space c \<longleftrightarrow> (of_char c :: nat) = 32 \<or> (9 \<le> (of_char c :: nat) \<and> (of_char c :: nat) \<le> 13)
     \<or> (28 \<le> (of_char c :: nat) \<and> (of_char c :: nat) \<le> 31)"

definition strip_space :: "string \<Rightarrow> string" where
  "strip_space s = rev (dropWhile is_space (rev (dropWhile is_space s)))"

definition int_digits :: "string \<Rightarrow> nat option" where
  "int_digits s =
     (if s \<noteq> [] \<and> (\<forall>c \<in> set s. is_digit c \<or> c = CHR ''_'') \<and> is_digit (hd s) \<and> is_digit (last s)
         \<and> \<not> contains ''__'' s
      then Some (digits_value (filter is_digit s)) else None)"

definition python_int :: "string \<Rightarrow> int option" where
  "python_int s =
     (case strip_space s of
        [] \<Rightarrow> None
      | c # cs \<Rightarrow>
          if c = CHR ''-'' then map_option (\<lambda>n. - int n) (int_digits cs)
          else if c = CHR ''+'' then map_option int (int_digits cs)
          else map_option int (int_digits (c # cs)))"

definition days_since_1970 :: "int \<Rightarrow> int" where
  "days_since_1970 year = sum_list (map (\<lambda>y. if is_leap_year y then 366 else 365) [1970..year - 1])"

definition utc_z_fraction :: "string \<Rightarrow> rat option" where
  "utc_z_fraction fractional =
     (if fractional = [] then Some 0
      else if length fractional = 1 \<or> \<not> char_at fractional 0 (CHR ''.'') \<or> \<not> is_decimal (drop 1 fractional)
      then None
      else Some (rat_of_int (dec (drop 1 fractional)) / 10 ^ (length fractional - 1)))"

definition utc_z_seconds :: "string \<Rightarrow> rat option" where
  "utc_z_seconds value =
     (if \<not> ends_with ''Z'' value \<or> CHR ''T'' \<notin> set value then None
      else
        (let (date, time) = split_once (CHR ''T'') (butlast value)
         in if length date \<noteq> 10 \<or> \<not> char_at date 4 (CHR ''-'') \<or> \<not> char_at date 7 (CHR ''-'') then None
            else if length time < 8 \<or> \<not> char_at time 2 (CHR '':'') \<or> \<not> char_at time 5 (CHR '':'') then None
            else do {
              year \<leftarrow> python_int (slice 0 4 date);
              month \<leftarrow> python_int (slice 5 7 date);
              day \<leftarrow> python_int (slice 8 10 date);
              hour \<leftarrow> python_int (slice 0 2 time);
              minute \<leftarrow> python_int (slice 3 5 time);
              second \<leftarrow> python_int (slice 6 8 time);
              (if \<not> valid_civil year month day hour minute second then None
               else do {
                 fraction \<leftarrow> utc_z_fraction (drop 8 time);
                 Some (rat_of_int ((days_since_1970 year + days_before_month year month + (day - 1)) * 86400
                        + hour * 3600 + minute * 60 + second) + fraction) }) }))"

definition utc_z_age_seconds :: "string \<Rightarrow> string \<Rightarrow> rat option" where
  "utc_z_age_seconds later earlier =
     (case (utc_z_seconds later, utc_z_seconds earlier) of
        (Some a, Some b) \<Rightarrow> Some (a - b)
      | _ \<Rightarrow> None)"

section \<open>The two syntactic tests agree\<close>

text \<open>The common form of a timestamp: fourteen digits, the separators, and the fraction.\<close>

definition stamp :: "char list \<Rightarrow> string \<Rightarrow> string" where
  "stamp ds fr =
     [ds ! 0, ds ! 1, ds ! 2, ds ! 3, CHR ''-'', ds ! 4, ds ! 5, CHR ''-'', ds ! 6, ds ! 7, CHR ''T'',
      ds ! 8, ds ! 9, CHR '':'', ds ! 10, ds ! 11, CHR '':'', ds ! 12, ds ! 13] @ fr @ ''Z''"

definition stamp_parts :: "char list \<Rightarrow> string \<Rightarrow> bool" where
  "stamp_parts ds fr \<longleftrightarrow> length ds = 14 \<and> (\<forall>c \<in> set ds. is_digit c)
     \<and> (fr = [] \<or> (\<exists>f. fr = CHR ''.'' # f \<and> is_decimal f))"

lemma list_expand:
  "length xs = 10 \<longleftrightarrow> (\<exists>a b c d e f g h i j. xs = [a, b, c, d, e, f, g, h, i, j])"
  by (auto simp: numeral_eq_Suc length_Suc_conv)

lemma list_expand8:
  "8 \<le> length xs \<longleftrightarrow> (\<exists>a b c d e f g h ys. xs = a # b # c # d # e # f # g # h # ys)"
  by (auto simp: numeral_eq_Suc Suc_le_length_iff)

lemma digit_ds14:
  "(length ds = 14 \<and> (\<forall>c \<in> set ds. is_digit c)) \<longleftrightarrow>
   (\<exists>a b c d e f g h i j k l m n. ds = [a, b, c, d, e, f, g, h, i, j, k, l, m, n] \<and>
      list_all is_digit [a, b, c, d, e, f, g, h, i, j, k, l, m, n])"
  by (auto simp: numeral_eq_Suc length_Suc_conv)

lemma T_not_digit [simp]: "\<not> is_digit (CHR ''T'')" "\<not> is_digit (CHR ''-'')" "\<not> is_digit (CHR '':'')"
  by (simp_all add: is_digit_def)

lemma fraction_iff:
  "(r = [] \<or> (1 < length r \<and> char_at r 0 (CHR ''.'') \<and> (\<forall>c \<in> set (drop 1 r). is_digit c)))
   \<longleftrightarrow> (r = [] \<or> (\<exists>f. r = CHR ''.'' # f \<and> is_decimal f))"
  by (cases r) (auto simp: char_at_def is_decimal_def)

lemma split_stamp:
  assumes "stamp_parts ds fr"
  shows "split_once (CHR ''T'') (butlast (stamp ds fr)) =
    ([ds ! 0, ds ! 1, ds ! 2, ds ! 3, CHR ''-'', ds ! 4, ds ! 5, CHR ''-'', ds ! 6, ds ! 7],
     [ds ! 8, ds ! 9, CHR '':'', ds ! 10, ds ! 11, CHR '':'', ds ! 12, ds ! 13] @ fr)"
proof -
  have nT: "ds ! i \<noteq> CHR ''T''" if "i < 14" for i
    using assms that T_not_digit(1) nth_mem[of i ds] unfolding stamp_parts_def by metis
  have "butlast (stamp ds fr) =
    [ds ! 0, ds ! 1, ds ! 2, ds ! 3, CHR ''-'', ds ! 4, ds ! 5, CHR ''-'', ds ! 6, ds ! 7] @ CHR ''T'' #
    ([ds ! 8, ds ! 9, CHR '':'', ds ! 10, ds ! 11, CHR '':'', ds ! 12, ds ! 13] @ fr)"
    by (simp add: stamp_def butlast_append)
  moreover have "CHR ''T'' \<notin> set [ds ! 0, ds ! 1, ds ! 2, ds ! 3, CHR ''-'', ds ! 4, ds ! 5, CHR ''-'', ds ! 6, ds ! 7]"
    using nT by (simp add: eq_commute [of "CHR ''T''"])
  ultimately show ?thesis using split_once_append by metis
qed

lemma rfc3339_stamp:
  assumes "stamp_parts ds fr"
  shows "is_rfc3339_utc_z (stamp ds fr)"
proof -
  have dig: "is_digit (ds ! i)" if "i < 14" for i
    using assms that by (simp add: stamp_parts_def)
  have fr: "fr = [] \<or> (1 < length fr \<and> char_at fr 0 (CHR ''.'') \<and> (\<forall>c \<in> set (drop 1 fr). is_digit c))"
    using assms fraction_iff by (simp add: stamp_parts_def)
  have "ends_with ''Z'' (stamp ds fr)"
    unfolding stamp_def by (metis append.assoc ends_with_append)
  moreover have "CHR ''T'' \<in> set (butlast (stamp ds fr))" by (simp add: stamp_def butlast_append)
  moreover have "20 \<le> length (stamp ds fr)" by (simp add: stamp_def)
  ultimately show ?thesis
    unfolding is_rfc3339_utc_z_def split_stamp[OF assms] Let_def
    using fr by (simp add: slice_def is_decimal_def dig char_at_def)
qed

lemma rfc3339_is_stamp:
  assumes "is_rfc3339_utc_z v"
  shows "\<exists>ds fr. v = stamp ds fr \<and> stamp_parts ds fr"
proof -
  obtain date time where dt: "split_once (CHR ''T'') (butlast v) = (date, time)" by fastforce
  from assms have v: "v = butlast v @ ''Z''"
    by (auto simp: is_rfc3339_utc_z_def ends_with_iff butlast_append)
  from assms have T: "CHR ''T'' \<in> set (butlast v)" by (simp add: is_rfc3339_utc_z_def Let_def)
  from split_once_join[OF T] dt have b: "butlast v = date @ CHR ''T'' # time" by simp
  from assms dt have f: "length date = 10" "char_at date 4 (CHR ''-'')" "char_at date 7 (CHR ''-'')"
      "8 \<le> length time" "char_at time 2 (CHR '':'')" "char_at time 5 (CHR '':'')"
      "list_all is_decimal [slice 0 4 date, slice 5 7 date, slice 8 10 date,
          slice 0 2 time, slice 3 5 time, slice 6 8 time]"
      "drop 8 time = [] \<or> (\<exists>f. drop 8 time = CHR ''.'' # f \<and> is_decimal f)"
    unfolding is_rfc3339_utc_z_def Let_def fraction_iff by simp_all
  obtain d0 d1 d2 d3 d4 d5 d6 d7 d8 d9 where d: "date = [d0, d1, d2, d3, d4, d5, d6, d7, d8, d9]"
    using f(1) unfolding list_expand by blast
  obtain t0 t1 t2 t3 t4 t5 t6 t7 fr where t: "time = t0 # t1 # t2 # t3 # t4 # t5 # t6 # t7 # fr"
    using f(4) unfolding list_expand8 by blast
  let ?ds = "[d0, d1, d2, d3, d5, d6, d8, d9, t0, t1, t3, t4, t6, t7]"
  have "v = stamp ?ds fr"
    using v b f(2,3,5,6) unfolding d t by (simp add: stamp_def char_at_def)
  moreover have "stamp_parts ?ds fr"
    using f(7,8) unfolding d t stamp_parts_def by (simp add: slice_def is_decimal_def)
  ultimately show ?thesis by blast
qed

lemma rfc3339_iff_stamp: "is_rfc3339_utc_z v \<longleftrightarrow> (\<exists>ds fr. v = stamp ds fr \<and> stamp_parts ds fr)"
  using rfc3339_stamp rfc3339_is_stamp by blast

lemma shape_stamp:
  assumes "stamp_parts ds fr"
  shows "rfc3339_shape (stamp ds fr)"
proof -
  have "is_digit (ds ! i)" if "i < 14" for i
    using assms that by (simp add: stamp_parts_def)
  moreover have "fr = [] \<or> (hd fr = CHR ''.'' \<and> is_decimal (tl fr))"
    using assms by (auto simp: stamp_parts_def)
  ultimately show ?thesis
    by (simp add: rfc3339_shape_def stamp_def butlast_append nth_append nth_Cons')
qed

lemma shape_is_stamp:
  assumes "rfc3339_shape v"
  shows "\<exists>ds fr. v = stamp ds fr \<and> stamp_parts ds fr"
proof -
  let ?fr = "drop 19 (butlast v)"
  let ?ds = "map (\<lambda>i. v ! i) [0, 1, 2, 3, 5, 6, 8, 9, 11, 12, 14, 15, 17, 18]"
  from assms have len: "20 \<le> length v" and sep: "v ! 4 = CHR ''-''" "v ! 7 = CHR ''-''" "v ! 10 = CHR ''T''"
      "v ! 13 = CHR '':''" "v ! 16 = CHR '':''" and Z: "last v = CHR ''Z''"
      and fr: "?fr = [] \<or> (hd ?fr = CHR ''.'' \<and> is_decimal (tl ?fr))"
      and dig: "\<forall>i \<in> set [0, 1, 2, 3, 5, 6, 8, 9, 11, 12, 14, 15, 17, 18]. is_digit (v ! i)"
    by (auto simp only: rfc3339_shape_def Let_def)
  have "v = butlast v @ [last v]" using len by (metis append_butlast_last_id list.size(3) not_numeral_le_zero)
  also have "butlast v = take 19 (butlast v) @ ?fr" by simp
  also have "take 19 (butlast v) = take 19 v" using len by (simp add: take_butlast)
  also have "take 19 v = map (\<lambda>i. v ! i) [0..<19]"
    using len by (intro nth_equalityI) simp_all
  finally have "v = map (\<lambda>i. v ! i) [0..<19] @ ?fr @ ''Z''" using Z by simp
  also have "map (\<lambda>i. v ! i) [0..<19] = [v ! 0, v ! 1, v ! 2, v ! 3, v ! 4, v ! 5, v ! 6, v ! 7, v ! 8, v ! 9,
      v ! 10, v ! 11, v ! 12, v ! 13, v ! 14, v ! 15, v ! 16, v ! 17, v ! 18]"
    by (simp add: upt_rec eval_nat_numeral)
  finally have "v = stamp ?ds ?fr" using sep by (simp add: stamp_def)
  moreover have "stamp_parts ?ds ?fr"
    using dig fr by (cases ?fr) (auto simp: stamp_parts_def)
  ultimately show ?thesis by blast
qed

lemma shape_iff_stamp: "rfc3339_shape v \<longleftrightarrow> (\<exists>ds fr. v = stamp ds fr \<and> stamp_parts ds fr)"
  using shape_stamp shape_is_stamp by blast

lemma rfc3339_iff_shape: "is_rfc3339_utc_z v \<longleftrightarrow> rfc3339_shape v"
  by (simp add: rfc3339_iff_stamp shape_iff_stamp)

text \<open>Whatever \<open>permissions.py\<close> can parse, the result dataclasses of \<open>models.py\<close> accept.\<close>

lemma parsed_realistic: "parse_optional_utc_z (Some v) = Some t \<Longrightarrow> is_realistic_rfc3339_utc_z v"
  by (auto simp: parse_optional_utc_z_def is_realistic_rfc3339_utc_z_def rfc3339_iff_shape Let_def
      split: prod.splits if_splits)

lemma realistic_parsed:
  assumes "is_realistic_rfc3339_utc_z v" and "1 \<le> dec (slice 0 4 v)"
  shows "\<exists>t. parse_optional_utc_z (Some v) = Some t"
proof -
  from assms(1) obtain ds fr where v: "v = stamp ds fr" "stamp_parts ds fr"
    by (auto simp: is_realistic_rfc3339_utc_z_def rfc3339_iff_stamp)
  have "slice 0 4 v = slice 0 4 (fst (split_once (CHR ''T'') (butlast v)))"
    unfolding v(1) split_stamp[OF v(2)] by (simp add: slice_def stamp_def)
  with assms show ?thesis
    by (auto simp: parse_optional_utc_z_def is_realistic_rfc3339_utc_z_def rfc3339_iff_shape Let_def
        split: prod.splits)
qed

lemma realistic_not_Nil: "is_realistic_rfc3339_utc_z v \<Longrightarrow> v \<noteq> []"
  by (auto simp: is_realistic_rfc3339_utc_z_def is_rfc3339_utc_z_def)

end
