(* ===== verification/Models_Permission.thy ===== *)
theory Models_Permission
  imports Models_Markers Timestamps
begin

text \<open>
  The dataclasses of the actor permission gate in \<open>src/src/reviewgraph/models.py\<close>, and the functions of that file that
  their checks use. The mapping \<open>checked_target\<close> is an association list of JSON values; its keys are strings by type.
\<close>

section \<open>Reasons\<close>

datatype perm_reason =
    PR_unknown_actor | PR_unknown_credential_source | PR_unknown_permission | PR_insufficient_endpoint_permission
  | PR_missing_credential_principal | PR_missing_check_method | PR_missing_checked_target | PR_missing_checked_at
  | PR_target_mismatch | PR_timeout | PR_rate_limited | PR_forbidden | PR_not_found | PR_unavailable
  | PR_malformed_response | PR_stale_cached_proof

fun perm_reason_value :: "perm_reason \<Rightarrow> string" where
  "perm_reason_value PR_unknown_actor = ''unknown_actor''"
| "perm_reason_value PR_unknown_credential_source = ''unknown_credential_source''"
| "perm_reason_value PR_unknown_permission = ''unknown_permission''"
| "perm_reason_value PR_insufficient_endpoint_permission = ''insufficient_endpoint_permission''"
| "perm_reason_value PR_missing_credential_principal = ''missing_credential_principal''"
| "perm_reason_value PR_missing_check_method = ''missing_check_method''"
| "perm_reason_value PR_missing_checked_target = ''missing_checked_target''"
| "perm_reason_value PR_missing_checked_at = ''missing_checked_at''"
| "perm_reason_value PR_target_mismatch = ''target_mismatch''"
| "perm_reason_value PR_timeout = ''timeout''"
| "perm_reason_value PR_rate_limited = ''rate_limited''"
| "perm_reason_value PR_forbidden = ''forbidden''"
| "perm_reason_value PR_not_found = ''not_found''"
| "perm_reason_value PR_unavailable = ''unavailable''"
| "perm_reason_value PR_malformed_response = ''malformed_response''"
| "perm_reason_value PR_stale_cached_proof = ''stale_cached_proof''"

definition transport_perm_reasons :: "perm_reason list" where
  "transport_perm_reasons =
     [PR_timeout, PR_rate_limited, PR_forbidden, PR_not_found, PR_unavailable, PR_malformed_response]"

definition retryable_perm_reasons :: "perm_reason list" where
  "retryable_perm_reasons = [PR_timeout, PR_rate_limited, PR_unavailable]"

section \<open>Allowed values\<close>

definition credential_sources :: "string list" where
  "credential_sources = [''pat'', ''fine_grained_pat'', ''github_app_installation'', ''github_app_user'']"

definition repo_permissions :: "string list" where
  "repo_permissions = [''read'', ''triage'', ''write'', ''maintain'', ''admin'']"

definition write_repo_permissions :: "string list" where
  "write_repo_permissions = [''write'', ''maintain'', ''admin'']"

definition endpoint_permissions :: "string list" where
  "endpoint_permissions = [''issues:read'', ''issues:write'', ''pull_requests:read'', ''pull_requests:write'']"

definition write_endpoint_permissions :: "string list" where
  "write_endpoint_permissions = [''issues:write'', ''pull_requests:write'']"

definition perm_check_method :: string where "perm_check_method = ''fake_issue_comment_permission_probe''"
definition perm_endpoint_kind :: string where "perm_endpoint_kind = ''issue_comment''"
definition perm_endpoint_method :: string where "perm_endpoint_method = ''POST''"
definition perm_transport_kind :: string where "perm_transport_kind = ''issue_comment_permission''"

lemmas permission_sets = credential_sources_def repo_permissions_def write_repo_permissions_def
  endpoint_permissions_def write_endpoint_permissions_def

definition safe_request_id_text :: "string \<Rightarrow> bool" where
  "safe_request_id_text s \<longleftrightarrow> s \<noteq> [] \<and> length s \<le> 128 \<and> list_all request_id_chars s \<and> \<not> has_secret_fragment s"

text \<open>\<open>_is_safe_actor_permission_identity\<close> and \<open>_is_safe_actor_permission_reason\<close>.\<close>

definition is_safe_identity :: "string \<Rightarrow> bool" where
  "is_safe_identity s \<longleftrightarrow> s \<noteq> [] \<and> length s \<le> 128 \<and> list_all (\<lambda>c. request_id_chars c \<or> c \<in> set ''[]@'') s
     \<and> \<not> has_secret_fragment s"

definition is_safe_reason :: "string \<Rightarrow> bool" where
  "is_safe_reason s \<longleftrightarrow> s \<noteq> [] \<and> length s \<le> 256 \<and> \<not> has_secret_fragment s
     \<and> list_all (\<lambda>c. c \<in> {CHR 10, CHR 13, CHR 9} \<or> 32 \<le> (of_char c :: nat) \<and> (of_char c :: nat) \<le> 126) s"

section \<open>The endpoint and the permission that a proof gives\<close>

text \<open>\<open>_actor_permission_expected_endpoint\<close> reads a mapping with the keys of \<open>ReviewTarget.to_ordered_dict\<close>.\<close>

definition endpoint_text :: "string \<Rightarrow> int \<Rightarrow> string" where
  "endpoint_text owner_repo n =
     (let (owner, repo) = split_once (CHR ''/'') owner_repo
      in ''/repos/'' @ owner @ ''/'' @ repo @ ''/issues/'' @ int_str n @ ''/comments'')"

definition expected_endpoint :: "(string \<times> json) list \<Rightarrow> string option" where
  "expected_endpoint d =
     (if map fst d \<noteq> [''owner_repo'', ''pr_number'', ''base_sha'', ''head_sha'', ''merge_base_sha'', ''diff_basis'']
      then None
      else case (map_of d ''owner_repo'', map_of d ''pr_number'', map_of d ''base_sha'', map_of d ''head_sha'',
                 map_of d ''merge_base_sha'', map_of d ''diff_basis'') of
        (Some (JStr owner_repo), Some (JInt n), Some (JStr base), Some (JStr head), Some merge_base, Some (JStr basis)) \<Rightarrow>
          if CHR ''/'' \<in> set owner_repo \<and> 0 < n \<and> base \<noteq> [] \<and> head \<noteq> []
             \<and> (case merge_base of JNull \<Rightarrow> True | JStr m \<Rightarrow> True | _ \<Rightarrow> False) \<and> basis \<noteq> []
          then Some (endpoint_text owner_repo n) else None
      | _ \<Rightarrow> None)"

lemma expected_endpoint_target:
  "valid_target t \<Longrightarrow> expected_endpoint (to_ordered_dict t) = Some (issue_comment_endpoint t)"
  by (cases "rt_merge_base_sha t")
    (auto simp: expected_endpoint_def to_ordered_dict_def endpoint_text_def issue_comment_endpoint_def
      review_target_check_def split: if_split_asm)

definition opt_in :: "string option \<Rightarrow> string list \<Rightarrow> bool" where
  "opt_in v xs \<longleftrightarrow> opt_ok (\<lambda>s. s \<in> set xs) v"

text \<open>\<open>_actor_permission_derived_permission\<close>: the permission a consistent proof of write access gives.\<close>

definition derived_permission ::
    "string option \<Rightarrow> string option \<Rightarrow> string option \<Rightarrow> string option \<Rightarrow> string option" where
  "derived_permission credential repo installation endpoint =
     (if \<not> opt_mem credential credential_sources then None
      else if \<not> opt_in repo repo_permissions then None
      else if \<not> opt_in installation endpoint_permissions then None
      else if \<not> opt_in endpoint endpoint_permissions then None
      else
      let writable = (\<lambda>p. if opt_mem p write_repo_permissions then p
                          else if opt_mem p write_endpoint_permissions then p else None) in
      if credential = Some ''pat''
        then (if installation \<noteq> None \<or> endpoint \<noteq> None then None else writable repo)
      else if credential = Some ''fine_grained_pat''
        then (if repo \<noteq> None \<or> installation \<noteq> None then None else writable endpoint)
      else if credential = Some ''github_app_installation''
        then (if repo \<noteq> None \<or> installation = None then None
              else if endpoint \<noteq> None \<and> endpoint \<noteq> installation then None else writable installation)
      else if credential = Some ''github_app_user''
        then (if repo \<noteq> None \<or> installation \<noteq> None then None else writable endpoint)
      else None)"

text \<open>\<open>_actor_permission_failure_permission\<close>.\<close>

definition failure_permission :: "string option \<Rightarrow> string option \<Rightarrow> string option \<Rightarrow> string option" where
  "failure_permission repo installation endpoint =
     (if opt_mem repo repo_permissions then repo
      else if opt_mem installation endpoint_permissions then installation
      else if opt_mem endpoint endpoint_permissions then endpoint
      else None)"

section \<open>The dataclasses\<close>

record perm_summary =
  ps_endpoint_kind :: string
  ps_retryable :: bool
  ps_reason_code :: "perm_reason option"
  ps_request_id :: "string option"

definition perm_summary_check :: "perm_summary \<Rightarrow> string option" where
  "perm_summary_check s = first_failure
     [require_non_empty (ps_endpoint_kind s) ''actor permission transport summary endpoint_kind'',
      (ps_endpoint_kind s = perm_transport_kind, ''actor permission transport summary endpoint_kind must be issue_comment_permission''),
      require_optional_non_empty (ps_request_id s) ''actor permission transport summary request_id'',
      (opt_ok (\<lambda>r. length r \<le> 128 \<and> list_all request_id_chars r) (ps_request_id s),
       ''actor permission transport summary request_id must be allowlisted''),
      (opt_ok (\<lambda>r. \<not> has_secret_fragment r) (ps_request_id s),
       ''actor permission transport summary request_id must not contain secrets'')]"

record perm_gate =
  pg_status :: gate_status
  pg_actor :: "string option"
  pg_permission :: "string option"
  pg_checked_at :: "string option"
  pg_reason :: "string option"
  pg_reason_code :: "perm_reason option"
  pg_credential_principal :: "string option"
  pg_credential_source :: "string option"
  pg_repo_permission :: "string option"
  pg_installation_permission :: "string option"
  pg_endpoint_permission :: "string option"
  pg_issue_comment_write :: "bool option"
  pg_check_method :: "string option"
  pg_endpoint_method :: "string option"
  pg_checked_target :: "(string \<times> json) list option"
  pg_checked_target_hash :: "string option"
  pg_endpoint :: "string option"
  pg_endpoint_kind :: "string option"
  pg_transport_summary :: "perm_summary option"

definition gate_common_checks :: "perm_gate \<Rightarrow> (bool \<times> string) list" where
  "gate_common_checks g =
     [(pg_status g \<noteq> GateUnknown, ''actor permission gate status must be pass or fail''),
      require_optional_non_empty (pg_actor g) ''actor permission gate actor'',
      require_optional_non_empty (pg_permission g) ''actor permission gate permission'',
      require_optional_non_empty (pg_checked_at g) ''actor permission gate checked_at'',
      require_optional_non_empty (pg_reason g) ''actor permission gate reason'',
      (opt_ok is_safe_identity (pg_actor g), ''actor permission gate actor must be allowlisted''),
      (opt_ok is_safe_identity (pg_credential_principal g), ''actor permission gate credential_principal must be allowlisted''),
      (opt_ok is_safe_reason (pg_reason g), ''actor permission gate reason must be allowlisted''),
      require_optional_non_empty (pg_credential_principal g) ''actor permission gate credential_principal'',
      require_optional_non_empty (pg_credential_source g) ''actor permission gate credential_source'',
      require_optional_non_empty (pg_repo_permission g) ''actor permission gate repo_permission'',
      require_optional_non_empty (pg_installation_permission g) ''actor permission gate installation_permission'',
      require_optional_non_empty (pg_endpoint_permission g) ''actor permission gate endpoint_permission'',
      require_optional_non_empty (pg_check_method g) ''actor permission gate check_method'',
      require_optional_non_empty (pg_endpoint_method g) ''actor permission gate endpoint_method'']
     @ require_optional_hash_like (pg_checked_target_hash g) ''actor permission gate checked_target_hash''
     @ [require_optional_non_empty (pg_endpoint g) ''actor permission gate endpoint'',
        require_optional_non_empty (pg_endpoint_kind g) ''actor permission gate endpoint_kind'']"

definition pass_proof_checks :: "perm_gate \<Rightarrow> (bool \<times> string) list" where
  "pass_proof_checks g =
     [(let d = derived_permission (pg_credential_source g) (pg_repo_permission g) (pg_installation_permission g)
                 (pg_endpoint_permission g)
       in d \<noteq> None \<and> pg_permission g = d, ''actor permission gate pass permission proof is inconsistent''),
      (pg_check_method g = Some perm_check_method, ''actor permission gate pass requires permission check_method''),
      (pg_endpoint_method g = Some perm_endpoint_method, ''actor permission gate pass requires POST endpoint_method''),
      (pg_endpoint_kind g = Some perm_endpoint_kind, ''actor permission gate pass requires issue_comment endpoint_kind''),
      (opt_ok is_realistic_rfc3339_utc_z (pg_checked_at g), ''actor permission gate pass requires UTC RFC3339 checked_at'')]"

definition pass_target_checks :: "perm_gate \<Rightarrow> (bool \<times> string) list" where
  "pass_target_checks g =
     (case pg_checked_target g of
        None \<Rightarrow> []
      | Some d \<Rightarrow>
          [(expected_endpoint d \<noteq> None \<and> pg_endpoint g = expected_endpoint d,
            ''actor permission gate pass endpoint does not match checked_target''),
           (pg_checked_target_hash g = Some (domain_json_hash ''reviewgraph.review_target.v1'' (JObj d)),
            ''actor permission gate pass checked_target_hash mismatch'')])"

definition pass_transport_checks :: "perm_gate \<Rightarrow> (bool \<times> string) list" where
  "pass_transport_checks g =
     (case pg_transport_summary g of
        None \<Rightarrow> []
      | Some s \<Rightarrow>
          [(ps_endpoint_kind s = perm_transport_kind, ''actor permission gate pass transport summary endpoint_kind mismatch''),
           (ps_reason_code s = None, ''actor permission gate pass transport summary must not include reason_code''),
           (\<not> ps_retryable s, ''actor permission gate pass transport summary must not be retryable'')])"

definition gate_pass_checks :: "perm_gate \<Rightarrow> (bool \<times> string) list" where
  "gate_pass_checks g =
     map (\<lambda>(present, name). (present, ''actor permission gate pass requires '' @ name))
       [(pg_actor g \<noteq> None, ''actor''), (pg_permission g \<noteq> None, ''permission''), (pg_checked_at g \<noteq> None, ''checked_at''),
        (pg_credential_principal g \<noteq> None, ''credential_principal''), (pg_credential_source g \<noteq> None, ''credential_source''),
        (pg_check_method g \<noteq> None, ''check_method''), (pg_endpoint_method g \<noteq> None, ''endpoint_method''),
        (pg_checked_target g \<noteq> None, ''checked_target''), (pg_checked_target_hash g \<noteq> None, ''checked_target_hash''),
        (pg_endpoint g \<noteq> None, ''endpoint''), (pg_endpoint_kind g \<noteq> None, ''endpoint_kind''),
        (pg_transport_summary g \<noteq> None, ''transport_summary'')]
     @ [(pg_issue_comment_write g = Some True, ''actor permission gate pass requires issue_comment_write''),
        (pg_reason_code g = None, ''actor permission gate pass must not include reason_code''),
        (pg_reason g = None, ''actor permission gate pass must not include reason''),
        (pg_permission g \<notin> Some ` {''read'', ''triage'', ''issues:read'', ''pull_requests:read''},
         ''actor permission gate pass requires write permission'')]
     @ pass_proof_checks g @ pass_target_checks g @ pass_transport_checks g"

definition failure_methods_checks :: "perm_gate \<Rightarrow> (bool \<times> string) list" where
  "failure_methods_checks g =
     [(opt_in (pg_check_method g) [perm_check_method], ''actor permission gate failure check_method is unsafe''),
      (opt_in (pg_endpoint_method g) [perm_endpoint_method], ''actor permission gate failure endpoint_method is unsafe''),
      (opt_in (pg_endpoint_kind g) [perm_endpoint_kind], ''actor permission gate failure endpoint_kind is unsafe'')]
     @ (case pg_endpoint g of
          None \<Rightarrow> []
        | Some e \<Rightarrow>
            (case pg_checked_target g of
               None \<Rightarrow> [(False, ''actor permission gate failure endpoint requires checked_target'')]
             | Some d \<Rightarrow> [(expected_endpoint d = Some e, ''actor permission gate failure endpoint is unsafe'')]))"

definition failure_metadata_checks :: "perm_gate \<Rightarrow> (bool \<times> string) list" where
  "failure_metadata_checks g =
     [(opt_ok (\<lambda>p. failure_permission (pg_repo_permission g) (pg_installation_permission g) (pg_endpoint_permission g) = Some p)
         (pg_permission g), ''actor permission gate failure permission proof is unsafe''),
      (opt_ok is_realistic_rfc3339_utc_z (pg_checked_at g), ''actor permission gate failure checked_at must be validated''),
      (opt_in (pg_credential_source g) credential_sources, ''actor permission gate failure credential_source is unsafe''),
      (opt_in (pg_repo_permission g) repo_permissions, ''actor permission gate failure repo_permission is unsafe''),
      (opt_in (pg_installation_permission g) endpoint_permissions,
       ''actor permission gate failure installation_permission is unsafe''),
      (opt_in (pg_endpoint_permission g) endpoint_permissions, ''actor permission gate failure endpoint_permission is unsafe'')]
     @ failure_methods_checks g"

definition failure_transport_checks :: "perm_gate \<Rightarrow> (bool \<times> string) list" where
  "failure_transport_checks g =
     (case (pg_transport_summary g, pg_reason_code g) of
        (Some s, Some r) \<Rightarrow>
          (case ps_reason_code s of
             Some tr \<Rightarrow>
               [(tr \<in> set transport_perm_reasons, ''actor permission gate transport summary reason_code must be transport failure''),
                (tr = r, ''actor permission gate transport summary reason_code mismatch'')]
           | None \<Rightarrow>
               [(r \<notin> set transport_perm_reasons - {PR_malformed_response},
                 ''actor permission gate transport summary reason_code mismatch'')])
          @ [(ps_retryable s = opt_mem (ps_reason_code s) retryable_perm_reasons,
              ''actor permission gate transport summary retryable mismatch'')]
      | _ \<Rightarrow> [])"

definition gate_fail_checks :: "perm_gate \<Rightarrow> (bool \<times> string) list" where
  "gate_fail_checks g =
     [(pg_reason_code g \<noteq> None, ''actor permission gate failure requires reason_code''),
      (pg_transport_summary g \<noteq> None, ''actor permission gate failure requires transport_summary'')]
     @ failure_metadata_checks g @ failure_transport_checks g"

definition perm_gate_check :: "perm_gate \<Rightarrow> string option" where
  "perm_gate_check g = first_failure
     (gate_common_checks g
      @ (case pg_status g of GatePass \<Rightarrow> gate_pass_checks g | GateFail \<Rightarrow> gate_fail_checks g | GateUnknown \<Rightarrow> []))"

end
