(* ===== verification/Permissions.thy ===== *)
theory Permissions
  imports Models_Permission
begin

text \<open>
  The model of \<open>src/src/reviewgraph/permissions.py\<close>: from the probe of the actor's permission to the gate result.
  A field of a probe comes from outside and may have any type: it is absent, present, or malformed. Times are
  microseconds; the source divides their difference by a million into a float, the model compares exactly.
\<close>

section \<open>Probes\<close>

datatype 'a field = Absent | Present 'a | Malformed

record perm_probe =
  pp_actor :: "string field"
  pp_credential_principal :: "string field"
  pp_credential_source :: "string field"
  pp_repo_permission :: "string field"
  pp_installation_permission :: "string field"
  pp_endpoint_permission :: "string field"
  pp_issue_comment_write :: "bool field"
  pp_check_method :: "string field"
  pp_endpoint_method :: "string field"
  pp_checked_target :: "review_target field"
  pp_checked_at :: "string field"
  pp_endpoint :: "string field"
  pp_endpoint_kind :: "string field"
  pp_transport_reason_code :: "perm_reason field"
  pp_request_id :: "string field"
  pp_reason :: "string field"

text \<open>\<open>_clean\<close>, and the value of a field that is known to be a string or \<open>None\<close>.\<close>

definition clean :: "string field \<Rightarrow> string option" where
  "clean v = (case v of Present s \<Rightarrow> if s = [] then None else Some s | _ \<Rightarrow> None)"

definition field_value :: "'a field \<Rightarrow> 'a option" where
  "field_value v = (case v of Present x \<Rightarrow> Some x | _ \<Rightarrow> None)"

definition keep_if :: "('a \<Rightarrow> bool) \<Rightarrow> 'a option \<Rightarrow> 'a option" where
  "keep_if P v = (case v of None \<Rightarrow> None | Some x \<Rightarrow> if P x then Some x else None)"

definition safe_identity :: "string field \<Rightarrow> string option" where
  "safe_identity v = keep_if (\<lambda>s. length s \<le> 128 \<and> list_all (\<lambda>c. request_id_chars c \<or> c \<in> set ''[]@'') s
     \<and> \<not> has_secret_fragment s) (clean v)"

definition safe_request_id :: "string field \<Rightarrow> string option" where
  "safe_request_id v = keep_if (\<lambda>s. length s \<le> 128 \<and> list_all request_id_chars s \<and> \<not> has_secret_fragment s) (clean v)"

definition safe_repo_permission :: "string field \<Rightarrow> string option" where
  "safe_repo_permission v = keep_if (\<lambda>s. s \<in> set repo_permissions) (clean v)"

definition safe_endpoint_permission :: "string field \<Rightarrow> string option" where
  "safe_endpoint_permission v = keep_if (\<lambda>s. s \<in> set endpoint_permissions) (clean v)"

definition safe_credential_source :: "string field \<Rightarrow> string option" where
  "safe_credential_source v = keep_if (\<lambda>s. s \<in> set credential_sources) (clean v)"

definition safe_check_method :: "string field \<Rightarrow> string option" where
  "safe_check_method v = keep_if (\<lambda>s. s = perm_check_method) (clean v)"

definition safe_endpoint_method :: "string field \<Rightarrow> string option" where
  "safe_endpoint_method v = keep_if (\<lambda>s. s = perm_endpoint_method) (clean v)"

definition safe_endpoint_kind :: "string field \<Rightarrow> string option" where
  "safe_endpoint_kind v = keep_if (\<lambda>s. s = perm_endpoint_kind) (clean v)"

definition safe_checked_at :: "string field \<Rightarrow> string option" where
  "safe_checked_at v = keep_if (\<lambda>s. parse_optional_utc_z (Some s) \<noteq> None) (field_value v)"

text \<open>\<open>_expected_endpoint_from_checked_target\<close>.\<close>

definition endpoint_from_checked_target :: "(string \<times> json) list \<Rightarrow> string option" where
  "endpoint_from_checked_target d =
     (case (map_of d ''owner_repo'', map_of d ''pr_number'') of
        (Some (JStr owner_repo), Some (JInt n)) \<Rightarrow>
          if CHR ''/'' \<in> set owner_repo \<and> 0 < n then Some (endpoint_text owner_repo n) else None
      | _ \<Rightarrow> None)"

definition safe_endpoint :: "string field \<Rightarrow> (string \<times> json) list option \<Rightarrow> string option" where
  "safe_endpoint v checked_target =
     (case checked_target of
        None \<Rightarrow> None
      | Some d \<Rightarrow> keep_if (\<lambda>s. endpoint_from_checked_target d = Some s) (clean v))"

definition or_else :: "'a option \<Rightarrow> 'a option \<Rightarrow> 'a option" where
  "or_else a b = (case a of Some x \<Rightarrow> Some x | None \<Rightarrow> b)"

definition safe_failure_permission :: "perm_probe \<Rightarrow> string option" where
  "safe_failure_permission p = or_else (safe_repo_permission (pp_repo_permission p))
     (or_else (safe_endpoint_permission (pp_installation_permission p)) (safe_endpoint_permission (pp_endpoint_permission p)))"

definition transport_summary :: "perm_probe \<Rightarrow> perm_reason option \<Rightarrow> perm_summary result" where
  "transport_summary p r = mk_checked perm_summary_check
     \<lparr>ps_endpoint_kind = perm_transport_kind, ps_retryable = opt_mem r retryable_perm_reasons, ps_reason_code = r,
      ps_request_id = safe_request_id (pp_request_id p)\<rparr>"

section \<open>Results\<close>

definition perm_fail :: "perm_probe \<Rightarrow> perm_reason \<Rightarrow> perm_reason option \<Rightarrow> string \<Rightarrow> perm_gate result" where
  "perm_fail p code transport_code reason =
     (let checked = map_option to_ordered_dict (field_value (pp_checked_target p)) in
      bindE (transport_summary p transport_code) (\<lambda>s.
      mk_checked perm_gate_check
        \<lparr>pg_status = GateFail, pg_actor = safe_identity (pp_actor p), pg_permission = safe_failure_permission p,
         pg_checked_at = safe_checked_at (pp_checked_at p), pg_reason = Some reason, pg_reason_code = Some code,
         pg_credential_principal = safe_identity (pp_credential_principal p),
         pg_credential_source = safe_credential_source (pp_credential_source p),
         pg_repo_permission = safe_repo_permission (pp_repo_permission p),
         pg_installation_permission = safe_endpoint_permission (pp_installation_permission p),
         pg_endpoint_permission = safe_endpoint_permission (pp_endpoint_permission p),
         pg_issue_comment_write = field_value (pp_issue_comment_write p),
         pg_check_method = safe_check_method (pp_check_method p),
         pg_endpoint_method = safe_endpoint_method (pp_endpoint_method p), pg_checked_target = checked,
         pg_checked_target_hash = map_option target_hash (field_value (pp_checked_target p)),
         pg_endpoint = safe_endpoint (pp_endpoint p) checked, pg_endpoint_kind = safe_endpoint_kind (pp_endpoint_kind p),
         pg_transport_summary = Some s\<rparr>))"

text \<open>\<open>_derive_permission\<close>: the permission, or the reason code and the reason.\<close>

definition derive_permission :: "perm_probe \<Rightarrow> string \<Rightarrow> (perm_reason \<times> string) + string" where
  "derive_permission p credential =
     (let repo = clean (pp_repo_permission p); inst = clean (pp_installation_permission p);
          ep = clean (pp_endpoint_permission p) in
      if \<not> opt_in repo repo_permissions then Inl (PR_unknown_permission, ''unknown repo permission'')
      else if \<not> opt_in inst endpoint_permissions then Inl (PR_unknown_permission, ''unknown installation permission'')
      else if \<not> opt_in ep endpoint_permissions then Inl (PR_unknown_permission, ''unknown endpoint permission'')
      else if credential = ''pat'' \<and> (inst \<noteq> None \<or> ep \<noteq> None)
        then Inl (PR_malformed_response, ''classic PAT proof must use broad repo permission only'')
      else if credential = ''fine_grained_pat'' \<and> (repo \<noteq> None \<or> inst \<noteq> None)
        then Inl (PR_malformed_response, ''fine-grained PAT proof must use endpoint permission'')
      else if credential = ''github_app_installation'' \<and> repo \<noteq> None
        then Inl (PR_malformed_response, ''GitHub App installation proof must not use repo permission'')
      else if credential = ''github_app_installation'' \<and> inst = None
        then Inl (PR_unknown_permission, ''GitHub App installation permission is missing'')
      else if credential = ''github_app_installation'' \<and> ep \<noteq> None \<and> ep \<noteq> inst
        then Inl (PR_malformed_response, ''GitHub App endpoint permission must mirror installation permission'')
      else if credential = ''github_app_user'' \<and> (repo \<noteq> None \<or> inst \<noteq> None)
        then Inl (PR_malformed_response, ''GitHub App user proof must use endpoint permission'')
      else case or_else repo (or_else inst ep) of
        None \<Rightarrow> Inl (PR_unknown_permission, ''permission is missing'')
      | Some permission \<Rightarrow>
          if \<not> opt_mem repo write_repo_permissions
             \<and> \<not> (opt_mem inst write_endpoint_permissions \<or> opt_mem ep write_endpoint_permissions)
          then Inl (PR_insufficient_endpoint_permission, ''credential does not have write permission for issue comments'')
          else Inr permission)"

definition probe_string_fields :: "perm_probe \<Rightarrow> (string \<times> string field) list" where
  "probe_string_fields p =
     [(''actor'', pp_actor p), (''credential_principal'', pp_credential_principal p),
      (''credential_source'', pp_credential_source p), (''repo_permission'', pp_repo_permission p),
      (''installation_permission'', pp_installation_permission p), (''endpoint_permission'', pp_endpoint_permission p),
      (''check_method'', pp_check_method p), (''endpoint_method'', pp_endpoint_method p), (''checked_at'', pp_checked_at p),
      (''endpoint'', pp_endpoint p), (''endpoint_kind'', pp_endpoint_kind p), (''request_id'', pp_request_id p),
      (''reason'', pp_reason p)]"

definition first_malformed_field :: "perm_probe \<Rightarrow> string option" where
  "first_malformed_field p = map_option fst (find (\<lambda>(n, v). v = Malformed) (probe_string_fields p))"

section \<open>The gate\<close>

definition MAX_FUTURE_SKEW_SECONDS :: int where "MAX_FUTURE_SKEW_SECONDS = 60"

text \<open>The gate is one function in the source; here its stages, from the last to the first.\<close>

definition gate_pass ::
    "perm_probe \<Rightarrow> review_target \<Rightarrow> string \<Rightarrow> string \<Rightarrow> string \<Rightarrow> string \<Rightarrow> perm_gate result" where
  "gate_pass p t actor cred_source prin permission =
     bindE (transport_summary p None) (\<lambda>s.
     mk_checked perm_gate_check
       \<lparr>pg_status = GatePass, pg_actor = Some actor, pg_permission = Some permission,
        pg_checked_at = field_value (pp_checked_at p), pg_reason = None, pg_reason_code = None,
        pg_credential_principal = Some prin, pg_credential_source = Some cred_source,
        pg_repo_permission = clean (pp_repo_permission p), pg_installation_permission = clean (pp_installation_permission p),
        pg_endpoint_permission = clean (pp_endpoint_permission p), pg_issue_comment_write = Some True,
        pg_check_method = field_value (pp_check_method p), pg_endpoint_method = field_value (pp_endpoint_method p),
        pg_checked_target = Some (to_ordered_dict t), pg_checked_target_hash = Some (target_hash t),
        pg_endpoint = Some (issue_comment_endpoint t), pg_endpoint_kind = Some perm_endpoint_kind,
        pg_transport_summary = Some s\<rparr>)"

definition gate_permission :: "perm_probe \<Rightarrow> review_target \<Rightarrow> string \<Rightarrow> string \<Rightarrow> string \<Rightarrow> perm_gate result" where
  "gate_permission p t actor cred_source prin =
     (case derive_permission p cred_source of
        Inl (code, reason) \<Rightarrow> perm_fail p code None reason
      | Inr permission \<Rightarrow>
          if pp_issue_comment_write p \<noteq> Present True
          then perm_fail p PR_insufficient_endpoint_permission None ''credential cannot write issue comments''
          else gate_pass p t actor cred_source prin permission)"

definition gate_freshness ::
    "perm_probe \<Rightarrow> review_target \<Rightarrow> int \<Rightarrow> int \<Rightarrow> string \<Rightarrow> string \<Rightarrow> string \<Rightarrow> perm_gate result" where
  "gate_freshness p t evaluated_time max_age actor cred_source prin =
     (case parse_optional_utc_z (field_value (pp_checked_at p)) of
        None \<Rightarrow> perm_fail p PR_malformed_response None ''permission check timestamp is malformed''
      | Some checked_time \<Rightarrow>
          if max_age * 1000000 < evaluated_time - checked_time
             \<or> evaluated_time - checked_time < - (MAX_FUTURE_SKEW_SECONDS * 1000000)
          then perm_fail p PR_stale_cached_proof None ''permission proof timestamp is stale''
          else gate_permission p t actor cred_source prin)"

definition gate_target ::
    "perm_probe \<Rightarrow> review_target \<Rightarrow> int \<Rightarrow> int \<Rightarrow> string \<Rightarrow> string \<Rightarrow> string \<Rightarrow> perm_gate result" where
  "gate_target p t evaluated_time max_age actor cred_source prin =
     (if clean (pp_check_method p) = None
        then perm_fail p PR_missing_check_method None ''permission check method is missing''
      else case pp_checked_target p of
        Absent \<Rightarrow> perm_fail p PR_missing_checked_target None ''permission check target is missing''
      | Malformed \<Rightarrow> perm_fail p PR_malformed_response None ''permission check target is malformed''
      | Present checked_target \<Rightarrow>
          if clean (pp_checked_at p) = None
            then perm_fail p PR_missing_checked_at None ''permission check timestamp is missing''
          else if pp_check_method p \<noteq> Present perm_check_method \<or> pp_endpoint_method p \<noteq> Present perm_endpoint_method
              \<or> pp_endpoint_kind p \<noteq> Present perm_endpoint_kind \<or> pp_endpoint p \<noteq> Present (issue_comment_endpoint t)
              \<or> checked_target \<noteq> t
            then perm_fail p PR_target_mismatch None ''permission check target or endpoint did not match''
          else gate_freshness p t evaluated_time max_age actor cred_source prin)"

definition gate_identity :: "perm_probe \<Rightarrow> review_target \<Rightarrow> int \<Rightarrow> int \<Rightarrow> perm_gate result" where
  "gate_identity p t evaluated_time max_age =
     (case safe_identity (pp_actor p) of
        None \<Rightarrow> perm_fail p PR_unknown_actor None ''authenticated GitHub actor is unknown''
      | Some actor \<Rightarrow>
          (case safe_credential_source (pp_credential_source p) of
             None \<Rightarrow> perm_fail p PR_unknown_credential_source None ''credential source is unknown''
           | Some cred_source \<Rightarrow>
               (case safe_identity (pp_credential_principal p) of
                  None \<Rightarrow> perm_fail p PR_missing_credential_principal None ''credential principal is missing''
                | Some prin \<Rightarrow> gate_target p t evaluated_time max_age actor cred_source prin)))"

definition gate_shape :: "perm_probe \<Rightarrow> review_target \<Rightarrow> int \<Rightarrow> int \<Rightarrow> perm_gate result" where
  "gate_shape p t evaluated_time max_age =
     (case first_malformed_field p of
        Some name \<Rightarrow> perm_fail p PR_malformed_response None (''permission probe field is malformed: '' @ name)
      | None \<Rightarrow>
          if pp_issue_comment_write p = Malformed
          then perm_fail p PR_malformed_response None ''permission probe issue_comment_write is malformed''
          else (case pp_transport_reason_code p of
             Malformed \<Rightarrow> perm_fail p PR_malformed_response (Some PR_malformed_response)
               ''permission probe returned a malformed transport reason''
           | Present r \<Rightarrow>
               if r \<notin> set transport_perm_reasons
               then perm_fail p PR_malformed_response (Some PR_malformed_response)
                 ''permission probe returned an invalid transport reason''
               else perm_fail p r (Some r) (''permission probe failed: '' @ perm_reason_value r)
           | Absent \<Rightarrow> gate_identity p t evaluated_time max_age))"

definition evaluate_actor_permission_gate :: "perm_probe \<Rightarrow> review_target \<Rightarrow> string \<Rightarrow> int \<Rightarrow> perm_gate result" where
  "evaluate_actor_permission_gate p t evaluated_at max_age =
     (if max_age \<le> 0 then Inl (ValueError ''max proof age seconds must be a positive integer'')
      else case parse_optional_utc_z (Some evaluated_at) of
        None \<Rightarrow> Inl (ValueError ''evaluated_at must be UTC RFC3339 with trailing Z'')
      | Some evaluated_time \<Rightarrow> gate_shape p t evaluated_time max_age)"

end
