(* ===== verification/Permission_Gate.thy ===== *)
theory Permission_Gate
  imports Permissions
begin

text \<open>
  What the permission gate promises: it never raises on a valid target and clock, every result passes the checks of its
  dataclass, and it passes exactly for a fresh, consistent proof of write access to the issue comments of the target.
\<close>

section \<open>Sanitised fields\<close>

lemma keep_if_Some: "keep_if P v = Some x \<longleftrightarrow> v = Some x \<and> P x"
  by (cases v) (auto simp: keep_if_def)

lemma clean_Some: "clean v = Some s \<longleftrightarrow> v = Present s \<and> s \<noteq> []"
  by (cases v) (auto simp: clean_def)

lemma clean_Present: "s \<noteq> [] \<Longrightarrow> clean (Present s) = Some s"
  by (simp add: clean_def)

lemma parse_no_value: "parse_optional_utc_z None = None"
  by (simp add: parse_optional_utc_z_def)

lemma safe_identity_Some: "safe_identity v = Some s \<longleftrightarrow> v = Present s \<and> is_safe_identity s"
  by (auto simp: safe_identity_def keep_if_Some clean_Some is_safe_identity_def)

lemma safe_request_id_field: "safe_request_id v = Some s \<longleftrightarrow> v = Present s \<and> safe_request_id_text s"
  by (auto simp: safe_request_id_def keep_if_Some clean_Some safe_request_id_text_def)

lemma safe_checked_at_Some: "safe_checked_at v = Some s \<Longrightarrow> is_realistic_rfc3339_utc_z s"
  by (auto simp: safe_checked_at_def keep_if_Some dest: parsed_realistic)

lemma safe_permission_Some:
  "safe_repo_permission v = Some s \<longleftrightarrow> v = Present s \<and> s \<noteq> [] \<and> s \<in> set repo_permissions"
  "safe_endpoint_permission v = Some s \<longleftrightarrow> v = Present s \<and> s \<noteq> [] \<and> s \<in> set endpoint_permissions"
  "safe_credential_source v = Some s \<longleftrightarrow> v = Present s \<and> s \<noteq> [] \<and> s \<in> set credential_sources"
  by (auto simp: safe_repo_permission_def safe_endpoint_permission_def safe_credential_source_def keep_if_Some clean_Some)

lemma safe_method_Some:
  "safe_check_method v = Some s \<longleftrightarrow> v = Present s \<and> s = perm_check_method"
  "safe_endpoint_method v = Some s \<longleftrightarrow> v = Present s \<and> s = perm_endpoint_method"
  "safe_endpoint_kind v = Some s \<longleftrightarrow> v = Present s \<and> s = perm_endpoint_kind"
  by (auto simp: safe_check_method_def safe_endpoint_method_def safe_endpoint_kind_def keep_if_Some clean_Some
      perm_check_method_def perm_endpoint_method_def perm_endpoint_kind_def)

lemma methods_not_Nil: "perm_check_method \<noteq> []" "perm_endpoint_method \<noteq> []" "perm_endpoint_kind \<noteq> []"
  by (simp_all add: perm_check_method_def perm_endpoint_method_def perm_endpoint_kind_def)

lemmas safe_field_Some = safe_identity_Some safe_permission_Some safe_method_Some

lemma endpoint_from_target:
  "valid_target t \<Longrightarrow> endpoint_from_checked_target (to_ordered_dict t) = Some (issue_comment_endpoint t)"
  by (simp add: endpoint_from_checked_target_def to_ordered_dict_def endpoint_text_def issue_comment_endpoint_def
      review_target_check_def split: if_split_asm)

definition summary_for :: "perm_probe \<Rightarrow> perm_reason option \<Rightarrow> perm_summary" where
  "summary_for p r = \<lparr>ps_endpoint_kind = perm_transport_kind, ps_retryable = opt_mem r retryable_perm_reasons,
     ps_reason_code = r, ps_request_id = safe_request_id (pp_request_id p)\<rparr>"

lemma transport_summary_ok: "transport_summary p r = Inr (summary_for p r)"
proof -
  have "perm_summary_check (summary_for p r) = None"
    using safe_request_id_field[of "pp_request_id p"]
    by (cases "safe_request_id (pp_request_id p)")
      (auto simp: perm_summary_check_def summary_for_def require_non_empty_def require_optional_non_empty_def
        perm_transport_kind_def safe_request_id_text_def)
  then show ?thesis by (simp add: transport_summary_def mk_checked_def summary_for_def)
qed

section \<open>Failures\<close>

text \<open>The probe's own target passed the constructor of \<open>ReviewTarget\<close>.\<close>

definition wf_probe :: "perm_probe \<Rightarrow> bool" where
  "wf_probe p \<longleftrightarrow> (case pp_checked_target p of Present t \<Rightarrow> valid_target t | _ \<Rightarrow> True)"

text \<open>The reasons of a failure and of its transport summary fit together.\<close>

definition codes_fit :: "perm_reason \<Rightarrow> perm_reason option \<Rightarrow> bool" where
  "codes_fit code tr \<longleftrightarrow>
     (case tr of None \<Rightarrow> code \<notin> set transport_perm_reasons - {PR_malformed_response}
      | Some r \<Rightarrow> r \<in> set transport_perm_reasons \<and> r = code)"

definition is_failure :: "perm_gate result \<Rightarrow> perm_reason \<Rightarrow> bool" where
  "is_failure res code \<longleftrightarrow> (\<exists>g. res = Inr g \<and> pg_status g = GateFail \<and> pg_reason_code g = Some code)"

lemmas require_defs = require_optional_non_empty_def require_non_empty_def require_optional_hash_like_def require_hash_like_def

lemma failure_permission_safe:
  assumes "opt_in a repo_permissions" and "opt_in b endpoint_permissions" and "opt_in c endpoint_permissions"
  shows "failure_permission a b c = or_else a (or_else b c)"
  using assms by (cases a; cases b; cases c) (auto simp: failure_permission_def or_else_def opt_in_def)

lemma safe_permissions_in:
  "opt_in (safe_repo_permission a) repo_permissions" "opt_in (safe_endpoint_permission b) endpoint_permissions"
  "opt_in (safe_credential_source c) credential_sources"
  by (auto simp: opt_in_def opt_ok_iff safe_permission_Some)

lemma safe_failure_permission_eq:
  "safe_failure_permission p = failure_permission (safe_repo_permission (pp_repo_permission p))
     (safe_endpoint_permission (pp_installation_permission p)) (safe_endpoint_permission (pp_endpoint_permission p))"
  by (simp add: safe_failure_permission_def failure_permission_safe safe_permissions_in)

lemma failure_permission_not_Nil: "failure_permission a b c = Some s \<Longrightarrow> s \<noteq> []"
  by (cases a; cases b; cases c) (auto simp: failure_permission_def permission_sets split: if_split_asm)

lemma safe_endpoint_expected:
  assumes "wf_probe p" and "safe_endpoint v (map_option to_ordered_dict (field_value (pp_checked_target p))) = Some e"
  shows "\<exists>t. pp_checked_target p = Present t \<and> expected_endpoint (to_ordered_dict t) = Some e \<and> e \<noteq> []"
  using assms
  by (cases "pp_checked_target p")
    (auto simp: safe_endpoint_def field_value_def keep_if_Some clean_Some wf_probe_def endpoint_from_target expected_endpoint_target)

lemma perm_fail_fails:
  assumes "wf_probe p" and "is_safe_reason reason" and "codes_fit code tr"
  shows "is_failure (perm_fail p code tr reason) code"
proof -
  let ?d = "map_option to_ordered_dict (field_value (pp_checked_target p))"
  define g where "g = \<lparr>pg_status = GateFail, pg_actor = safe_identity (pp_actor p), pg_permission = safe_failure_permission p,
         pg_checked_at = safe_checked_at (pp_checked_at p), pg_reason = Some reason, pg_reason_code = Some code,
         pg_credential_principal = safe_identity (pp_credential_principal p),
         pg_credential_source = safe_credential_source (pp_credential_source p),
         pg_repo_permission = safe_repo_permission (pp_repo_permission p),
         pg_installation_permission = safe_endpoint_permission (pp_installation_permission p),
         pg_endpoint_permission = safe_endpoint_permission (pp_endpoint_permission p),
         pg_issue_comment_write = field_value (pp_issue_comment_write p),
         pg_check_method = safe_check_method (pp_check_method p),
         pg_endpoint_method = safe_endpoint_method (pp_endpoint_method p), pg_checked_target = ?d,
         pg_checked_target_hash = map_option target_hash (field_value (pp_checked_target p)),
         pg_endpoint = safe_endpoint (pp_endpoint p) ?d, pg_endpoint_kind = safe_endpoint_kind (pp_endpoint_kind p),
         pg_transport_summary = Some (summary_for p tr)\<rparr>"
  have target: "pg_checked_target_hash g = Some h \<Longrightarrow> h \<noteq> [] \<and> starts_with ''sha256:'' h" for h
    using strict_target_hash
    by (cases "pp_checked_target p") (auto simp: g_def field_value_def dest: strict_sha256_not_Nil strict_starts_with simp del: strict_target_hash)
  have ends: "pg_endpoint g = Some e \<Longrightarrow> e \<noteq> [] \<and> (\<exists>d. pg_checked_target g = Some d \<and> expected_endpoint d = Some e)" for e
    by (auto simp: g_def dest!: safe_endpoint_expected[OF assms(1)]) (simp_all add: field_value_def)
  have common: "\<forall>c \<in> set (gate_common_checks g). fst c"
    using assms(2) target ends
    by (cases "pg_checked_target_hash g")
      (auto simp: gate_common_checks_def require_defs opt_ok_iff g_def safe_field_Some is_safe_identity_def
        is_safe_reason_def methods_not_Nil safe_failure_permission_eq dest: failure_permission_not_Nil safe_checked_at_Some
        realistic_not_Nil)
  have meta: "\<forall>c \<in> set (failure_metadata_checks g). fst c"
    using ends safe_permissions_in
    by (cases "pg_endpoint g")
      (auto simp: failure_metadata_checks_def failure_methods_checks_def opt_in_def opt_ok_iff g_def safe_method_Some
        safe_failure_permission_eq dest: safe_checked_at_Some)
  have transport: "\<forall>c \<in> set (failure_transport_checks g). fst c"
    using assms(3) by (cases tr) (auto simp: failure_transport_checks_def g_def summary_for_def codes_fit_def)
  have st: "pg_status g = GateFail" "pg_reason_code g = Some code" "pg_transport_summary g = Some (summary_for p tr)"
    by (simp_all add: g_def)
  have "perm_gate_check g = None"
    unfolding perm_gate_check_def first_failure_None_iff gate_fail_checks_def st(1)
    using common meta transport by (auto simp: st)
  then have "perm_fail p code tr reason = Inr g"
    by (simp add: perm_fail_def Let_def transport_summary_ok mk_checked_def g_def)
  then show ?thesis by (simp add: is_failure_def st)
qed

section \<open>Safe reasons\<close>

lemma safe_reasons:
  "is_safe_reason ''permission probe issue_comment_write is malformed''"
  "is_safe_reason ''permission probe returned a malformed transport reason''"
  "is_safe_reason ''permission probe returned an invalid transport reason''"
  "is_safe_reason ''authenticated GitHub actor is unknown''"
  "is_safe_reason ''credential source is unknown''"
  "is_safe_reason ''credential principal is missing''"
  "is_safe_reason ''permission check method is missing''"
  "is_safe_reason ''permission check target is missing''"
  "is_safe_reason ''permission check target is malformed''"
  "is_safe_reason ''permission check timestamp is missing''"
  "is_safe_reason ''permission check target or endpoint did not match''"
  "is_safe_reason ''permission check timestamp is malformed''"
  "is_safe_reason ''permission proof timestamp is stale''"
  "is_safe_reason ''credential cannot write issue comments''"
  by code_simp+

lemma safe_reason_transport:
  assumes "r \<in> set transport_perm_reasons"
  shows "is_safe_reason (''permission probe failed: '' @ perm_reason_value r)"
proof -
  have "list_all (\<lambda>r. is_safe_reason (''permission probe failed: '' @ perm_reason_value r)) transport_perm_reasons"
    by code_simp
  with assms show ?thesis by (simp add: list_all_iff)
qed

lemma safe_reason_malformed:
  assumes "first_malformed_field p = Some n"
  shows "is_safe_reason (''permission probe field is malformed: '' @ n)"
proof -
  have "list_all (\<lambda>n. is_safe_reason (''permission probe field is malformed: '' @ n))
    [''actor'', ''credential_principal'', ''credential_source'', ''repo_permission'', ''installation_permission'',
     ''endpoint_permission'', ''check_method'', ''endpoint_method'', ''checked_at'', ''endpoint'', ''endpoint_kind'',
     ''request_id'', ''reason'']" by code_simp
  moreover have "n \<in> fst ` set (probe_string_fields p)"
    using assms by (auto simp: first_malformed_field_def find_Some_iff in_set_conv_nth image_def intro!: bexI)
  ultimately show ?thesis by (auto simp: probe_string_fields_def)
qed

section \<open>Deriving the permission\<close>

text \<open>The gate and the dataclass derive the permission by two different functions.\<close>

lemma permission_sets_facts:
  "s \<in> set write_repo_permissions \<Longrightarrow> s \<notin> set endpoint_permissions"
  "s \<in> set write_endpoint_permissions \<Longrightarrow> s \<notin> set repo_permissions"
  by (auto simp: permission_sets)

lemma derive_agrees_by_source:
  fixes p :: perm_probe
  assumes "clean (pp_repo_permission p) = r" "clean (pp_installation_permission p) = i" "clean (pp_endpoint_permission p) = e"
  shows "derive_permission p ''pat'' = Inr q \<longleftrightarrow> derived_permission (Some ''pat'') r i e = Some q"
    and "derive_permission p ''fine_grained_pat'' = Inr q \<longleftrightarrow> derived_permission (Some ''fine_grained_pat'') r i e = Some q"
    and "derive_permission p ''github_app_installation'' = Inr q \<longleftrightarrow>
      derived_permission (Some ''github_app_installation'') r i e = Some q"
    and "derive_permission p ''github_app_user'' = Inr q \<longleftrightarrow> derived_permission (Some ''github_app_user'') r i e = Some q"
  by (cases r; cases i; cases e;
      simp add: derive_permission_def derived_permission_def Let_def opt_in_def or_else_def assms credential_sources_def;
      auto dest: permission_sets_facts)+

lemma derive_agrees:
  assumes "c \<in> set credential_sources"
  shows "derive_permission p c = Inr q \<longleftrightarrow> derived_permission (Some c) (clean (pp_repo_permission p))
     (clean (pp_installation_permission p)) (clean (pp_endpoint_permission p)) = Some q"
  using assms derive_agrees_by_source[OF refl refl refl, of p q]
  unfolding credential_sources_def list.set insert_iff empty_iff by (elim disjE FalseE) (simp_all only:)

lemma derive_error_safe:
  assumes "derive_permission p c = Inl (code, reason)"
  shows "is_safe_reason reason \<and> code \<in> {PR_unknown_permission, PR_malformed_response, PR_insufficient_endpoint_permission}"
proof -
  have "list_all is_safe_reason [''unknown repo permission'', ''unknown installation permission'', ''unknown endpoint permission'',
    ''classic PAT proof must use broad repo permission only'', ''fine-grained PAT proof must use endpoint permission'',
    ''GitHub App installation proof must not use repo permission'', ''GitHub App installation permission is missing'',
    ''GitHub App endpoint permission must mirror installation permission'', ''GitHub App user proof must use endpoint permission'',
    ''permission is missing'', ''credential does not have write permission for issue comments'']" by code_simp
  with assms show ?thesis
    by (auto simp: derive_permission_def Let_def split: if_split_asm option.split_asm)
qed

lemma derived_is_write:
  assumes "derived_permission c r i e = Some q"
  shows "q \<in> set write_repo_permissions \<or> q \<in> set write_endpoint_permissions"
  using assms by (auto simp: derived_permission_def Let_def split: if_split_asm elim: opt_mem.elims)

lemma derived_permissions_in:
  assumes "derived_permission c r i e = Some q"
  shows "opt_in r repo_permissions \<and> opt_in i endpoint_permissions \<and> opt_in e endpoint_permissions"
  using assms by (auto simp: derived_permission_def split: if_split_asm)

lemma permissions_not_Nil: "opt_in v repo_permissions \<or> opt_in v endpoint_permissions \<Longrightarrow> opt_ok non_empty v"
  by (cases v) (auto simp: opt_in_def permission_sets)

section \<open>Passing\<close>

text \<open>When the gate passes: what the probe must prove about the target \<open>t\<close> at the time \<open>now\<close>.\<close>

definition probe_well_typed :: "perm_probe \<Rightarrow> bool" where
  "probe_well_typed p \<longleftrightarrow> first_malformed_field p = None \<and> pp_transport_reason_code p = Absent"

definition proof_fresh :: "perm_probe \<Rightarrow> int \<Rightarrow> int \<Rightarrow> bool" where
  "proof_fresh p now max_age \<longleftrightarrow>
     (case parse_optional_utc_z (field_value (pp_checked_at p)) of
        None \<Rightarrow> False
      | Some checked \<Rightarrow> now - checked \<le> max_age * 1000000 \<and> checked - now \<le> 60 * 1000000)"

definition proves_write_access :: "perm_probe \<Rightarrow> review_target \<Rightarrow> bool" where
  "proves_write_access p t \<longleftrightarrow>
     safe_identity (pp_actor p) \<noteq> None \<and> safe_identity (pp_credential_principal p) \<noteq> None
     \<and> pp_check_method p = Present perm_check_method \<and> pp_endpoint_method p = Present perm_endpoint_method
     \<and> pp_endpoint_kind p = Present perm_endpoint_kind \<and> pp_endpoint p = Present (issue_comment_endpoint t)
     \<and> pp_checked_target p = Present t \<and> pp_issue_comment_write p = Present True
     \<and> derived_permission (safe_credential_source (pp_credential_source p)) (clean (pp_repo_permission p))
         (clean (pp_installation_permission p)) (clean (pp_endpoint_permission p)) \<noteq> None"

definition pass_record :: "perm_probe \<Rightarrow> review_target \<Rightarrow> string \<Rightarrow> string \<Rightarrow> string \<Rightarrow> string \<Rightarrow> perm_gate" where
  "pass_record p t actor cred_source prin permission =
     \<lparr>pg_status = GatePass, pg_actor = Some actor, pg_permission = Some permission,
        pg_checked_at = field_value (pp_checked_at p), pg_reason = None, pg_reason_code = None,
        pg_credential_principal = Some prin, pg_credential_source = Some cred_source,
        pg_repo_permission = clean (pp_repo_permission p), pg_installation_permission = clean (pp_installation_permission p),
        pg_endpoint_permission = clean (pp_endpoint_permission p), pg_issue_comment_write = Some True,
        pg_check_method = field_value (pp_check_method p), pg_endpoint_method = field_value (pp_endpoint_method p),
        pg_checked_target = Some (to_ordered_dict t), pg_checked_target_hash = Some (target_hash t),
        pg_endpoint = Some (issue_comment_endpoint t), pg_endpoint_kind = Some perm_endpoint_kind,
        pg_transport_summary = Some (summary_for p None)\<rparr>"

lemma gate_pass_ok:
  assumes "valid_target t" and "is_safe_identity actor" and "is_safe_identity prin"
    and "field_value (pp_checked_at p) = Some ts" and "is_realistic_rfc3339_utc_z ts"
    and "pp_check_method p = Present perm_check_method" and "pp_endpoint_method p = Present perm_endpoint_method"
    and "cred_source \<in> set credential_sources"
    and d: "derived_permission (Some cred_source) (clean (pp_repo_permission p)) (clean (pp_installation_permission p))
      (clean (pp_endpoint_permission p)) = Some permission"
  shows "gate_pass p t actor cred_source prin permission = Inr (pass_record p t actor cred_source prin permission)"
proof -
  let ?g = "pass_record p t actor cred_source prin permission"
  have w: "permission \<noteq> []" "permission \<notin> {''read'', ''triage'', ''issues:read'', ''pull_requests:read''}"
    using derived_is_write[OF d] by (auto simp: permission_sets)
  have e: "expected_endpoint (to_ordered_dict t) = Some (issue_comment_endpoint t)" by (rule expected_endpoint_target[OF assms(1)])
  have "issue_comment_endpoint t \<noteq> []" by (simp add: issue_comment_endpoint_def split: prod.split)
  moreover have "target_hash t \<noteq> []" "starts_with ''sha256:'' (target_hash t)"
    using strict_sha256_not_Nil strict_starts_with strict_target_hash by blast+
  moreover have "cred_source \<noteq> []" using assms(8) by (auto simp: credential_sources_def)
  ultimately have common: "\<forall>c \<in> set (gate_common_checks ?g). fst c"
    using assms(2-7) w(1) derived_permissions_in[OF d] permissions_not_Nil realistic_not_Nil
    by (auto simp: gate_common_checks_def require_defs pass_record_def is_safe_identity_def methods_not_Nil field_value_def)
  have pass: "\<forall>c \<in> set (gate_pass_checks ?g). fst c"
    using assms(4-7) w(2) d e
    by (auto simp: gate_pass_checks_def pass_proof_checks_def pass_target_checks_def pass_transport_checks_def pass_record_def
        field_value_def summary_for_def target_hash_def)
  have "pg_status ?g = GatePass" by (simp add: pass_record_def)
  with common pass have "perm_gate_check ?g = None"
    by (auto simp: perm_gate_check_def first_failure_None_iff)
  then show ?thesis by (simp add: gate_pass_def transport_summary_ok mk_checked_def pass_record_def)
qed

section \<open>Every stage either fails or passes the proof on\<close>

text \<open>\<open>outcome res ok\<close>: the result is a checked failure, or \<open>ok\<close> and a pass whose fields repeat the probe.\<close>

definition passes_with :: "perm_probe \<Rightarrow> review_target \<Rightarrow> perm_gate result \<Rightarrow> bool" where
  "passes_with p t res \<longleftrightarrow>
     (\<exists>actor cs prin permission. res = Inr (pass_record p t actor cs prin permission)
       \<and> perm_gate_check (pass_record p t actor cs prin permission) = None
       \<and> safe_identity (pp_actor p) = Some actor \<and> safe_credential_source (pp_credential_source p) = Some cs
       \<and> safe_identity (pp_credential_principal p) = Some prin
       \<and> derived_permission (Some cs) (clean (pp_repo_permission p)) (clean (pp_installation_permission p))
           (clean (pp_endpoint_permission p)) = Some permission)"

definition outcome :: "perm_probe \<Rightarrow> review_target \<Rightarrow> perm_gate result \<Rightarrow> bool \<Rightarrow> bool" where
  "outcome p t res ok \<longleftrightarrow> (if ok then passes_with p t res else \<exists>code. is_failure res code)"

lemma outcome_fail:
  "\<not> ok \<Longrightarrow> wf_probe p \<Longrightarrow> is_safe_reason reason \<Longrightarrow> codes_fit code tr \<Longrightarrow> outcome p t (perm_fail p code tr reason) ok"
  using perm_fail_fails[of p reason code tr] by (auto simp: outcome_def)

lemma codes_fit_local [simp]:
  "codes_fit PR_malformed_response None" "codes_fit PR_unknown_actor None" "codes_fit PR_unknown_credential_source None"
  "codes_fit PR_missing_credential_principal None" "codes_fit PR_missing_check_method None" "codes_fit PR_missing_checked_target None"
  "codes_fit PR_missing_checked_at None" "codes_fit PR_target_mismatch None" "codes_fit PR_stale_cached_proof None"
  "codes_fit PR_insufficient_endpoint_permission None" "codes_fit PR_unknown_permission None"
  "codes_fit PR_malformed_response (Some PR_malformed_response)"
  by (simp_all add: codes_fit_def transport_perm_reasons_def)

lemma permission_stage:
  assumes target: "valid_target t" and probe: "wf_probe p" and "safe_identity (pp_actor p) = Some actor" and "safe_credential_source (pp_credential_source p) = Some cs"
    and "safe_identity (pp_credential_principal p) = Some prin" and "field_value (pp_checked_at p) = Some ts"
    and "is_realistic_rfc3339_utc_z ts" and "pp_check_method p = Present perm_check_method"
    and "pp_endpoint_method p = Present perm_endpoint_method"
  shows "outcome p t (gate_permission p t actor cs prin) (pp_issue_comment_write p = Present True
    \<and> derived_permission (Some cs) (clean (pp_repo_permission p)) (clean (pp_installation_permission p))
        (clean (pp_endpoint_permission p)) \<noteq> None)"
proof -
  have cs: "cs \<in> set credential_sources" using assms(4) by (simp add: safe_permission_Some)
  show ?thesis
  proof (cases "derive_permission p cs")
    case (Inl e)
    obtain code reason where e: "e = (code, reason)" by fastforce
    have "is_safe_reason reason \<and> codes_fit code None" using derive_error_safe[of p cs code reason] Inl e by auto
    moreover have "derived_permission (Some cs) (clean (pp_repo_permission p)) (clean (pp_installation_permission p))
        (clean (pp_endpoint_permission p)) = None"
      using Inl derive_agrees[OF cs, of p] by (metis not_None_eq sum.distinct(1))
    ultimately show ?thesis using Inl e probe by (simp add: gate_permission_def outcome_fail)
  next
    case (Inr q)
    then have d: "derived_permission (Some cs) (clean (pp_repo_permission p)) (clean (pp_installation_permission p))
        (clean (pp_endpoint_permission p)) = Some q" using derive_agrees[OF cs] by simp
    have "gate_pass p t actor cs prin q = Inr (pass_record p t actor cs prin q)"
      using assms cs d target by (intro gate_pass_ok) (auto simp: safe_identity_Some)
    moreover from this have "perm_gate_check (pass_record p t actor cs prin q) = None"
      by (auto simp: gate_pass_def bindE_Inr_iff mk_checked_Inr_iff)
    ultimately show ?thesis using Inr d assms(3-5) probe
      by (auto simp: gate_permission_def outcome_def passes_with_def intro!: perm_fail_fails exI[of _ PR_insufficient_endpoint_permission]
          safe_reasons)
  qed
qed

lemma freshness_stage:
  assumes target: "valid_target t" and probe: "wf_probe p" and "safe_identity (pp_actor p) = Some actor" and "safe_credential_source (pp_credential_source p) = Some cs"
    and "safe_identity (pp_credential_principal p) = Some prin" and "pp_check_method p = Present perm_check_method"
    and "pp_endpoint_method p = Present perm_endpoint_method"
  shows "outcome p t (gate_freshness p t now max_age actor cs prin) (proof_fresh p now max_age
    \<and> pp_issue_comment_write p = Present True
    \<and> derived_permission (Some cs) (clean (pp_repo_permission p)) (clean (pp_installation_permission p))
        (clean (pp_endpoint_permission p)) \<noteq> None)"
proof (cases "parse_optional_utc_z (field_value (pp_checked_at p))")
  case None
  then show ?thesis
    by (simp add: gate_freshness_def proof_fresh_def probe safe_reasons outcome_fail)
next
  case (Some checked)
  then obtain ts where ts: "field_value (pp_checked_at p) = Some ts" "is_realistic_rfc3339_utc_z ts"
    by (cases "field_value (pp_checked_at p)") (auto simp: parse_no_value dest: parsed_realistic)
  show ?thesis
  proof (cases "proof_fresh p now max_age")
    case True
    then have "gate_freshness p t now max_age actor cs prin = gate_permission p t actor cs prin"
      using Some by (simp add: gate_freshness_def proof_fresh_def MAX_FUTURE_SKEW_SECONDS_def)
    then show ?thesis using permission_stage[OF target probe assms(3-5) ts assms(6,7)] True by simp
  next
    case False
    then have "gate_freshness p t now max_age actor cs prin
        = perm_fail p PR_stale_cached_proof None ''permission proof timestamp is stale''"
      using Some by (auto simp: gate_freshness_def proof_fresh_def MAX_FUTURE_SKEW_SECONDS_def)
    then show ?thesis using False by (simp add: probe safe_reasons outcome_fail)
  qed
qed

lemma proof_fresh_clean: "proof_fresh p now max_age \<Longrightarrow> clean (pp_checked_at p) \<noteq> None"
proof (cases "pp_checked_at p")
  case (Present ts)
  have "parse_optional_utc_z (Some []) = None" by (simp add: parse_optional_utc_z_def rfc3339_shape_def)
  then show "proof_fresh p now max_age \<Longrightarrow> ?thesis"
    using Present by (auto simp: proof_fresh_def field_value_def clean_def)
qed (simp_all add: proof_fresh_def field_value_def parse_no_value)

lemma target_stage:
  assumes target: "valid_target t" and probe: "wf_probe p" and "safe_identity (pp_actor p) = Some actor" and "safe_credential_source (pp_credential_source p) = Some cs"
    and "safe_identity (pp_credential_principal p) = Some prin"
  shows "outcome p t (gate_target p t now max_age actor cs prin) (proof_fresh p now max_age \<and> proves_write_access p t)"
proof (cases "pp_check_method p = Present perm_check_method \<and> pp_endpoint_method p = Present perm_endpoint_method
    \<and> pp_endpoint_kind p = Present perm_endpoint_kind \<and> pp_endpoint p = Present (issue_comment_endpoint t)
    \<and> pp_checked_target p = Present t \<and> clean (pp_checked_at p) \<noteq> None")
  case True
  then have "gate_target p t now max_age actor cs prin = gate_freshness p t now max_age actor cs prin"
    by (auto simp add: gate_target_def clean_Present methods_not_Nil)
  with freshness_stage[OF assms] True assms show ?thesis by (simp add: proves_write_access_def)
next
  case False
  have "\<not> (proof_fresh p now max_age \<and> proves_write_access p t)"
    using False proof_fresh_clean[of p now max_age] by (auto simp: proves_write_access_def)
  with False show ?thesis
    by (cases "pp_checked_target p") (auto simp: gate_target_def probe safe_reasons outcome_fail)
qed

lemma identity_stage:
  assumes target: "valid_target t" and probe: "wf_probe p"
  shows "outcome p t (gate_identity p t now max_age) (proof_fresh p now max_age \<and> proves_write_access p t)"
proof (cases "safe_identity (pp_actor p) = None \<or> safe_credential_source (pp_credential_source p) = None
    \<or> safe_identity (pp_credential_principal p) = None")
  case True
  have no: "derived_permission None r i e = None" for r i e by (simp add: derived_permission_def)
  from True have "\<not> proves_write_access p t" by (auto simp: proves_write_access_def no)
  with True show ?thesis
    by (auto simp: gate_identity_def probe safe_reasons outcome_fail split: option.split)
next
  case False
  then obtain actor cs prin where "safe_identity (pp_actor p) = Some actor"
    "safe_credential_source (pp_credential_source p) = Some cs" "safe_identity (pp_credential_principal p) = Some prin" by auto
  with target_stage[OF target probe this, of now max_age] show ?thesis by (simp add: gate_identity_def)
qed

lemma shape_stage:
  assumes target: "valid_target t" and probe: "wf_probe p"
  shows "outcome p t (gate_shape p t now max_age) (probe_well_typed p \<and> proof_fresh p now max_age \<and> proves_write_access p t)"
proof (cases "first_malformed_field p")
  case (Some n)
  then show ?thesis
    using outcome_fail[OF _ probe safe_reason_malformed[OF Some] codes_fit_local(1), of False t]
    by (simp add: gate_shape_def probe_well_typed_def)
next
  case None
  show ?thesis
  proof (cases "pp_issue_comment_write p = Malformed")
    case True
    then show ?thesis
      using None by (simp add: gate_shape_def proves_write_access_def probe safe_reasons outcome_fail)
  next
    case ok: False
    show ?thesis
    proof (cases "pp_transport_reason_code p")
      case Absent
      then show ?thesis using None ok identity_stage[OF target probe, of now max_age]
        by (simp add: gate_shape_def probe_well_typed_def)
    next
      case (Present r)
      show ?thesis
      proof (cases "r \<in> set transport_perm_reasons")
        case True
        then have "codes_fit r (Some r)" by (simp add: codes_fit_def)
        then show ?thesis using None ok Present True outcome_fail[OF _ probe safe_reason_transport[OF True], of False r "Some r" t]
          by (simp add: gate_shape_def probe_well_typed_def)
      qed (use None ok Present in \<open>simp add: gate_shape_def probe_well_typed_def probe safe_reasons outcome_fail\<close>)
    qed (use None ok in \<open>simp add: gate_shape_def probe_well_typed_def probe safe_reasons outcome_fail\<close>)
  qed
qed

lemma gate_evaluated:
  assumes "valid_target t" and "wf_probe p" and "0 < max_age" and "parse_optional_utc_z (Some evaluated_at) = Some now"
  shows "outcome p t (evaluate_actor_permission_gate p t evaluated_at max_age)
    (probe_well_typed p \<and> proof_fresh p now max_age \<and> proves_write_access p t)"
  using shape_stage[OF assms(1,2), of now max_age] assms(3,4) by (simp add: evaluate_actor_permission_gate_def)

lemma outcome_cases:
  assumes "outcome p t res ok"
  obtains (pass) actor cs prin permission where "ok" and "res = Inr (pass_record p t actor cs prin permission)"
      and "perm_gate_check (pass_record p t actor cs prin permission) = None"
      and "safe_identity (pp_actor p) = Some actor"
      and "derived_permission (Some cs) (clean (pp_repo_permission p)) (clean (pp_installation_permission p))
           (clean (pp_endpoint_permission p)) = Some permission"
  | (fail) g code where "\<not> ok" and "res = Inr g" and "pg_status g = GateFail" and "pg_reason_code g = Some code"
  using assms by (auto simp: outcome_def passes_with_def is_failure_def split: if_split_asm)

lemma perm_fail_checked: "perm_fail p code tr reason = Inr g \<Longrightarrow> perm_gate_check g = None"
  by (auto simp: perm_fail_def Let_def bindE_Inr_iff mk_checked_Inr_iff)

lemma gate_pass_checked: "gate_pass p t a c pr q = Inr g \<Longrightarrow> perm_gate_check g = None"
  by (auto simp: gate_pass_def bindE_Inr_iff mk_checked_Inr_iff)

lemma gate_checked:
  assumes "evaluate_actor_permission_gate p t e m = Inr g"
  shows "perm_gate_check g = None"
proof -
  have 1: "gate_permission p t a c pr = Inr g \<Longrightarrow> perm_gate_check g = None" for a c pr
    by (auto simp: gate_permission_def dest: perm_fail_checked gate_pass_checked split: sum.split_asm if_split_asm)
  have 2: "gate_freshness p t n m a c pr = Inr g \<Longrightarrow> perm_gate_check g = None" for n a c pr
    by (auto simp: gate_freshness_def dest: perm_fail_checked 1 split: option.split_asm if_split_asm)
  have 3: "gate_target p t n m a c pr = Inr g \<Longrightarrow> perm_gate_check g = None" for n a c pr
    by (auto simp: gate_target_def dest: perm_fail_checked 2 split: field.split_asm if_split_asm)
  have 4: "gate_identity p t n m = Inr g \<Longrightarrow> perm_gate_check g = None" for n
    by (auto simp: gate_identity_def dest: perm_fail_checked 3 split: option.split_asm)
  have 5: "gate_shape p t n m = Inr g \<Longrightarrow> perm_gate_check g = None" for n
    by (auto simp: gate_shape_def dest: perm_fail_checked 4 split: option.split_asm field.split_asm if_split_asm)
  from assms show ?thesis
    by (auto simp: evaluate_actor_permission_gate_def dest: 5 split: option.split_asm if_split_asm)
qed

section \<open>Properties\<close>

text \<open>C32. On a valid target, clock and age the permission gate never raises, its result passes the checks of its
  dataclass, and it passes exactly if the probe is well typed and reports no transport failure, its proof is at most
  \<open>max_age\<close> seconds old and at most 60 seconds in the future, and it proves write access to the issue comment endpoint
  of exactly this target with a permission that its kind of credential can carry.\<close>

theorem permission_gate_exact:
  assumes "valid_target t" and "wf_probe p" and "0 < max_age" and "parse_optional_utc_z (Some evaluated_at) = Some now"
  shows "\<exists>g. evaluate_actor_permission_gate p t evaluated_at max_age = Inr g \<and> perm_gate_check g = None
    \<and> (pg_status g = GatePass \<longleftrightarrow> probe_well_typed p \<and> proof_fresh p now max_age \<and> proves_write_access p t)
    \<and> (pg_status g = GateFail \<longleftrightarrow> \<not> (probe_well_typed p \<and> proof_fresh p now max_age \<and> proves_write_access p t))"
  using gate_evaluated[OF assms]
proof (cases rule: outcome_cases)
  case (pass actor cs prin permission)
  then show ?thesis by (intro exI[of _ "pass_record p t actor cs prin permission"]) (simp add: pass_record_def)
next
  case (fail g code)
  then show ?thesis using gate_checked by (intro exI[of _ g]) auto
qed

text \<open>A probe that passes.\<close>

definition sample_probe :: perm_probe where
  "sample_probe = \<lparr>pp_actor = Present ''me'', pp_credential_principal = Present ''me'', pp_credential_source = Present ''pat'',
     pp_repo_permission = Present ''write'', pp_installation_permission = Absent, pp_endpoint_permission = Absent,
     pp_issue_comment_write = Present True, pp_check_method = Present perm_check_method,
     pp_endpoint_method = Present perm_endpoint_method, pp_checked_target = Present sample_target,
     pp_checked_at = Present ''2024-05-01T10:00:00Z'', pp_endpoint = Present (issue_comment_endpoint sample_target),
     pp_endpoint_kind = Present perm_endpoint_kind, pp_transport_reason_code = Absent, pp_request_id = Absent,
     pp_reason = Absent\<rparr>"

lemma sample_identity: "is_safe_identity ''me''"
  by code_simp

lemma sample_time: "parse_optional_utc_z (Some ''2024-05-01T10:00:00Z'') = Some 63850240800000000"
  by code_simp

lemma sample_time_later: "parse_optional_utc_z (Some ''2024-05-01T10:05:00Z'') = Some 63850241100000000"
  by code_simp

lemma sample_probe_facts: "wf_probe sample_probe" "probe_well_typed sample_probe"
  "proof_fresh sample_probe 63850240800000000 300" "proof_fresh sample_probe 63850241100000000 300"
  "proves_write_access sample_probe sample_target"
  using sample_target_valid sample_identity sample_time
  by (simp_all add: wf_probe_def sample_probe_def probe_well_typed_def first_malformed_field_def probe_string_fields_def
      proof_fresh_def field_value_def proves_write_access_def safe_identity_def keep_if_def clean_def is_safe_identity_def
      safe_credential_source_def derived_permission_def Let_def opt_in_def permission_sets)

theorem permission_gate_exact_witness:
  "\<exists>g. evaluate_actor_permission_gate sample_probe sample_target ''2024-05-01T10:05:00Z'' 300 = Inr g \<and> pg_status g = GatePass"
  using permission_gate_exact[OF sample_target_valid sample_probe_facts(1) _ sample_time_later, of 300] sample_probe_facts
  by auto

text \<open>C33. The two derivations of the permission, in the gate and in the checks of its result, agree for every known kind of
  credential; what they derive is a write permission, and for each kind it comes from the one field that this kind of
  credential may use.\<close>

theorem derived_permission_agrees:
  assumes "c \<in> set credential_sources"
  shows "(derive_permission p c = Inr q \<longleftrightarrow> derived_permission (Some c) (clean (pp_repo_permission p))
      (clean (pp_installation_permission p)) (clean (pp_endpoint_permission p)) = Some q)
    \<and> (derive_permission p c = Inr q \<longrightarrow>
        Some q = (if c = ''pat'' then clean (pp_repo_permission p)
                  else if c = ''github_app_installation'' then clean (pp_installation_permission p)
                  else clean (pp_endpoint_permission p))
        \<and> (q \<in> set write_repo_permissions \<or> q \<in> set write_endpoint_permissions))"
proof -
  have src: "Some q = (if c = ''pat'' then r else if c = ''github_app_installation'' then i else e)"
    if "derived_permission (Some c) r i e = Some q" for r i e
    using that by (auto simp: derived_permission_def Let_def split: if_split_asm)
  show ?thesis using derive_agrees[OF assms, of p q] src derived_is_write by auto
qed

theorem derived_permission_agrees_witness: "derive_permission sample_probe ''pat'' = Inr ''write''"
proof -
  have "derived_permission (Some ''pat'') (clean (pp_repo_permission sample_probe)) (clean (pp_installation_permission sample_probe))
      (clean (pp_endpoint_permission sample_probe)) = Some ''write''"
    by (simp add: sample_probe_def derived_permission_def clean_def Let_def opt_in_def permission_sets)
  then show ?thesis using derived_permission_agrees[of "''pat''" sample_probe "''write''"] by (simp add: credential_sources_def)
qed

end
