(* ===== verification/Models_Payload.thy ===== *)
theory Models_Payload
  imports Models_Review
begin

text \<open>
  The payload dataclasses of \<open>src/src/reviewgraph/models.py\<close>: the candidate and the final issue comment, the request
  that carries a final payload, and the verdict of the payload validation.
\<close>

section \<open>Candidate and final payloads\<close>

record candidate_payload =
  cp_artifact_kind :: artifact_kind
  cp_review_target :: review_target
  cp_body :: string
  cp_visible_body_hash :: string
  cp_findings_hash :: string
  cp_item_fingerprints :: "string list"
  cp_redaction_status :: redaction_status

definition candidate_payload_check :: "candidate_payload \<Rightarrow> string option" where
  "candidate_payload_check p = first_failure
     ([require_non_empty (cp_body p) ''candidate issue comment payload body'']
      @ require_hash_like (cp_visible_body_hash p) ''candidate issue comment payload visible_body_hash''
      @ require_hash_like (cp_findings_hash p) ''candidate issue comment payload findings_hash''
      @ [require_string_tuple (cp_item_fingerprints p) ''candidate issue comment payload item_fingerprints''])"

record final_payload =
  fp_artifact_kind :: artifact_kind
  fp_review_target :: review_target
  fp_body :: string
  fp_marker_line :: string
  fp_marker_run_id :: string
  fp_marker_target_hash :: string
  fp_marker_payload_hash :: string
  fp_marker_findings_hash :: string
  fp_visible_body_hash :: string
  fp_final_payload_hash :: string
  fp_findings_hash :: string
  fp_item_fingerprints :: "string list"
  fp_redaction_status :: redaction_status

definition final_payload_check :: "final_payload \<Rightarrow> string option" where
  "final_payload_check p = first_failure
     ([require_non_empty (fp_body p) ''final issue comment payload body'',
       require_non_empty (fp_marker_line p) ''final issue comment payload marker_line'',
       require_non_empty (fp_marker_run_id p) ''final issue comment payload marker_run_id'']
      @ require_hash_like (fp_marker_target_hash p) ''final issue comment payload marker_target_hash''
      @ require_hash_like (fp_marker_payload_hash p) ''final issue comment payload marker_payload_hash''
      @ require_hash_like (fp_marker_findings_hash p) ''final issue comment payload marker_findings_hash''
      @ require_hash_like (fp_visible_body_hash p) ''final issue comment payload visible_body_hash''
      @ require_hash_like (fp_final_payload_hash p) ''final issue comment payload final_payload_hash''
      @ require_hash_like (fp_findings_hash p) ''final issue comment payload findings_hash''
      @ [require_string_tuple (fp_item_fingerprints p) ''final issue comment payload item_fingerprints''])"

text \<open>The body of a request is a JSON object.\<close>

record issue_comment_request =
  req_method :: string
  req_endpoint :: string
  req_body :: "(string \<times> json) list"
  req_payload :: final_payload

definition issue_comment_request_check :: "issue_comment_request \<Rightarrow> string option" where
  "issue_comment_request_check r = first_failure
     [require_non_empty (req_method r) ''github issue comment request method'',
      require_non_empty (req_endpoint r) ''github issue comment request endpoint'']"

section \<open>Payload validation results\<close>

datatype payload_validation_reason =
    PV_wrong_artifact_kind | PV_redaction_not_passed | PV_candidate_contains_marker
  | PV_candidate_binding_mismatch | PV_not_final_payload | PV_body_hash_mismatch | PV_findings_hash_mismatch
  | PV_duplicate_fingerprints | PV_target_hash_mismatch | PV_marker_not_final_line | PV_marker_field_mismatch
  | PV_final_payload_hash_mismatch | PV_wrong_method | PV_wrong_endpoint | PV_request_target_mismatch
  | PV_wrong_request_body | PV_formal_review_payload_rejected

record payload_validation =
  pv_status :: gate_status
  pv_payload_hash :: "string option"
  pv_target_hash :: "string option"
  pv_reason_code :: "payload_validation_reason option"
  pv_reason :: "string option"

definition payload_validation_check :: "payload_validation \<Rightarrow> string option" where
  "payload_validation_check r = first_failure
     (require_optional_hash_like (pv_payload_hash r) ''payload validation payload_hash''
      @ require_optional_hash_like (pv_target_hash r) ''payload validation target_hash''
      @ [require_optional_non_empty (pv_reason r) ''payload validation reason'']
      @ (if pv_status r = GatePass then
           [(pv_payload_hash r \<noteq> None, ''payload validation pass requires payload_hash''),
            (pv_target_hash r \<noteq> None, ''payload validation pass requires target_hash''),
            (pv_reason_code r = None, ''payload validation pass must not include reason_code'')]
         else [(pv_reason_code r \<noteq> None, ''payload validation failure requires reason_code'')]))"

lemma candidate_payload_check_iff:
  "candidate_payload_check p = None \<longleftrightarrow> cp_body p \<noteq> [] \<and> starts_with ''sha256:'' (cp_visible_body_hash p)
     \<and> starts_with ''sha256:'' (cp_findings_hash p) \<and> list_all non_empty (cp_item_fingerprints p)"
  by (auto simp: candidate_payload_check_def first_failure_None_iff ball_Un require_hash_like_def
      require_non_empty_def require_string_tuple_def starts_with_iff)

lemma final_payload_check_iff:
  "final_payload_check p = None \<longleftrightarrow> fp_body p \<noteq> [] \<and> fp_marker_line p \<noteq> [] \<and> fp_marker_run_id p \<noteq> []
     \<and> list_all (starts_with ''sha256:'') [fp_marker_target_hash p, fp_marker_payload_hash p, fp_marker_findings_hash p,
          fp_visible_body_hash p, fp_final_payload_hash p, fp_findings_hash p]
     \<and> list_all non_empty (fp_item_fingerprints p)"
  by (auto simp: final_payload_check_def first_failure_None_iff ball_Un require_hash_like_def
      require_non_empty_def require_string_tuple_def starts_with_iff)

end
