(* ===== verification/Models_Approval.thy ===== *)
theory Models_Approval
  imports Models_Permission Models_Payload Marker_Parsers
begin

text \<open>
  The approval dataclasses of \<open>src/src/reviewgraph/models.py\<close>: the proof of an approval, the decision a human's approval
  becomes, and the result of building it.
\<close>

section \<open>The proof\<close>

datatype approval_proof_reason =
    AP_empty_approval | AP_unknown_approved_id | AP_non_public_destination | AP_summary_item_deferred
  | AP_candidate_binding_mismatch | AP_duplicate_approved_fingerprint | AP_final_redaction_failed | AP_invalid_run_id
  | AP_request_changes_public_text_deferred

record approval_proof =
  ap_status :: gate_status
  ap_approved_item_ids :: "string list"
  ap_review_target :: "review_target option"
  ap_review_target_hash :: "string option"
  ap_final_payload_hash :: "string option"
  ap_final_visible_body_hash :: "string option"
  ap_marker_payload_hash :: "string option"
  ap_findings_hash :: "string option"
  ap_marker_line :: "string option"
  ap_redaction_status :: "redaction_status option"
  ap_include_public_verdict :: bool
  ap_approved_by :: "string option"
  ap_timestamp :: "string option"
  ap_reason_code :: "approval_proof_reason option"
  ap_reason :: "string option"

text \<open>The proof fields, in the order of the source, and whether each is present.\<close>

definition proof_fields :: "approval_proof \<Rightarrow> (bool \<times> string) list" where
  "proof_fields p =
     [(ap_approved_item_ids p \<noteq> [], ''approved_item_ids''), (ap_review_target p \<noteq> None, ''approved_review_target''),
      (ap_review_target_hash p \<noteq> None, ''approved_review_target_hash''),
      (ap_final_payload_hash p \<noteq> None, ''approved_final_payload_hash''),
      (ap_final_visible_body_hash p \<noteq> None, ''final_visible_body_hash''),
      (ap_marker_payload_hash p \<noteq> None, ''marker_payload_hash''), (ap_findings_hash p \<noteq> None, ''findings_hash''),
      (ap_marker_line p \<noteq> None, ''marker_line''), (ap_redaction_status p \<noteq> None, ''final_redaction_status''),
      (ap_approved_by p \<noteq> None, ''approved_by''), (ap_timestamp p \<noteq> None, ''timestamp'')]"

text \<open>The checks of a passing proof run after its fields are known to be present.\<close>

definition proof_pass_checks :: "approval_proof \<Rightarrow> (bool \<times> string) list" where
  "proof_pass_checks p =
     (let target_h = the (ap_review_target_hash p); payload_h = the (ap_final_payload_hash p);
          visible_h = the (ap_final_visible_body_hash p); marker_h = the (ap_marker_payload_hash p);
          findings_h = the (ap_findings_hash p); marker = parse_reviewgraph_marker (the (ap_marker_line p));
          field = (\<lambda>k. map_of (the marker) k) in
      [(ap_reason_code p = None, ''approval proof pass must not include reason_code''),
       (target_h = target_hash (the (ap_review_target p)),
        ''approval proof approved_review_target_hash must match approved_review_target''),
       (red_status (the (ap_redaction_status p)) = GatePass, ''approval proof pass requires passing final_redaction_status''),
       (marker \<noteq> None, ''approval proof marker_line must match ReviewGraph v1 marker grammar'')]
      @ require_strict_sha256 target_h ''approval proof approved_review_target_hash''
      @ require_strict_sha256 payload_h ''approval proof approved_final_payload_hash''
      @ require_strict_sha256 visible_h ''approval proof final_visible_body_hash''
      @ require_strict_sha256 marker_h ''approval proof marker_payload_hash''
      @ require_strict_sha256 findings_h ''approval proof findings_hash''
      @ [(visible_h = marker_h, ''approval proof final_visible_body_hash must match marker_payload_hash''),
         (field ''target'' = Some target_h, ''approval proof marker target must match approved_review_target_hash''),
         (field ''payload'' = Some marker_h, ''approval proof marker payload must match marker_payload_hash''),
         (field ''findings'' = Some findings_h, ''approval proof marker findings must match findings_hash'')])"

definition approval_proof_check :: "approval_proof \<Rightarrow> string option" where
  "approval_proof_check p = first_failure
     ([require_string_tuple (ap_approved_item_ids p) ''approval proof approved_item_ids'']
      @ require_optional_hash_like (ap_review_target_hash p) ''approval proof approved_review_target_hash''
      @ require_optional_hash_like (ap_final_payload_hash p) ''approval proof approved_final_payload_hash''
      @ require_optional_hash_like (ap_final_visible_body_hash p) ''approval proof final_visible_body_hash''
      @ require_optional_hash_like (ap_marker_payload_hash p) ''approval proof marker_payload_hash''
      @ require_optional_hash_like (ap_findings_hash p) ''approval proof findings_hash''
      @ [require_optional_non_empty (ap_marker_line p) ''approval proof marker_line'',
         require_optional_non_empty (ap_approved_by p) ''approval proof approved_by'',
         require_optional_non_empty (ap_timestamp p) ''approval proof timestamp'',
         require_optional_non_empty (ap_reason p) ''approval proof reason'']
      @ (if ap_status p = GatePass
         then (let missing = map (\<lambda>(present, n). (present, ''approval proof pass requires '' @ n)) (proof_fields p)
               in missing @ (if first_failure missing = None then proof_pass_checks p else []))
         else [(ap_reason_code p \<noteq> None, ''approval proof failure requires reason_code'')]
              @ map (\<lambda>(present, n). (\<not> present, ''approval proof failure must not include '' @ n)) (proof_fields p)))"

section \<open>The decision\<close>

record approval_decision =
  ad_approved :: bool
  ad_approved_item_ids :: "string list"
  ad_final_payload_hash :: string
  ad_review_target_hash :: string
  ad_review_target :: review_target
  ad_github_actor :: string
  ad_permission :: string
  ad_permission_checked_at :: string
  ad_credential_principal :: string
  ad_credential_source :: string
  ad_repo_permission :: "string option"
  ad_installation_permission :: "string option"
  ad_endpoint_permission :: "string option"
  ad_issue_comment_write :: bool
  ad_check_method :: string
  ad_endpoint_method :: string
  ad_checked_target :: "(string \<times> json) list"
  ad_checked_target_hash :: string
  ad_endpoint :: string
  ad_endpoint_kind :: string
  ad_transport_summary :: perm_summary
  ad_include_public_verdict :: bool
  ad_approved_by :: string
  ad_timestamp :: string

text \<open>Equality of two dicts does not look at the order of their keys.\<close>

definition dict_eq :: "(string \<times> json) list \<Rightarrow> (string \<times> json) list \<Rightarrow> bool" where
  "dict_eq a b \<longleftrightarrow> length a = length b \<and> list_all (\<lambda>(k, v). map_of b k = Some v) a"

lemma dict_eq_refl: "distinct (map fst a) \<Longrightarrow> dict_eq a a"
  by (auto simp: dict_eq_def list_all_iff)

lemma dict_eq_target [simp]: "dict_eq (to_ordered_dict t) (to_ordered_dict t)"
  by (rule dict_eq_refl) (simp add: to_ordered_dict_def)

definition decision_target_checks :: "approval_decision \<Rightarrow> (bool \<times> string) list" where
  "decision_target_checks d =
     require_hash_like (ad_checked_target_hash d) ''approval approved_permission_checked_target_hash''
     @ [(dict_eq (ad_checked_target d) (to_ordered_dict (ad_review_target d)),
         ''approval permission checked_target must match approved_review_target''),
        (ad_checked_target_hash d = ad_review_target_hash d,
         ''approval permission checked_target_hash must match approved_review_target_hash''),
        (expected_endpoint (ad_checked_target d) = Some (ad_endpoint d),
         ''approval permission endpoint must match approved_review_target''),
        (is_realistic_rfc3339_utc_z (ad_permission_checked_at d), ''approval approved_permission_checked_at must be UTC RFC3339'')]"

definition decision_proof_checks :: "approval_decision \<Rightarrow> (bool \<times> string) list" where
  "decision_proof_checks d =
     [(derived_permission (Some (ad_credential_source d)) (ad_repo_permission d) (ad_installation_permission d)
         (ad_endpoint_permission d) = Some (ad_permission d), ''approval permission proof is inconsistent'')]"

definition decision_transport_checks :: "approval_decision \<Rightarrow> (bool \<times> string) list" where
  "decision_transport_checks d =
     [(ps_reason_code (ad_transport_summary d) = None,
       ''approval passing permission transport summary must not include reason_code''),
      (\<not> ps_retryable (ad_transport_summary d), ''approval passing permission transport summary must not be retryable'')]"

definition optional_member :: "string option \<Rightarrow> string list \<Rightarrow> string \<Rightarrow> (bool \<times> string) list" where
  "optional_member v allowed name =
     [require_optional_non_empty v name, (opt_in v allowed, name @ '' is unsupported'')]"

definition approval_decision_check :: "approval_decision \<Rightarrow> string option" where
  "approval_decision_check d = first_failure
     ([require_string_tuple (ad_approved_item_ids d) ''approval approved_item_ids'']
      @ require_hash_like (ad_final_payload_hash d) ''approval approved_final_payload_hash''
      @ require_hash_like (ad_review_target_hash d) ''approval approved_review_target_hash''
      @ [(ad_review_target_hash d = target_hash (ad_review_target d),
          ''approval approved_review_target_hash must match approved_review_target'')]
      @ map (\<lambda>(v, n). require_non_empty v (''approval '' @ n))
          [(ad_github_actor d, ''approved_github_actor''), (ad_permission d, ''approved_permission''),
           (ad_permission_checked_at d, ''approved_permission_checked_at''),
           (ad_credential_principal d, ''approved_credential_principal''),
           (ad_credential_source d, ''approved_credential_source''),
           (ad_check_method d, ''approved_permission_check_method''),
           (ad_endpoint_method d, ''approved_permission_endpoint_method''),
           (ad_endpoint d, ''approved_permission_endpoint''), (ad_endpoint_kind d, ''approved_permission_endpoint_kind''),
           (ad_approved_by d, ''approved_by''), (ad_timestamp d, ''timestamp'')]
      @ [(is_safe_identity (ad_github_actor d), ''approval approved_github_actor must be allowlisted''),
         (is_safe_identity (ad_credential_principal d), ''approval approved_credential_principal must be allowlisted''),
         (ad_credential_source d \<in> set credential_sources, ''approval approved_credential_source is unsupported'')]
      @ optional_member (ad_repo_permission d) repo_permissions ''approval approved_repo_permission''
      @ optional_member (ad_installation_permission d) endpoint_permissions ''approval approved_installation_permission''
      @ optional_member (ad_endpoint_permission d) endpoint_permissions ''approval approved_endpoint_permission''
      @ [(ad_issue_comment_write d, ''approval requires issue-comment write proof''),
         (ad_check_method d = perm_check_method, ''approval approved_permission_check_method is unsupported''),
         (ad_endpoint_method d = perm_endpoint_method, ''approval approved_permission_endpoint_method is unsupported''),
         (ad_endpoint_kind d = perm_endpoint_kind, ''approval approved_permission_endpoint_kind is unsupported'')]
      @ decision_target_checks d @ decision_proof_checks d @ decision_transport_checks d
      @ [(\<not> (ad_approved d \<and> ad_approved_item_ids d = []), ''approved decision requires approved_item_ids'')])"

section \<open>The build result\<close>

datatype approval_build_reason = AB_approval_proof_failed | AB_actor_permission_gate_failed | AB_actor_permission_target_mismatch

record approval_build =
  bd_status :: gate_status
  bd_approval :: "approval_decision option"
  bd_reason_code :: "approval_build_reason option"
  bd_proof_reason_code :: "approval_proof_reason option"
  bd_actor_reason_code :: "perm_reason option"
  bd_transport_summary :: "perm_summary option"
  bd_reason :: "string option"

definition approval_build_check :: "approval_build \<Rightarrow> string option" where
  "approval_build_check b = first_failure
     ([(bd_status b \<noteq> GateUnknown, ''approval decision build status must be pass or fail''),
       require_optional_non_empty (bd_reason b) ''approval decision build reason'',
       (opt_ok is_safe_reason (bd_reason b), ''approval decision build reason must be allowlisted'')]
      @ (if bd_status b = GatePass
         then [(bd_approval b \<noteq> None, ''approval decision build pass requires approval''),
               (bd_reason_code b = None \<and> bd_proof_reason_code b = None \<and> bd_actor_reason_code b = None,
                ''approval decision build pass must not include reason codes''),
               (bd_transport_summary b = None \<and> bd_reason b = None,
                ''approval decision build pass must not include failure diagnostics'')]
         else [(bd_approval b = None, ''approval decision build failure must not include approval''),
               (bd_reason_code b \<noteq> None, ''approval decision build failure requires reason_code''),
               (\<not> (bd_reason_code b = Some AB_actor_permission_gate_failed \<and> bd_actor_reason_code b = None),
                ''approval decision build actor gate failure requires actor reason code''),
               (\<not> (bd_reason_code b = Some AB_approval_proof_failed \<and> bd_proof_reason_code b = None),
                ''approval decision build approval proof failure requires proof reason code'')]))"

end
