(* ===== verification/Models_Finalization.thy ===== *)
theory Models_Finalization
  imports Models_Approval
begin

text \<open>
  The dataclasses of the release gates in \<open>src/src/reviewgraph/models.py\<close>: the preflight of the writer release, the two
  checks at finalization time (the actor permission against its snapshot, and the freshness of the target), the
  finalization status, and the result of a writer.
\<close>

section \<open>Reasons\<close>

datatype actor_final_reason =
    AF_actor_permission_gate_failed | AF_actor_permission_snapshot_mismatch | AF_actor_permission_checked_at_regressed

datatype target_reason =
    TR_target_mismatch | TR_missing_merge_base | TR_missing_checked_at | TR_stale_cached_target | TR_future_checked_at
  | TR_checked_at_before_approval | TR_unknown_freshness | TR_timeout | TR_rate_limited | TR_forbidden | TR_not_found
  | TR_unavailable | TR_malformed_response

fun target_reason_value :: "target_reason \<Rightarrow> string" where
  "target_reason_value TR_target_mismatch = ''target_mismatch''"
| "target_reason_value TR_missing_merge_base = ''missing_merge_base''"
| "target_reason_value TR_missing_checked_at = ''missing_checked_at''"
| "target_reason_value TR_stale_cached_target = ''stale_cached_target''"
| "target_reason_value TR_future_checked_at = ''future_checked_at''"
| "target_reason_value TR_checked_at_before_approval = ''checked_at_before_approval''"
| "target_reason_value TR_unknown_freshness = ''unknown_freshness''"
| "target_reason_value TR_timeout = ''timeout''"
| "target_reason_value TR_rate_limited = ''rate_limited''"
| "target_reason_value TR_forbidden = ''forbidden''"
| "target_reason_value TR_not_found = ''not_found''"
| "target_reason_value TR_unavailable = ''unavailable''"
| "target_reason_value TR_malformed_response = ''malformed_response''"

datatype final_reason =
    FR_approval_preflight_failed | FR_actor_permission_failed | FR_target_freshness_failed | FR_payload_validation_failed
  | FR_marker_reconciliation_deferred | FR_marker_reconciled_existing | FR_marker_reconciliation_failed

datatype final_state = NotReady | Finalized | FinalFailedClosed

datatype preflight_reason =
    WP_post_disabled | WP_approval_build_failed | WP_missing_approval | WP_rejected_approval | WP_duplicate_approved_item
  | WP_duplicate_approved_fingerprint | WP_unknown_approved_id | WP_non_public_approved_item

datatype preflight_item_reason =
    WI_missing_current_item | WI_missing_fingerprint | WI_not_public_payload_eligible | WI_wrong_destination
  | WI_wrong_source_classification

datatype writer_status = WriterNotCalled | WriterPosted | WriterReconciled | WriterFailed

definition target_check_method :: string where "target_check_method = ''fake_pull_request_target_probe''"
definition target_transport_kind :: string where "target_transport_kind = ''pull_request_target''"

definition target_transport_reasons :: "target_reason list" where
  "target_transport_reasons =
     [TR_timeout, TR_rate_limited, TR_forbidden, TR_not_found, TR_unavailable, TR_malformed_response]"

definition target_retryable_reasons :: "target_reason list" where
  "target_retryable_reasons = [TR_timeout, TR_rate_limited, TR_unavailable]"

definition target_mismatch_fields :: "string list" where
  "target_mismatch_fields =
     [''owner_repo'', ''pr_number'', ''base_sha'', ''head_sha'', ''merge_base_sha'', ''diff_basis'', ''checked_at'']"

definition actor_mismatch_fields :: "string list" where
  "actor_mismatch_fields =
     [''actor'', ''credential_principal'', ''credential_source'', ''permission'', ''repo_permission'',
      ''installation_permission'', ''endpoint_permission'', ''issue_comment_write'', ''check_method'', ''endpoint_method'',
      ''checked_target'', ''checked_target_hash'', ''endpoint'', ''endpoint_kind'', ''checked_at'']"

section \<open>The check of the actor permission\<close>

record actor_final_check =
  afc_status :: gate_status
  afc_reason_code :: "actor_final_reason option"
  afc_actor_reason_code :: "perm_reason option"
  afc_transport_summary :: "perm_summary option"
  afc_checked_at :: "string option"
  afc_mismatched_fields :: "string list"
  afc_reason :: "string option"

definition actor_final_check_check :: "actor_final_check \<Rightarrow> string option" where
  "actor_final_check_check c = first_failure
     ([(afc_status c \<noteq> GateUnknown, ''actor permission finalization check status must be pass or fail''),
       require_optional_non_empty (afc_checked_at c) ''actor permission finalization check current_checked_at'',
       (opt_ok is_realistic_rfc3339_utc_z (afc_checked_at c),
        ''actor permission finalization check current_checked_at must be UTC RFC3339'')]
      @ require_allowed_str_tuple (afc_mismatched_fields c) ''actor permission finalization check mismatched_fields''
          actor_mismatch_fields
      @ [require_optional_non_empty (afc_reason c) ''actor permission finalization check reason'',
         (opt_ok is_safe_reason (afc_reason c), ''actor permission finalization check reason must be allowlisted'')]
      @ (if afc_status c = GatePass
         then [(afc_transport_summary c \<noteq> None, ''actor permission finalization check pass requires transport summary''),
               (afc_reason_code c = None, ''actor permission finalization check pass must not include reason_code''),
               (afc_actor_reason_code c = None, ''actor permission finalization check pass must not include actor reason''),
               (afc_checked_at c \<noteq> None, ''actor permission finalization check pass requires current_checked_at''),
               (afc_mismatched_fields c = [], ''actor permission finalization check pass must not include mismatches''),
               (afc_reason c = None, ''actor permission finalization check pass must not include reason'')]
         else [(afc_transport_summary c \<noteq> None, ''actor permission finalization check failure requires transport summary''),
               (afc_reason_code c \<noteq> None, ''actor permission finalization check failure requires reason_code''),
               (\<not> (afc_reason_code c = Some AF_actor_permission_gate_failed \<and> afc_actor_reason_code c = None),
                ''actor permission gate failure requires actor_permission_reason_code''),
               (\<not> (afc_reason_code c = Some AF_actor_permission_snapshot_mismatch \<and> afc_mismatched_fields c = []),
                ''actor permission snapshot mismatch requires mismatched_fields''),
               (\<not> (afc_reason_code c = Some AF_actor_permission_checked_at_regressed
                    \<and> afc_mismatched_fields c \<noteq> [''checked_at'']),
                ''actor permission checked_at regression requires checked_at mismatch'')]))"

section \<open>The check of the target\<close>

record target_summary =
  ts_endpoint_kind :: string
  ts_retryable :: bool
  ts_reason_code :: "target_reason option"
  ts_request_id :: "string option"

definition target_summary_check :: "target_summary \<Rightarrow> string option" where
  "target_summary_check s = first_failure
     [require_non_empty (ts_endpoint_kind s) ''target freshness transport summary endpoint_kind'',
      (ts_endpoint_kind s = target_transport_kind,
       ''target freshness transport summary endpoint_kind must be pull_request_target''),
      (opt_ok (\<lambda>r. r \<in> set target_transport_reasons \<or> r = TR_unknown_freshness) (ts_reason_code s),
       ''target freshness transport summary reason_code must be transport failure''),
      (ts_reason_code s = Some TR_unknown_freshness
         \<or> ts_retryable s = opt_mem (ts_reason_code s) target_retryable_reasons,
       ''target freshness transport summary retryable mismatch''),
      require_optional_non_empty (ts_request_id s) ''target freshness transport summary request_id'',
      (opt_ok (\<lambda>r. length r \<le> 128 \<and> list_all request_id_chars r) (ts_request_id s),
       ''target freshness transport summary request_id must be allowlisted''),
      (opt_ok (\<lambda>r. \<not> has_secret_fragment r) (ts_request_id s),
       ''target freshness transport summary request_id must not contain secrets'')]"

record target_check =
  tc_status :: gate_status
  tc_reason_code :: "target_reason option"
  tc_transport_summary :: "target_summary option"
  tc_current_target :: "review_target option"
  tc_current_target_hash :: "string option"
  tc_checked_at :: "string option"
  tc_check_method :: "string option"
  tc_mismatched_fields :: "string list"
  tc_reason :: "string option"

definition target_pass_checks :: "target_check \<Rightarrow> (bool \<times> string) list" where
  "target_pass_checks c =
     map (\<lambda>(present, n). (present, ''target freshness pass requires '' @ n))
       [(tc_transport_summary c \<noteq> None, ''transport_summary''), (tc_current_target c \<noteq> None, ''current_target''),
        (tc_current_target_hash c \<noteq> None, ''current_target_hash''), (tc_checked_at c \<noteq> None, ''current_checked_at''),
        (tc_check_method c \<noteq> None, ''check_method'')]
     @ [(tc_reason_code c = None, ''target freshness pass must not include reason_code''),
        (tc_mismatched_fields c = [], ''target freshness pass must not include mismatched_fields''),
        (tc_reason c = None, ''target freshness pass must not include reason''),
        (opt_ok (\<lambda>s. ts_reason_code s = None \<and> \<not> ts_retryable s) (tc_transport_summary c),
         ''target freshness pass transport summary must not include failure''),
        (opt_ok (\<lambda>t. tc_current_target_hash c = Some (target_hash t)) (tc_current_target c),
         ''target freshness current_target_hash mismatch'')]"

definition target_fail_checks :: "target_check \<Rightarrow> (bool \<times> string) list" where
  "target_fail_checks c =
     [(tc_reason_code c \<noteq> None, ''target freshness failure requires reason_code''),
      (tc_transport_summary c \<noteq> None, ''target freshness failure requires transport_summary''),
      (\<not> (tc_reason_code c = Some TR_target_mismatch \<and> tc_mismatched_fields c = []),
       ''target freshness mismatch requires mismatched_fields''),
      (\<not> (tc_reason_code c = Some TR_checked_at_before_approval \<and> tc_mismatched_fields c \<noteq> [''checked_at'']),
       ''target freshness checked-at regression requires checked_at mismatch''),
      (opt_ok (\<lambda>t. tc_current_target_hash c = Some (target_hash t)) (tc_current_target c),
       ''target freshness failure current_target_hash mismatch'')]"

definition target_check_check :: "target_check \<Rightarrow> string option" where
  "target_check_check c = first_failure
     ([(tc_status c \<noteq> GateUnknown, ''target freshness status must be pass or fail'')]
      @ require_optional_hash_like (tc_current_target_hash c) ''target freshness current_target_hash''
      @ [require_optional_non_empty (tc_checked_at c) ''target freshness current_checked_at'',
         (opt_ok is_realistic_rfc3339_utc_z (tc_checked_at c), ''target freshness current_checked_at must be UTC RFC3339''),
         require_optional_non_empty (tc_check_method c) ''target freshness check_method'',
         (opt_in (tc_check_method c) [target_check_method], ''target freshness check_method is unsupported'')]
      @ require_allowed_str_tuple (tc_mismatched_fields c) ''target freshness mismatched_fields'' target_mismatch_fields
      @ [require_optional_non_empty (tc_reason c) ''target freshness reason'',
         (opt_ok is_safe_reason (tc_reason c), ''target freshness reason must be allowlisted'')]
      @ (if tc_status c = GatePass then target_pass_checks c else target_fail_checks c))"

section \<open>The status of a finalization\<close>

record final_status =
  fs_state :: final_state
  fs_payload_hash :: "string option"
  fs_target_hash :: "string option"
  fs_reason_code :: "final_reason option"
  fs_reason :: "string option"

definition final_status_check :: "final_status \<Rightarrow> string option" where
  "final_status_check s = first_failure
     (require_optional_hash_like (fs_payload_hash s) ''finalization final_payload_hash''
      @ require_optional_hash_like (fs_target_hash s) ''finalization target_hash''
      @ [require_optional_non_empty (fs_reason s) ''finalization reason'']
      @ (if fs_state s = Finalized
         then [(fs_payload_hash s \<noteq> None, ''finalized status requires final_payload_hash''),
               (fs_target_hash s \<noteq> None, ''finalized status requires target_hash''),
               (fs_reason_code s = None, ''finalized status must not include reason_code'')]
         else [(fs_reason_code s \<noteq> None, ''non-finalized status requires reason_code''),
               (fs_payload_hash s = None, ''non-finalized status must not include final_payload_hash'')]))"

section \<open>Results of writers\<close>

record writer_result =
  wr_status :: writer_status
  wr_artifact_kind :: artifact_kind
  wr_target_hash :: string
  wr_payload_hash :: string
  wr_comment_id :: "string option"
  wr_error :: "string option"

definition writer_result_check :: "writer_result \<Rightarrow> string option" where
  "writer_result_check r = first_failure
     ([(wr_artifact_kind r = IssueComment, ''github writer artifact_kind must be issue_comment'')]
      @ require_hash_like (wr_target_hash r) ''github writer target_hash''
      @ require_hash_like (wr_payload_hash r) ''github writer payload_hash''
      @ [require_optional_non_empty (wr_comment_id r) ''github writer comment_id'',
         require_optional_non_empty (wr_error r) ''github writer error'',
         (\<not> (wr_status r \<in> {WriterPosted, WriterReconciled} \<and> wr_comment_id r = None),
          ''posted or reconciled writer result requires comment_id''),
         (\<not> (wr_status r = WriterFailed \<and> wr_error r = None), ''failed writer result requires error'')])"

section \<open>The preflight of the writer release\<close>

record item_diagnostic =
  wid_item_id :: string
  wid_reason_code :: preflight_item_reason
  wid_destination :: "posting_destination option"
  wid_source_classification :: "string option"
  wid_public_payload_eligible :: "bool option"

definition item_diagnostic_check :: "item_diagnostic \<Rightarrow> string option" where
  "item_diagnostic_check d = first_failure
     [require_non_empty (wid_item_id d) ''writer release item diagnostic item_id'',
      require_optional_non_empty (wid_source_classification d) ''writer release item diagnostic source_classification'']"

record preflight =
  pf_status :: gate_status
  pf_writer_input_released :: bool
  pf_eligible :: bool
  pf_approved_item_ids :: "string list"
  pf_reason_code :: "preflight_reason option"
  pf_nested_reason_code :: "approval_build_reason option"
  pf_nested_proof_reason_code :: "approval_proof_reason option"
  pf_nested_actor_reason_code :: "perm_reason option"
  pf_item_diagnostics :: "item_diagnostic list"
  pf_final_payload_hash :: "string option"
  pf_writer_result :: "writer_result option"

definition preflight_check :: "preflight \<Rightarrow> string option" where
  "preflight_check p = first_failure
     ([(pf_status p \<noteq> GateUnknown, ''writer release preflight status must be pass or fail''),
       (\<not> pf_writer_input_released p, ''writer release preflight must not release writer input''),
       require_string_tuple (pf_approved_item_ids p) ''writer release preflight approved_item_ids'',
       (pf_final_payload_hash p = None, ''writer release preflight must not carry final_payload_hash''),
       (pf_writer_result p = None, ''writer release preflight must not carry writer_result'')]
      @ (if pf_status p = GatePass
         then [(pf_eligible p, ''writer release preflight pass requires eligible_for_finalization''),
               (pf_approved_item_ids p \<noteq> [], ''writer release preflight approved_item_ids must include at least one reason''),
               (pf_reason_code p = None, ''writer release preflight pass must not include reason_code''),
               (pf_nested_reason_code p = None \<and> pf_nested_proof_reason_code p = None
                  \<and> pf_nested_actor_reason_code p = None \<and> pf_item_diagnostics p = [],
                ''writer release preflight pass must not include diagnostics'')]
         else [(\<not> pf_eligible p, ''writer release preflight failure must not be eligible''),
               (pf_approved_item_ids p = [], ''writer release preflight failure must not include approved_item_ids''),
               (pf_reason_code p \<noteq> None, ''writer release preflight failure requires reason_code'')]))"

section \<open>The interaction gate\<close>

record interaction_gate =
  ig_status :: gate_status
  ig_interactive :: bool
  ig_reason :: "string option"

definition interaction_gate_check :: "interaction_gate \<Rightarrow> string option" where
  "interaction_gate_check g = first_failure
     [require_optional_non_empty (ig_reason g) ''post interaction gate reason'',
      (\<not> (ig_status g = GatePass \<and> \<not> ig_interactive g), ''post interaction gate pass requires interactive human approval surface'')]"

end
