(* ===== verification/Verdict.thy ===== *)
theory Verdict
  imports Clarification "HOL-Library.Multiset"
begin

text \<open>
  The model of \<open>src/src/reviewgraph/verdict.py\<close>: the local verdict and the switch that enables posting, as functions
  of the findings, the clarification gate, the graph errors and the verdict powers of the reviewers.
\<close>

record graph_error =
  ge_code :: string
  ge_message :: string
  ge_retryable :: bool

definition can_recommend_request_changes :: "classified_finding \<Rightarrow> (string \<Rightarrow> string option) \<Rightarrow> bool" where
  "can_recommend_request_changes f powers \<longleftrightarrow>
     powers (cf_source_reviewer f) = Some ''request_changes'' \<and> cf_confidence f = ConfHigh
     \<and> (cf_severity f = SevCritical \<or> cf_blocking f)"

definition compute_local_verdict ::
    "classified_finding list \<Rightarrow> clarification_gate_result \<Rightarrow> (string \<Rightarrow> string option) \<Rightarrow> review_verdict" where
  "compute_local_verdict findings gate powers =
     (if gate_blocks_posting gate then VNeedsClarification
      else if findings = [] then VNoFindings
      else if list_ex (\<lambda>f. can_recommend_request_changes f powers) findings then VRequestChanges
      else VComment)"

definition compute_post_enabled ::
    "graph_error list \<Rightarrow> clarification_gate_result \<Rightarrow> review_verdict \<Rightarrow> classified_finding list \<Rightarrow> bool" where
  "compute_post_enabled errors gate verdict findings \<longleftrightarrow>
     errors = [] \<and> \<not> gate_blocks_posting gate \<and> findings \<noteq> []"

lemma verdict_mset:
  assumes "mset fs = mset gs"
  shows "compute_local_verdict fs gate powers = compute_local_verdict gs gate powers"
proof -
  from assms have "set fs = set gs" by (rule mset_eq_setD)
  moreover from assms have "fs = [] \<longleftrightarrow> gs = []" by auto
  ultimately show ?thesis by (simp add: compute_local_verdict_def list_ex_iff)
qed

section \<open>Properties\<close>

text \<open>C12. Posting is enabled exactly when there is no graph error and the verdict is \<open>comment\<close> or \<open>request_changes\<close>: a
  verdict that still needs clarification, or that has nothing to say, never enables it.\<close>

theorem post_enabled_iff_publishable_verdict:
  "compute_post_enabled errors gate (compute_local_verdict findings gate powers) findings \<longleftrightarrow>
     errors = [] \<and> compute_local_verdict findings gate powers \<in> {VComment, VRequestChanges}"
  by (auto simp: compute_post_enabled_def compute_local_verdict_def)

text \<open>C13. The verdict asks for changes only on the word of a reviewer with that power, at high confidence, for a
  critical or blocking finding; and it does not depend on the order of the findings.\<close>

theorem request_changes_justified:
  assumes "compute_local_verdict findings gate powers = VRequestChanges" and "mset findings' = mset findings"
  shows "compute_local_verdict findings' gate powers = VRequestChanges
    \<and> \<not> gate_blocks_posting gate
    \<and> (\<exists>f \<in> set findings. powers (cf_source_reviewer f) = Some ''request_changes'' \<and> cf_confidence f = ConfHigh
         \<and> (cf_severity f = SevCritical \<or> cf_blocking f))"
  using assms verdict_mset[OF assms(2)]
  by (auto simp: compute_local_verdict_def list_ex_iff can_recommend_request_changes_def split: if_splits)

definition sample_finding :: classified_finding where
  "sample_finding = \<lparr>cf_id = ''f1'', cf_source_reviewer = ''logic'', cf_source_stage = ''logic_review'',
     cf_title = ''t'', cf_body = ''b'', cf_evidence = ''e'', cf_path = ''a.py'', cf_line = 3, cf_priority = 1,
     cf_severity = SevCritical, cf_confidence = ConfHigh, cf_fingerprint = ''fp'',
     cf_classification = PostableFinding, cf_blocking = False, cf_line_end = None, cf_diff_anchor = None\<rparr>"

theorem request_changes_justified_witness:
  "\<exists>f \<in> set [sample_finding]. cf_confidence f = ConfHigh \<and> (cf_severity f = SevCritical \<or> cf_blocking f)"
proof -
  have "compute_local_verdict [sample_finding] \<lparr>gate_pending_ids = [], gate_blocking_pending_ids = [],
      gate_clarification_status = [], gate_blocks_posting = False\<rparr> [''logic'' \<mapsto> ''request_changes''] = VRequestChanges"
    by (simp add: compute_local_verdict_def can_recommend_request_changes_def sample_finding_def)
  from request_changes_justified[OF this refl] show ?thesis by blast
qed

end
