(* ===== verification/Diff_Anchors.thy ===== *)
theory Diff_Anchors
  imports Verdict
begin

text \<open>
  The model of \<open>src/src/reviewgraph/diff_anchor.py\<close> and of the changed files it reads (\<open>ChangedRange\<close> and \<open>ChangedFile\<close>
  in \<open>fixtures.py\<close>, whose method \<open>contains_line\<close> is that of \<open>github.py\<close> too): the anchor of a finding in the changed
  lines of the pull request.
\<close>

record changed_range =
  range_start :: int
  range_end :: int

definition range_contains :: "changed_range \<Rightarrow> int \<Rightarrow> bool" where
  "range_contains r line \<longleftrightarrow> range_start r \<le> line \<and> line \<le> range_end r"

record changed_file =
  file_path :: string
  file_changed_ranges :: "changed_range list"
  file_patch :: "string option"
  file_additions :: int
  file_deletions :: int
  file_status_text :: string
  file_previous_path :: "string option"
  file_patch_status :: string

definition changed_range_check :: "changed_range \<Rightarrow> string option" where
  "changed_range_check r = first_failure
     [(0 < range_start r \<and> range_start r \<le> range_end r,
       ''changed_ranges entries require positive start and end >= start'')]"

definition changed_file_check :: "changed_file \<Rightarrow> string option" where
  "changed_file_check f = first_failure
     [(file_path f \<noteq> [], ''changed_files[].path is required''),
      (file_changed_ranges f \<noteq> [], ''changed_files['' @ file_path f @ ''].changed_ranges is required''),
      (\<not> (file_patch f = None \<and> file_patch_status f = ''available''),
       ''changed_files[].patch_status must explain missing patch'')]"

definition valid_changed_file :: "changed_file \<Rightarrow> bool" where
  "valid_changed_file f \<longleftrightarrow> changed_file_check f = None \<and> (\<forall>r \<in> set (file_changed_ranges f). changed_range_check r = None)"

definition contains_line :: "changed_file \<Rightarrow> int \<Rightarrow> bool" where
  "contains_line f line \<longleftrightarrow> list_ex (\<lambda>r. range_contains r line) (file_changed_ranges f)"

definition inlineable_file_statuses :: "string list" where
  "inlineable_file_statuses = [''added'', ''modified'', ''renamed'']"

definition changed_file_for_finding :: "changed_file list \<Rightarrow> classified_finding \<Rightarrow> changed_file option" where
  "changed_file_for_finding files f = find (\<lambda>c. file_path c = cf_path f \<and> contains_line c (cf_line f)) files"

definition finding_line_end :: "classified_finding \<Rightarrow> int" where
  "finding_line_end f = (case cf_line_end f of None \<Rightarrow> cf_line f | Some l \<Rightarrow> l)"

definition changed_range_for_finding :: "changed_file \<Rightarrow> classified_finding \<Rightarrow> changed_range option" where
  "changed_range_for_finding c f =
     find (\<lambda>r. range_start r \<le> cf_line f \<and> cf_line f \<le> finding_line_end f \<and> finding_line_end f \<le> range_end r)
       (file_changed_ranges c)"

definition derive_diff_anchor ::
    "changed_file list \<Rightarrow> review_target \<Rightarrow> classified_finding \<Rightarrow> diff_anchor option result" where
  "derive_diff_anchor files t f =
     (case changed_file_for_finding files f of
        None \<Rightarrow> Inr None
      | Some c \<Rightarrow>
          if file_patch_status c \<noteq> ''available'' then Inr None
          else if file_status_text c \<notin> set inlineable_file_statuses then Inr None
          else (case changed_range_for_finding c f of
                  None \<Rightarrow> Inr None
                | Some r \<Rightarrow>
                    bindE (mk_checked diff_anchor_check
                      \<lparr>da_path = file_path c, da_line = cf_line f, da_target_commit_sha = rt_head_sha t,
                       da_hunk_start = range_start r, da_hunk_end = range_end r, da_side = ''RIGHT'',
                       da_file_status = file_status_text c,
                       da_hunk_id = file_path c @ '':'' @ int_str (range_start r) @ ''-'' @ int_str (range_end r),
                       da_start_line = Some (cf_line f), da_start_side = ''RIGHT'',
                       da_old_path = file_previous_path c\<rparr>) (\<lambda>a. Inr (Some a))))"

fun attach_diff_anchors ::
    "changed_file list \<Rightarrow> review_target \<Rightarrow> classified_finding list \<Rightarrow> classified_finding list result" where
  "attach_diff_anchors files t [] = Inr []"
| "attach_diff_anchors files t (f # fs) =
     bindE (if cf_diff_anchor f \<noteq> None then Inr f
            else bindE (derive_diff_anchor files t f) (\<lambda>a.
              case a of None \<Rightarrow> Inr f
              | Some _ \<Rightarrow> mk_checked classified_finding_check (f\<lparr>cf_diff_anchor := a\<rparr>))) (\<lambda>f'.
     bindE (attach_diff_anchors files t fs) (\<lambda>fs'. Inr (f' # fs')))"

section \<open>Lemmas\<close>

lemma find_SomeD: "find P xs = Some x \<Longrightarrow> x \<in> set xs \<and> P x"
  by (auto simp: find_Some_iff)

lemma valid_finding_facts:
  "valid_finding f \<Longrightarrow> cf_path f \<noteq> [] \<and> 0 < cf_line f \<and> cf_id f \<noteq> [] \<and> cf_fingerprint f \<noteq> []
     \<and> cf_body f \<noteq> [] \<and> cf_classification f = PostableFinding \<and> 0 \<le> cf_priority f \<and> cf_priority f \<le> 3"
  by (simp add: classified_finding_check_def validate_priority_def split: if_splits)

lemma finding_check_anchor [simp]:
  "classified_finding_check (f\<lparr>cf_diff_anchor := a\<rparr>) = classified_finding_check f"
  by (simp add: classified_finding_check_def)

definition anchors_finding :: "diff_anchor \<Rightarrow> review_target \<Rightarrow> classified_finding \<Rightarrow> bool" where
  "anchors_finding a t f \<longleftrightarrow>
     validates_finding_location a (cf_path f) (cf_line f) (rt_head_sha t) (cf_line_end f)"

lemma derive_anchor_ok:
  assumes "\<forall>c \<in> set files. valid_changed_file c" and "valid_target t" and "valid_finding f"
  shows "\<exists>a. derive_diff_anchor files t f = Inr a \<and> opt_ok (\<lambda>a. anchors_finding a t f \<and> diff_anchor_check a = None) a"
proof (cases "changed_file_for_finding files f")
  case None
  then show ?thesis by (simp add: derive_diff_anchor_def)
next
  case (Some c)
  then have c: "c \<in> set files" "file_path c = cf_path f"
    by (auto simp: changed_file_for_finding_def dest: find_SomeD)
  show ?thesis
  proof (cases "changed_range_for_finding c f")
    case None
    with Some show ?thesis by (auto simp: derive_diff_anchor_def)
  next
    case (Some r)
    then have r: "r \<in> set (file_changed_ranges c)" "range_start r \<le> cf_line f" "cf_line f \<le> finding_line_end f"
        "finding_line_end f \<le> range_end r"
      by (auto simp: changed_range_for_finding_def dest: find_SomeD)
    have "changed_range_check r = None" using r(1) c(1) assms(1) by (auto simp: valid_changed_file_def)
    then have pos: "0 < range_start r" by (simp add: changed_range_check_def split: if_splits)
    have head: "rt_head_sha t \<noteq> []" using assms(2) by (simp add: review_target_check_def split: if_splits)
    note facts = valid_finding_facts[OF assms(3)]
    show ?thesis
      using \<open>changed_file_for_finding files f = Some c\<close> Some r pos head facts c(2)
      by (auto simp: derive_diff_anchor_def diff_anchor_check_def mk_checked_def anchors_finding_def finding_line_end_def
          validates_finding_location_def overlaps_changed_target_def Let_def split: option.splits)
  qed
qed

lemma attach_anchors_ok:
  assumes "\<forall>c \<in> set files. valid_changed_file c" and "valid_target t" and "\<forall>f \<in> set fs. valid_finding f"
  shows "\<exists>fs'. attach_diff_anchors files t fs = Inr fs'
     \<and> map (\<lambda>f. f\<lparr>cf_diff_anchor := None\<rparr>) fs' = map (\<lambda>f. f\<lparr>cf_diff_anchor := None\<rparr>) fs
     \<and> (\<forall>f \<in> set fs'. valid_finding f)
     \<and> (\<forall>f \<in> set fs'. \<forall>a. cf_diff_anchor f = Some a \<longrightarrow> f \<in> set fs \<or> anchors_finding a t f)
     \<and> attach_diff_anchors files t fs' = Inr fs'"
  using assms(3)
proof (induction fs)
  case Nil
  show ?case by simp
next
  case (Cons f fs)
  then obtain fs' where IH: "attach_diff_anchors files t fs = Inr fs'"
     "map (\<lambda>f. f\<lparr>cf_diff_anchor := None\<rparr>) fs' = map (\<lambda>f. f\<lparr>cf_diff_anchor := None\<rparr>) fs" "\<forall>f \<in> set fs'. valid_finding f"
     "\<forall>f \<in> set fs'. \<forall>a. cf_diff_anchor f = Some a \<longrightarrow> f \<in> set fs \<or> anchors_finding a t f"
     "attach_diff_anchors files t fs' = Inr fs'" by auto
  have vf: "valid_finding f" using Cons.prems by simp
  show ?case
  proof (cases "cf_diff_anchor f")
    case (Some a)
    with IH vf show ?thesis by auto
  next
    case None
    obtain a where a: "derive_diff_anchor files t f = Inr a" "opt_ok (\<lambda>a. anchors_finding a t f \<and> diff_anchor_check a = None) a"
      using derive_anchor_ok[OF assms(1,2) vf] by blast
    show ?thesis
    proof (cases a)
      case None
      with a(1) \<open>cf_diff_anchor f = None\<close> IH vf show ?thesis by auto
    next
      case (Some an)
      with a have "anchors_finding an t (f\<lparr>cf_diff_anchor := Some an\<rparr>)" by (simp add: anchors_finding_def)
      with Some a(1) \<open>cf_diff_anchor f = None\<close> IH vf show ?thesis by (auto simp: mk_checked_ok)
    qed
  qed
qed

section \<open>Properties\<close>

text \<open>C14. On well-formed changed files, target and findings, attaching anchors never raises and changes nothing but the
  anchor of a finding; every anchor it adds passes the location test that inline candidates must pass; and a second
  pass changes nothing.\<close>

theorem attach_diff_anchors_sound:
  assumes "\<forall>c \<in> set files. valid_changed_file c" and "valid_target t" and "\<forall>f \<in> set fs. valid_finding f"
  shows "\<exists>fs'. attach_diff_anchors files t fs = Inr fs'
     \<and> map (\<lambda>f. f\<lparr>cf_diff_anchor := None\<rparr>) fs' = map (\<lambda>f. f\<lparr>cf_diff_anchor := None\<rparr>) fs
     \<and> (\<forall>f \<in> set fs'. \<forall>a. cf_diff_anchor f = Some a \<longrightarrow> f \<in> set fs \<or>
          validates_finding_location a (cf_path f) (cf_line f) (rt_head_sha t) (cf_line_end f))
     \<and> attach_diff_anchors files t fs' = Inr fs'"
  using attach_anchors_ok[OF assms] unfolding anchors_finding_def by blast

definition sample_changed_file :: changed_file where
  "sample_changed_file = \<lparr>file_path = ''a.py'', file_changed_ranges = [\<lparr>range_start = 1, range_end = 5\<rparr>],
     file_patch = Some ''p'', file_additions = 5, file_deletions = 0, file_status_text = ''modified'',
     file_previous_path = None, file_patch_status = ''available''\<rparr>"

theorem attach_diff_anchors_sound_witness:
  "\<exists>fs'. attach_diff_anchors [sample_changed_file]
       \<lparr>rt_owner_repo = ''o/r'', rt_pr_number = 1, rt_base_sha = ''b'', rt_head_sha = ''h'', rt_merge_base_sha = None,
        rt_diff_basis = ''d''\<rparr> [sample_finding] = Inr fs' \<and> length fs' = 1"
proof -
  have "\<forall>c \<in> set [sample_changed_file]. valid_changed_file c"
    by (simp add: sample_changed_file_def valid_changed_file_def changed_file_check_def changed_range_check_def)
  moreover have "\<forall>f \<in> set [sample_finding]. valid_finding f"
    by (simp add: sample_finding_def classified_finding_check_def validate_priority_def)
  ultimately show ?thesis
    using attach_diff_anchors_sound[of "[sample_changed_file]" "\<lparr>rt_owner_repo = ''o/r'', rt_pr_number = 1,
        rt_base_sha = ''b'', rt_head_sha = ''h'', rt_merge_base_sha = None, rt_diff_basis = ''d''\<rparr>" "[sample_finding]"]
    by (simp add: review_target_check_def del: attach_diff_anchors.simps) (metis length_map length_0_conv length_Suc_conv)
qed

end
