(* ===== verification/Redaction.thy ===== *)
theory Redaction
  imports Models_Review "HOL-Library.Sublist"
begin

text \<open>
  The model of \<open>src/src/reviewgraph/redaction.py\<close>. The seven patterns are terms of a small regular expression type
  with Python's backtracking semantics: \<open>ends\<close> lists the states that a match may end in, in the order in which the
  engine tries them, so the first one is the match. A state is the previous character and the rest of the text. Stars
  range over single characters, as they do in all patterns. The character classes, the case folding of \<open>(?i)\<close> and the
  word boundary are those of ASCII text, where they coincide with Python's; on other text Python's \<open>\s\<close>, \<open>\S\<close>, \<open>\b\<close>
  and case folding follow Unicode, which this model does not describe.
\<close>

section \<open>Regular expressions\<close>

datatype regex =
    Cls "char \<Rightarrow> bool"
  | Many "char \<Rightarrow> bool"
  | ManyLazy "char \<Rightarrow> bool"
  | AtLeast nat "char \<Rightarrow> bool"
  | Opt regex
  | Seq regex regex
  | Alt regex regex
  | LineStart
  | LineEnd
  | WordBoundary

type_synonym re_state = "char option \<times> string"

definition is_word :: "char \<Rightarrow> bool" where
  "is_word c \<longleftrightarrow> is_alnum c \<or> c = CHR ''_''"

definition is_space :: "char \<Rightarrow> bool" where
  "is_space c \<longleftrightarrow> (of_char c :: nat) \<in> {9, 10, 11, 12, 13, 28, 29, 30, 31, 32}"

fun opt_word :: "char option \<Rightarrow> bool" where
  "opt_word None = False"
| "opt_word (Some c) = is_word c"

definition next_word :: "string \<Rightarrow> bool" where
  "next_word s = (case s of [] \<Rightarrow> False | c # _ \<Rightarrow> is_word c)"

fun many_ends :: "(char \<Rightarrow> bool) \<Rightarrow> char option \<Rightarrow> string \<Rightarrow> re_state list" where
  "many_ends P p [] = [(p, [])]"
| "many_ends P p (c # cs) = (if P c then many_ends P (Some c) cs else []) @ [(p, c # cs)]"

fun at_least_ends :: "nat \<Rightarrow> (char \<Rightarrow> bool) \<Rightarrow> char option \<Rightarrow> string \<Rightarrow> re_state list" where
  "at_least_ends 0 P p s = many_ends P p s"
| "at_least_ends (Suc n) P p [] = []"
| "at_least_ends (Suc n) P p (c # cs) = (if P c then at_least_ends n P (Some c) cs else [])"

fun ends :: "regex \<Rightarrow> re_state \<Rightarrow> re_state list" where
  "ends (Cls P) (p, s) = (case s of [] \<Rightarrow> [] | c # cs \<Rightarrow> if P c then [(Some c, cs)] else [])"
| "ends (Many P) (p, s) = many_ends P p s"
| "ends (ManyLazy P) (p, s) = rev (many_ends P p s)"
| "ends (AtLeast n P) (p, s) = at_least_ends n P p s"
| "ends (Opt r) (p, s) = ends r (p, s) @ [(p, s)]"
| "ends (Seq a b) (p, s) = concat (map (ends b) (ends a (p, s)))"
| "ends (Alt a b) (p, s) = ends a (p, s) @ ends b (p, s)"
| "ends LineStart (p, s) = (if p = None \<or> p = Some LF then [(p, s)] else [])"
| "ends LineEnd (p, s) = (if s = [] \<or> hd s = LF then [(p, s)] else [])"
| "ends WordBoundary (p, s) = (if opt_word p \<noteq> next_word s then [(p, s)] else [])"

fun seq_all :: "regex list \<Rightarrow> regex" where
  "seq_all [] = Many (\<lambda>_. False)"
| "seq_all [r] = r"
| "seq_all (r # s # rs) = Seq r (seq_all (s # rs))"

fun alt_all :: "regex list \<Rightarrow> regex" where
  "alt_all [] = Cls (\<lambda>_. False)"
| "alt_all [r] = r"
| "alt_all (r # s # rs) = Alt r (alt_all (s # rs))"

definition lit :: "string \<Rightarrow> regex" where
  "lit s = seq_all (map (\<lambda>c. Cls (\<lambda>x. x = c)) s)"

definition ilit :: "string \<Rightarrow> regex" where
  "ilit s = seq_all (map (\<lambda>c. Cls (\<lambda>x. lower_char x = c)) s)"

definition one_of :: "string \<Rightarrow> regex" where
  "one_of cs = Cls (\<lambda>x. x \<in> set cs)"

section \<open>The patterns\<close>

text \<open>A pattern: its category, the group whose text is kept (if it has one), and what follows the group.\<close>

record redaction_pattern =
  pat_category :: string
  pat_kept :: "regex option"
  pat_body :: regex

definition not_newline :: "char \<Rightarrow> bool" where
  "not_newline c \<longleftrightarrow> c \<noteq> LF"

definition any_char :: "char \<Rightarrow> bool" where
  "any_char c \<longleftrightarrow> True"

definition quote_chars :: string where
  "quote_chars = [CHR 0x22, CHR 0x27]"

definition is_letter :: "char \<Rightarrow> bool" where
  "is_letter c \<longleftrightarrow> is_upper c \<or> is_lower c"

definition token_char :: "char \<Rightarrow> bool" where
  "token_char c \<longleftrightarrow> is_alnum c \<or> c \<in> set ''._~+/=-''"

definition upper_or_space :: "char \<Rightarrow> bool" where
  "upper_or_space c \<longleftrightarrow> is_upper c \<or> c = CHR '' ''"

definition non_space :: "char \<Rightarrow> bool" where
  "non_space c \<longleftrightarrow> \<not> is_space c"

definition dashed_word :: "char \<Rightarrow> bool" where
  "dashed_word c \<longleftrightarrow> is_word c \<or> c = CHR ''-''"

definition private_key_pattern :: redaction_pattern where
  "private_key_pattern = \<lparr>pat_category = ''private_key'', pat_kept = None,
     pat_body = seq_all [lit ''-----BEGIN '', Many upper_or_space, lit ''PRIVATE KEY-----'', ManyLazy any_char,
       lit ''-----END '', Many upper_or_space, lit ''PRIVATE KEY-----'']\<rparr>"

definition authorization_pattern :: redaction_pattern where
  "authorization_pattern = \<lparr>pat_category = ''authorization_header'',
     pat_kept = Some (seq_all [LineStart, Many is_space, ilit ''authorization'', Many is_space, lit '':'', Many is_space]),
     pat_body = seq_all [Alt (ilit ''bearer'') (ilit ''basic''), AtLeast 1 is_space, AtLeast 1 non_space]\<rparr>"

definition bearer_pattern :: redaction_pattern where
  "bearer_pattern = \<lparr>pat_category = ''bearer_token'', pat_kept = None,
     pat_body = seq_all [WordBoundary, ilit ''bearer'', AtLeast 1 is_space, AtLeast 12 token_char]\<rparr>"

definition github_token_pattern :: redaction_pattern where
  "github_token_pattern = \<lparr>pat_category = ''github_token'', pat_kept = None,
     pat_body = seq_all [WordBoundary,
       Alt (seq_all [lit ''gh'', one_of ''psuor'', lit ''_'', AtLeast 20 is_word])
           (Seq (lit ''github_pat_'') (AtLeast 20 is_word)),
       WordBoundary]\<rparr>"

definition api_key_pattern :: redaction_pattern where
  "api_key_pattern = \<lparr>pat_category = ''api_key'',
     pat_kept = Some (seq_all [Opt (one_of quote_chars), WordBoundary,
       alt_all [seq_all [ilit ''api'', Opt (one_of ''_-''), ilit ''key''], ilit ''token'', ilit ''secret''],
       Opt (one_of quote_chars), Many is_space, one_of '':='', Many is_space]),
     pat_body = seq_all [Opt (one_of quote_chars), AtLeast 12 token_char, Opt (one_of quote_chars)]\<rparr>"

definition env_pattern :: redaction_pattern where
  "env_pattern = \<lparr>pat_category = ''env_assignment'',
     pat_kept = Some (seq_all [LineStart, Many is_space, Opt (one_of ''+- ''), Many is_space, Cls is_letter, Many is_word,
       alt_all [ilit ''key'', ilit ''token'', ilit ''secret'', ilit ''password''], Many is_space, lit ''='', Many is_space]),
     pat_body = Seq (AtLeast 1 not_newline) LineEnd\<rparr>"

definition standalone_key_pattern :: redaction_pattern where
  "standalone_key_pattern = \<lparr>pat_category = ''standalone_api_key'', pat_kept = None,
     pat_body = seq_all [WordBoundary,
       Alt (seq_all [alt_all [lit ''sk'', lit ''rk'', lit ''pk''], lit ''_'', alt_all [lit ''live'', lit ''test'', lit ''prod''],
              lit ''_'', AtLeast 12 dashed_word])
           (seq_all [alt_all [lit ''sk'', lit ''rk'', lit ''pk'', Seq (lit ''xox'') (one_of ''baprs'')], lit ''-'',
              AtLeast 12 dashed_word]),
       WordBoundary]\<rparr>"

definition redaction_patterns :: "redaction_pattern list" where
  "redaction_patterns = [private_key_pattern, authorization_pattern, bearer_pattern, github_token_pattern,
     api_key_pattern, env_pattern, standalone_key_pattern]"

section \<open>Substitution\<close>

definition REDACTION_TOKEN :: string where
  "REDACTION_TOKEN = ''[REDACTED]''"

text \<open>The first match at a state: where the kept group ends, and where the match ends.\<close>

definition pattern_match :: "redaction_pattern \<Rightarrow> re_state \<Rightarrow> (re_state \<times> re_state) option" where
  "pattern_match pat st =
     (let groups = (case pat_kept pat of None \<Rightarrow> [st] | Some g \<Rightarrow> ends g st)
      in case concat (map (\<lambda>m. map (\<lambda>e. (m, e)) (ends (pat_body pat) m)) groups) of
           [] \<Rightarrow> None | x # _ \<Rightarrow> Some x)"

text \<open>\<open>pattern.subn\<close>: the new text and the number of replacements. No pattern matches the empty string, so the last
  branch, a match without progress, is never taken.\<close>

function re_sub :: "redaction_pattern \<Rightarrow> char option \<Rightarrow> string \<Rightarrow> string \<times> nat" where
  "re_sub pat p [] = ([], 0)"
| "re_sub pat p (c # cs) =
     (case pattern_match pat (p, c # cs) of
        None \<Rightarrow> (let (t, k) = re_sub pat (Some c) cs in (c # t, k))
      | Some ((_, m), (p', s')) \<Rightarrow>
          if length s' < length (c # cs)
          then (let (t, k) = re_sub pat p' s'
                in (take (length (c # cs) - length m) (c # cs) @ REDACTION_TOKEN @ t, Suc k))
          else (let (t, k) = re_sub pat (Some c) cs in (c # t, k)))"
  by pat_completeness auto
termination by (relation "measure (\<lambda>(_, _, s). length s)") auto

record redaction_result =
  rr_text :: string
  rr_replacement_count :: nat
  rr_categories :: "string list"

definition rr_redacted :: "redaction_result \<Rightarrow> bool" where
  "rr_redacted r \<longleftrightarrow> 0 < rr_replacement_count r"

definition redact_step :: "redaction_pattern \<Rightarrow> redaction_result \<Rightarrow> redaction_result" where
  "redact_step pat r =
     (let (t, k) = re_sub pat None (rr_text r)
      in if k \<noteq> 0 then \<lparr>rr_text = t, rr_replacement_count = rr_replacement_count r + k,
                           rr_categories = rr_categories r @ [pat_category pat]\<rparr>
         else r\<lparr>rr_text := t\<rparr>)"

definition redact_text :: "string \<Rightarrow> redaction_result" where
  "redact_text text = foldl (\<lambda>r pat. redact_step pat r)
     \<lparr>rr_text = text, rr_replacement_count = 0, rr_categories = []\<rparr> redaction_patterns"

section \<open>Structured data\<close>

text \<open>\<open>_unique_key\<close>. The loop tries \<open>key#2\<close>, \<open>key#3\<close>, and so on; one try per entry and one more are enough.\<close>

fun unique_suffix :: "nat \<Rightarrow> string list \<Rightarrow> string \<Rightarrow> nat \<Rightarrow> string" where
  "unique_suffix 0 taken key n = key @ ''#'' @ nat_str n"
| "unique_suffix (Suc m) taken key n =
     (if key @ ''#'' @ nat_str n \<in> set taken then unique_suffix m taken key (Suc n) else key @ ''#'' @ nat_str n)"

definition unique_key :: "string list \<Rightarrow> string \<Rightarrow> string" where
  "unique_key taken key = (if key \<notin> set taken then key else unique_suffix (length taken) taken key 2)"

type_synonym redacted_value = "json \<times> nat \<times> string list"

fun redact_entries :: "(string \<times> redacted_value) list \<Rightarrow> (string \<times> json) list \<times> nat \<times> string list
    \<Rightarrow> (string \<times> json) list \<times> nat \<times> string list" where
  "redact_entries [] acc = acc"
| "redact_entries ((key, v, vc, vcats) # es) (done, n, cats) =
     (let r = redact_text key
      in redact_entries es (done @ [(unique_key (map fst done) (rr_text r), v)],
           n + rr_replacement_count r + vc, cats @ rr_categories r @ vcats))"

fun redact_data_value :: "json \<Rightarrow> redacted_value" where
  "redact_data_value (JStr s) =
     (let r = redact_text s in (JStr (rr_text r), rr_replacement_count r, rr_categories r))"
| "redact_data_value (JArr xs) =
     (let rs = map redact_data_value xs
      in (JArr (map fst rs), sum_list (map (\<lambda>r. fst (snd r)) rs), concat (map (\<lambda>r. snd (snd r)) rs)))"
| "redact_data_value (JObj kvs) =
     (let (es, n, cats) = redact_entries (map (\<lambda>(k, v). (k, redact_data_value v)) kvs) ([], 0, [])
      in (JObj es, n, cats))"
| "redact_data_value v = (v, 0, [])"

text \<open>\<open>tuple(dict.fromkeys(xs))\<close>: the distinct elements in the order of their first occurrence.\<close>

definition dedupe :: "'a list \<Rightarrow> 'a list" where
  "dedupe xs = rev (remdups (rev xs))"

definition redact_data :: "json \<Rightarrow> json \<times> nat \<times> string list" where
  "redact_data d = (let (v, n, cats) = redact_data_value d in (v, n, dedupe cats))"

definition require_passing_redaction_status :: "redaction_status option \<Rightarrow> string \<Rightarrow> unit result" where
  "require_passing_redaction_status st surface =
     (case st of
        None \<Rightarrow> Inl (ValueError (surface @ '' requires redaction status before payload validation''))
      | Some r \<Rightarrow> if red_status r \<noteq> GatePass
                   then Inl (ValueError (surface @ '' redaction status must pass before payload validation''))
                   else Inr ())"

section \<open>Lemmas on substitution\<close>

lemma re_sub_zero: "snd (re_sub pat p s) = 0 \<Longrightarrow> fst (re_sub pat p s) = s"
proof (induction pat p s rule: re_sub.induct)
  case (2 pat p c cs)
  then show ?case
    by (auto simp: case_prod_unfold Let_def split: option.split_asm if_split_asm)
qed simp

definition redaction_inv :: "string \<Rightarrow> redaction_result \<Rightarrow> bool" where
  "redaction_inv text r \<longleftrightarrow> (rr_replacement_count r = 0 \<longleftrightarrow> rr_categories r = []) \<and>
     (rr_replacement_count r = 0 \<longrightarrow> rr_text r = text)"

lemma redact_step_inv: "redaction_inv text r \<Longrightarrow> redaction_inv text (redact_step pat r)"
  using re_sub_zero[of pat None "rr_text r"]
  by (auto simp: redaction_inv_def redact_step_def case_prod_unfold Let_def)

lemma redact_step_categories:
  "rr_categories (redact_step pat r) \<in> {rr_categories r, rr_categories r @ [pat_category pat]}"
  by (auto simp: redact_step_def case_prod_unfold Let_def)

lemma redact_steps_inv:
  "redaction_inv text r \<Longrightarrow> redaction_inv text (foldl (\<lambda>r pat. redact_step pat r) r pats)"
  by (induction pats arbitrary: r) (simp_all add: redact_step_inv)

lemma redact_steps_categories:
  "\<exists>cs. subseq cs (map pat_category pats)
     \<and> rr_categories (foldl (\<lambda>r pat. redact_step pat r) r pats) = rr_categories r @ cs"
proof (induction pats arbitrary: r)
  case (Cons pat pats)
  from Cons[of "redact_step pat r"] obtain cs where cs: "subseq cs (map pat_category pats)"
    "rr_categories (foldl (\<lambda>r pat. redact_step pat r) (redact_step pat r) pats) = rr_categories (redact_step pat r) @ cs"
    by blast
  from redact_step_categories[of pat r] show ?case
  proof
    assume "rr_categories (redact_step pat r) = rr_categories r"
    with cs show ?thesis by auto
  next
    assume "rr_categories (redact_step pat r) \<in> {rr_categories r @ [pat_category pat]}"
    with cs show ?thesis by (intro exI[of _ "pat_category pat # cs"]) auto
  qed
qed simp

lemma redact_text_inv: "redaction_inv text (redact_text text)"
  unfolding redact_text_def by (rule redact_steps_inv) (simp add: redaction_inv_def)

lemma redact_text_categories: "subseq (rr_categories (redact_text text)) (map pat_category redaction_patterns)"
proof -
  from redact_steps_categories[of redaction_patterns
      "\<lparr>rr_text = text, rr_replacement_count = 0, rr_categories = []\<rparr>"]
  obtain cs where "subseq cs (map pat_category redaction_patterns)" "rr_categories (redact_text text) = [] @ cs"
    by (auto simp: redact_text_def)
  then show ?thesis by simp
qed

lemma distinct_categories: "distinct (map pat_category redaction_patterns)"
  by (simp add: redaction_patterns_def private_key_pattern_def authorization_pattern_def bearer_pattern_def
      github_token_pattern_def api_key_pattern_def env_pattern_def standalone_key_pattern_def)

lemma redact_text_no_change: "\<not> rr_redacted (redact_text s) \<Longrightarrow> rr_text (redact_text s) = s"
  using redact_text_inv[of s] by (simp add: rr_redacted_def redaction_inv_def)

text \<open>What is left after a match is a suffix of the text.\<close>

lemma many_ends_suffix: "e \<in> set (many_ends P p s) \<Longrightarrow> suffix (snd e) s"
  by (induction P p s rule: many_ends.induct) (auto split: if_split_asm intro: suffix_ConsI)

lemma at_least_ends_suffix: "e \<in> set (at_least_ends n P p s) \<Longrightarrow> suffix (snd e) s"
  by (induction n P p s rule: at_least_ends.induct) (auto split: if_split_asm intro: suffix_ConsI many_ends_suffix)

lemma ends_suffix: "e \<in> set (ends r st) \<Longrightarrow> suffix (snd e) (snd st)"
proof (induction r st arbitrary: e rule: ends.induct)
  case (1 P p s)
  then show ?case by (auto split: list.split_asm if_split_asm intro: suffix_ConsI)
next
  case (6 a b p s)
  then obtain m where m: "m \<in> set (ends a (p, s))" "e \<in> set (ends b m)" by auto
  from 6(1)[OF m(1)] 6(2)[OF m] show ?case by (auto intro: suffix_order.trans)
qed (auto split: if_split_asm dest: many_ends_suffix at_least_ends_suffix)

lemma pattern_match_suffix: "pattern_match pat st = Some (m, e) \<Longrightarrow> suffix (snd e) (snd st)"
proof -
  assume match: "pattern_match pat st = Some (m, e)"
  let ?g = "case pat_kept pat of None \<Rightarrow> [st] | Some g \<Rightarrow> ends g st"
  define xs where "xs = concat (map (\<lambda>m. map (\<lambda>e. (m, e)) (ends (pat_body pat) m)) ?g)"
  from match have "(case xs of [] \<Rightarrow> None | x # _ \<Rightarrow> Some x) = Some (m, e)"
    by (simp only: pattern_match_def Let_def xs_def)
  then have "(m, e) \<in> set xs" by (cases xs) auto
  then have "\<exists>m \<in> set ?g. e \<in> set (ends (pat_body pat) m)" by (auto simp: xs_def)
  then obtain x where x: "x \<in> set ?g" "e \<in> set (ends (pat_body pat) x)" ..
  have "suffix (snd x) (snd st)" using x(1) ends_suffix[of x _ st] by (cases "pat_kept pat") simp_all
  with ends_suffix[OF x(2)] show ?thesis by (rule suffix_order.trans)
qed

text \<open>Redaction invents no characters but those of its token.\<close>

lemma re_sub_set: "set (fst (re_sub pat p s)) \<subseteq> set s \<union> set REDACTION_TOKEN"
proof (induction pat p s rule: re_sub.induct)
  case (2 pat p c cs)
  show ?case
  proof (cases "pattern_match pat (p, c # cs)")
    case None
    with 2(1)[OF None] show ?thesis by (auto simp: case_prod_unfold Let_def)
  next
    case (Some x)
    obtain mp m p' s' where x: "x = ((mp, m), (p', s'))" by (metis surj_pair)
    show ?thesis
    proof (cases "length s' < length (c # cs)")
      case True
      have "set s' \<subseteq> set (c # cs)"
        using pattern_match_suffix[OF Some[unfolded x]] set_mono_suffix by fastforce
      with 2(2)[OF Some x[symmetric] refl refl True] True show ?thesis
        using set_take_subset[of "length (c # cs) - length m" "c # cs"]
        by (auto simp: case_prod_unfold Let_def Some x)
    next
      case False
      with 2(3)[OF Some x[symmetric] refl refl False] show ?thesis by (auto simp: case_prod_unfold Let_def Some x)
    qed
  qed
qed simp

lemma redact_step_set: "set (rr_text (redact_step pat r)) \<subseteq> set (rr_text r) \<union> set REDACTION_TOKEN"
  using re_sub_set[of pat None "rr_text r"] by (auto simp: redact_step_def case_prod_unfold Let_def)

lemma redact_text_set: "set (rr_text (redact_text s)) \<subseteq> set s \<union> set REDACTION_TOKEN"
proof -
  have "set (rr_text (foldl (\<lambda>r pat. redact_step pat r) r pats)) \<subseteq> set (rr_text r) \<union> set REDACTION_TOKEN" for r pats
    using redact_step_set by (induction pats arbitrary: r) fastforce+
  from this[of "\<lparr>rr_text = s, rr_replacement_count = 0, rr_categories = []\<rparr>"] show ?thesis
    by (simp add: redact_text_def)
qed

section \<open>What a substitution does\<close>

text \<open>The character before the position behind \<open>s\<close>, when \<open>p\<close> is the one before \<open>s\<close>.\<close>

definition last_char :: "char option \<Rightarrow> string \<Rightarrow> char option" where
  "last_char p s = (if s = [] then p else Some (last s))"

lemma last_char_Cons: "last_char p (c # s) = last_char (Some c) s"
  by (simp add: last_char_def)

lemma last_char_Nil [simp]: "last_char p [] = p"
  by (simp add: last_char_def)

lemma last_char_append: "last_char (last_char p u) v = last_char p (u @ v)"
  by (simp add: last_char_def)

text \<open>No match of the pattern starts in \<open>g\<close>, when \<open>v\<close> follows it.\<close>

fun unmatched :: "redaction_pattern \<Rightarrow> char option \<Rightarrow> string \<Rightarrow> string \<Rightarrow> bool" where
  "unmatched pat p [] v \<longleftrightarrow> True"
| "unmatched pat p (c # g) v \<longleftrightarrow> pattern_match pat (p, c # g @ v) = None \<and> unmatched pat (Some c) g v"

text \<open>A text as the pieces that a substitution sees: every piece is a gap, a kept prefix and a secret, and a tail
  follows. The substitution puts the token in the place of the secrets.\<close>

type_synonym pieces = "(string \<times> string \<times> string) list"

definition text_before :: "pieces \<Rightarrow> string \<Rightarrow> string" where
  "text_before ms tail = concat (map (\<lambda>(gap, kept, secret). gap @ kept @ secret) ms) @ tail"

definition text_after :: "pieces \<Rightarrow> string \<Rightarrow> string" where
  "text_after ms tail = concat (map (\<lambda>(gap, kept, secret). gap @ kept @ REDACTION_TOKEN) ms) @ tail"

lemma text_before_simps [simp]:
  "text_before [] tail = tail" "text_before ((g, k, m) # ms) tail = g @ k @ m @ text_before ms tail"
  by (simp_all add: text_before_def)

lemma text_after_simps [simp]:
  "text_after [] tail = tail" "text_after ((g, k, m) # ms) tail = g @ k @ REDACTION_TOKEN @ text_after ms tail"
  by (simp_all add: text_after_def)

text \<open>The pieces are the leftmost matches of the pattern: none starts in a gap or in the tail, and at the end of each
  gap the pattern matches the kept prefix and a nonempty secret.\<close>

fun leftmost_matches :: "redaction_pattern \<Rightarrow> char option \<Rightarrow> pieces \<Rightarrow> string \<Rightarrow> bool" where
  "leftmost_matches pat p [] tail \<longleftrightarrow> unmatched pat p tail []"
| "leftmost_matches pat p ((g, k, m) # ms) tail \<longleftrightarrow>
     unmatched pat p g (k @ m @ text_before ms tail) \<and> m \<noteq> []
   \<and> pattern_match pat (last_char p g, k @ m @ text_before ms tail)
       = Some ((last_char p (g @ k), m @ text_before ms tail), (last_char p (g @ k @ m), text_before ms tail))
   \<and> leftmost_matches pat (last_char p (g @ k @ m)) ms tail"

text \<open>A run of all patterns, one after the other, with the pieces of each.\<close>

fun redacted_by :: "redaction_pattern list \<Rightarrow> string \<Rightarrow> (pieces \<times> string) list \<Rightarrow> string \<Rightarrow> bool" where
  "redacted_by [] s [] t \<longleftrightarrow> s = t"
| "redacted_by (pat # pats) s ((ms, tail) # rest) t \<longleftrightarrow>
     leftmost_matches pat None ms tail \<and> s = text_before ms tail \<and> redacted_by pats (text_after ms tail) rest t"
| "redacted_by _ _ _ _ \<longleftrightarrow> False"

text \<open>Matches are prefixes of the text, and those of the patterns are not empty.\<close>

lemma many_ends_split: "e \<in> set (many_ends P p s) \<Longrightarrow> \<exists>u. s = u @ snd e \<and> fst e = last_char p u"
proof (induction P p s rule: many_ends.induct)
  case (2 P p c cs)
  show ?case
  proof (cases "e = (p, c # cs)")
    case True
    then show ?thesis by simp
  next
    case False
    with 2 obtain u where "cs = u @ snd e" "fst e = last_char (Some c) u" by (auto split: if_split_asm)
    then show ?thesis by (intro exI[of _ "c # u"]) (simp add: last_char_Cons)
  qed
qed simp

lemma at_least_ends_split:
  "e \<in> set (at_least_ends n P p s) \<Longrightarrow> \<exists>u. s = u @ snd e \<and> fst e = last_char p u \<and> n \<le> length u"
proof (induction n P p s rule: at_least_ends.induct)
  case (1 P p s)
  then show ?case using many_ends_split by fastforce
next
  case (3 n P p c cs)
  then obtain u where "cs = u @ snd e" "fst e = last_char (Some c) u" "n \<le> length u" by (auto split: if_split_asm)
  then show ?case by (intro exI[of _ "c # u"]) (simp add: last_char_Cons)
qed simp

lemma ends_split: "e \<in> set (ends r st) \<Longrightarrow> \<exists>u. snd st = u @ snd e \<and> fst e = last_char (fst st) u"
proof (induction r st arbitrary: e rule: ends.induct)
  case (1 P p s)
  then obtain c cs where "s = c # cs" "e = (Some c, cs)" by (auto split: list.split_asm if_split_asm)
  then show ?case by (intro exI[of _ "[c]"]) (simp add: last_char_def)
next
  case (4 n P p s)
  then show ?case using at_least_ends_split by fastforce
next
  case (6 a b p s)
  then obtain m where m: "m \<in> set (ends a (p, s))" "e \<in> set (ends b m)" by auto
  from 6(1)[OF m(1)] 6(2)[OF m] show ?case by (auto simp: last_char_append)
qed (auto split: if_split_asm dest: many_ends_split)

fun nonempty_re :: "regex \<Rightarrow> bool" where
  "nonempty_re (Cls P) \<longleftrightarrow> True"
| "nonempty_re (AtLeast n P) \<longleftrightarrow> 0 < n"
| "nonempty_re (Seq a b) \<longleftrightarrow> nonempty_re a \<or> nonempty_re b"
| "nonempty_re (Alt a b) \<longleftrightarrow> nonempty_re a \<and> nonempty_re b"
| "nonempty_re _ \<longleftrightarrow> False"

lemma ends_length: "e \<in> set (ends r st) \<Longrightarrow> length (snd e) \<le> length (snd st)"
  using ends_split by fastforce

lemma nonempty_re_ends: "e \<in> set (ends r st) \<Longrightarrow> nonempty_re r \<Longrightarrow> length (snd e) < length (snd st)"
proof (induction r st arbitrary: e rule: ends.induct)
  case (4 n P p s)
  then show ?case using at_least_ends_split[of e n P p s] by auto
next
  case (6 a b p s)
  then obtain m where m: "m \<in> set (ends a (p, s))" "e \<in> set (ends b m)" by auto
  note len = ends_length[OF m(1)] ends_length[OF m(2)]
  from "6.prems"(2) show ?case using 6(1)[OF m(1)] 6(2)[OF m] len by auto
qed (auto split: list.split_asm if_split_asm)

lemma patterns_nonempty: "pat \<in> set redaction_patterns \<Longrightarrow> nonempty_re (pat_body pat)"
  by (auto simp: redaction_patterns_def private_key_pattern_def authorization_pattern_def bearer_pattern_def
      github_token_pattern_def api_key_pattern_def env_pattern_def standalone_key_pattern_def lit_def ilit_def one_of_def)

lemma pattern_match_split:
  assumes "pattern_match pat (p, s) = Some (m, e)" and "nonempty_re (pat_body pat)"
  obtains kept secret rest where "s = kept @ secret @ rest" "secret \<noteq> []"
    "m = (last_char p kept, secret @ rest)" "e = (last_char p (kept @ secret), rest)"
proof -
  let ?g = "case pat_kept pat of None \<Rightarrow> [(p, s)] | Some g \<Rightarrow> ends g (p, s)"
  define xs where "xs = concat (map (\<lambda>m. map (\<lambda>e. (m, e)) (ends (pat_body pat) m)) ?g)"
  from assms(1) have "(case xs of [] \<Rightarrow> None | x # _ \<Rightarrow> Some x) = Some (m, e)"
    by (simp only: pattern_match_def Let_def xs_def)
  then have "(m, e) \<in> set xs" by (cases xs) auto
  then have m: "m \<in> set ?g" and e: "e \<in> set (ends (pat_body pat) m)" by (auto simp: xs_def)
  have "\<exists>u. s = u @ snd m \<and> fst m = last_char p u"
    using m ends_split[of m _ "(p, s)"] by (cases "pat_kept pat") (auto simp: last_char_def)
  then obtain kept where kept: "s = kept @ snd m" "fst m = last_char p kept" by blast
  from ends_split[OF e] obtain secret where secret: "snd m = secret @ snd e" "fst e = last_char (fst m) secret" by blast
  have "secret \<noteq> []" using nonempty_re_ends[OF e assms(2)] secret(1) by auto
  then show thesis
    using that[of kept secret "snd e"] kept secret by (simp add: last_char_append prod_eq_iff)
qed

lemma re_sub_pieces:
  assumes "nonempty_re (pat_body pat)"
  shows "\<exists>ms tail. leftmost_matches pat p ms tail \<and> s = text_before ms tail \<and> re_sub pat p s = (text_after ms tail, length ms)"
  using assms
proof (induction pat p s rule: re_sub.induct)
  case (1 pat p)
  show ?case by (intro exI[of _ "[]"]) simp
next
  case (2 pat p c cs)
  show ?case
  proof (cases "pattern_match pat (p, c # cs)")
    case None
    from 2(1)[OF None "2.prems"] obtain ms tail where IH: "leftmost_matches pat (Some c) ms tail" "cs = text_before ms tail"
      "re_sub pat (Some c) cs = (text_after ms tail, length ms)" by blast
    show ?thesis
    proof (cases ms)
      case Nil
      then show ?thesis using IH None by (intro exI[of _ "[]"] exI[of _ "c # tail"]) simp
    next
      case (Cons x ms')
      obtain g k m where "x = (g, k, m)" by (metis prod_cases3)
      then show ?thesis using IH None Cons
        by (intro exI[of _ "(c # g, k, m) # ms'"] exI[of _ tail]) (simp add: last_char_Cons)
    qed
  next
    case (Some x)
    obtain m e where x: "x = (m, e)" by (cases x)
    obtain kept secret rest where split: "c # cs = kept @ secret @ rest" "secret \<noteq> []"
      "m = (last_char p kept, secret @ rest)" "e = (last_char p (kept @ secret), rest)"
      using pattern_match_split[OF Some[unfolded x] "2.prems"] .
    have len: "length rest < length (c # cs)" using split(1,2) by simp
    have "x = ((last_char p kept, secret @ rest), (last_char p (kept @ secret), rest))" using x split by simp
    from 2(2)[OF Some this[symmetric] refl refl len "2.prems"] obtain ms tail where IH:
      "leftmost_matches pat (last_char p (kept @ secret)) ms tail" "rest = text_before ms tail"
      "re_sub pat (last_char p (kept @ secret)) rest = (text_after ms tail, length ms)" by blast
    have match: "pattern_match pat (p, kept @ secret @ rest)
        = Some ((last_char p kept, secret @ rest), (last_char p (kept @ secret), rest))"
      using Some x split by simp
    have "take (length (c # cs) - length (secret @ rest)) (c # cs) = kept" unfolding split(1) by simp
    then have "re_sub pat p (c # cs) = (kept @ REDACTION_TOKEN @ text_after ms tail, Suc (length ms))"
      using Some x split(3,4) len IH(3) by simp
    with match IH split(1,2) show ?thesis by (intro exI[of _ "([], kept, secret) # ms"] exI[of _ tail]) simp
  qed
qed

lemma redact_steps_redacted_by:
  assumes "\<forall>pat \<in> set pats. nonempty_re (pat_body pat)"
  shows "\<exists>runs. redacted_by pats (rr_text r) runs (rr_text (foldl (\<lambda>r pat. redact_step pat r) r pats))
     \<and> rr_replacement_count (foldl (\<lambda>r pat. redact_step pat r) r pats)
         = rr_replacement_count r + sum_list (map (\<lambda>run. length (fst run)) runs)
     \<and> rr_categories (foldl (\<lambda>r pat. redact_step pat r) r pats)
         = rr_categories r @ map (\<lambda>(pat, run). pat_category pat) (filter (\<lambda>(pat, run). fst run \<noteq> []) (zip pats runs))"
  using assms
proof (induction pats arbitrary: r)
  case Nil
  show ?case by (intro exI[of _ "[]"]) simp
next
  case (Cons pat pats)
  from re_sub_pieces[of pat None "rr_text r"] Cons.prems obtain ms tail where sub: "leftmost_matches pat None ms tail"
    "rr_text r = text_before ms tail" "re_sub pat None (rr_text r) = (text_after ms tail, length ms)" by auto
  define r1 where "r1 = redact_step pat r"
  have r1: "rr_text r1 = text_after ms tail" "rr_replacement_count r1 = rr_replacement_count r + length ms"
    "rr_categories r1 = rr_categories r @ (if ms = [] then [] else [pat_category pat])"
    using sub(3) by (simp_all add: r1_def redact_step_def)
  have "\<forall>pat \<in> set pats. nonempty_re (pat_body pat)" using Cons.prems by simp
  from Cons.IH[OF this, of r1] obtain runs where
    "redacted_by pats (rr_text r1) runs (rr_text (foldl (\<lambda>r pat. redact_step pat r) r1 pats))"
    "rr_replacement_count (foldl (\<lambda>r pat. redact_step pat r) r1 pats)
       = rr_replacement_count r1 + sum_list (map (\<lambda>run. length (fst run)) runs)"
    "rr_categories (foldl (\<lambda>r pat. redact_step pat r) r1 pats)
       = rr_categories r1 @ map (\<lambda>(pat, run). pat_category pat) (filter (\<lambda>(pat, run). fst run \<noteq> []) (zip pats runs))"
    by blast
  with sub(1,2) r1 show ?case by (intro exI[of _ "(ms, tail) # runs"]) (simp add: r1_def[symmetric])
qed

lemma redact_text_redacted_by:
  "\<exists>runs. redacted_by redaction_patterns s runs (rr_text (redact_text s))
     \<and> rr_replacement_count (redact_text s) = sum_list (map (\<lambda>run. length (fst run)) runs)
     \<and> rr_categories (redact_text s)
         = map (\<lambda>(pat, run). pat_category pat) (filter (\<lambda>(pat, run). fst run \<noteq> []) (zip redaction_patterns runs))"
  using redact_steps_redacted_by[of redaction_patterns "\<lparr>rr_text = s, rr_replacement_count = 0, rr_categories = []\<rparr>"]
  by (simp add: patterns_nonempty redact_text_def)

section \<open>Greedy matching\<close>

definition stops :: "(char \<Rightarrow> bool) \<Rightarrow> string \<Rightarrow> bool" where
  "stops P v \<longleftrightarrow> v = [] \<or> \<not> P (hd v)"

lemma many_ends_greedy:
  assumes "\<forall>c \<in> set b. P c" and "stops P v"
  shows "\<exists>es. many_ends P p (b @ v) = (last_char p b, v) # es"
  using assms(1)
proof (induction b arbitrary: p)
  case Nil
  then show ?case using assms(2) by (cases v) (auto simp: stops_def last_char_def)
next
  case (Cons c b)
  then obtain es where "many_ends P (Some c) (b @ v) = (last_char (Some c) b, v) # es" by auto
  with Cons.prems show ?case by (simp add: last_char_Cons)
qed

lemma at_least_greedy:
  assumes "\<forall>c \<in> set b. P c" and "stops P v" and "n \<le> length b"
  shows "\<exists>es. at_least_ends n P p (b @ v) = (last_char p b, v) # es"
  using assms(1,3)
proof (induction n arbitrary: p b)
  case 0
  then show ?case using many_ends_greedy[OF _ assms(2)] by simp
next
  case (Suc n)
  then obtain c b' where b: "b = c # b'" by (cases b) auto
  from Suc.IH[of b' "Some c"] Suc.prems b obtain es
    where "at_least_ends n P (Some c) (b' @ v) = (last_char (Some c) b', v) # es" by auto
  with Suc.prems b show ?case by (simp add: last_char_Cons)
qed

lemma pat_kept_github: "pat_kept github_token_pattern = None"
  by (simp add: github_token_pattern_def)

lemma github_token_match:
  assumes "k \<in> set ''psuor''" and "\<forall>c \<in> set b. is_word c" and "20 \<le> length b" and "stops is_word v"
    and "\<not> opt_word p"
  shows "\<exists>m. pattern_match github_token_pattern (p, ''gh'' @ k # CHR ''_'' # b @ v)
           = Some (m, (Some (last b), v))"
proof -
  have "b \<noteq> []" using assms(3) by auto
  then have b: "b \<noteq> []" "is_word (last b)" using assms(2) last_in_set by blast+
  have nw: "\<not> next_word v" using assms(4) by (cases v) (auto simp: next_word_def stops_def)
  have g: "is_word (CHR ''g'')" by (simp add: is_word_def is_alnum_def is_digit_def is_upper_def is_lower_def)
  from at_least_greedy[OF assms(2,4,3), of "Some (CHR ''_'')"] b obtain es where
    "at_least_ends 20 is_word (Some (CHR ''_'')) (b @ v) = (Some (last b), v) # es" by (auto simp: last_char_def)
  then have "\<exists>es. ends (pat_body github_token_pattern) (p, ''gh'' @ k # CHR ''_'' # b @ v)
      = (Some (last b), v) # es"
    using assms(1,5) b nw g
    by (simp add: github_token_pattern_def lit_def one_of_def next_word_def)
  then show ?thesis by (rule exE) (simp add: pattern_match_def pat_kept_github)
qed

section \<open>Structured data keeps its entries\<close>

lemma hash_suffix_inject: "key @ ''#'' @ nat_str a = key @ ''#'' @ nat_str b \<longleftrightarrow> a = b"
  by (simp add: nat_str_inject)

lemma unique_suffix_taken:
  "unique_suffix m taken key n \<in> set taken \<Longrightarrow> \<forall>i \<in> {n..n + m}. key @ ''#'' @ nat_str i \<in> set taken"
proof (induction m taken key n rule: unique_suffix.induct)
  case (2 m taken key n)
  show ?case
  proof
    fix i assume i: "i \<in> {n..n + Suc m}"
    show "key @ ''#'' @ nat_str i \<in> set taken"
    proof (cases "i = n")
      case True
      with 2 show ?thesis by (auto split: if_split_asm)
    next
      case False
      with 2 i show ?thesis by (auto split: if_split_asm)
    qed
  qed
qed auto

lemma unique_key_fresh: "unique_key taken key \<notin> set taken"
proof
  assume a: "unique_key taken key \<in> set taken"
  let ?f = "\<lambda>i. key @ ''#'' @ nat_str i"
  from a have "\<forall>i \<in> {2..2 + length taken}. ?f i \<in> set taken"
    by (auto simp: unique_key_def dest!: unique_suffix_taken split: if_split_asm)
  then have "?f ` {2..2 + length taken} \<subseteq> set taken" by blast
  then have "card (?f ` {2..2 + length taken}) \<le> card (set taken)" by (intro card_mono) auto
  moreover have "card (?f ` {2..2 + length taken}) = Suc (length taken)"
    by (subst card_image) (auto simp: inj_on_def nat_str_inject)
  ultimately show False using card_length[of taken] by linarith
qed

lemma redact_entries_keys:
  assumes "redact_entries es (done, n, cats) = (done', n', cats')" and "distinct (map fst done)"
  shows "distinct (map fst done') \<and> length done' = length done + length es
     \<and> map snd done' = map snd done @ map (\<lambda>(k, v, _). v) es"
  using assms
proof (induction es "(done, n, cats)" arbitrary: "done" n cats rule: redact_entries.induct)
  case (2 key v vc vcats es d n cats)
  let ?k = "unique_key (map fst d) (rr_text (redact_text key))"
  have "distinct (map fst (d @ [(?k, v)]))"
    using "2.prems"(2) unique_key_fresh[of "map fst d"] by simp
  from "2.hyps"[OF refl] "2.prems"(1) this show ?case by (auto simp: Let_def)
qed auto

section \<open>Properties\<close>

text \<open>C15. A redaction of ASCII text reports what it did. The seven patterns run one after the other; each splits the
  text before it into its leftmost, nonoverlapping matches, with no further match in between, puts the token in the
  place of exactly the secrets of these matches, and keeps the gaps and the kept prefixes as they are. The count is
  the number of secrets replaced, the categories are those of the patterns that replaced one, in pattern order and
  without repetition, and a text that is not reported as redacted is the very same text. The witness redacts a token.\<close>

theorem redaction_report_consistent:
  assumes "is_ascii s"
  shows "(\<exists>runs. redacted_by redaction_patterns s runs (rr_text (redact_text s))
       \<and> rr_replacement_count (redact_text s) = sum_list (map (\<lambda>run. length (fst run)) runs)
       \<and> rr_categories (redact_text s)
           = map (\<lambda>(pat, run). pat_category pat) (filter (\<lambda>(pat, run). fst run \<noteq> []) (zip redaction_patterns runs)))
   \<and> distinct (rr_categories (redact_text s)) \<and> subseq (rr_categories (redact_text s)) (map pat_category redaction_patterns)
   \<and> (rr_replacement_count (redact_text s) = 0 \<longleftrightarrow> rr_categories (redact_text s) = [])
   \<and> (\<not> rr_redacted (redact_text s) \<longrightarrow> rr_text (redact_text s) = s)"
proof -
  have "distinct xs" if "subseq xs ys" "distinct ys" for xs ys :: "string list"
    using that by (induction xs ys rule: list_emb.induct) (auto dest: list_emb_set)
  from this[OF redact_text_categories distinct_categories] show ?thesis
    using redact_text_redacted_by redact_text_categories redact_text_inv[of s] redact_text_no_change[of s]
    by (simp add: redaction_inv_def)
qed

definition sample_token :: string where
  "sample_token = ''ghp_aaaaaaaaaaaaaaaaaaaaaaaa''"

theorem redaction_report_consistent_witness:
  "\<exists>runs. redacted_by redaction_patterns sample_token runs ''[REDACTED]''
     \<and> sum_list (map (\<lambda>run. length (fst run)) runs) = 1
     \<and> map (\<lambda>(pat, run). pat_category pat) (filter (\<lambda>(pat, run). fst run \<noteq> []) (zip redaction_patterns runs)) = [''github_token'']"
proof -
  have ascii: "is_ascii sample_token" by code_simp
  have "redact_text sample_token = \<lparr>rr_text = ''[REDACTED]'', rr_replacement_count = 1, rr_categories = [''github_token'']\<rparr>"
    by code_simp
  note report = redaction_report_consistent[OF ascii, THEN conjunct1, unfolded this redaction_result.select_convs]
  then obtain runs where "redacted_by redaction_patterns sample_token runs ''[REDACTED]''"
    "1 = sum_list (map (\<lambda>run. length (fst run)) runs)"
    "[''github_token''] = map (\<lambda>(pat, run). pat_category pat) (filter (\<lambda>(pat, run). fst run \<noteq> []) (zip redaction_patterns runs))"
    by (elim exE conjE)
  then show ?thesis by (intro exI[of _ runs]) simp
qed



text \<open>C17. Redacting structured data loses no entry: an object keeps its number of entries and the order of the redacted
  values, and keys that become equal by redaction are told apart by a suffix, so the keys stay distinct.\<close>

theorem redact_data_keeps_entries:
  "\<exists>es n cats. redact_data_value (JObj kvs) = (JObj es, n, cats) \<and> length es = length kvs
     \<and> distinct (map fst es) \<and> map snd es = map (\<lambda>(k, v). fst (redact_data_value v)) kvs"
proof -
  let ?in = "map (\<lambda>(k, v). (k, redact_data_value v)) kvs"
  obtain es n cats where r: "redact_entries ?in ([], 0, []) = (es, n, cats)" by (metis prod_cases3)
  from redact_entries_keys[OF r] have "distinct (map fst es)" "length es = length kvs"
    "map snd es = map (\<lambda>(k, v, _). v) ?in" by auto
  moreover have "map (\<lambda>(k, v, _). v) ?in = map (\<lambda>(k, v). fst (redact_data_value v)) kvs"
    by (auto simp: case_prod_unfold)
  ultimately show ?thesis using r by auto
qed

end
