(* ===== verification/Posting.thy ===== *)
theory Posting
  imports Models_Payload Diff_Anchors Redaction Stage_Loop
begin

text \<open>
  The model of \<open>src/src/reviewgraph/posting.py\<close>: the posting plan, which says where every classified output goes, and
  the candidate issue comment built from its public items; and of the steps of \<open>_run_dry_run_core\<close> in \<open>runner.py\<close>
  that make a plan local when posting is not enabled.
\<close>

section \<open>The posting plan\<close>

definition posting_findings_hash :: "string list \<Rightarrow> string result" where
  "posting_findings_hash fps =
     (case findings_hash fps of
        Inl (ValueError m) \<Rightarrow> Inl (PostingPlanError m) | r \<Rightarrow> r)"

definition validate_mvp_artifact_kind :: "string \<Rightarrow> artifact_kind result" where
  "validate_mvp_artifact_kind kind =
     (if kind = ''issue_comment'' then Inr IssueComment
      else Inl (PostingPlanError ''MVP supports only top-level issue_comment payloads''))"

definition anchor_required :: py_error where
  "anchor_required = PostingPlanError ''inline candidates require a diff anchor overlapping changed target code''"

definition finding_item :: "string list \<Rightarrow> review_target option \<Rightarrow> classified_finding \<Rightarrow> posting_plan_item result" where
  "finding_item inline target f =
     bindE (if cf_id f \<in> set inline then
              (case cf_diff_anchor f of
                 None \<Rightarrow> Inl anchor_required
               | Some a \<Rightarrow>
                   (case target of
                      None \<Rightarrow> Inl (PostingPlanError ''inline candidates require a review target'')
                    | Some t \<Rightarrow>
                        if validates_finding_location a (cf_path f) (cf_line f) (rt_head_sha t) (cf_line_end f)
                        then Inr (InlineCandidate, False) else Inl anchor_required))
            else Inr (ReviewBodyItem, True)) (\<lambda>(dest, eligible).
     mk_checked posting_plan_item_check
       \<lparr>pi_id = cf_id f, pi_source_classification = classification_value (cf_classification f), pi_destination = dest,
        pi_public_payload_eligible = eligible, pi_fingerprint = Some (cf_fingerprint f), pi_body = Some (cf_body f)\<rparr>)"

definition local_item :: "string \<Rightarrow> output_classification \<Rightarrow> string \<Rightarrow> posting_plan_item result" where
  "local_item i c body = mk_checked posting_plan_item_check
     \<lparr>pi_id = i, pi_source_classification = classification_value c, pi_destination = LocalOnly,
      pi_public_payload_eligible = False, pi_fingerprint = None, pi_body = Some body\<rparr>"

definition reply_item :: "suggested_reply \<Rightarrow> posting_plan_item result" where
  "reply_item r = mk_checked posting_plan_item_check
     \<lparr>pi_id = sr_id r, pi_source_classification = classification_value (sr_classification r),
      pi_destination = SuggestedReplyDestination, pi_public_payload_eligible = False, pi_fingerprint = None,
      pi_body = Some (sr_proposed_body r)\<rparr>"

definition summary_item :: posting_plan_item where
  "summary_item = \<lparr>pi_id = ''summary'', pi_source_classification = ''summary'', pi_destination = TopLevelSummaryItem,
     pi_public_payload_eligible = True, pi_fingerprint = None, pi_body = None\<rparr>"

definition build_posting_plan :: "classified_finding list \<Rightarrow> review_target option \<Rightarrow> local_note list
    \<Rightarrow> suggested_reply list \<Rightarrow> clarification_request list \<Rightarrow> suppressed_output list \<Rightarrow> string list \<Rightarrow> bool
    \<Rightarrow> posting_plan result" where
  "build_posting_plan findings target notes replies requests suppressed inline include_summary =
     bindE (if include_summary then bindE (mk_checked posting_plan_item_check summary_item) (\<lambda>i. Inr [i]) else Inr []) (\<lambda>summary.
     bindE (mapE (finding_item inline target) findings) (\<lambda>finding_items.
     bindE (mapE (\<lambda>n. local_item (ln_id n) (ln_classification n) (ln_body n)) notes) (\<lambda>note_items.
     bindE (mapE reply_item replies) (\<lambda>reply_items.
     bindE (mapE (\<lambda>r. local_item (cr_id r) (cr_classification r) (cr_question r)) requests) (\<lambda>request_items.
     bindE (mapE (\<lambda>o'. local_item (so_id o') (so_classification o') (so_reason o')) suppressed) (\<lambda>suppressed_items.
     let unknown = filter (\<lambda>i. i \<notin> cf_id ` set findings) (sort (remdups inline))
     in if unknown \<noteq> [] then Inl (PostingPlanError (''unknown inline candidate ids: '' @ join '', '' unknown))
        else mk_checked posting_plan_check
          \<lparr>pp_items = summary @ finding_items @ note_items @ reply_items @ request_items @ suppressed_items\<rparr>))))))"

section \<open>The candidate payload\<close>

text \<open>\<open>findings_by_id\<close>, the dict of the findings; a repeated id raises.\<close>

fun index_findings :: "classified_finding list \<Rightarrow> (string \<times> classified_finding) list
    \<Rightarrow> (string \<times> classified_finding) list result" where
  "index_findings [] d = Inr d"
| "index_findings (f # fs) d =
     (if cf_id f \<in> fst ` set d then Inl (PostingPlanError (''duplicate finding id: '' @ cf_id f))
      else index_findings fs (d @ [(cf_id f, f)]))"

definition public_item_error :: "posting_plan_item \<Rightarrow> py_error option" where
  "public_item_error i =
     (if pi_id i = ''summary'' then
        (if pi_destination i \<noteq> TopLevelSummaryItem
         then Some (PostingPlanError ''summary public item must use top_level_summary_item destination'') else None)
      else if pi_destination i \<noteq> ReviewBodyItem
        then Some (PostingPlanError ''only review_body_item findings can enter public payload items'')
      else if pi_source_classification i \<noteq> ''postable_finding''
        then Some (PostingPlanError ''only postable findings can enter public payload items'')
      else if pi_fingerprint i = None \<or> pi_fingerprint i = Some []
        then Some (PostingPlanError ''public payload findings require fingerprints'')
      else None)"

definition finding_line :: "classified_finding \<Rightarrow> string" where
  "finding_line f = ''- P'' @ int_str (cf_priority f) @ '' '' @ cf_title f @ '': '' @ cf_body f
     @ '' ('' @ cf_path f @ '':'' @ int_str (cf_line f) @ '')''"

text \<open>The loop over the public items: the lines and the fingerprints.\<close>

fun candidate_lines :: "(string \<times> classified_finding) list \<Rightarrow> posting_plan_item list
    \<Rightarrow> (string list \<times> string list) result" where
  "candidate_lines d [] = Inr ([], [])"
| "candidate_lines d (i # is') =
     (if pi_id i = ''summary''
      then bindE (candidate_lines d is') (\<lambda>(ls, fps). Inr (''- Summary item reserved for renderer output.'' # ls, fps))
      else (case map_of d (pi_id i) of
              None \<Rightarrow> Inl (KeyError (pi_id i))
            | Some f \<Rightarrow>
                if pi_fingerprint i \<noteq> Some (cf_fingerprint f)
                then Inl (PostingPlanError (''posting plan fingerprint mismatch for '' @ pi_id i))
                else bindE (candidate_lines d is') (\<lambda>(ls, fps). Inr (finding_line f # ls, cf_fingerprint f # fps))))"

definition redaction_status_of :: "redaction_result \<Rightarrow> redaction_status result" where
  "redaction_status_of r = mk_checked redaction_status_check
     \<lparr>red_redacted = rr_redacted r, red_replacement_count = int (rr_replacement_count r),
      red_categories = rr_categories r, red_status = GatePass\<rparr>"

definition candidate_header :: "review_target \<Rightarrow> string list" where
  "candidate_header t = [''ReviewGraph dry-run candidate'',
     ''Target: '' @ rt_owner_repo t @ ''#'' @ int_str (rt_pr_number t), ''Head: '' @ rt_head_sha t, []]"

definition build_candidate_issue_comment_payload :: "review_target \<Rightarrow> posting_plan \<Rightarrow> classified_finding list
    \<Rightarrow> review_verdict option \<Rightarrow> bool \<Rightarrow> string \<Rightarrow> candidate_payload result" where
  "build_candidate_issue_comment_payload t plan findings verdict include_verdict kind =
     bindE (validate_mvp_artifact_kind kind) (\<lambda>k.
     bindE (index_findings findings []) (\<lambda>d.
     let public_items = public_payload_items plan in
     bindE (checkE public_item_error public_items) (\<lambda>_.
     let missing = filter (\<lambda>i. i \<noteq> ''summary'' \<and> i \<notin> fst ` set d) (map pi_id public_items) in
     if missing \<noteq> [] then Inl (PostingPlanError (''public payload item has no matching finding: '' @ join '', '' missing))
     else if include_verdict \<and> verdict = Some VRequestChanges
       then Inl (PostingPlanError ''request_changes verdict text is not public in MVP candidate payloads'')
     else
     let verdict_lines = (case verdict of
           Some v \<Rightarrow> if include_verdict then [''Local verdict: '' @ verdict_value v, []] else [] | None \<Rightarrow> []) in
     bindE (candidate_lines d public_items) (\<lambda>(ls, fps).
     let parts = candidate_header t @ verdict_lines
           @ (if public_items \<noteq> [] then [''Postable findings:''] else [])
           @ ls @ (if public_items = [] then [''Postable findings: none.''] else []);
         redaction = redact_text (join [LF] parts);
         visible = canonical_visible_body (rr_text redaction);
         fingerprints = sort fps in
     bindE (posting_findings_hash fingerprints) (\<lambda>fh.
     bindE (redaction_status_of redaction) (\<lambda>rs.
     mk_checked candidate_payload_check
       \<lparr>cp_artifact_kind = k, cp_review_target = t, cp_body = visible, cp_visible_body_hash = visible_body_hash visible,
        cp_findings_hash = fh, cp_item_fingerprints = fingerprints, cp_redaction_status = rs\<rparr>))))))"

section \<open>What the runner does with it\<close>

text \<open>\<open>_local_only_posting_plan\<close>\<close>

definition local_only_posting_plan :: "posting_plan \<Rightarrow> posting_plan result" where
  "local_only_posting_plan p =
     bindE (mapE (\<lambda>i. if \<not> pi_public_payload_eligible i then Inr i
                       else mk_checked posting_plan_item_check
                         (i\<lparr>pi_destination := LocalOnly, pi_public_payload_eligible := False\<rparr>)) (pp_items p)) (\<lambda>items.
     mk_checked posting_plan_check \<lparr>pp_items = items\<rparr>)"

text \<open>\<open>_candidate_payload\<close> and the lines of \<open>_run_dry_run_core\<close> from the plan to the candidate.\<close>

definition plan_and_candidate :: "bool \<Rightarrow> review_target \<Rightarrow> classified_finding list \<Rightarrow> local_note list
    \<Rightarrow> suggested_reply list \<Rightarrow> clarification_request list \<Rightarrow> suppressed_output list
    \<Rightarrow> (posting_plan \<times> candidate_payload option) result" where
  "plan_and_candidate post_enabled t findings notes replies requests suppressed =
     bindE (build_posting_plan findings (Some t) notes replies requests suppressed [] False) (\<lambda>plan.
     bindE (if \<not> post_enabled then local_only_posting_plan plan else Inr plan) (\<lambda>plan'.
     bindE (if \<not> post_enabled then Inr None
            else bindE (build_candidate_issue_comment_payload t plan' findings None False ''issue_comment'')
                   (\<lambda>c. Inr (Some c))) (\<lambda>c.
     Inr (plan', c))))"

section \<open>Lemmas on the plan\<close>

definition body_item :: "classified_finding \<Rightarrow> posting_plan_item" where
  "body_item f = \<lparr>pi_id = cf_id f, pi_source_classification = classification_value (cf_classification f),
     pi_destination = ReviewBodyItem, pi_public_payload_eligible = True, pi_fingerprint = Some (cf_fingerprint f),
     pi_body = Some (cf_body f)\<rparr>"

lemma classification_value_not_Nil [simp]: "classification_value c \<noteq> []"
  by (cases c) simp_all

lemma item_check_iff:
  "posting_plan_item_check i = None \<longleftrightarrow> pi_id i \<noteq> [] \<and> pi_source_classification i \<noteq> [] \<and> pi_fingerprint i \<noteq> Some []
     \<and> pi_body i \<noteq> Some [] \<and> (pi_public_payload_eligible i \<longrightarrow> pi_destination i \<in> {TopLevelSummaryItem, ReviewBodyItem})"
  by (cases "pi_fingerprint i"; cases "pi_body i")
    (auto simp: posting_plan_item_check_def first_failure_None_iff check_defs(1,2))

lemma finding_item_Inr:
  assumes "finding_item inline t f = Inr i"
  shows "pi_id i = cf_id f \<and> posting_plan_item_check i = None
    \<and> (pi_public_payload_eligible i \<longleftrightarrow> cf_id f \<notin> set inline) \<and> (cf_id f \<notin> set inline \<longrightarrow> i = body_item f)"
  using assms
  by (auto simp: finding_item_def bindE_Inr_iff mk_checked_Inr_iff body_item_def split: option.split_asm if_split_asm)

lemma local_item_Inr:
  "local_item i c b = Inr x \<Longrightarrow> pi_id x = i \<and> \<not> pi_public_payload_eligible x \<and> posting_plan_item_check x = None"
  by (auto simp: local_item_def mk_checked_Inr_iff)

lemma reply_item_Inr:
  "reply_item r = Inr x \<Longrightarrow> pi_id x = sr_id r \<and> \<not> pi_public_payload_eligible x \<and> posting_plan_item_check x = None"
  by (auto simp: reply_item_def mk_checked_Inr_iff)

lemma summary_item_check: "posting_plan_item_check summary_item = None"
  by (simp add: item_check_iff summary_item_def)

lemma finding_items_public:
  assumes "list_all2 (\<lambda>f i. finding_item inline t f = Inr i) fs is'"
  shows "filter pi_public_payload_eligible is' = map body_item (filter (\<lambda>f. cf_id f \<notin> set inline) fs)
    \<and> (\<forall>i \<in> set is'. posting_plan_item_check i = None) \<and> map pi_id is' = map cf_id fs"
  using assms by (induction rule: list_all2_induct) (auto dest!: finding_item_Inr)

lemma private_items:
  assumes "list_all2 (\<lambda>x i. g x = Inr i) xs is'"
    and "\<And>x i. g x = Inr i \<Longrightarrow> pi_id i = idf x \<and> \<not> pi_public_payload_eligible i \<and> posting_plan_item_check i = None"
  shows "filter pi_public_payload_eligible is' = [] \<and> (\<forall>i \<in> set is'. posting_plan_item_check i = None)
    \<and> map pi_id is' = map idf xs"
  using assms(1) by (induction rule: list_all2_induct) (auto dest!: assms(2))

lemma build_posting_plan_Inr:
  assumes "build_posting_plan fs t notes replies requests suppressed inline summary = Inr p"
  shows "valid_plan p"
    and "public_payload_items p =
      (if summary then [summary_item] else []) @ map body_item (filter (\<lambda>f. cf_id f \<notin> set inline) fs)"
    and "map pi_id (pp_items p) = (if summary then [''summary''] else []) @ map cf_id fs @ map ln_id notes
      @ map sr_id replies @ map cr_id requests @ map so_id suppressed"
proof -
  from assms obtain su fi ni ri qi oi where items:
    "su = (if summary then [summary_item] else [])"
    "list_all2 (\<lambda>f i. finding_item inline t f = Inr i) fs fi"
    "list_all2 (\<lambda>n i. local_item (ln_id n) (ln_classification n) (ln_body n) = Inr i) notes ni"
    "list_all2 (\<lambda>r i. reply_item r = Inr i) replies ri"
    "list_all2 (\<lambda>r i. local_item (cr_id r) (cr_classification r) (cr_question r) = Inr i) requests qi"
    "list_all2 (\<lambda>x i. local_item (so_id x) (so_classification x) (so_reason x) = Inr i) suppressed oi"
    "p = \<lparr>pp_items = su @ fi @ ni @ ri @ qi @ oi\<rparr>" "posting_plan_check p = None"
    by (auto simp: build_posting_plan_def bindE_Inr_iff mapE_Inr_iff mk_checked_Inr_iff Let_def split: if_split_asm)
  note F = finding_items_public[OF items(2)]
  note N = private_items[OF items(3) local_item_Inr] note R = private_items[OF items(4) reply_item_Inr]
  note Q = private_items[OF items(5) local_item_Inr] note S = private_items[OF items(6) local_item_Inr]
  have su: "(\<forall>i \<in> set su. posting_plan_item_check i = None) \<and> filter pi_public_payload_eligible su = su
      \<and> map pi_id su = (if summary then [''summary''] else [])"
    using summary_item_check by (simp add: items(1)) (simp add: summary_item_def)
  show "valid_plan p"
    using items(7,8) su F N R Q S by (auto simp: valid_plan_def)
  show "public_payload_items p = (if summary then [summary_item] else [])
      @ map body_item (filter (\<lambda>f. cf_id f \<notin> set inline) fs)"
    using items(1,7) su F N R Q S by (simp add: public_payload_items_def)
  show "map pi_id (pp_items p) = (if summary then [''summary''] else []) @ map cf_id fs @ map ln_id notes
      @ map sr_id replies @ map cr_id requests @ map so_id suppressed"
    using items(7) su F N R Q S by simp
qed

section \<open>Totality on valid outputs\<close>

text \<open>The classified outputs of a run: each valid, all ids distinct.\<close>

definition valid_outputs :: "classified_finding list \<Rightarrow> local_note list \<Rightarrow> suggested_reply list
    \<Rightarrow> clarification_request list \<Rightarrow> suppressed_output list \<Rightarrow> bool" where
  "valid_outputs fs notes replies requests suppressed \<longleftrightarrow>
     (\<forall>f \<in> set fs. valid_finding f) \<and> (\<forall>n \<in> set notes. local_note_check n = None)
     \<and> (\<forall>r \<in> set replies. suggested_reply_check r = None) \<and> (\<forall>r \<in> set requests. clarification_request_check r = None)
     \<and> (\<forall>x \<in> set suppressed. suppressed_output_check x = None)
     \<and> distinct (map cf_id fs @ map ln_id notes @ map sr_id replies @ map cr_id requests @ map so_id suppressed)"

lemma finding_item_ok:
  "valid_finding f \<Longrightarrow> finding_item [] t f = Inr (body_item f)"
  using valid_finding_facts[of f]
  by (simp add: finding_item_def mk_checked_ok item_check_iff body_item_def)

lemma local_item_ok:
  "i \<noteq> [] \<Longrightarrow> b \<noteq> [] \<Longrightarrow> is_ok (local_item i c b)"
  by (simp add: local_item_def mk_checked_ok item_check_iff)

lemma output_item_ok:
  "local_note_check n = None \<Longrightarrow> is_ok (local_item (ln_id n) (ln_classification n) (ln_body n))"
  "suggested_reply_check r = None \<Longrightarrow> is_ok (reply_item r)"
  "clarification_request_check q = None \<Longrightarrow> is_ok (local_item (cr_id q) (cr_classification q) (cr_question q))"
  "suppressed_output_check x = None \<Longrightarrow> is_ok (local_item (so_id x) (so_classification x) (so_reason x))"
  by (auto simp: local_note_check_def suggested_reply_check_def clarification_request_check_def
      suppressed_output_check_def require_non_empty_def reply_item_def mk_checked_ok item_check_iff
      intro!: local_item_ok split: if_split_asm)

lemma mapE_is_ok: "\<forall>x \<in> set xs. is_ok (f x) \<Longrightarrow> \<exists>ys. mapE f xs = Inr ys"
  by (induction xs) (auto simp: is_ok_iff)

lemma build_posting_plan_ok:
  assumes "valid_outputs fs notes replies requests suppressed"
  shows "\<exists>p. build_posting_plan fs t notes replies requests suppressed [] False = Inr p"
proof -
  have f: "mapE (finding_item [] t) fs = Inr (map body_item fs)"
    using assms by (intro mapE_ok) (simp add: valid_outputs_def finding_item_ok)
  obtain ni ri qi oi where *:
    "mapE (\<lambda>n. local_item (ln_id n) (ln_classification n) (ln_body n)) notes = Inr ni"
    "mapE reply_item replies = Inr ri"
    "mapE (\<lambda>r. local_item (cr_id r) (cr_classification r) (cr_question r)) requests = Inr qi"
    "mapE (\<lambda>x. local_item (so_id x) (so_classification x) (so_reason x)) suppressed = Inr oi"
    using assms mapE_is_ok output_item_ok unfolding valid_outputs_def by (metis (no_types, lifting))
  let ?items = "map body_item fs @ ni @ ri @ qi @ oi"
  have ids: "map pi_id ?items = map cf_id fs @ map ln_id notes @ map sr_id replies @ map cr_id requests @ map so_id suppressed"
    using private_items[OF *(1)[unfolded mapE_Inr_iff] local_item_Inr] private_items[OF *(2)[unfolded mapE_Inr_iff] reply_item_Inr]
      private_items[OF *(3)[unfolded mapE_Inr_iff] local_item_Inr] private_items[OF *(4)[unfolded mapE_Inr_iff] local_item_Inr]
    by (simp add: body_item_def)
  have "posting_plan_check \<lparr>pp_items = ?items\<rparr> = None"
    unfolding posting_plan_check_def using assms ids
    by (simp add: has_duplicates_iff valid_outputs_def del: map_append)
  then show ?thesis using f * by (simp add: build_posting_plan_def mk_checked_ok)
qed

section \<open>The candidate of a plan\<close>

lemma index_findings_ok:
  "distinct (map fst d @ map cf_id fs) \<Longrightarrow> index_findings fs d = Inr (d @ map (\<lambda>f. (cf_id f, f)) fs)"
  by (induction fs arbitrary: d) auto

lemma candidate_lines_ok:
  assumes "\<forall>f \<in> set fs. map_of d (cf_id f) = Some f \<and> cf_id f \<noteq> ''summary''"
  shows "candidate_lines d (map body_item fs) = Inr (map finding_line fs, map cf_fingerprint fs)"
  using assms by (induction fs) (auto simp: body_item_def)

lemma public_body_items_ok:
  assumes "\<forall>f \<in> set fs. valid_finding f \<and> cf_id f \<noteq> ''summary''"
  shows "checkE public_item_error (map body_item fs) = Inr ()"
  unfolding checkE_Inr_iff using assms valid_finding_facts
  by (auto simp: public_item_error_def body_item_def)

lemma pattern_names_not_Nil: "[] \<notin> set (map pat_category redaction_patterns)"
  by (simp add: redaction_patterns_def private_key_pattern_def authorization_pattern_def bearer_pattern_def
      github_token_pattern_def api_key_pattern_def env_pattern_def standalone_key_pattern_def)

lemma redact_text_category_set: "set (rr_categories (redact_text s)) \<subseteq> set (map pat_category redaction_patterns)"
proof -
  have "set xs \<subseteq> set ys" if "subseq xs ys" for xs ys :: "string list"
    using that by (induction xs ys rule: list_emb.induct) auto
  then show ?thesis using redact_text_categories by blast
qed

lemma redaction_status_of_ok:
  "redaction_status_of (redact_text s) = Inr \<lparr>red_redacted = rr_redacted (redact_text s),
     red_replacement_count = int (rr_replacement_count (redact_text s)), red_categories = rr_categories (redact_text s),
     red_status = GatePass\<rparr>"
proof -
  have "list_all non_empty (rr_categories (redact_text s))"
    using redact_text_category_set[of s] pattern_names_not_Nil by (auto simp: list_all_iff)
  then have "redaction_status_check \<lparr>red_redacted = rr_redacted (redact_text s),
     red_replacement_count = int (rr_replacement_count (redact_text s)), red_categories = rr_categories (redact_text s),
     red_status = GatePass\<rparr> = None"
    by (cases "rr_replacement_count (redact_text s)") (simp_all add: redaction_status_check_def check_defs(3,6) rr_redacted_def)
  then show ?thesis by (simp add: redaction_status_of_def mk_checked_ok)
qed

lemma canonical_visible_body_not_Nil [simp]: "canonical_visible_body b \<noteq> []"
  by (simp add: canonical_visible_body_def canonical_text_body_def Let_def)

lemma findings_hash_sort: "findings_hash (sort fps) = findings_hash fps"
  by (simp add: findings_hash_def sorted_sort_id)

lemma findings_hash_ok:
  "distinct fps \<Longrightarrow> findings_hash fps = Inr (canonical_json_hash (JArr (map JStr (sort fps))))"
  by (simp add: findings_hash_def has_duplicates_iff Let_def)

text \<open>The text of a candidate before redaction, for findings that are all posted.\<close>

definition candidate_text :: "review_target \<Rightarrow> classified_finding list \<Rightarrow> string" where
  "candidate_text t fs = join [LF] (candidate_header t @ (if fs \<noteq> [] then [''Postable findings:''] else [])
     @ map finding_line fs @ (if fs = [] then [''Postable findings: none.''] else []))"

lemma build_candidate_ok:
  fixes t :: review_target
  assumes "\<forall>f \<in> set fs. valid_finding f \<and> cf_id f \<noteq> ''summary''" and "distinct (map cf_id fs)"
    and "distinct (map cf_fingerprint fs)" and "public_payload_items plan = map body_item fs"
  defines "r \<equiv> redact_text (candidate_text t fs)"
  shows "build_candidate_issue_comment_payload t plan fs None False ''issue_comment'' = Inr
     \<lparr>cp_artifact_kind = IssueComment, cp_review_target = t, cp_body = canonical_visible_body (rr_text r),
      cp_visible_body_hash = visible_body_hash (canonical_visible_body (rr_text r)),
      cp_findings_hash = canonical_json_hash (JArr (map JStr (sort (map cf_fingerprint fs)))),
      cp_item_fingerprints = sort (map cf_fingerprint fs),
      cp_redaction_status = \<lparr>red_redacted = rr_redacted r, red_replacement_count = int (rr_replacement_count r),
        red_categories = rr_categories r, red_status = GatePass\<rparr>\<rparr>"
proof -
  let ?d = "map (\<lambda>f. (cf_id f, f)) fs"
  have d: "index_findings fs [] = Inr ?d" using assms(2) by (simp add: index_findings_ok)
  have "map_of ?d (cf_id f) = Some f" if "f \<in> set fs" for f
    using that assms(2) by (intro map_of_is_SomeI) (auto simp: comp_def)
  then have lines: "candidate_lines ?d (map body_item fs) = Inr (map finding_line fs, map cf_fingerprint fs)"
    using assms(1) by (intro candidate_lines_ok) blast
  have missing: "filter (\<lambda>i. i \<noteq> ''summary'' \<and> i \<notin> fst ` set ?d) (map pi_id (map body_item fs)) = []"
    by (force simp: filter_empty_conv body_item_def)
  have hash: "posting_findings_hash (sort (map cf_fingerprint fs))
      = Inr (canonical_json_hash (JArr (map JStr (sort (map cf_fingerprint fs)))))"
    using assms(3) by (simp add: posting_findings_hash_def findings_hash_sort findings_hash_ok)
  have fps: "list_all non_empty (map cf_fingerprint fs)"
    using assms(1) valid_finding_facts by (auto simp: list_all_iff)
  then have fps': "list_all non_empty (sort (map cf_fingerprint fs))" by (simp add: list_all_iff)
  show ?thesis
    unfolding build_candidate_issue_comment_payload_def r_def assms(4) candidate_text_def
    using d public_body_items_ok[OF assms(1)] missing lines hash fps' assms(4)
    by (simp add: validate_mvp_artifact_kind_def Let_def redaction_status_of_ok mk_checked_ok
        candidate_payload_check_iff strict_starts_with del: map_map)
qed

section \<open>Properties\<close>

text \<open>C18. Only findings become public: the public items of a posting plan are the findings that are not inline
  candidates, in order, each with its own fingerprint and body (after the summary item, if one is asked for); notes,
  replies, questions and suppressed outputs never are. The plan passes its own validators.\<close>

theorem only_findings_are_public:
  assumes "build_posting_plan fs t notes replies requests suppressed inline include_summary = Inr p"
  shows "valid_plan p \<and> public_payload_items p =
      (if include_summary then [summary_item] else []) @ map body_item (filter (\<lambda>f. cf_id f \<notin> set inline) fs)"
  using build_posting_plan_Inr(1,2)[OF assms] by blast

theorem only_findings_are_public_witness:
  "\<exists>p. build_posting_plan [] None [\<lparr>ln_id = ''n'', ln_title = ''t'', ln_body = ''b'', ln_evidence = ''e'',
       ln_classification = LocalNoteOutput\<rparr>] [] [] [] [] False = Inr p \<and> public_payload_items p = []"
proof -
  have "\<exists>p. build_posting_plan [] None [\<lparr>ln_id = ''n'', ln_title = ''t'', ln_body = ''b'', ln_evidence = ''e'',
       ln_classification = LocalNoteOutput\<rparr>] [] [] [] [] False = Inr p"
    by (intro build_posting_plan_ok) (simp add: valid_outputs_def local_note_check_def require_non_empty_def)
  then show ?thesis using only_findings_are_public[where inline = "[]"] by fastforce
qed

text \<open>C19. Nothing is public unless posting is enabled: with posting disabled there is no candidate payload and the
  plan has no public item.\<close>

theorem disabled_run_publishes_nothing:
  assumes "plan_and_candidate False t fs notes replies requests suppressed = Inr (p, c)"
  shows "c = None \<and> public_payload_items p = []"
proof -
  from assms obtain p0 where "local_only_posting_plan p0 = Inr p" and c: "c = None"
    by (auto simp: plan_and_candidate_def bindE_Inr_iff)
  then obtain items where all: "list_all2 (\<lambda>i j. (if \<not> pi_public_payload_eligible i then Inr i
       else mk_checked posting_plan_item_check (i\<lparr>pi_destination := LocalOnly, pi_public_payload_eligible := False\<rparr>)) = Inr j)
       (pp_items p0) items" and p: "p = \<lparr>pp_items = items\<rparr>"
    by (auto simp: local_only_posting_plan_def bindE_Inr_iff mapE_Inr_iff mk_checked_Inr_iff)
  have "\<forall>j \<in> set items. \<not> pi_public_payload_eligible j"
    by (rule list_all2_right[OF all]) (auto simp: mk_checked_Inr_iff split: if_split_asm)
  with c p show ?thesis by (simp add: public_payload_items_def filter_empty_conv)
qed

theorem disabled_run_publishes_nothing_witness:
  "\<exists>p. plan_and_candidate False sample_target [sample_finding] [] [] [] [] = Inr (p, None) \<and> public_payload_items p = []"
proof -
  have "valid_outputs [sample_finding] [] [] [] []"
    by (simp add: valid_outputs_def sample_finding_def classified_finding_check_def validate_priority_def)
  then have "\<exists>p. plan_and_candidate False sample_target [sample_finding] [] [] [] [] = Inr (p, None)"
    by (simp add: plan_and_candidate_def build_posting_plan_def finding_item_ok valid_outputs_def mk_checked_ok
        posting_plan_check_def has_duplicates_def local_only_posting_plan_def item_check_iff body_item_def
        sample_finding_def)
  then show ?thesis using disabled_run_publishes_nothing by blast
qed

text \<open>C20. An enabled run always gets its candidate: on valid outputs with distinct ids, distinct fingerprints and no
  finding called \<open>summary\<close>, planning and building never raise, the candidate is bound to the target and to exactly the
  fingerprints of the findings, and its redaction status is \<open>pass\<close>.\<close>

theorem enabled_run_builds_candidate:
  assumes "valid_outputs fs notes replies requests suppressed" and "distinct (map cf_fingerprint fs)"
    and "\<forall>f \<in> set fs. cf_id f \<noteq> ''summary''"
  shows "\<exists>p c. plan_and_candidate True t fs notes replies requests suppressed = Inr (p, Some c)
    \<and> public_payload_items p = map body_item fs \<and> cp_review_target c = t
    \<and> cp_item_fingerprints c = sort (map cf_fingerprint fs)
    \<and> cp_visible_body_hash c = visible_body_hash (cp_body c) \<and> red_status (cp_redaction_status c) = GatePass"
proof -
  obtain p where p: "build_posting_plan fs (Some t) notes replies requests suppressed [] False = Inr p"
    using build_posting_plan_ok[OF assms(1)] by blast
  have pub: "public_payload_items p = map body_item fs" using build_posting_plan_Inr(2)[OF p] by simp
  have "\<forall>f \<in> set fs. valid_finding f \<and> cf_id f \<noteq> ''summary''" "distinct (map cf_id fs)"
    using assms(1,3) by (auto simp: valid_outputs_def)
  from build_candidate_ok[OF this assms(2) pub, of t] p pub show ?thesis
    by (simp add: plan_and_candidate_def)
qed

theorem enabled_run_builds_candidate_witness:
  "\<exists>p c. plan_and_candidate True sample_target [sample_finding] [] [] [] [] = Inr (p, Some c)
     \<and> cp_item_fingerprints c = [''fp'']"
  using enabled_run_builds_candidate[of "[sample_finding]" "[]" "[]" "[]" "[]" sample_target]
  by (fastforce simp: valid_outputs_def sample_finding_def classified_finding_check_def validate_priority_def)

end
