(* ===== verification/Hash_Texts.thy ===== *)
theory Hash_Texts
  imports Stable_Key
begin

text \<open>
  What the hashes of \<open>models.py\<close> and \<open>hashing.py\<close> are taken of. The target hash and the findings hash are SHA-256
  digests of JSON texts in the \<open>ensure_ascii=False\<close> mode. The lemmas show that these texts are uniquely readable, so
  that two targets, or two sets of fingerprints, with the same hash are equal unless their texts, which are named here,
  collide under SHA-256. Nothing is assumed about SHA-256 itself.
\<close>

section \<open>Strings of the hashed JSON texts\<close>

lemma read_point_char: "read_point (escape_char c @ r) = (of_char c, r)"
proof (cases "short_escape c")
  case None
  then have raw: "c \<noteq> CHR 0x5C" by (auto simp: short_escape_def)
  show ?thesis
  proof (cases "(of_char c :: nat) < 32")
    case True
    then show ?thesis using None read_point_u[of "of_char c" r] by (simp add: escape_char_def)
  next
    case False
    then show ?thesis using None raw by (cases r) (simp_all add: escape_char_def)
  qed
next
  case (Some e)
  then show ?thesis by (auto simp: escape_char_def short_escape_def split: if_split_asm)
qed

lemma readable_escape_char: "readable escape_char (CHR 0x22) UNIV"
proof -
  have "escape_char c \<noteq> [] \<and> hd (escape_char c) \<noteq> CHR 0x22" for c
    by (auto simp: escape_char_def short_escape_def u_escape_def split: option.split if_split_asm)
  moreover have "c = d \<and> r = s" if "escape_char c @ r = escape_char d @ s" for c d r s
    using arg_cong[OF that, of read_point] by (simp add: read_point_char)
  ultimately show ?thesis unfolding readable_def by blast
qed

lemma json_string_readable: "json_string s @ r = json_string t @ u \<Longrightarrow> s = t \<and> r = u"
  using readable_concat[OF readable_escape_char, of s t r u] by (simp add: json_string_def)

lemma json_opt_str_readable:
  assumes "json_dumps (json_opt_str a) @ r = json_dumps (json_opt_str b) @ u"
  shows "a = b \<and> r = u"
proof (cases a; cases b)
  fix s t assume "a = Some s" "b = Some t"
  with assms json_string_readable[of s r t u] show ?thesis by (simp add: json_dumps_def)
qed (use assms in \<open>simp_all add: json_dumps_def json_string_def\<close>)

text \<open>A list of strings before the bracket that closes it.\<close>

lemma json_strings_readable:
  "join '','' (map json_string xs) @ CHR '']'' # r = join '','' (map json_string ys) @ CHR '']'' # u \<Longrightarrow> xs = ys \<and> r = u"
proof (induction xs arbitrary: ys)
  case Nil
  then show ?case by (cases ys; cases "tl ys") (simp_all add: json_string_def)
next
  case (Cons x xs)
  from Cons.prems obtain y zs where ys: "ys = y # zs"
    by (cases ys; cases xs) (simp_all add: json_string_def)
  have tail: "join '','' (map json_string (x # xs)) @ CHR '']'' # r = json_string x
      @ (if xs = [] then CHR '']'' # r else CHR '','' # join '','' (map json_string xs) @ CHR '']'' # r)" for x xs r
    by (cases xs) simp_all
  from Cons.prems have "json_string x @ (if xs = [] then CHR '']'' # r else CHR '','' # join '','' (map json_string xs) @ CHR '']'' # r)
     = json_string y @ (if zs = [] then CHR '']'' # u else CHR '','' # join '','' (map json_string zs) @ CHR '']'' # u)"
    unfolding ys tail .
  from json_string_readable[OF this] Cons.IH[of zs] ys show ?case by (auto split: if_split_asm)
qed

section \<open>The text of a target\<close>

definition target_text :: "review_target \<Rightarrow> string" where
  "target_text t = ''reviewgraph.review_target.v1'' @ [LF] @ json_dumps (JObj (to_ordered_dict t))"

lemma target_hash_text: "target_hash t = sha256_text (target_text t)"
  by (simp add: target_hash_def domain_json_hash_def target_text_def)

lemma target_json_text:
  "json_dumps (JObj (to_ordered_dict t)) =
     ''{'' @ json_string ''base_sha'' @ '':'' @ json_string (rt_base_sha t)
     @ '','' @ json_string ''diff_basis'' @ '':'' @ json_string (rt_diff_basis t)
     @ '','' @ json_string ''head_sha'' @ '':'' @ json_string (rt_head_sha t)
     @ '','' @ json_string ''merge_base_sha'' @ '':'' @ json_dumps (json_opt_str (rt_merge_base_sha t))
     @ '','' @ json_string ''owner_repo'' @ '':'' @ json_string (rt_owner_repo t)
     @ '','' @ json_string ''pr_number'' @ '':'' @ int_str (rt_pr_number t) @ ''}''"
  by (simp add: json_dumps_def to_ordered_dict_def)

lemma brace_notin_int_str: "CHR ''}'' \<notin> set (int_str i)"
proof -
  have "CHR ''}'' \<notin> set (nat_str n)" for n
    using nat_str_digits[of n] by (auto simp: is_digit_def)
  then show ?thesis by (simp add: int_str_def)
qed

lemma target_text_inject: "target_text t = target_text u \<longleftrightarrow> t = u"
proof
  assume "target_text t = target_text u"
  then have eq: "json_dumps (JObj (to_ordered_dict t)) = json_dumps (JObj (to_ordered_dict u))"
    by (simp add: target_text_def)
  let ?pr = "\<lambda>t. int_str (rt_pr_number t) @ ''}''"
  let ?repo = "\<lambda>t. json_string (rt_owner_repo t) @ '','' @ json_string ''pr_number'' @ '':'' @ ?pr t"
  let ?merge = "\<lambda>t. json_dumps (json_opt_str (rt_merge_base_sha t)) @ '','' @ json_string ''owner_repo'' @ '':'' @ ?repo t"
  let ?head = "\<lambda>t. json_string (rt_head_sha t) @ '','' @ json_string ''merge_base_sha'' @ '':'' @ ?merge t"
  let ?basis = "\<lambda>t. json_string (rt_diff_basis t) @ '','' @ json_string ''head_sha'' @ '':'' @ ?head t"
  let ?base = "\<lambda>t. json_string (rt_base_sha t) @ '','' @ json_string ''diff_basis'' @ '':'' @ ?basis t"
  from eq have "?base t = ?base u" by (simp add: target_json_text)
  from json_string_readable[OF this] have base: "rt_base_sha t = rt_base_sha u" and "?basis t = ?basis u" by simp_all
  from json_string_readable[OF this(2)] have basis: "rt_diff_basis t = rt_diff_basis u" and "?head t = ?head u" by simp_all
  from json_string_readable[OF this(2)] have head: "rt_head_sha t = rt_head_sha u" and "?merge t = ?merge u" by simp_all
  from json_opt_str_readable[OF this(2)] have merge: "rt_merge_base_sha t = rt_merge_base_sha u" and "?repo t = ?repo u"
    by simp_all
  from json_string_readable[OF this(2)] have repo: "rt_owner_repo t = rt_owner_repo u" and pr: "?pr t = ?pr u" by simp_all
  from pr have "rt_pr_number t = rt_pr_number u" by (simp add: int_str_inject)
  with base basis head merge repo show "t = u" by simp
qed simp

section \<open>The text of a set of fingerprints\<close>

definition fingerprints_text :: "string list \<Rightarrow> string" where
  "fingerprints_text fps = json_dumps (JArr (map JStr (sort fps)))"

lemma findings_hash_text:
  "findings_hash fps = Inr h \<Longrightarrow> h = sha256_text (fingerprints_text fps) \<and> distinct fps"
  by (auto simp: findings_hash_def Let_def canonical_json_hash_def fingerprints_text_def has_duplicates_def split: if_split_asm)

lemma fingerprints_text_inject:
  assumes "fingerprints_text fps = fingerprints_text fps'"
  shows "sort fps = sort fps'"
proof -
  have "dumps_with json_string \<circ> JStr = json_string" by (simp add: fun_eq_iff)
  with assms have "join '','' (map json_string (sort fps)) @ CHR '']'' # [] = join '','' (map json_string (sort fps')) @ CHR '']'' # []"
    by (simp add: fingerprints_text_def json_dumps_def)
  then show ?thesis using json_strings_readable by blast
qed

section \<open>Equal hashes\<close>

definition sha256_collision :: "string \<Rightarrow> string \<Rightarrow> bool" where
  "sha256_collision a b \<longleftrightarrow> a \<noteq> b \<and> sha256_hex a = sha256_hex b"

lemma target_hash_identifies:
  "target_hash t = target_hash u \<Longrightarrow> t = u \<or> sha256_collision (target_text t) (target_text u)"
  by (auto simp: target_hash_text sha256_text_def sha256_collision_def target_text_inject)

lemma findings_hash_identifies:
  assumes "findings_hash fps = Inr h" and "findings_hash fps' = Inr h"
  shows "sort fps = sort fps' \<or> sha256_collision (fingerprints_text fps) (fingerprints_text fps')"
  using findings_hash_text[OF assms(1)] findings_hash_text[OF assms(2)] fingerprints_text_inject[of fps fps']
  by (auto simp: sha256_text_def sha256_collision_def)

end
