(* ===== verification/Payloads.thy ===== *)
theory Payloads
  imports Posting Hash_Texts
begin

text \<open>
  The model of the payload half of \<open>src/src/reviewgraph/markers.py\<close> (the marker line and the final issue comment), of
  \<open>payload_validation.py\<close> and of \<open>final_payload.py\<close>: a final payload is the canonical visible body followed by one
  marker line that binds it to the run, the target, the body and the findings, and the validators recompute every
  hash from the body.
\<close>

section \<open>Building the final payload\<close>

definition build_reviewgraph_marker_line :: "string \<Rightarrow> review_target \<Rightarrow> string \<Rightarrow> string list \<Rightarrow> string result" where
  "build_reviewgraph_marker_line run_id t visible_body fps =
     (let body = canonical_text_body visible_body in
      bindE (findings_hash fps) (\<lambda>fh.
      let line = marker_line_text \<lparr>mk_run_id = run_id, mk_target = target_hash t,
            mk_payload = marker_payload_hash body, mk_findings = fh\<rparr>
      in if \<not> is_exact_reviewgraph_v1_marker_line line then Inl (ValueError ''generated marker line is invalid'')
         else Inr line))"

definition build_final_issue_comment_payload ::
    "string \<Rightarrow> review_target \<Rightarrow> string \<Rightarrow> string list \<Rightarrow> redaction_status \<Rightarrow> final_payload result" where
  "build_final_issue_comment_payload run_id t visible_body item_fingerprints rs =
     (let body_without_marker = canonical_text_body visible_body; fps = sort item_fingerprints in
      bindE (build_reviewgraph_marker_line run_id t body_without_marker fps) (\<lambda>line.
      let body = body_without_marker @ line @ [LF] in
      bindE (findings_hash fps) (\<lambda>fh.
      mk_checked final_payload_check
        \<lparr>fp_artifact_kind = IssueComment, fp_review_target = t, fp_body = body, fp_marker_line = line,
         fp_marker_run_id = run_id, fp_marker_target_hash = target_hash t,
         fp_marker_payload_hash = marker_payload_hash body_without_marker, fp_marker_findings_hash = fh,
         fp_visible_body_hash = visible_body_hash body, fp_final_payload_hash = final_payload_hash body,
         fp_findings_hash = fh, fp_item_fingerprints = fps, fp_redaction_status = rs\<rparr>)))"

section \<open>Validation\<close>

definition pv_pass :: "string \<Rightarrow> string \<Rightarrow> payload_validation result" where
  "pv_pass ph th = mk_checked payload_validation_check
     \<lparr>pv_status = GatePass, pv_payload_hash = Some ph, pv_target_hash = Some th, pv_reason_code = None, pv_reason = None\<rparr>"

definition pv_fail :: "payload_validation_reason \<Rightarrow> string \<Rightarrow> payload_validation result" where
  "pv_fail code reason = mk_checked payload_validation_check
     \<lparr>pv_status = GateFail, pv_payload_hash = None, pv_target_hash = None, pv_reason_code = Some code,
      pv_reason = Some reason\<rparr>"

definition drop_final_lf :: "string \<Rightarrow> string" where
  "drop_final_lf s = (if s \<noteq> [] \<and> last s = LF then butlast s else s)"

text \<open>\<open>_body_final_line\<close> of \<open>payload_validation.py\<close>.\<close>

definition body_final_line :: "string \<Rightarrow> string" where
  "body_final_line body = last (split_on LF (drop_final_lf (normalize_line_endings body)))"

definition contains_marker_line :: "string \<Rightarrow> bool" where
  "contains_marker_line body \<longleftrightarrow> list_ex is_exact_reviewgraph_v1_marker_line (split_on LF (canonical_text_body body))"

text \<open>\<open>_validate_marker\<close>: the code and the reason of the first failure.\<close>

definition validate_marker :: "final_payload \<Rightarrow> (payload_validation_reason \<times> string) option" where
  "validate_marker p =
     (let lines = split_on LF (normalize_line_endings (fp_body p));
          marker_lines = filter is_exact_reviewgraph_v1_marker_line lines in
      if body_final_line (fp_body p) \<noteq> fp_marker_line p \<or> \<not> is_exact_reviewgraph_v1_marker_line (fp_marker_line p)
        then Some (PV_marker_not_final_line, ''marker must be the final body line'')
      else if marker_lines \<noteq> [fp_marker_line p]
        then Some (PV_marker_not_final_line, ''marker must appear exactly once as final line'')
      else case parse_reviewgraph_v1_marker_line (fp_marker_line p) of
        None \<Rightarrow> Some (PV_marker_field_mismatch, ''marker line does not match v1 grammar'')
      | Some m \<Rightarrow>
          if mk_run_id m \<noteq> fp_marker_run_id p
            then Some (PV_marker_field_mismatch, ''marker run_id does not match payload'')
          else if mk_target m \<noteq> fp_marker_target_hash p
            then Some (PV_marker_field_mismatch, ''marker target hash does not match payload'')
          else if mk_payload m \<noteq> fp_marker_payload_hash p
            then Some (PV_marker_field_mismatch, ''marker payload hash does not match payload'')
          else if mk_findings m \<noteq> fp_marker_findings_hash p
            then Some (PV_marker_field_mismatch, ''marker findings hash does not match payload'')
          else if fp_marker_payload_hash p \<noteq> marker_payload_hash (fp_body p)
            then Some (PV_body_hash_mismatch, ''marker payload hash does not match visible body'')
          else if fp_visible_body_hash p \<noteq> fp_marker_payload_hash p
            then Some (PV_body_hash_mismatch, ''visible body hash must match marker payload hash'')
          else None)"

definition validate_final_issue_comment_payload :: "final_payload \<Rightarrow> payload_validation result" where
  "validate_final_issue_comment_payload p =
     (if fp_artifact_kind p \<noteq> IssueComment then pv_fail PV_wrong_artifact_kind ''final payload must be issue_comment''
      else if red_status (fp_redaction_status p) \<noteq> GatePass
        then pv_fail PV_redaction_not_passed ''final payload redaction did not pass''
      else case validate_marker p of
        Some (code, reason) \<Rightarrow> pv_fail code reason
      | None \<Rightarrow>
          if fp_visible_body_hash p \<noteq> visible_body_hash (fp_body p)
            then pv_fail PV_body_hash_mismatch ''final visible body hash does not match body''
          else case findings_hash (fp_item_fingerprints p) of
            Inl _ \<Rightarrow> pv_fail PV_duplicate_fingerprints ''final payload fingerprints contain duplicates''
          | Inr fh \<Rightarrow>
              if fp_findings_hash p \<noteq> fh \<or> fp_marker_findings_hash p \<noteq> fh
                then pv_fail PV_findings_hash_mismatch ''final findings hash does not match fingerprints''
              else if fp_final_payload_hash p \<noteq> final_payload_hash (fp_body p)
                then pv_fail PV_final_payload_hash_mismatch ''final payload hash does not match body''
              else if fp_marker_target_hash p \<noteq> target_hash (fp_review_target p)
                then pv_fail PV_target_hash_mismatch ''marker target hash does not match review target''
              else pv_pass (fp_final_payload_hash p) (target_hash (fp_review_target p)))"

text \<open>\<open>re.fullmatch(r"/repos/[^/]+/[^/]+/pulls/\d+/reviews", endpoint)\<close>\<close>

definition is_formal_review_endpoint :: "string \<Rightarrow> bool" where
  "is_formal_review_endpoint endpoint \<longleftrightarrow>
     (case split_on (CHR ''/'') endpoint of
        [e, repos, owner, repo, pulls, n, reviews] \<Rightarrow> e = [] \<and> repos = ''repos'' \<and> owner \<noteq> [] \<and> repo \<noteq> [] \<and> pulls = ''pulls''
          \<and> n \<noteq> [] \<and> list_all is_digit n \<and> reviews = ''reviews''
      | _ \<Rightarrow> False)"

definition is_formal_review_body :: "(string \<times> json) list \<Rightarrow> bool" where
  "is_formal_review_body body \<longleftrightarrow> ''event'' \<in> fst ` set body \<or> ''comments'' \<in> fst ` set body \<or> ''commit_id'' \<in> fst ` set body"

definition validate_issue_comment_request ::
    "issue_comment_request \<Rightarrow> review_target \<Rightarrow> string list \<Rightarrow> string \<Rightarrow> string \<Rightarrow> payload_validation result" where
  "validate_issue_comment_request r t expected_item_fingerprints expected_hash expected_body =
     bindE (validate_final_issue_comment_payload (req_payload r)) (\<lambda>v.
     if pv_status v \<noteq> GatePass then Inr v else
     let fps = sort expected_item_fingerprints in
     if has_duplicates fps then pv_fail PV_duplicate_fingerprints ''expected fingerprints contain duplicates''
     else if fp_review_target (req_payload r) \<noteq> t
       then pv_fail PV_request_target_mismatch ''request payload target does not match expected target''
     else if fp_item_fingerprints (req_payload r) \<noteq> fps
       then pv_fail PV_request_target_mismatch ''request fingerprints do not match expected fingerprints''
     else if fp_final_payload_hash (req_payload r) \<noteq> expected_hash \<or> fp_body (req_payload r) \<noteq> expected_body
       then pv_fail PV_not_final_payload ''request payload does not match approved final payload proof''
     else if req_method r \<noteq> ''POST'' then pv_fail PV_wrong_method ''issue comment requests must use POST''
     else if is_formal_review_endpoint (req_endpoint r)
       then pv_fail PV_formal_review_payload_rejected ''formal PR review endpoint is deferred''
     else if req_endpoint r \<noteq> issue_comment_endpoint t
       then pv_fail PV_wrong_endpoint ''request endpoint is not the issue comment endpoint''
     else if is_formal_review_body (req_body r)
       then pv_fail PV_formal_review_payload_rejected ''formal PR review payload is deferred''
     else if req_body r \<noteq> [(''body'', JStr expected_body)]
       then pv_fail PV_wrong_request_body ''issue comment request body must contain only final body''
     else pv_pass (fp_final_payload_hash (req_payload r)) (target_hash t))"

definition reject_formal_review_payload :: "string \<Rightarrow> (string \<times> json) list \<Rightarrow> payload_validation result" where
  "reject_formal_review_payload endpoint body =
     (if is_formal_review_endpoint endpoint
        then pv_fail PV_formal_review_payload_rejected ''formal PR review endpoint is deferred''
      else if is_formal_review_body body
        then pv_fail PV_formal_review_payload_rejected ''formal PR review payload is deferred''
      else pv_fail PV_wrong_endpoint ''only top-level issue comment requests can pass payload validation'')"

definition validate_candidate_issue_comment_payload :: "candidate_payload \<Rightarrow> review_target \<Rightarrow> posting_plan
    \<Rightarrow> classified_finding list \<Rightarrow> review_verdict option \<Rightarrow> bool \<Rightarrow> payload_validation result" where
  "validate_candidate_issue_comment_payload p t plan fs verdict include_verdict =
     (case build_candidate_issue_comment_payload t plan fs verdict include_verdict ''issue_comment'' of
        Inl (PostingPlanError m) \<Rightarrow> pv_fail PV_candidate_binding_mismatch m
      | Inl e \<Rightarrow> Inl e
      | Inr expected \<Rightarrow>
          if cp_artifact_kind p \<noteq> IssueComment
            then pv_fail PV_wrong_artifact_kind ''candidate payload must be issue_comment''
          else if red_status (cp_redaction_status p) \<noteq> GatePass
            then pv_fail PV_redaction_not_passed ''candidate payload redaction did not pass''
          else if contains_marker_line (cp_body p)
            then pv_fail PV_candidate_contains_marker ''candidate payload must not contain marker''
          else if cp_review_target p \<noteq> t
            then pv_fail PV_candidate_binding_mismatch ''candidate target does not match expected target''
          else if cp_visible_body_hash p \<noteq> visible_body_hash (cp_body p)
            then pv_fail PV_body_hash_mismatch ''candidate visible body hash does not match body''
          else if sort (cp_item_fingerprints p) \<noteq> cp_item_fingerprints expected
            then pv_fail PV_candidate_binding_mismatch ''candidate fingerprints do not match expected fingerprints''
          else if cp_item_fingerprints p \<noteq> cp_item_fingerprints expected
            then pv_fail PV_candidate_binding_mismatch ''candidate fingerprints must be sorted''
          else bindE (findings_hash (cp_item_fingerprints expected)) (\<lambda>fh.
            if cp_findings_hash p \<noteq> fh
              then pv_fail PV_findings_hash_mismatch ''candidate findings hash does not match fingerprints''
            else if p \<noteq> expected
              then pv_fail PV_candidate_binding_mismatch ''candidate payload does not match expected payload''
            else pv_pass (cp_visible_body_hash p) (target_hash (cp_review_target p))))"

section \<open>The approved final comment\<close>

record approved_build =
  ab_visible_body :: string
  ab_visible_body_hash :: string
  ab_payload :: final_payload
  ab_redaction_status :: redaction_status

definition lookup_finding :: "(string \<Rightarrow> classified_finding option) \<Rightarrow> posting_plan_item \<Rightarrow> classified_finding result" where
  "lookup_finding d i = (case d (pi_id i) of None \<Rightarrow> Inl (KeyError (pi_id i)) | Some f \<Rightarrow> Inr f)"

definition approved_visible_body :: "review_target \<Rightarrow> (string \<Rightarrow> classified_finding option) \<Rightarrow> posting_plan_item list
    \<Rightarrow> review_verdict option \<Rightarrow> bool \<Rightarrow> string result" where
  "approved_visible_body t d selected verdict include_verdict =
     bindE (mapE (lookup_finding d) selected) (\<lambda>fs.
     Inr (rstrip_lf (join [LF]
       ([''ReviewGraph approved findings'', ''Target: '' @ rt_owner_repo t @ ''#'' @ int_str (rt_pr_number t),
         ''Head: '' @ rt_head_sha t, []]
        @ (case verdict of Some v \<Rightarrow> if include_verdict then [''Local verdict: '' @ verdict_value v, []] else [] | None \<Rightarrow> [])
        @ [''Approved findings:''] @ map finding_line fs)) @ [LF]))"

definition build_approved_final_issue_comment :: "string \<Rightarrow> review_target \<Rightarrow> (string \<Rightarrow> classified_finding option)
    \<Rightarrow> posting_plan_item list \<Rightarrow> review_verdict option \<Rightarrow> bool \<Rightarrow> approved_build result" where
  "build_approved_final_issue_comment run_id t d selected verdict include_verdict =
     bindE (approved_visible_body t d selected verdict include_verdict) (\<lambda>raw.
     let redaction = redact_text raw in
     bindE (redaction_status_of redaction) (\<lambda>rs.
     let visible = rstrip_lf (rr_text redaction) @ [LF] in
     bindE (mapE (lookup_finding d) selected) (\<lambda>fs.
     bindE (build_final_issue_comment_payload run_id t visible (map cf_fingerprint fs) rs) (\<lambda>p.
     Inr \<lparr>ab_visible_body = visible, ab_visible_body_hash = visible_body_hash visible, ab_payload = p,
          ab_redaction_status = rs\<rparr>))))"

section \<open>Lemmas on the marker of a built payload\<close>

lemma length_strict_sha256: "strict_sha256 h \<Longrightarrow> length h = 71"
  by (auto simp: strict_sha256_iff)

lemma marker_line_text_inject:
  assumes "strict_sha256 (mk_target a)" "strict_sha256 (mk_payload a)" "strict_sha256 (mk_findings a)"
    and "strict_sha256 (mk_target b)" "strict_sha256 (mk_payload b)" "strict_sha256 (mk_findings b)"
    and eq: "marker_line_text a = marker_line_text b"
  shows "a = b"
proof -
  let ?tail = "\<lambda>m. '' target='' @ mk_target m @ '' payload='' @ mk_payload m @ '' findings='' @ mk_findings m @ '' -->''"
  have "mk_run_id a @ ?tail a = mk_run_id b @ ?tail b" using eq by (simp add: marker_line_text_def)
  moreover have "length (?tail a) = length (?tail b)" using assms(1-6) by (simp add: length_strict_sha256)
  ultimately have run: "mk_run_id a = mk_run_id b" and "?tail a = ?tail b"
    using append_eq_append_conv[of "mk_run_id a" "mk_run_id b" "?tail a" "?tail b"] by blast+
  then have "mk_target a @ '' payload='' @ mk_payload a @ '' findings='' @ mk_findings a @ '' -->''
      = mk_target b @ '' payload='' @ mk_payload b @ '' findings='' @ mk_findings b @ '' -->''" by simp
  then have t: "mk_target a = mk_target b" and "'' payload='' @ mk_payload a @ '' findings='' @ mk_findings a @ '' -->''
      = '' payload='' @ mk_payload b @ '' findings='' @ mk_findings b @ '' -->''"
    using assms(1,4) by (simp_all add: append_eq_append_conv length_strict_sha256)
  then have "mk_payload a @ '' findings='' @ mk_findings a @ '' -->'' = mk_payload b @ '' findings='' @ mk_findings b @ '' -->''" by simp
  then have p: "mk_payload a = mk_payload b" and "mk_findings a @ '' -->'' = mk_findings b @ '' -->''"
    using assms(2,5) by (simp_all add: append_eq_append_conv length_strict_sha256)
  then have "mk_findings a = mk_findings b" by simp
  with run t p show ?thesis by simp
qed

lemma exact_marker_wf:
  assumes "is_exact_reviewgraph_v1_marker_line (marker_line_text m)"
    and "strict_sha256 (mk_target m)" "strict_sha256 (mk_payload m)" "strict_sha256 (mk_findings m)"
  shows "wf_marker m"
proof -
  from assms(1) obtain m' where m': "wf_marker m'" "marker_line_text m = marker_line_text m'"
    by (auto simp: is_exact_marker_iff)
  then have "m = m'" using assms(2-4) by (intro marker_line_text_inject) (auto simp: wf_marker_def)
  with m'(1) show ?thesis by simp
qed

lemma marker_payload_hash_canonical [simp]: "marker_payload_hash (canonical_text_body b) = marker_payload_hash b"
  by (simp add: marker_payload_hash_def visible_body_hash_def canonical_visible_body_def)

definition built_marker :: "string \<Rightarrow> review_target \<Rightarrow> string \<Rightarrow> string \<Rightarrow> marker_fields" where
  "built_marker run_id t b fh =
     \<lparr>mk_run_id = run_id, mk_target = target_hash t, mk_payload = marker_payload_hash b, mk_findings = fh\<rparr>"

lemma built_marker_wf_iff:
  assumes "strict_sha256 fh"
  shows "is_exact_reviewgraph_v1_marker_line (marker_line_text (built_marker run_id t b fh)) \<longleftrightarrow> valid_run_id run_id"
    and "wf_marker (built_marker run_id t b fh) \<longleftrightarrow> valid_run_id run_id"
proof -
  have h: "strict_sha256 (marker_payload_hash b)" by (simp add: marker_payload_hash_def)
  show wf: "wf_marker (built_marker run_id t b fh) \<longleftrightarrow> valid_run_id run_id"
    using assms h by (simp add: wf_marker_def built_marker_def)
  show "is_exact_reviewgraph_v1_marker_line (marker_line_text (built_marker run_id t b fh)) \<longleftrightarrow> valid_run_id run_id"
    using exact_marker_wf[of "built_marker run_id t b fh"] wf assms h
    by (auto simp: is_exact_marker_iff built_marker_def)
qed

lemma build_marker_line_eq:
  "build_reviewgraph_marker_line run_id t b fps =
     bindE (findings_hash fps) (\<lambda>fh. if valid_run_id run_id then Inr (marker_line_text (built_marker run_id t b fh))
        else Inl (ValueError ''generated marker line is invalid''))"
  using built_marker_wf_iff(1)[OF strict_findings_hash, of fps _ run_id t b]
  by (cases "findings_hash fps") (auto simp: build_reviewgraph_marker_line_def built_marker_def Let_def)

text \<open>The payload that the builder returns, in full.\<close>

definition built_payload :: "string \<Rightarrow> review_target \<Rightarrow> string \<Rightarrow> string list \<Rightarrow> redaction_status \<Rightarrow> string \<Rightarrow> final_payload" where
  "built_payload run_id t b fps rs fh =
     (let line = marker_line_text (built_marker run_id t b fh); body = canonical_text_body b @ line @ [LF]
      in \<lparr>fp_artifact_kind = IssueComment, fp_review_target = t, fp_body = body, fp_marker_line = line,
          fp_marker_run_id = run_id, fp_marker_target_hash = target_hash t,
          fp_marker_payload_hash = marker_payload_hash b, fp_marker_findings_hash = fh,
          fp_visible_body_hash = visible_body_hash body, fp_final_payload_hash = final_payload_hash body,
          fp_findings_hash = fh, fp_item_fingerprints = sort fps, fp_redaction_status = rs\<rparr>)"

lemma valid_run_id_not_Nil: "valid_run_id r \<Longrightarrow> r \<noteq> []"
  by (simp add: valid_run_id_def)

lemma build_final_Inr_iff:
  "build_final_issue_comment_payload run_id t b fps rs = Inr p \<longleftrightarrow>
     valid_run_id run_id \<and> list_all non_empty fps \<and> (\<exists>fh. findings_hash fps = Inr fh \<and> p = built_payload run_id t b fps rs fh)"
proof (cases "findings_hash fps")
  case (Inl e)
  then show ?thesis
    by (simp add: build_final_issue_comment_payload_def build_marker_line_eq findings_hash_sort)
next
  case (Inr fh)
  have "build_marker_line_eq": "build_reviewgraph_marker_line run_id t (canonical_text_body b) (sort fps) =
      (if valid_run_id run_id then Inr (marker_line_text (built_marker run_id t b fh))
       else Inl (ValueError ''generated marker line is invalid''))"
    using Inr by (simp add: build_marker_line_eq findings_hash_sort built_marker_def)
  have "final_payload_check (built_payload run_id t b fps rs fh) = None \<longleftrightarrow> list_all non_empty fps" if "valid_run_id run_id"
    using strict_findings_hash[OF Inr] valid_run_id_not_Nil[OF that]
    by (auto simp: final_payload_check_iff built_payload_def Let_def canonical_text_body_def strict_starts_with
        marker_payload_hash_def list_all_iff last_marker_line)
  then show ?thesis using Inr build_marker_line_eq
    by (auto simp: build_final_issue_comment_payload_def findings_hash_sort Let_def mk_checked_Inr_iff
        built_payload_def)
qed

section \<open>Validating a built payload\<close>

lemma canonical_no_CR: "canonical_text s \<Longrightarrow> CR \<notin> set s"
  by (auto simp: canonical_text_def)

lemma body_with_marker:
  assumes "canonical_text b" and "is_exact_reviewgraph_v1_marker_line ml"
  shows "normalize_line_endings (b @ ml @ [LF]) = b @ ml @ [LF]"
    and "body_final_line (b @ ml @ [LF]) = ml"
    and "filter is_exact_reviewgraph_v1_marker_line (split_on LF (b @ ml @ [LF]))
      = filter is_exact_reviewgraph_v1_marker_line (split_on LF b) @ [ml]"
proof -
  from assms(1) obtain v where v: "b = v @ [LF]" by (auto simp: canonical_text_def)
  have ml: "LF \<notin> set ml" using exact_marker_no_newline[OF assms(2)] by blast
  show norm: "normalize_line_endings (b @ ml @ [LF]) = b @ ml @ [LF]"
    using canonical_no_CR[OF canonical_body_marker[OF assms]] by (rule normalize_id)
  have "drop_final_lf (b @ ml @ [LF]) = v @ LF # ml" by (simp add: drop_final_lf_def v butlast_append)
  then show "body_final_line (b @ ml @ [LF]) = ml"
    unfolding body_final_line_def norm using ml by (simp add: split_on_append_sep split_on_no_sep)
  have "split_on LF (b @ ml @ [LF]) = split_on LF v @ [ml, []]"
    using split_body_marker[OF ml, of v] v by simp
  moreover have "split_on LF b = split_on LF v @ [[]]" by (simp add: v split_on_sep_last)
  ultimately show "filter is_exact_reviewgraph_v1_marker_line (split_on LF (b @ ml @ [LF]))
      = filter is_exact_reviewgraph_v1_marker_line (split_on LF b) @ [ml]"
    using assms(2) by simp
qed

lemma visible_hash_with_marker:
  assumes "is_exact_reviewgraph_v1_marker_line ml"
  shows "visible_body_hash (canonical_text_body b @ ml @ [LF]) = sha256_text (canonical_text_body b)"
  using canonical_visible_body_marker[OF canonical_text_body_canonical assms]
  by (simp add: visible_body_hash_def)

lemma marker_payload_hash_no_marker:
  "\<not> contains_marker_line b \<Longrightarrow> marker_payload_hash b = sha256_text (canonical_text_body b)"
  using canonical_visible_body_no_marker[of b]
  by (simp add: contains_marker_line_def list_ex_iff marker_payload_hash_def visible_body_hash_def)

lemma built_payload_simps [simp]:
  "fp_artifact_kind (built_payload run_id t b fps rs fh) = IssueComment"
  "fp_review_target (built_payload run_id t b fps rs fh) = t"
  "fp_body (built_payload run_id t b fps rs fh) = canonical_text_body b @ marker_line_text (built_marker run_id t b fh) @ [LF]"
  "fp_marker_line (built_payload run_id t b fps rs fh) = marker_line_text (built_marker run_id t b fh)"
  "fp_marker_run_id (built_payload run_id t b fps rs fh) = run_id"
  "fp_marker_target_hash (built_payload run_id t b fps rs fh) = target_hash t"
  "fp_marker_payload_hash (built_payload run_id t b fps rs fh) = marker_payload_hash b"
  "fp_marker_findings_hash (built_payload run_id t b fps rs fh) = fh"
  "fp_visible_body_hash (built_payload run_id t b fps rs fh) = visible_body_hash (fp_body (built_payload run_id t b fps rs fh))"
  "fp_final_payload_hash (built_payload run_id t b fps rs fh) = final_payload_hash (fp_body (built_payload run_id t b fps rs fh))"
  "fp_findings_hash (built_payload run_id t b fps rs fh) = fh"
  "fp_item_fingerprints (built_payload run_id t b fps rs fh) = sort fps"
  "fp_redaction_status (built_payload run_id t b fps rs fh) = rs"
  by (simp_all add: built_payload_def Let_def)

lemma validate_marker_built:
  assumes "valid_run_id run_id" and "strict_sha256 fh"
  shows "validate_marker (built_payload run_id t b fps rs fh) =
     (if contains_marker_line b then Some (PV_marker_not_final_line, ''marker must appear exactly once as final line'')
      else None)"
proof -
  let ?ml = "marker_line_text (built_marker run_id t b fh)"
  have ex: "is_exact_reviewgraph_v1_marker_line ?ml" using built_marker_wf_iff(1)[OF assms(2)] assms(1) by simp
  have wf: "wf_marker (built_marker run_id t b fh)" using built_marker_wf_iff(2)[OF assms(2)] assms(1) by simp
  note body = body_with_marker[OF canonical_text_body_canonical ex, of b]
  show ?thesis
  proof (cases "contains_marker_line b")
    case True
    then have "filter is_exact_reviewgraph_v1_marker_line (split_on LF (canonical_text_body b)) \<noteq> []"
      by (simp add: contains_marker_line_def filter_empty_conv list_ex_iff)
    then show ?thesis using True body ex by (simp add: validate_marker_def)
  next
    case False
    then have "filter is_exact_reviewgraph_v1_marker_line (split_on LF (canonical_text_body b)) = []"
      by (simp add: contains_marker_line_def filter_empty_conv list_ex_iff)
    then show ?thesis
      using False body ex parse_marker_line_text[OF wf] visible_hash_with_marker[OF ex, of b]
        marker_payload_hash_no_marker[OF False]
      by (simp add: validate_marker_def built_marker_def marker_payload_hash_def)
  qed
qed

lemma pv_pass_ok:
  "starts_with ''sha256:'' ph \<Longrightarrow> starts_with ''sha256:'' th \<Longrightarrow> pv_pass ph th =
     Inr \<lparr>pv_status = GatePass, pv_payload_hash = Some ph, pv_target_hash = Some th, pv_reason_code = None, pv_reason = None\<rparr>"
  by (auto simp: pv_pass_def mk_checked_def payload_validation_check_def check_defs(2,7,8) require_non_empty_def
      starts_with_iff)

lemma pv_fail_ok:
  "reason \<noteq> [] \<Longrightarrow> pv_fail code reason = Inr \<lparr>pv_status = GateFail, pv_payload_hash = None, pv_target_hash = None,
     pv_reason_code = Some code, pv_reason = Some reason\<rparr>"
  by (simp add: pv_fail_def mk_checked_def payload_validation_check_def check_defs(2,8))

lemma validate_built_payload:
  assumes "build_final_issue_comment_payload run_id t b fps rs = Inr p" and "red_status rs = GatePass"
  shows "validate_final_issue_comment_payload p =
     (if contains_marker_line b then pv_fail PV_marker_not_final_line ''marker must appear exactly once as final line''
      else pv_pass (final_payload_hash (fp_body p)) (target_hash t))"
proof -
  from assms(1) obtain fh where fh: "valid_run_id run_id" "findings_hash fps = Inr fh" "p = built_payload run_id t b fps rs fh"
    by (auto simp: build_final_Inr_iff)
  note vm = validate_marker_built[OF fh(1) strict_findings_hash[OF fh(2)], of t b fps rs]
  show ?thesis
    unfolding fh(3) validate_final_issue_comment_payload_def vm
    using assms(2) fh(2) by (simp add: findings_hash_sort)
qed

section \<open>What a passing validation means\<close>

definition pv_passes :: "payload_validation result \<Rightarrow> bool" where
  "pv_passes r = (case r of Inr v \<Rightarrow> pv_status v = GatePass | Inl _ \<Rightarrow> False)"

lemma pv_fail_not_pass [simp]: "\<not> pv_passes (pv_fail c r)"
  by (simp add: pv_passes_def pv_fail_def mk_checked_def split: option.split)

text \<open>The fields of a payload that its validation recomputes.\<close>

definition payload_bound :: "final_payload \<Rightarrow> bool" where
  "payload_bound p \<longleftrightarrow>
     parse_reviewgraph_v1_marker_line (body_final_line (fp_body p)) = Some \<lparr>mk_run_id = fp_marker_run_id p,
        mk_target = target_hash (fp_review_target p), mk_payload = visible_body_hash (fp_body p),
        mk_findings = fp_findings_hash p\<rparr>
     \<and> fp_marker_line p = body_final_line (fp_body p)
     \<and> fp_marker_target_hash p = target_hash (fp_review_target p) \<and> fp_marker_payload_hash p = visible_body_hash (fp_body p)
     \<and> fp_marker_findings_hash p = fp_findings_hash p \<and> fp_visible_body_hash p = visible_body_hash (fp_body p)
     \<and> fp_final_payload_hash p = final_payload_hash (fp_body p)
     \<and> findings_hash (fp_item_fingerprints p) = Inr (fp_findings_hash p)
     \<and> red_status (fp_redaction_status p) = GatePass
     \<and> filter is_exact_reviewgraph_v1_marker_line (split_on LF (normalize_line_endings (fp_body p))) = [fp_marker_line p]"

lemma validate_marker_None:
  assumes "validate_marker p = None"
  shows "fp_marker_line p = body_final_line (fp_body p)
    \<and> parse_reviewgraph_v1_marker_line (fp_marker_line p) = Some \<lparr>mk_run_id = fp_marker_run_id p,
        mk_target = fp_marker_target_hash p, mk_payload = fp_marker_payload_hash p, mk_findings = fp_marker_findings_hash p\<rparr>
    \<and> fp_marker_payload_hash p = marker_payload_hash (fp_body p) \<and> fp_visible_body_hash p = fp_marker_payload_hash p
    \<and> filter is_exact_reviewgraph_v1_marker_line (split_on LF (normalize_line_endings (fp_body p))) = [fp_marker_line p]"
  using assms by (auto simp: validate_marker_def Let_def split: if_split_asm option.split_asm)

lemma validate_final_pass_iff:
  "pv_passes (validate_final_issue_comment_payload p) \<longleftrightarrow> payload_bound p"
proof
  assume pass: "pv_passes (validate_final_issue_comment_payload p)"
  then have vm: "validate_marker p = None"
    by (auto simp: validate_final_issue_comment_payload_def split: if_split_asm option.split_asm)
  from pass vm show "payload_bound p"
    using validate_marker_None[OF vm]
    by (auto simp: validate_final_issue_comment_payload_def payload_bound_def marker_payload_hash_def
        split: if_split_asm sum.split_asm)
next
  assume b: "payload_bound p"
  then have "is_exact_reviewgraph_v1_marker_line (fp_marker_line p)"
    by (simp add: is_exact_reviewgraph_v1_marker_line_def payload_bound_def)
  with b have "validate_marker p = None"
    by (simp add: validate_marker_def payload_bound_def marker_payload_hash_def)
  with b show "pv_passes (validate_final_issue_comment_payload p)"
    by (cases "fp_artifact_kind p")
      (simp add: validate_final_issue_comment_payload_def payload_bound_def pv_pass_ok strict_starts_with pv_passes_def)
qed

lemma validate_marker_reason: "validate_marker p = Some (c, r) \<Longrightarrow> r \<noteq> []"
proof (cases "parse_reviewgraph_v1_marker_line (fp_marker_line p)")
qed (auto simp: validate_marker_def Let_def split: if_split_asm)

lemma is_ok_pv_fail: "reason \<noteq> [] \<Longrightarrow> is_ok (pv_fail c reason)"
  by (simp add: pv_fail_ok)

lemma validate_final_total: "is_ok (validate_final_issue_comment_payload p)"
proof (cases "validate_marker p")
  case None
  have "is_ok (pv_pass (final_payload_hash (fp_body p)) (target_hash (fp_review_target p)))"
    by (simp add: pv_pass_ok strict_starts_with)
  then show ?thesis
    by (cases "findings_hash (fp_item_fingerprints p)")
      (simp_all add: None validate_final_issue_comment_payload_def is_ok_pv_fail)
next
  case (Some f)
  then show ?thesis using validate_marker_reason[of p "fst f" "snd f"]
    by (cases f; simp add: validate_final_issue_comment_payload_def is_ok_pv_fail)
qed

section \<open>Requests\<close>

lemma last_split_on_append: "c \<notin> set b \<Longrightarrow> last (split_on c (a @ c # b)) = b"
  by (simp add: split_on_append_sep split_on_no_sep)

lemma issue_endpoint_not_formal: "\<not> is_formal_review_endpoint (issue_comment_endpoint t)"
proof
  assume f: "is_formal_review_endpoint (issue_comment_endpoint t)"
  obtain owner repo where "split_once (CHR ''/'') (rt_owner_repo t) = (owner, repo)" by fastforce
  then have "issue_comment_endpoint t = (''/repos/'' @ owner @ ''/'' @ repo @ ''/issues/'' @ int_str (rt_pr_number t))
      @ CHR ''/'' # ''comments''" by (simp add: issue_comment_endpoint_def)
  then obtain a where "issue_comment_endpoint t = a @ CHR ''/'' # ''comments''" by blast
  then have "last (split_on (CHR ''/'') (issue_comment_endpoint t)) = ''comments''"
    using last_split_on_append[of "CHR ''/''" "''comments''" a] by simp
  with f show False by (auto simp: is_formal_review_endpoint_def split: list.split_asm)
qed

definition request_bound :: "issue_comment_request \<Rightarrow> review_target \<Rightarrow> string list \<Rightarrow> string \<Rightarrow> string \<Rightarrow> bool" where
  "request_bound r t fps h b \<longleftrightarrow>
     payload_bound (req_payload r) \<and> distinct fps \<and> fp_review_target (req_payload r) = t
     \<and> fp_item_fingerprints (req_payload r) = sort fps \<and> fp_final_payload_hash (req_payload r) = h
     \<and> fp_body (req_payload r) = b \<and> req_method r = ''POST'' \<and> req_endpoint r = issue_comment_endpoint t
     \<and> req_body r = [(''body'', JStr b)]"

lemma validate_final_cases:
  obtains v where "validate_final_issue_comment_payload p = Inr v" "pv_status v = GatePass" "payload_bound p"
  | v where "validate_final_issue_comment_payload p = Inr v" "pv_status v \<noteq> GatePass" "\<not> payload_bound p"
  using validate_final_total[of p] validate_final_pass_iff[of p]
  by (auto simp: is_ok_iff pv_passes_def)

lemma validate_request_pass_iff:
  "pv_passes (validate_issue_comment_request r t fps h b) \<longleftrightarrow> request_bound r t fps h b"
proof (cases "payload_bound (req_payload r)")
  case True
  then obtain v where v: "validate_final_issue_comment_payload (req_payload r) = Inr v" "pv_status v = GatePass"
    by (rule_tac p = "req_payload r" in validate_final_cases) auto
  have "fp_final_payload_hash (req_payload r) = final_payload_hash (fp_body (req_payload r))"
    using True by (simp add: payload_bound_def)
  then have pass: "pv_passes (pv_pass (fp_final_payload_hash (req_payload r)) (target_hash t))"
    by (simp add: pv_pass_ok strict_starts_with pv_passes_def)
  show ?thesis
    using True v pass issue_endpoint_not_formal[of t]
    by (auto simp: validate_issue_comment_request_def request_bound_def has_duplicates_iff Let_def is_formal_review_body_def)
next
  case False
  then obtain v where "validate_final_issue_comment_payload (req_payload r) = Inr v" "pv_status v \<noteq> GatePass"
    by (rule_tac p = "req_payload r" in validate_final_cases) auto
  with False show ?thesis by (simp add: validate_issue_comment_request_def request_bound_def pv_passes_def)
qed

lemma validate_request_total: "is_ok (validate_issue_comment_request r t fps h b)"
proof (cases "payload_bound (req_payload r)")
  case True
  then obtain v where v: "validate_final_issue_comment_payload (req_payload r) = Inr v" "pv_status v = GatePass"
    by (rule_tac p = "req_payload r" in validate_final_cases) auto
  have "fp_final_payload_hash (req_payload r) = final_payload_hash (fp_body (req_payload r))"
    using True by (simp add: payload_bound_def)
  then have "is_ok (pv_pass (fp_final_payload_hash (req_payload r)) (target_hash t))"
    by (simp add: pv_pass_ok strict_starts_with)
  with v show ?thesis by (auto simp: validate_issue_comment_request_def Let_def is_ok_pv_fail)
next
  case False
  then obtain v where "validate_final_issue_comment_payload (req_payload r) = Inr v" "pv_status v \<noteq> GatePass"
    by (rule_tac p = "req_payload r" in validate_final_cases) auto
  then show ?thesis by (simp add: validate_issue_comment_request_def)
qed

section \<open>Candidates\<close>

lemma candidate_facts:
  assumes "build_candidate_issue_comment_payload t plan fs v iv kind = Inr c"
  shows "cp_artifact_kind c = IssueComment \<and> cp_review_target c = t \<and> red_status (cp_redaction_status c) = GatePass
    \<and> cp_visible_body_hash c = visible_body_hash (cp_body c) \<and> sort (cp_item_fingerprints c) = cp_item_fingerprints c
    \<and> findings_hash (cp_item_fingerprints c) = Inr (cp_findings_hash c) \<and> kind = ''issue_comment''"
proof -
  have h: "posting_findings_hash x = Inr y \<Longrightarrow> findings_hash x = Inr y" for x y
    by (auto simp: posting_findings_hash_def split: sum.split_asm py_error.split_asm)
  show ?thesis
    using assms h
    by (auto simp: build_candidate_issue_comment_payload_def bindE_Inr_iff mk_checked_Inr_iff Let_def
        validate_mvp_artifact_kind_def redaction_status_of_ok sorted_sort_id split: if_split_asm)
qed

lemma validate_own_candidate:
  assumes "build_candidate_issue_comment_payload t plan fs v iv ''issue_comment'' = Inr c"
  shows "validate_candidate_issue_comment_payload c t plan fs v iv =
     (if contains_marker_line (cp_body c)
      then pv_fail PV_candidate_contains_marker ''candidate payload must not contain marker''
      else pv_pass (visible_body_hash (cp_body c)) (target_hash t))"
  using candidate_facts[OF assms] assms by (simp add: validate_candidate_issue_comment_payload_def)

lemma validate_candidate_pass:
  assumes "pv_passes (validate_candidate_issue_comment_payload c t plan fs v iv)"
  shows "build_candidate_issue_comment_payload t plan fs v iv ''issue_comment'' = Inr c \<and> \<not> contains_marker_line (cp_body c)"
  using assms
  by (auto simp: validate_candidate_issue_comment_payload_def bindE_Inr_iff pv_passes_def
      split: sum.split_asm if_split_asm py_error.split_asm) (auto simp: pv_fail_def mk_checked_def split: option.split_asm)

section \<open>Properties\<close>


definition pass_redaction :: redaction_status where
  "pass_redaction = \<lparr>red_redacted = False, red_replacement_count = 0, red_categories = [], red_status = GatePass\<rparr>"

definition sample_payload :: final_payload where
  "sample_payload = built_payload ''run1'' sample_target ''ok'' [''fp''] pass_redaction
     (canonical_json_hash (JArr [JStr ''fp'']))"

lemma sample_built: "build_final_issue_comment_payload ''run1'' sample_target ''ok'' [''fp''] pass_redaction = Inr sample_payload"
  by (simp add: build_final_Inr_iff valid_run_id_def run_id_char_def str_defs findings_hash_ok sample_payload_def)

lemma short_not_marker: "length l < 20 \<Longrightarrow> \<not> is_exact_reviewgraph_v1_marker_line l"
  by (auto simp: is_exact_marker_iff marker_line_text_def)

text \<open>Text without \<open><\<close> has no marker line.\<close>

lemma set_replace_crlf: "set (replace_crlf s) \<subseteq> set s"
  by (induction s rule: replace_crlf.induct) auto

lemma set_canonical_text_body: "set (canonical_text_body s) \<subseteq> insert LF (set s)"
  using set_rstrip_lf[of "normalize_line_endings s"] set_replace_crlf[of s]
  by (auto simp: canonical_text_body_def normalize_line_endings_def replace_cr_def split: if_split_asm)

lemma no_lt_no_marker:
  assumes "CHR ''<'' \<notin> set b"
  shows "\<not> contains_marker_line b"
proof
  assume "contains_marker_line b"
  then obtain l where l: "l \<in> set (split_on LF (canonical_text_body b))" "is_exact_reviewgraph_v1_marker_line l"
    by (auto simp: contains_marker_line_def list_ex_iff)
  from l(2) have "CHR ''<'' \<in> set l" by (auto simp: is_exact_marker_iff marker_line_text_def)
  with set_split_on[OF l(1)] set_canonical_text_body[of b] assms show False by (auto simp: LF_def)
qed

lemma no_lt_visible_body:
  assumes "CHR ''<'' \<notin> set b"
  shows "canonical_visible_body b = canonical_text_body b"
proof -
  let ?ls = "split_on LF (canonical_text_body b)"
  have "\<not> is_exact_reviewgraph_v1_marker_line (?ls ! (length ?ls - 2))" if "2 \<le> length ?ls"
    using no_lt_no_marker[OF assms] that by (auto simp: contains_marker_line_def list_ex_iff)
  then show ?thesis by (auto simp: canonical_visible_body_def Let_def)
qed

lemma sample_no_marker: "\<not> contains_marker_line ''ok''"
proof -
  have "canonical_text_body ''ok'' = ''ok'' @ [LF]"
    by (simp add: canonical_text_body_def normalize_line_endings_def replace_cr_def rstrip_lf_def LF_def CR_def)
  then show ?thesis by (simp add: contains_marker_line_def short_not_marker LF_def)
qed


text \<open>C22. The body of a valid payload determines what it is about: two payloads that pass validation with the same body
  have the same run id, the same review target and the same set of finding fingerprints, unless the two texts of the
  targets, or those of the fingerprints, are a SHA-256 collision; and all their hashes and their marker lines agree.
  The witness compares two different payloads for the same comment.\<close>

theorem passing_payload_determined_by_body:
  assumes "pv_passes (validate_final_issue_comment_payload p)" and "pv_passes (validate_final_issue_comment_payload q)"
    and "fp_body p = fp_body q"
  shows "fp_marker_run_id p = fp_marker_run_id q
    \<and> (fp_review_target p = fp_review_target q
         \<or> sha256_collision (target_text (fp_review_target p)) (target_text (fp_review_target q)))
    \<and> (sort (fp_item_fingerprints p) = sort (fp_item_fingerprints q)
         \<or> sha256_collision (fingerprints_text (fp_item_fingerprints p)) (fingerprints_text (fp_item_fingerprints q)))
    \<and> target_hash (fp_review_target p) = target_hash (fp_review_target q)
    \<and> fp_findings_hash p = fp_findings_hash q \<and> findings_hash (fp_item_fingerprints p) = findings_hash (fp_item_fingerprints q)
    \<and> fp_visible_body_hash p = fp_visible_body_hash q \<and> fp_final_payload_hash p = fp_final_payload_hash q
    \<and> fp_marker_line p = fp_marker_line q"
proof -
  note b = assms(1,2)[unfolded validate_final_pass_iff payload_bound_def]
  let ?m = "\<lambda>p. \<lparr>mk_run_id = fp_marker_run_id p, mk_target = target_hash (fp_review_target p),
     mk_payload = visible_body_hash (fp_body p), mk_findings = fp_findings_hash p\<rparr>"
  have "Some (?m p) = parse_reviewgraph_v1_marker_line (body_final_line (fp_body p))" using b(1) by (elim conjE) (rule sym)
  also have "\<dots> = parse_reviewgraph_v1_marker_line (body_final_line (fp_body q))" by (simp only: assms(3))
  also have "\<dots> = Some (?m q)" using b(2) by (elim conjE)
  finally have m: "?m p = ?m q" by (simp only: option.inject)
  have f: "findings_hash (fp_item_fingerprints x) = Inr (fp_findings_hash x) \<and> fp_visible_body_hash x = visible_body_hash (fp_body x)
      \<and> fp_final_payload_hash x = final_payload_hash (fp_body x) \<and> fp_marker_line x = body_final_line (fp_body x)"
    if "x = p \<or> x = q" for x using that b by (elim disjE) (simp_all only:)
  have same: "fp_marker_run_id p = fp_marker_run_id q" "target_hash (fp_review_target p) = target_hash (fp_review_target q)"
    "fp_findings_hash p = fp_findings_hash q" using m by simp_all
  have "fp_review_target p = fp_review_target q
      \<or> sha256_collision (target_text (fp_review_target p)) (target_text (fp_review_target q))"
    by (rule target_hash_identifies[OF same(2)])
  moreover have "sort (fp_item_fingerprints p) = sort (fp_item_fingerprints q)
      \<or> sha256_collision (fingerprints_text (fp_item_fingerprints p)) (fingerprints_text (fp_item_fingerprints q))"
    using findings_hash_identifies f[of p] f[of q] same(3) by (metis (no_types))
  ultimately show ?thesis using f[of p] f[of q] same by (simp add: assms(3))
qed

text \<open>Two payloads with one body: the second lists the findings in another order and reports other redactions.\<close>

definition two_findings :: final_payload where
  "two_findings = built_payload ''run1'' sample_target ''ok'' [''fp'', ''fq''] pass_redaction
     (canonical_json_hash (JArr [JStr ''fp'', JStr ''fq'']))"

definition two_findings_again :: final_payload where
  "two_findings_again = two_findings\<lparr>fp_item_fingerprints := [''fq'', ''fp''],
     fp_redaction_status := \<lparr>red_redacted = True, red_replacement_count = 1, red_categories = [''api_key''], red_status = GatePass\<rparr>\<rparr>"

lemma two_findings_built:
  "build_final_issue_comment_payload ''run1'' sample_target ''ok'' [''fp'', ''fq''] pass_redaction = Inr two_findings"
proof -
  have "findings_hash [''fp'', ''fq''] = Inr (canonical_json_hash (JArr [JStr ''fp'', JStr ''fq'']))"
    by (simp add: findings_hash_def has_duplicates_def)
  then show ?thesis by (simp add: build_final_Inr_iff valid_run_id_def run_id_char_def str_defs two_findings_def)
qed

theorem passing_payload_determined_by_body_witness:
  "fp_item_fingerprints two_findings \<noteq> fp_item_fingerprints two_findings_again
   \<and> fp_redaction_status two_findings \<noteq> fp_redaction_status two_findings_again
   \<and> pv_passes (validate_final_issue_comment_payload two_findings_again)
   \<and> findings_hash (fp_item_fingerprints two_findings) = findings_hash (fp_item_fingerprints two_findings_again)
   \<and> (sort (fp_item_fingerprints two_findings) = sort (fp_item_fingerprints two_findings_again)
        \<or> sha256_collision (fingerprints_text (fp_item_fingerprints two_findings))
            (fingerprints_text (fp_item_fingerprints two_findings_again)))"
proof -
  have v: "pv_passes (validate_final_issue_comment_payload two_findings)"
    using validate_built_payload[OF two_findings_built] sample_no_marker
    by (simp add: pass_redaction_def pv_pass_ok strict_starts_with pv_passes_def)
  have fps: "fp_item_fingerprints two_findings = [''fp'', ''fq'']" "fp_redaction_status two_findings = pass_redaction"
    by (simp_all add: two_findings_def built_payload_def Let_def)
  have hash: "findings_hash [''fq'', ''fp''] = findings_hash [''fp'', ''fq'']"
    by (simp add: findings_hash_def has_duplicates_def)
  have "payload_bound two_findings" using v by (simp only: validate_final_pass_iff)
  then have "payload_bound two_findings_again"
    by (simp add: payload_bound_def two_findings_again_def fps hash)
  then have w: "pv_passes (validate_final_issue_comment_payload two_findings_again)" by (simp only: validate_final_pass_iff)
  have body: "fp_body two_findings = fp_body two_findings_again" by (simp add: two_findings_again_def)
  note same = passing_payload_determined_by_body[OF v w body]
  have "fp_item_fingerprints two_findings \<noteq> fp_item_fingerprints two_findings_again"
    "fp_redaction_status two_findings \<noteq> fp_redaction_status two_findings_again"
    by (simp_all add: fps two_findings_again_def pass_redaction_def)
  with same w show ?thesis by blast
qed

text \<open>C23. A request passes validation exactly if it posts, to the issue comment endpoint of the expected target and
  nowhere else, a JSON object whose only member is the approved body, and carries a payload bound to that body, to
  the approved hash and to the expected distinct fingerprints. A formal review request can never pass. Validation
  never raises.\<close>

theorem issue_comment_request_gate:
  "is_ok (validate_issue_comment_request r t fps h b) \<and>
   (pv_passes (validate_issue_comment_request r t fps h b) \<longleftrightarrow> request_bound r t fps h b)"
  using validate_request_total validate_request_pass_iff by blast

text \<open>C24. A candidate passes validation only if it is, field for field, the candidate that the plan and the findings
  give; and the candidate of a plan does pass, unless its visible body contains a marker line.\<close>

theorem candidate_gate:
  "(pv_passes (validate_candidate_issue_comment_payload c t plan fs v iv) \<longleftrightarrow>
      build_candidate_issue_comment_payload t plan fs v iv ''issue_comment'' = Inr c \<and> \<not> contains_marker_line (cp_body c))"
proof
  assume "build_candidate_issue_comment_payload t plan fs v iv ''issue_comment'' = Inr c \<and> \<not> contains_marker_line (cp_body c)"
  then show "pv_passes (validate_candidate_issue_comment_payload c t plan fs v iv)"
    using validate_own_candidate[of t plan fs v iv c] by (simp add: pv_pass_ok strict_starts_with pv_passes_def)
qed (rule validate_candidate_pass)

text \<open>C25. The approved comment: when the builder returns, the payload carries exactly the fingerprints of the selected
  findings, its body begins with the redacted visible text, its redaction status is \<open>pass\<close>, and it passes validation
  exactly if no finding smuggled a marker line into the text.\<close>

theorem approved_final_comment:
  assumes "build_approved_final_issue_comment run_id t d selected v iv = Inr ab"
  shows "\<exists>fs. list_all2 (\<lambda>i f. d (pi_id i) = Some f) selected fs
    \<and> fp_item_fingerprints (ab_payload ab) = sort (map cf_fingerprint fs)
    \<and> fp_review_target (ab_payload ab) = t \<and> fp_marker_run_id (ab_payload ab) = run_id
    \<and> starts_with (canonical_text_body (ab_visible_body ab)) (fp_body (ab_payload ab))
    \<and> red_status (ab_redaction_status ab) = GatePass
    \<and> (pv_passes (validate_final_issue_comment_payload (ab_payload ab)) \<longleftrightarrow> \<not> contains_marker_line (ab_visible_body ab))"
proof -
  from assms obtain raw rs fs p where *: "redaction_status_of (redact_text raw) = Inr rs"
    "mapE (lookup_finding d) selected = Inr fs"
    "build_final_issue_comment_payload run_id t (rstrip_lf (rr_text (redact_text raw)) @ [LF]) (map cf_fingerprint fs) rs = Inr p"
    "ab = \<lparr>ab_visible_body = rstrip_lf (rr_text (redact_text raw)) @ [LF],
       ab_visible_body_hash = visible_body_hash (rstrip_lf (rr_text (redact_text raw)) @ [LF]), ab_payload = p,
       ab_redaction_status = rs\<rparr>"
    by (auto simp: build_approved_final_issue_comment_def bindE_Inr_iff Let_def)
  have rs: "red_status rs = GatePass" using *(1) by (auto simp: redaction_status_of_ok)
  from *(3) obtain fh where p: "p = built_payload run_id t (rstrip_lf (rr_text (redact_text raw)) @ [LF]) (map cf_fingerprint fs) rs fh"
    by (auto simp: build_final_Inr_iff)
  have "list_all2 (\<lambda>i f. d (pi_id i) = Some f) selected fs"
    using *(2) unfolding mapE_Inr_iff by (rule list_all2_mono) (auto simp: lookup_finding_def split: option.split_asm)
  moreover have "pv_passes (validate_final_issue_comment_payload p) \<longleftrightarrow> \<not> contains_marker_line (ab_visible_body ab)"
    using validate_built_payload[OF *(3) rs] *(4)
    by (auto simp: pv_pass_ok strict_starts_with pv_passes_def split: if_split_asm)
      (auto simp: pv_fail_def mk_checked_def split: option.split_asm)
  ultimately show ?thesis using *(4) rs p by (intro exI[of _ fs]) simp
qed

theorem approved_final_comment_witness:
  "\<exists>ab. build_approved_final_issue_comment ''run1'' sample_target Map.empty [] None False = Inr ab
     \<and> fp_item_fingerprints (ab_payload ab) = []"
proof -
  have "\<exists>p. build_final_issue_comment_payload ''run1'' sample_target b [] rs = Inr p" for b rs
    by (simp add: build_final_Inr_iff valid_run_id_def run_id_char_def str_defs findings_hash_ok)
  then have "\<exists>ab. build_approved_final_issue_comment ''run1'' sample_target Map.empty [] None False = Inr ab"
    unfolding build_approved_final_issue_comment_def approved_visible_body_def Let_def
    by (simp add: redaction_status_of_ok) (metis bindE.simps(2))
  then obtain ab where ab: "build_approved_final_issue_comment ''run1'' sample_target Map.empty [] None False = Inr ab" ..
  from approved_final_comment[OF this] ab show ?thesis by (intro exI[of _ ab]) auto
qed

end
