(* ===== verification/Approval.thy ===== *)
theory Approval
  imports Models_Approval Payloads Permissions
begin

text \<open>
  The model of \<open>src/src/reviewgraph/approval.py\<close>: the proof that a human's selection of items is exactly what would be
  posted, and the decision that binds it to the actor's permission.
\<close>

section \<open>The proof\<close>

definition proof_fail :: "approval_proof_reason \<Rightarrow> string \<Rightarrow> approval_proof result" where
  "proof_fail code reason = mk_checked approval_proof_check
     \<lparr>ap_status = GateFail, ap_approved_item_ids = [], ap_review_target = None, ap_review_target_hash = None,
      ap_final_payload_hash = None, ap_final_visible_body_hash = None, ap_marker_payload_hash = None,
      ap_findings_hash = None, ap_marker_line = None, ap_redaction_status = None, ap_include_public_verdict = False,
      ap_approved_by = None, ap_timestamp = None, ap_reason_code = Some code, ap_reason = Some reason\<rparr>"

definition zero_hash :: string where
  "zero_hash = ''sha256:'' @ replicate 64 (CHR ''0'')"

definition is_valid_run_id :: "string \<Rightarrow> bool" where
  "is_valid_run_id run_id \<longleftrightarrow> is_exact_reviewgraph_v1_marker_line
     (''<!-- reviewgraph:v1 '' @ ''run_id='' @ run_id @ '' target='' @ zero_hash @ '' payload='' @ zero_hash
      @ '' findings='' @ zero_hash @ '' -->'')"

definition plan_has_summary :: "posting_plan \<Rightarrow> bool" where
  "plan_has_summary plan \<longleftrightarrow> list_ex (\<lambda>i. pi_destination i = TopLevelSummaryItem) (pp_items plan)"

text \<open>The loop over the plan: the selected items, or the code and reason of the failure.\<close>

fun select_items :: "string list \<Rightarrow> string list \<Rightarrow> (string \<Rightarrow> classified_finding option) \<Rightarrow> posting_plan_item list
    \<Rightarrow> (approval_proof_reason \<times> string) + posting_plan_item list" where
  "select_items ids public_ids d [] = Inr []"
| "select_items ids public_ids d (i # is') =
     (if pi_id i \<notin> set ids then select_items ids public_ids d is'
      else if pi_id i \<notin> set public_ids
        then Inl (AP_non_public_destination, ''approved item is not public: '' @ pi_id i)
      else if pi_destination i \<noteq> ReviewBodyItem
        then Inl (AP_non_public_destination, ''approved item is not review_body_item: '' @ pi_id i)
      else if pi_source_classification i \<noteq> classification_value PostableFinding
        then Inl (AP_non_public_destination, ''approved item is not a postable finding: '' @ pi_id i)
      else if (case d (pi_id i) of None \<Rightarrow> True | Some f \<Rightarrow> pi_fingerprint i \<noteq> Some (cf_fingerprint f))
        then Inl (AP_unknown_approved_id, ''approved item has no current finding: '' @ pi_id i)
      else case select_items ids public_ids d is' of
        Inl e \<Rightarrow> Inl e
      | Inr rest \<Rightarrow> Inr (i # rest))"

definition selection_guard :: "string list \<Rightarrow> posting_plan \<Rightarrow> string \<Rightarrow> review_verdict option \<Rightarrow> bool
    \<Rightarrow> (approval_proof_reason \<times> string) option" where
  "selection_guard ids plan run_id verdict include_verdict =
     (if \<not> is_valid_run_id run_id
        then Some (AP_invalid_run_id, ''approval proof run_id does not match marker grammar'')
      else if include_verdict \<and> verdict = Some VRequestChanges
        then Some (AP_request_changes_public_text_deferred, ''public request_changes text is deferred'')
      else if plan_has_summary plan
        then Some (AP_summary_item_deferred, ''summary item approval is deferred'')
      else if ids = [] then Some (AP_empty_approval, ''approved approval proof requires approved item ids'')
      else if has_duplicates ids then Some (AP_duplicate_approved_fingerprint, ''duplicate approved item ids'')
      else case find (\<lambda>i. i \<notin> set (map pi_id (pp_items plan))) ids of
        Some i \<Rightarrow> Some (AP_unknown_approved_id, ''unknown approved item id: '' @ i)
      | None \<Rightarrow> None)"

definition build_proof_for :: "posting_plan_item list \<Rightarrow> review_target \<Rightarrow> posting_plan \<Rightarrow> classified_finding list
    \<Rightarrow> candidate_payload \<Rightarrow> string \<Rightarrow> string \<Rightarrow> string \<Rightarrow> review_verdict option \<Rightarrow> bool \<Rightarrow> approval_proof result" where
  "build_proof_for selected t plan fs candidate run_id approved_by timestamp verdict include_verdict =
     (let d = dict_get (map (\<lambda>f. (cf_id f, f)) fs) in
      bindE (validate_candidate_issue_comment_payload candidate t plan fs verdict include_verdict) (\<lambda>v.
      if pv_status v \<noteq> GatePass
        then proof_fail AP_candidate_binding_mismatch
          (case pv_reason v of Some r \<Rightarrow> if r = [] then ''candidate binding failed'' else r | None \<Rightarrow> ''candidate binding failed'')
      else
      bindE (build_approved_final_issue_comment run_id t d selected verdict include_verdict) (\<lambda>ab.
      if red_status (ab_redaction_status ab) \<noteq> GatePass
        then proof_fail AP_final_redaction_failed ''final redaction did not pass''
      else if \<not> is_exact_reviewgraph_v1_marker_line (fp_marker_line (ab_payload ab))
        then proof_fail AP_invalid_run_id ''generated marker line is invalid''
      else mk_checked approval_proof_check
        \<lparr>ap_status = GatePass, ap_approved_item_ids = map pi_id selected, ap_review_target = Some t,
         ap_review_target_hash = Some (target_hash t),
         ap_final_payload_hash = Some (fp_final_payload_hash (ab_payload ab)),
         ap_final_visible_body_hash = Some (ab_visible_body_hash ab),
         ap_marker_payload_hash = Some (fp_marker_payload_hash (ab_payload ab)),
         ap_findings_hash = Some (fp_findings_hash (ab_payload ab)),
         ap_marker_line = Some (fp_marker_line (ab_payload ab)),
         ap_redaction_status = Some (ab_redaction_status ab), ap_include_public_verdict = include_verdict,
         ap_approved_by = Some approved_by, ap_timestamp = Some timestamp, ap_reason_code = None, ap_reason = None\<rparr>)))"

definition build_approval_proof :: "string list \<Rightarrow> review_target \<Rightarrow> posting_plan \<Rightarrow> classified_finding list
    \<Rightarrow> candidate_payload \<Rightarrow> string \<Rightarrow> string \<Rightarrow> string \<Rightarrow> review_verdict option \<Rightarrow> bool \<Rightarrow> approval_proof result" where
  "build_approval_proof ids t plan fs candidate run_id approved_by timestamp verdict include_verdict =
     (case selection_guard ids plan run_id verdict include_verdict of
        Some (code, reason) \<Rightarrow> proof_fail code reason
      | None \<Rightarrow>
          let d = dict_get (map (\<lambda>f. (cf_id f, f)) fs) in
          case select_items ids (map pi_id (public_payload_items plan)) d (pp_items plan) of
            Inl (code, reason) \<Rightarrow> proof_fail code reason
          | Inr selected \<Rightarrow>
              if has_duplicates (sort (map (\<lambda>i. the (pi_fingerprint i)) selected))
              then proof_fail AP_duplicate_approved_fingerprint ''duplicate approved fingerprints''
              else build_proof_for selected t plan fs candidate run_id approved_by timestamp verdict include_verdict)"

section \<open>The decision\<close>

definition build_fail :: "approval_build_reason \<Rightarrow> approval_proof_reason option \<Rightarrow> perm_reason option \<Rightarrow> perm_summary option
    \<Rightarrow> string \<Rightarrow> approval_build result" where
  "build_fail code proof_code actor_code summary reason = mk_checked approval_build_check
     \<lparr>bd_status = GateFail, bd_approval = None, bd_reason_code = Some code, bd_proof_reason_code = proof_code,
      bd_actor_reason_code = actor_code, bd_transport_summary = summary, bd_reason = Some reason\<rparr>"

text \<open>The fields of the gate go into the decision as they are; a field that is \<open>None\<close> there would make the constructor of
  the decision raise, which a passing gate excludes.\<close>

definition req :: "'a option \<Rightarrow> 'a result" where
  "req v = (case v of None \<Rightarrow> Inl (ValueError ''approval field is required'') | Some x \<Rightarrow> Inr x)"

definition decision_of :: "approval_proof \<Rightarrow> review_target \<Rightarrow> perm_gate \<Rightarrow> approval_decision result" where
  "decision_of p t g =
     bindE (req (ap_final_payload_hash p)) (\<lambda>payload_h. bindE (req (ap_review_target_hash p)) (\<lambda>target_h.
     bindE (req (pg_actor g)) (\<lambda>actor. bindE (req (pg_permission g)) (\<lambda>permission.
     bindE (req (pg_checked_at g)) (\<lambda>checked_at. bindE (req (pg_credential_principal g)) (\<lambda>prin.
     bindE (req (pg_credential_source g)) (\<lambda>cred_source. bindE (req (pg_check_method g)) (\<lambda>check_method.
     bindE (req (pg_endpoint_method g)) (\<lambda>endpoint_method. bindE (req (pg_endpoint g)) (\<lambda>endpoint.
     bindE (req (pg_endpoint_kind g)) (\<lambda>endpoint_kind. bindE (req (ap_approved_by p)) (\<lambda>approved_by.
     bindE (req (ap_timestamp p)) (\<lambda>timestamp. bindE (req (pg_issue_comment_write g)) (\<lambda>write.
     bindE (req (pg_checked_target g)) (\<lambda>checked_target. bindE (req (pg_checked_target_hash g)) (\<lambda>checked_hash.
     bindE (req (pg_transport_summary g)) (\<lambda>summary.
     mk_checked approval_decision_check
       \<lparr>ad_approved = True, ad_approved_item_ids = ap_approved_item_ids p, ad_final_payload_hash = payload_h,
        ad_review_target_hash = target_h, ad_review_target = t, ad_github_actor = actor, ad_permission = permission,
        ad_permission_checked_at = checked_at, ad_credential_principal = prin, ad_credential_source = cred_source,
        ad_repo_permission = pg_repo_permission g, ad_installation_permission = pg_installation_permission g,
        ad_endpoint_permission = pg_endpoint_permission g, ad_issue_comment_write = write,
        ad_check_method = check_method, ad_endpoint_method = endpoint_method, ad_checked_target = checked_target,
        ad_checked_target_hash = checked_hash, ad_endpoint = endpoint, ad_endpoint_kind = endpoint_kind,
        ad_transport_summary = summary, ad_include_public_verdict = ap_include_public_verdict p,
        ad_approved_by = approved_by, ad_timestamp = timestamp\<rparr>)))))))))))))))))"

definition build_approval_decision :: "approval_proof \<Rightarrow> perm_gate \<Rightarrow> int \<Rightarrow> int \<Rightarrow> approval_build result" where
  "build_approval_decision p g max_age max_skew =
     (if ap_status p \<noteq> GatePass
        then build_fail AB_approval_proof_failed (ap_reason_code p) None None ''approval proof did not pass''
      else if pg_status g \<noteq> GatePass
        then build_fail AB_actor_permission_gate_failed None (pg_reason_code g) (pg_transport_summary g)
          ''actor permission gate did not pass''
      else
      let stale = build_fail AB_actor_permission_gate_failed None (Some PR_stale_cached_proof) (pg_transport_summary g)
                    ''actor permission proof is stale at approval time'' in
      case (ap_timestamp p, pg_checked_at g) of
        (Some later, Some earlier) \<Rightarrow>
          (case utc_z_age_seconds later earlier of
             None \<Rightarrow> stale
           | Some age \<Rightarrow>
               if rat_of_int max_age < age \<or> age < - rat_of_int max_skew then stale
               else case ap_review_target p of
                 None \<Rightarrow> Inl (ValueError ''approval proof pass requires approved_review_target'')
               | Some t \<Rightarrow>
                   if (case pg_checked_target g of None \<Rightarrow> True | Some d \<Rightarrow> \<not> dict_eq d (to_ordered_dict t))
                      \<or> pg_checked_target_hash g \<noteq> Some (target_hash t) \<or> pg_endpoint g \<noteq> Some (issue_comment_endpoint t)
                      \<or> pg_endpoint_kind g \<noteq> Some ''issue_comment''
                   then build_fail AB_actor_permission_target_mismatch None None None
                     ''actor permission gate target did not match approval target''
                   else bindE (decision_of p t g) (\<lambda>a. mk_checked approval_build_check
                     \<lparr>bd_status = GatePass, bd_approval = Some a, bd_reason_code = None, bd_proof_reason_code = None,
                      bd_actor_reason_code = None, bd_transport_summary = None, bd_reason = None\<rparr>))
      | _ \<Rightarrow> stale)"

end
