(* ===== verification/Markers.thy ===== *)
theory Markers
  imports Payloads Models_Markers
begin

text \<open>
  The model of the scan for existing markers in \<open>src/src/reviewgraph/markers.py\<close>: one comment, one page, and the loop
  over the pages of the issue comments. The comment transport is a protocol that the program does not implement: it is
  the parameter \<open>transport\<close>, which gives for each call, by its number and its cursor, what the call did. Since the
  calls of a scan are numbered, this covers transports with any internal state.
\<close>

section \<open>Pages and transport\<close>

record marker_scan_limits =
  max_pages :: int
  max_comments :: int
  timeout_seconds :: int

definition marker_scan_limits_check :: "marker_scan_limits \<Rightarrow> string option" where
  "marker_scan_limits_check l = first_failure
     [(0 < max_pages l, ''marker scan max_pages must be a positive integer''),
      (0 < max_comments l, ''marker scan max_comments must be a positive integer''),
      (0 < timeout_seconds l, ''marker scan timeout_seconds must be a positive integer'')]"

record marker_comment =
  mc_comment_id :: string
  mc_body :: string
  mc_author_login :: string
  mc_author_type :: string
  mc_source_provider :: string
  mc_author_association :: "string option"

definition marker_comment_check :: "marker_comment \<Rightarrow> string option" where
  "marker_comment_check c = first_failure
     [(mc_comment_id c \<noteq> [], ''paginated marker comment comment_id is required''),
      (mc_body c \<noteq> [], ''paginated marker comment body is required''),
      (mc_source_provider c \<noteq> [], ''paginated marker comment source_provider is required''),
      (mc_author_association c \<noteq> Some [], ''paginated marker comment author_association must be non-empty'')]"

text \<open>A cursor is any object; only a string can be followed.\<close>

datatype cursor_object = CursorStr string | CursorOther

record marker_comment_page =
  mp_comments :: "marker_comment list"
  mp_next_cursor :: "cursor_object option"
  mp_completed :: bool
  mp_request_id :: "string option"

definition transport_marker_reasons :: "marker_reason list" where
  "transport_marker_reasons = [MR_timeout, MR_rate_limited, MR_forbidden, MR_not_found, MR_unavailable,
     MR_malformed_page, MR_transport_unknown]"

text \<open>What one call of the transport does: a page, a \<open>MarkerScanTransportFailure\<close>, another exception, or an object
  that is not a page.\<close>

datatype page_fetch =
    Page marker_comment_page
  | TransportFailure marker_reason "string option"
  | OtherException
  | NotAPage

type_synonym marker_transport = "nat \<Rightarrow> string option \<Rightarrow> page_fetch"

text \<open>The values that the constructors of pages, comments and failures let through.\<close>

definition wf_fetch :: "page_fetch \<Rightarrow> bool" where
  "wf_fetch f = (case f of
     Page p \<Rightarrow> \<forall>c \<in> set (mp_comments p). marker_comment_check c = None
   | TransportFailure r _ \<Rightarrow> r \<in> set transport_marker_reasons
   | _ \<Rightarrow> True)"

definition wf_transport :: "marker_transport \<Rightarrow> bool" where
  "wf_transport tr \<longleftrightarrow> (\<forall>n c. wf_fetch (tr n c))"

section \<open>One comment\<close>

definition marker_body_final_line :: "string \<Rightarrow> string option" where
  "marker_body_final_line body = (if body = [] then None else Some (body_final_line body))"

definition looks_like_reviewgraph_marker :: "string option \<Rightarrow> bool" where
  "looks_like_reviewgraph_marker l = (case l of None \<Rightarrow> False | Some s \<Rightarrow> starts_with ''<!-- reviewgraph:'' s)"

definition scan_final_line_marker :: "string \<Rightarrow> marker_fields option" where
  "scan_final_line_marker body =
     (case marker_body_final_line body of None \<Rightarrow> None | Some l \<Rightarrow> parse_reviewgraph_v1_marker_line l)"

definition is_trusted_marker_author :: "marker_comment \<Rightarrow> string \<Rightarrow> string list \<Rightarrow> bool" where
  "is_trusted_marker_author c approved_actor trusted_bot_authors \<longleftrightarrow>
     (if mc_source_provider c \<noteq> ''github'' then False
      else if mc_author_login c = [] \<or> mc_author_type c = [] then False
      else let actor_type = casefold (mc_author_type c) in
        if actor_type \<noteq> ''user'' \<and> actor_type \<noteq> ''bot'' then False
        else if mc_author_login c = approved_actor then True
        else actor_type = ''bot'' \<and> mc_author_login c \<in> set trusted_bot_authors)"

definition marker_request_id_char :: "char \<Rightarrow> bool" where
  "marker_request_id_char c \<longleftrightarrow> is_alnum c \<or> c \<in> set ''-_.:/''"

definition safe_marker_request_id :: "string option \<Rightarrow> string option" where
  "safe_marker_request_id v =
     (case v of
        None \<Rightarrow> None
      | Some s \<Rightarrow>
          if s = [] then None
          else if 128 < length s then None
          else if \<not> list_all marker_request_id_char s then None
          else if has_secret_fragment s then None
          else if rr_redacted (redact_text s) then None
          else Some s)"

section \<open>The state of the scan\<close>

record scan_params =
  sp_approved_actor :: string
  sp_trusted_bots :: "string list"
  sp_target_hash :: string
  sp_payload_hash :: string
  sp_findings_hash :: string
  sp_limits :: marker_scan_limits

record scan_state =
  sc_cursor :: "string option"
  sc_seen :: "string option list"
  sc_page_count :: nat
  sc_comment_count :: nat
  sc_marker_count :: nat
  sc_request_id :: "string option"
  sc_match :: "(marker_comment \<times> marker_fields) option"
  sc_duplicates :: "string list"
  sc_deferred :: "(marker_reason \<times> string option) option"

definition initial_scan :: scan_state where
  "initial_scan = \<lparr>sc_cursor = None, sc_seen = [None], sc_page_count = 0, sc_comment_count = 0, sc_marker_count = 0,
     sc_request_id = None, sc_match = None, sc_duplicates = [], sc_deferred = None\<rparr>"

definition defer_failure :: "marker_reason \<Rightarrow> scan_state \<Rightarrow> scan_state" where
  "defer_failure r st =
     (if sc_deferred st = None then st\<lparr>sc_deferred := Some (r, sc_request_id st)\<rparr> else st)"

text \<open>The body of the loop over the comments of a page.\<close>

definition scan_comment :: "scan_params \<Rightarrow> scan_state \<Rightarrow> marker_comment \<Rightarrow> scan_state" where
  "scan_comment P st c =
     (let final_line = marker_body_final_line (mc_body c);
          marker = scan_final_line_marker (mc_body c);
          looks = looks_like_reviewgraph_marker final_line;
          st1 = (if marker \<noteq> None \<or> looks then st\<lparr>sc_marker_count := Suc (sc_marker_count st)\<rparr> else st) in
      if \<not> is_trusted_marker_author c (sp_approved_actor P) (sp_trusted_bots P) then st1
      else case marker of
        None \<Rightarrow> if looks then defer_failure MR_trusted_marker_malformed st1 else st1
      | Some m \<Rightarrow>
          if mk_target m \<noteq> sp_target_hash P \<or> mk_findings m \<noteq> sp_findings_hash P then st1
          else if mk_payload m \<noteq> sp_payload_hash P then defer_failure MR_trusted_marker_conflict st1
          else if sc_match st1 = None then st1\<lparr>sc_match := Some (c, m)\<rparr>
          else st1\<lparr>sc_duplicates := sc_duplicates st1 @ [mc_comment_id c]\<rparr>)"

section \<open>Results\<close>

definition marker_scan_summary :: "scan_state \<Rightarrow> string option \<Rightarrow> marker_reason option \<Rightarrow> marker_summary result" where
  "marker_scan_summary st rid reason = mk_checked marker_summary_check
     \<lparr>ms_endpoint_kind = ''issue_comments'', ms_page_count = sc_page_count st, ms_comment_count = sc_comment_count st,
      ms_marker_count = sc_marker_count st,
      ms_retryable = (case reason of None \<Rightarrow> False | Some r \<Rightarrow> r \<in> set retryable_marker_reasons),
      ms_reason_code = reason, ms_request_id = safe_marker_request_id rid\<rparr>"

definition trusted_marker_failure :: "marker_reason \<Rightarrow> scan_state \<Rightarrow> string option \<Rightarrow> marker_result result" where
  "trusted_marker_failure r st rid =
     bindE (marker_scan_summary st rid (Some r)) (\<lambda>s. mk_checked marker_result_check
       \<lparr>mr_status = FailedClosed, mr_reason_code = r, mr_summary = s, mr_trusted_actor = None,
        mr_existing_comment_id = None, mr_duplicate_comment_ids = [], mr_writer_input_released = False,
        mr_finalization_passed = False, mr_reason = None\<rparr>)"

definition scan_finish :: "scan_state \<Rightarrow> marker_result result" where
  "scan_finish st =
     (case sc_deferred st of
        Some (r, rid) \<Rightarrow> trusted_marker_failure r st rid
      | None \<Rightarrow>
          bindE (marker_scan_summary st (sc_request_id st) None) (\<lambda>s.
          case sc_match st of
            Some (c, m) \<Rightarrow> mk_checked marker_result_check
              \<lparr>mr_status = ReconciledExisting, mr_reason_code = MR_matched_existing, mr_summary = s,
               mr_trusted_actor = Some (mc_author_login c), mr_existing_comment_id = Some (mc_comment_id c),
               mr_duplicate_comment_ids = sc_duplicates st, mr_writer_input_released = False,
               mr_finalization_passed = False, mr_reason = None\<rparr>
          | None \<Rightarrow> mk_checked marker_result_check
              \<lparr>mr_status = SafeToPost, mr_reason_code = MR_safe_to_post, mr_summary = s, mr_trusted_actor = None,
               mr_existing_comment_id = None, mr_duplicate_comment_ids = [], mr_writer_input_released = False,
               mr_finalization_passed = False, mr_reason = None\<rparr>))"

section \<open>One page and the loop\<close>

datatype page_outcome = ScanStop "marker_result result" | ScanDone scan_state | ScanNext scan_state

definition scan_page :: "scan_params \<Rightarrow> scan_state \<Rightarrow> page_fetch \<Rightarrow> page_outcome" where
  "scan_page P st f =
     (case f of
        TransportFailure r rid \<Rightarrow> ScanStop (trusted_marker_failure r st rid)
      | OtherException \<Rightarrow> ScanStop (trusted_marker_failure MR_transport_unknown st (sc_request_id st))
      | NotAPage \<Rightarrow> ScanStop (trusted_marker_failure MR_malformed_page st (sc_request_id st))
      | Page p \<Rightarrow>
          (let st1 = st\<lparr>sc_page_count := Suc (sc_page_count st), sc_request_id := safe_marker_request_id (mp_request_id p)\<rparr>;
               stop = (\<lambda>r s. ScanStop (trusted_marker_failure r s (sc_request_id s))) in
           if mp_completed p \<and> mp_next_cursor p \<noteq> None then stop MR_malformed_page st1
           else if \<not> mp_completed p \<and> mp_next_cursor p = None then stop MR_pagination_incomplete st1
           else
           let st2 = st1\<lparr>sc_comment_count := sc_comment_count st1 + length (mp_comments p)\<rparr>;
               st3 = foldl (scan_comment P) st2 (mp_comments p) in
           case mp_next_cursor p of
             Some (CursorStr c) \<Rightarrow>
               if c = [] then stop MR_malformed_page st1
               else if max_comments (sp_limits P) < int (sc_comment_count st2) then stop MR_comment_cap_exceeded st2
               else if Some c \<in> set (sc_seen st3) then stop MR_repeated_cursor st3
               else ScanNext (st3\<lparr>sc_seen := Some c # sc_seen st3, sc_cursor := Some c\<rparr>)
           | Some CursorOther \<Rightarrow> stop MR_malformed_page st1
           | None \<Rightarrow>
               if max_comments (sp_limits P) < int (sc_comment_count st2) then stop MR_comment_cap_exceeded st2
               else ScanDone st3))"

lemma scan_comment_page_count [simp]: "sc_page_count (scan_comment P st c) = sc_page_count st"
  by (simp add: scan_comment_def defer_failure_def Let_def split: option.split)

lemma scan_comments_page_count [simp]: "sc_page_count (foldl (scan_comment P) st cs) = sc_page_count st"
  by (induction cs arbitrary: st) simp_all

lemma scan_page_next_count: "scan_page P st f = ScanNext st' \<Longrightarrow> sc_page_count st' = Suc (sc_page_count st)"
  by (auto simp: scan_page_def Let_def split: page_fetch.split_asm if_split_asm option.split_asm cursor_object.split_asm)

function marker_scan :: "marker_transport \<Rightarrow> scan_params \<Rightarrow> scan_state \<Rightarrow> marker_result result" where
  "marker_scan tr P st =
     (if max_pages (sp_limits P) \<le> int (sc_page_count st)
      then trusted_marker_failure MR_page_cap_exceeded st (sc_request_id st)
      else case scan_page P st (tr (sc_page_count st) (sc_cursor st)) of
             ScanStop r \<Rightarrow> r
           | ScanDone st' \<Rightarrow> scan_finish st'
           | ScanNext st' \<Rightarrow> marker_scan tr P st')"
  by pat_completeness auto
termination
  by (relation "measure (\<lambda>(tr, P, st). nat (max_pages (sp_limits P) - int (sc_page_count st)))")
    (auto dest: scan_page_next_count)

declare marker_scan.simps [simp del]

definition reconcile_checks :: "string \<Rightarrow> int \<Rightarrow> scan_params \<Rightarrow> (bool \<times> string) list" where
  "reconcile_checks owner_repo pr_number P =
     [(owner_repo \<noteq> [], ''marker scan owner_repo must be a non-empty string''),
      (0 < pr_number, ''marker scan pr_number must be a positive integer''),
      (sp_approved_actor P \<noteq> [], ''marker scan approved_actor must be a non-empty string'')]
     @ concat (map (\<lambda>(name, h).
         [(h \<noteq> [], ''marker scan '' @ name @ '' must be a non-empty string''),
          (strict_sha256 h, ''marker scan '' @ name @ '' must be a strict sha256 hash'')])
         [(''expected_target_hash'', sp_target_hash P), (''expected_payload_hash'', sp_payload_hash P),
          (''expected_findings_hash'', sp_findings_hash P)])
     @ [(list_all non_empty (sp_trusted_bots P), ''trusted marker bot authors must be non-empty strings'')]"

definition reconcile_paginated_trusted_markers ::
    "marker_transport \<Rightarrow> string \<Rightarrow> int \<Rightarrow> scan_params \<Rightarrow> marker_result result" where
  "reconcile_paginated_trusted_markers tr owner_repo pr_number P =
     (case first_failure (reconcile_checks owner_repo pr_number P) of
        Some m \<Rightarrow> Inl (ValueError m)
      | None \<Rightarrow> marker_scan tr P initial_scan)"

section \<open>A list of comments\<close>

text \<open>\<open>reconcile_existing_markers\<close>, which gets all comments at once and trusts none of them.\<close>

record existing_comment =
  ec_comment_id :: string
  ec_body :: string

definition existing_comment_check :: "existing_comment \<Rightarrow> string option" where
  "existing_comment_check c = first_failure
     [(ec_comment_id c \<noteq> [], ''existing comment id is required''),
      (ec_body c \<noteq> [], ''existing comment body is required'')]"

datatype marker_scan_status = ScanMatched | ScanNoMatch | DeferredConflict | DeferredMalformed

record marker_scan_result =
  ms_status :: marker_scan_status
  ms_existing_comment_id :: "string option"
  ms_marker :: "marker_fields option"
  ms_reason :: "string option"
  ms_writer_input_released :: bool
  ms_finalization_passed :: bool

definition marker_scan_result_check :: "marker_scan_result \<Rightarrow> string option" where
  "marker_scan_result_check r = first_failure
     ([(ms_existing_comment_id r \<noteq> Some [], ''marker scan existing_comment_id must be non-empty''),
       (ms_reason r \<noteq> Some [], ''marker scan reason must be non-empty''),
       (\<not> (ms_writer_input_released r \<or> ms_finalization_passed r),
        ''marker scan results are trust-neutral and cannot release writer input'')]
      @ (case ms_status r of
           ScanMatched \<Rightarrow> [(ms_existing_comment_id r \<noteq> None \<and> ms_marker r \<noteq> None,
             ''matched marker scan requires existing comment and marker'')]
         | ScanNoMatch \<Rightarrow> [(ms_existing_comment_id r = None \<and> ms_marker r = None,
             ''no-match marker scan must not include a marker'')]
         | DeferredConflict \<Rightarrow> [(ms_existing_comment_id r \<noteq> None \<and> ms_marker r \<noteq> None,
             ''deferred marker conflict requires existing comment and marker'')]
         | DeferredMalformed \<Rightarrow> [(ms_existing_comment_id r \<noteq> None \<and> ms_marker r = None,
             ''deferred malformed marker requires existing comment and no parsed marker'')]))"

definition existing_result ::
    "marker_scan_status \<Rightarrow> string option \<Rightarrow> marker_fields option \<Rightarrow> string \<Rightarrow> marker_scan_result" where
  "existing_result s cid m reason = \<lparr>ms_status = s, ms_existing_comment_id = cid, ms_marker = m, ms_reason = Some reason,
     ms_writer_input_released = False, ms_finalization_passed = False\<rparr>"

record existing_scan =
  es_matched :: "marker_scan_result option"
  es_conflict :: "marker_scan_result option"
  es_malformed :: "marker_scan_result option"

definition existing_step ::
    "string \<Rightarrow> string \<Rightarrow> string \<Rightarrow> existing_scan \<Rightarrow> existing_comment \<Rightarrow> existing_scan result" where
  "existing_step target payload findings st c =
     (let final_line = marker_body_final_line (ec_body c);
          found = (\<lambda>s m reason. mk_checked marker_scan_result_check (existing_result s (Some (ec_comment_id c)) m reason)) in
      case scan_final_line_marker (ec_body c) of
        None \<Rightarrow>
          if looks_like_reviewgraph_marker final_line
          then bindE (found DeferredMalformed None ''malformed reviewgraph marker final line'')
                 (\<lambda>r. Inr (st\<lparr>es_malformed := Some r\<rparr>))
          else Inr st
      | Some m \<Rightarrow>
          if mk_target m \<noteq> target \<or> mk_findings m \<noteq> findings then Inr st
          else if mk_payload m = payload
          then bindE (found ScanMatched (Some m) ''matching marker'') (\<lambda>r. Inr (st\<lparr>es_matched := Some r\<rparr>))
          else bindE (found DeferredConflict (Some m) ''same target and findings with different payload'')
                 (\<lambda>r. Inr (st\<lparr>es_conflict := Some r\<rparr>)))"

definition reconcile_existing_markers ::
    "existing_comment list \<Rightarrow> string \<Rightarrow> string \<Rightarrow> string \<Rightarrow> marker_scan_result result" where
  "reconcile_existing_markers cs target payload findings =
     bindE (foldE (existing_step target payload findings)
              \<lparr>es_matched = None, es_conflict = None, es_malformed = None\<rparr> cs) (\<lambda>st.
     case es_malformed st of Some r \<Rightarrow> Inr r | None \<Rightarrow>
     (case es_conflict st of Some r \<Rightarrow> Inr r | None \<Rightarrow>
     (case es_matched st of Some r \<Rightarrow> Inr r | None \<Rightarrow>
        mk_checked marker_scan_result_check (existing_result ScanNoMatch None None ''no matching marker''))))"

end
