(* ===== verification/Finalization.thy ===== *)
theory Finalization
  imports Models_Finalization Approval Markers
begin

text \<open>
  The model of \<open>src/src/reviewgraph/finalization.py\<close>: the preflight of the writer release, the two checks that run
  right before posting, and \<open>finalize_github_payload\<close>, which composes all gates. The builder of the final payload and
  the marker reconciler are arguments there too; a builder is represented by the outcome of its single call. The
  parser \<open>datetime.fromisoformat\<close> accepts different texts in different versions of Python, so it is a parameter,
  \<open>fromiso\<close>, which gives the microseconds since the beginning of year 1, or \<open>None\<close> where the parser raises.
\<close>

section \<open>Data\<close>

text \<open>A probe of the current target. Fields that the code tests with \<open>isinstance\<close> may be malformed.\<close>

record target_probe =
  tp_current_target :: "review_target field"
  tp_checked_at :: "string field"
  tp_check_method :: "string field"
  tp_transport_reason_code :: "target_reason field"
  tp_request_id :: "string field"
  tp_unknown_retryable :: "bool field"
  tp_reason :: "string field"

record bound_marker =
  bm_result :: marker_result
  bm_target_hash :: string
  bm_payload_hash :: string
  bm_findings_hash :: string

definition bound_marker_check :: "bound_marker \<Rightarrow> string option" where
  "bound_marker_check b = first_failure
     [(starts_with ''sha256:'' (bm_target_hash b), ''bound marker reconciliation expected_target_hash must be a hash''),
      (starts_with ''sha256:'' (bm_payload_hash b), ''bound marker reconciliation expected_payload_hash must be a hash''),
      (starts_with ''sha256:'' (bm_findings_hash b), ''bound marker reconciliation expected_findings_hash must be a hash'')]"

record item_descriptor =
  ai_item_id :: string
  ai_source_classification :: string
  ai_destination :: posting_destination
  ai_public_payload_eligible :: bool
  ai_has_fingerprint :: bool

definition item_descriptor_check :: "item_descriptor \<Rightarrow> string option" where
  "item_descriptor_check d = first_failure
     [(ai_item_id d \<noteq> [], ''approved item descriptor item_id is required''),
      (ai_source_classification d \<noteq> [], ''approved item descriptor source_classification is required'')]"

text \<open>The error that a dry run reports, a dict in the source.\<close>

record dry_run_error =
  de_reason_code :: string
  de_retryable :: bool
  de_endpoint_kind :: string
  de_request_id :: "string option"
  de_mismatched_fields :: "string list"

record finalize_result =
  fz_actor_check :: "actor_final_check option"
  fz_target_check :: "target_check option"
  fz_status :: final_status
  fz_approved_actor :: "string option"
  fz_payload_validation :: "payload_validation option"
  fz_marker :: "marker_result option"
  fz_final_payload :: "final_payload option"
  fz_dry_run_error :: "dry_run_error option"
  fz_builder_calls :: nat
  fz_writer_input_released :: bool

section \<open>The preflight of the writer release\<close>

datatype approval_input = NoApproval | BuiltApproval approval_build | DirectApproval approval_decision

definition writer_preflight_fail :: "preflight_reason \<Rightarrow> approval_build_reason option \<Rightarrow> approval_proof_reason option
    \<Rightarrow> perm_reason option \<Rightarrow> item_diagnostic list \<Rightarrow> preflight result" where
  "writer_preflight_fail code nested proof_code actor_code diags = mk_checked preflight_check
     \<lparr>pf_status = GateFail, pf_writer_input_released = False, pf_eligible = False, pf_approved_item_ids = [],
      pf_reason_code = Some code, pf_nested_reason_code = nested, pf_nested_proof_reason_code = proof_code,
      pf_nested_actor_reason_code = actor_code, pf_item_diagnostics = diags, pf_final_payload_hash = None,
      pf_writer_result = None\<rparr>"

definition descriptor_diagnostic :: "item_descriptor \<Rightarrow> preflight_item_reason \<Rightarrow> item_diagnostic result" where
  "descriptor_diagnostic d code = mk_checked item_diagnostic_check
     \<lparr>wid_item_id = ai_item_id d, wid_reason_code = code, wid_destination = Some (ai_destination d),
      wid_source_classification = Some (ai_source_classification d),
      wid_public_payload_eligible = Some (ai_public_payload_eligible d)\<rparr>"

definition plan_item_diagnostic :: "posting_plan_item \<Rightarrow> item_diagnostic result" where
  "plan_item_diagnostic i = mk_checked item_diagnostic_check
     \<lparr>wid_item_id = pi_id i,
      wid_reason_code = (if \<not> pi_public_payload_eligible i then WI_not_public_payload_eligible else WI_wrong_destination),
      wid_destination = Some (pi_destination i), wid_source_classification = Some (pi_source_classification i),
      wid_public_payload_eligible = Some (pi_public_payload_eligible i)\<rparr>"

text \<open>\<open>_public_item_diagnostic\<close>: the reason why the item is not public, if there is one.\<close>

definition public_item_reason :: "item_descriptor \<Rightarrow> preflight_item_reason option" where
  "public_item_reason d =
     (if \<not> ai_public_payload_eligible d then Some WI_not_public_payload_eligible
      else if ai_destination d \<noteq> ReviewBodyItem then Some WI_wrong_destination
      else if ai_source_classification d \<noteq> classification_value PostableFinding then Some WI_wrong_source_classification
      else if \<not> ai_has_fingerprint d then Some WI_missing_fingerprint
      else None)"

definition descriptor_matches_plan_item :: "item_descriptor \<Rightarrow> posting_plan_item \<Rightarrow> bool" where
  "descriptor_matches_plan_item d i \<longleftrightarrow>
     pi_id i = ai_item_id d \<and> pi_source_classification i = ai_source_classification d
     \<and> pi_destination i = ai_destination d \<and> pi_public_payload_eligible i = ai_public_payload_eligible d
     \<and> (pi_fingerprint i \<noteq> None \<and> pi_fingerprint i \<noteq> Some []) = ai_has_fingerprint d"

text \<open>One round of the loop over the approved ids: the fingerprint of a good item, or a diagnostic.\<close>

definition preflight_item :: "(string \<Rightarrow> posting_plan_item option) \<Rightarrow> (string \<Rightarrow> item_descriptor option) \<Rightarrow> string
    \<Rightarrow> (item_diagnostic + string) result" where
  "preflight_item plan_items descriptors i =
     (case (plan_items i, descriptors i) of
        (Some item, Some d) \<Rightarrow>
          if \<not> descriptor_matches_plan_item d item then bindE (plan_item_diagnostic item) (\<lambda>x. Inr (Inl x))
          else (case public_item_reason d of
                  Some code \<Rightarrow> bindE (descriptor_diagnostic d code) (\<lambda>x. Inr (Inl x))
                | None \<Rightarrow> Inr (Inr (case pi_fingerprint item of None \<Rightarrow> [] | Some f \<Rightarrow> f)))
      | _ \<Rightarrow> bindE (mk_checked item_diagnostic_check
               \<lparr>wid_item_id = i, wid_reason_code = WI_missing_current_item, wid_destination = None,
                wid_source_classification = None, wid_public_payload_eligible = None\<rparr>) (\<lambda>x. Inr (Inl x)))"

definition items_by_id :: "posting_plan \<Rightarrow> string \<Rightarrow> posting_plan_item option" where
  "items_by_id plan = dict_get (map (\<lambda>i. (pi_id i, i)) (pp_items plan))"

definition lefts :: "('a + 'b) list \<Rightarrow> 'a list" where
  "lefts xs = concat (map (\<lambda>x. case x of Inl a \<Rightarrow> [a] | Inr _ \<Rightarrow> []) xs)"

definition rights :: "('a + 'b) list \<Rightarrow> 'b list" where
  "rights xs = concat (map (\<lambda>x. case x of Inl _ \<Rightarrow> [] | Inr b \<Rightarrow> [b]) xs)"

definition writer_preflight_for_approval :: "approval_decision \<Rightarrow> posting_plan \<Rightarrow> (string \<Rightarrow> item_descriptor option)
    \<Rightarrow> preflight result" where
  "writer_preflight_for_approval a plan descriptors =
     (if has_duplicates (ad_approved_item_ids a)
      then writer_preflight_fail WP_duplicate_approved_item None None None []
      else bindE (mapE (preflight_item (items_by_id plan) descriptors) (ad_approved_item_ids a)) (\<lambda>rs.
        let diags = lefts rs in
        if has_duplicates (rights rs) then writer_preflight_fail WP_duplicate_approved_fingerprint None None None []
        else if diags \<noteq> [] then
          writer_preflight_fail
            (if list_ex (\<lambda>d. wid_reason_code d = WI_missing_current_item) diags then WP_unknown_approved_id
             else WP_non_public_approved_item) None None None diags
        else mk_checked preflight_check
          \<lparr>pf_status = GatePass, pf_writer_input_released = False, pf_eligible = True,
           pf_approved_item_ids = ad_approved_item_ids a, pf_reason_code = None, pf_nested_reason_code = None,
           pf_nested_proof_reason_code = None, pf_nested_actor_reason_code = None, pf_item_diagnostics = [],
           pf_final_payload_hash = None, pf_writer_result = None\<rparr>))"

definition preflight_for_decision :: "approval_decision option \<Rightarrow> posting_plan \<Rightarrow> (string \<Rightarrow> item_descriptor option)
    \<Rightarrow> preflight result" where
  "preflight_for_decision approval plan descriptors =
     (case approval of
        None \<Rightarrow> writer_preflight_fail WP_missing_approval None None None []
      | Some a \<Rightarrow> if \<not> ad_approved a then writer_preflight_fail WP_rejected_approval None None None []
                  else writer_preflight_for_approval a plan descriptors)"

definition evaluate_writer_release_preflight :: "bool \<Rightarrow> approval_input \<Rightarrow> posting_plan
    \<Rightarrow> (string \<Rightarrow> item_descriptor option) \<Rightarrow> preflight result" where
  "evaluate_writer_release_preflight post_enabled approval plan descriptors =
     (if \<not> post_enabled then writer_preflight_fail WP_post_disabled None None None []
      else case approval of
        BuiltApproval b \<Rightarrow>
          if bd_status b \<noteq> GatePass
          then writer_preflight_fail WP_approval_build_failed (bd_reason_code b) (bd_proof_reason_code b)
                 (bd_actor_reason_code b) []
          else preflight_for_decision (bd_approval b) plan descriptors
      | DirectApproval a \<Rightarrow> preflight_for_decision (Some a) plan descriptors
      | NoApproval \<Rightarrow> preflight_for_decision None plan descriptors)"

section \<open>The actor permission, again\<close>

definition snapshot_mismatch :: "string list \<Rightarrow> perm_summary option \<Rightarrow> string option \<Rightarrow> actor_final_check result" where
  "snapshot_mismatch fields' summary checked_at = mk_checked actor_final_check_check
     \<lparr>afc_status = GateFail, afc_reason_code = Some AF_actor_permission_snapshot_mismatch, afc_actor_reason_code = None,
      afc_transport_summary = summary, afc_checked_at = checked_at, afc_mismatched_fields = fields',
      afc_reason = Some ''current actor permission snapshot differs from approved snapshot''\<rparr>"

text \<open>The comparisons of \<open>_mismatched_fields\<close>: a name, and whether the current value is the approved one.\<close>

definition snapshot_comparisons :: "approval_decision \<Rightarrow> perm_gate \<Rightarrow> (string \<times> bool) list" where
  "snapshot_comparisons a g =
     [(''actor'', Some (ad_github_actor a) = pg_actor g),
      (''credential_principal'', Some (ad_credential_principal a) = pg_credential_principal g),
      (''credential_source'', Some (ad_credential_source a) = pg_credential_source g),
      (''permission'', Some (ad_permission a) = pg_permission g),
      (''repo_permission'', ad_repo_permission a = pg_repo_permission g),
      (''installation_permission'', ad_installation_permission a = pg_installation_permission g),
      (''endpoint_permission'', ad_endpoint_permission a = pg_endpoint_permission g),
      (''issue_comment_write'', Some (ad_issue_comment_write a) = pg_issue_comment_write g),
      (''check_method'', Some (ad_check_method a) = pg_check_method g),
      (''endpoint_method'', Some (ad_endpoint_method a) = pg_endpoint_method g),
      (''checked_target'', dict_eq (ad_checked_target a) (the (pg_checked_target g))),
      (''checked_target_hash'', Some (ad_checked_target_hash a) = pg_checked_target_hash g),
      (''endpoint'', Some (ad_endpoint a) = pg_endpoint g), (''endpoint_kind'', Some (ad_endpoint_kind a) = pg_endpoint_kind g)]"

definition mismatched_fields :: "approval_decision \<Rightarrow> perm_gate \<Rightarrow> string list" where
  "mismatched_fields a g =
     filter (\<lambda>n. n \<in> set actor_mismatch_fields) (map fst (filter (\<lambda>(_, same). \<not> same) (snapshot_comparisons a g)))"

text \<open>\<open>_parse_utc_z\<close> and \<open>_parse_optional_utc_z\<close> of \<open>finalization.py\<close>.\<close>

definition remove_suffix_Z :: "string \<Rightarrow> string" where
  "remove_suffix_Z v = (if ends_with ''Z'' v then butlast v else v)"

definition parse_utc_z :: "(string \<Rightarrow> int option) \<Rightarrow> string \<Rightarrow> int result" where
  "parse_utc_z fromiso v =
     (case fromiso (remove_suffix_Z v @ ''+00:00'') of
        None \<Rightarrow> Inl (ValueError ''Invalid isoformat string'') | Some time \<Rightarrow> Inr time)"

definition parse_optional_time :: "(string \<Rightarrow> int option) \<Rightarrow> string field \<Rightarrow> int option" where
  "parse_optional_time fromiso v =
     (case v of
        Present s \<Rightarrow> if \<not> ends_with ''Z'' s \<or> CHR ''T'' \<notin> set s then None else fromiso (remove_suffix_Z s @ ''+00:00'')
      | _ \<Rightarrow> None)"

definition validate_actor_permission_snapshot_for_finalization :: "(string \<Rightarrow> int option) \<Rightarrow> approval_decision \<Rightarrow> perm_probe
    \<Rightarrow> review_target \<Rightarrow> string \<Rightarrow> int \<Rightarrow> actor_final_check result" where
  "validate_actor_permission_snapshot_for_finalization fromiso a probe expected_target evaluated_at max_age =
     bindE (evaluate_actor_permission_gate probe expected_target evaluated_at max_age) (\<lambda>g.
     if pg_status g \<noteq> GatePass then mk_checked actor_final_check_check
       \<lparr>afc_status = GateFail, afc_reason_code = Some AF_actor_permission_gate_failed,
        afc_actor_reason_code = pg_reason_code g, afc_transport_summary = pg_transport_summary g,
        afc_checked_at = pg_checked_at g, afc_mismatched_fields = [],
        afc_reason = Some ''current actor permission gate failed''\<rparr>
     else if expected_target \<noteq> ad_review_target a
       then snapshot_mismatch [''checked_target'', ''checked_target_hash''] (pg_transport_summary g) (pg_checked_at g)
     else if mismatched_fields a g \<noteq> []
       then snapshot_mismatch (mismatched_fields a g) (pg_transport_summary g) (pg_checked_at g)
     else bindE (parse_utc_z fromiso (the (pg_checked_at g))) (\<lambda>current.
     bindE (parse_utc_z fromiso (ad_permission_checked_at a)) (\<lambda>approved.
     if current < approved then mk_checked actor_final_check_check
       \<lparr>afc_status = GateFail, afc_reason_code = Some AF_actor_permission_checked_at_regressed, afc_actor_reason_code = None,
        afc_transport_summary = pg_transport_summary g, afc_checked_at = pg_checked_at g,
        afc_mismatched_fields = [''checked_at''],
        afc_reason = Some ''current actor permission proof predates approval proof''\<rparr>
     else mk_checked actor_final_check_check
       \<lparr>afc_status = GatePass, afc_reason_code = None, afc_actor_reason_code = None,
        afc_transport_summary = pg_transport_summary g, afc_checked_at = pg_checked_at g, afc_mismatched_fields = [],
        afc_reason = None\<rparr>)))"

section \<open>The freshness of the target\<close>

definition TARGET_MAX_FUTURE_SKEW_SECONDS :: int where "TARGET_MAX_FUTURE_SKEW_SECONDS = 60"
definition DEFAULT_MAX_PROOF_AGE_SECONDS :: int where "DEFAULT_MAX_PROOF_AGE_SECONDS = 300"

definition target_transport_summary :: "string field \<Rightarrow> target_reason option \<Rightarrow> bool \<Rightarrow> target_summary result" where
  "target_transport_summary request_id reason retryable = mk_checked target_summary_check
     \<lparr>ts_endpoint_kind = target_transport_kind, ts_retryable = retryable, ts_reason_code = reason,
      ts_request_id = safe_request_id request_id\<rparr>"

text \<open>\<open>_target_fail\<close>, with the summary that its caller builds for it.\<close>

definition target_fail :: "target_reason \<Rightarrow> target_summary result \<Rightarrow> review_target option \<Rightarrow> string option \<Rightarrow> string list
    \<Rightarrow> string \<Rightarrow> target_check result" where
  "target_fail code summary current checked_at mismatched reason =
     bindE summary (\<lambda>s. mk_checked target_check_check
       \<lparr>tc_status = GateFail, tc_reason_code = Some code, tc_transport_summary = Some s, tc_current_target = current,
        tc_current_target_hash = map_option target_hash current, tc_checked_at = checked_at,
        tc_check_method = Some target_check_method, tc_mismatched_fields = mismatched, tc_reason = Some reason\<rparr>)"

definition target_mismatched_fields :: "review_target \<Rightarrow> review_target \<Rightarrow> string list" where
  "target_mismatched_fields approved current = map fst (filter (\<lambda>(_, same). \<not> same)
     [(''owner_repo'', rt_owner_repo approved = rt_owner_repo current),
      (''pr_number'', rt_pr_number approved = rt_pr_number current),
      (''base_sha'', rt_base_sha approved = rt_base_sha current), (''head_sha'', rt_head_sha approved = rt_head_sha current),
      (''merge_base_sha'', rt_merge_base_sha approved = rt_merge_base_sha current),
      (''diff_basis'', rt_diff_basis approved = rt_diff_basis current)])"

text \<open>The function has one body in the source; here its stages, from the last to the first. The argument \<open>ok\<close> is the
  summary without a failure, \<open>_target_transport_summary(request_id, None, False)\<close>.\<close>

definition target_compare :: "approval_decision \<Rightarrow> target_summary result \<Rightarrow> review_target \<Rightarrow> string \<Rightarrow> target_check result" where
  "target_compare a ok current checked_at =
     (let mismatched = target_mismatched_fields (ad_review_target a) current in
      if mismatched \<noteq> []
      then target_fail TR_target_mismatch ok (Some current) (Some checked_at) mismatched
        ''current target differs from approved target''
      else bindE ok (\<lambda>s. mk_checked target_check_check
        \<lparr>tc_status = GatePass, tc_reason_code = None, tc_transport_summary = Some s, tc_current_target = Some current,
         tc_current_target_hash = Some (target_hash current), tc_checked_at = Some checked_at,
         tc_check_method = Some target_check_method, tc_mismatched_fields = [], tc_reason = None\<rparr>))"

definition target_times :: "(string \<Rightarrow> int option) \<Rightarrow> approval_decision \<Rightarrow> target_summary result \<Rightarrow> review_target
    \<Rightarrow> string field \<Rightarrow> int \<Rightarrow> int \<Rightarrow> int \<Rightarrow> target_check result" where
  "target_times fromiso a ok current checked_at approved_time evaluated_time max_age =
     (if checked_at = Absent
      then target_fail TR_missing_checked_at ok (Some current) None [] ''target freshness checked_at is missing''
      else case (parse_optional_time fromiso checked_at, field_value checked_at) of
        (Some checked_time, Some c) \<Rightarrow>
          if max_age * 1000000 < evaluated_time - checked_time
            then target_fail TR_stale_cached_target ok (Some current) (Some c) [] ''target freshness proof is stale''
          else if evaluated_time - checked_time < - (TARGET_MAX_FUTURE_SKEW_SECONDS * 1000000)
            then target_fail TR_future_checked_at ok (Some current) (Some c) [] ''target freshness proof is from the future''
          else if checked_time < approved_time
            then target_fail TR_checked_at_before_approval ok (Some current) (Some c) [''checked_at'']
              ''target freshness proof predates approval''
          else target_compare a ok current c
      | _ \<Rightarrow> target_fail TR_malformed_response ok (Some current) None [] ''target freshness checked_at is malformed'')"

definition target_current :: "(string \<Rightarrow> int option) \<Rightarrow> approval_decision \<Rightarrow> target_summary result \<Rightarrow> target_probe
    \<Rightarrow> int \<Rightarrow> int \<Rightarrow> int \<Rightarrow> target_check result" where
  "target_current fromiso a ok p approved_time evaluated_time max_age =
     (case tp_current_target p of
        Absent \<Rightarrow> target_fail TR_unknown_freshness
          (target_transport_summary (tp_request_id p) (Some TR_unknown_freshness) (tp_unknown_retryable p = Present True))
          None None [] ''target freshness is unknown''
      | Malformed \<Rightarrow> target_fail TR_malformed_response ok None None [] ''target freshness current target is malformed''
      | Present current \<Rightarrow>
          if tp_check_method p \<noteq> Present target_check_method
            then target_fail TR_malformed_response ok (Some current) None [] ''target freshness check method is malformed''
          else if rt_merge_base_sha current = None \<or> rt_merge_base_sha (ad_review_target a) = None
            then target_fail TR_missing_merge_base ok (Some current)
              (if parse_optional_time fromiso (tp_checked_at p) \<noteq> None then field_value (tp_checked_at p) else None) []
              ''target freshness requires merge base''
          else target_times fromiso a ok current (tp_checked_at p) approved_time evaluated_time max_age)"

definition target_transport :: "(string \<Rightarrow> int option) \<Rightarrow> approval_decision \<Rightarrow> target_probe \<Rightarrow> int \<Rightarrow> int \<Rightarrow> int
    \<Rightarrow> target_check result" where
  "target_transport fromiso a p approved_time evaluated_time max_age =
     (let ok = target_transport_summary (tp_request_id p) None False;
          malformed = target_transport_summary (tp_request_id p) (Some TR_malformed_response) False in
      if tp_unknown_retryable p \<in> {Absent, Malformed}
      then target_fail TR_malformed_response ok None None [] ''target freshness retryability is malformed''
      else case tp_transport_reason_code p of
        Malformed \<Rightarrow> target_fail TR_malformed_response malformed None None [] ''target freshness transport reason is malformed''
      | Present r \<Rightarrow>
          if r \<notin> set target_transport_reasons
          then target_fail TR_malformed_response malformed None None [] ''target freshness transport reason is unsupported''
          else target_fail r
            (target_transport_summary (tp_request_id p) (Some r) (r \<in> set target_retryable_reasons)) None None []
            (''target freshness transport failed: '' @ target_reason_value r)
      | Absent \<Rightarrow> target_current fromiso a ok p approved_time evaluated_time max_age)"

text \<open>The probe is \<open>None\<close> if the argument is not a \<open>TargetFreshnessProbeResult\<close>.\<close>

definition validate_target_freshness_for_finalization :: "(string \<Rightarrow> int option) \<Rightarrow> approval_decision \<Rightarrow> target_probe option
    \<Rightarrow> string \<Rightarrow> int \<Rightarrow> target_check result" where
  "validate_target_freshness_for_finalization fromiso a probe evaluated_at max_age =
     (case parse_optional_time fromiso (Present evaluated_at) of
        None \<Rightarrow> Inl (ValueError ''timestamp must be UTC RFC3339 with trailing Z'')
      | Some evaluated_time \<Rightarrow>
          (let ok = target_transport_summary Absent None False in
           case parse_optional_time fromiso (Present (ad_timestamp a)) of
             None \<Rightarrow> target_fail TR_malformed_response ok None None [] ''approval timestamp is malformed''
           | Some approved_time \<Rightarrow>
               (case probe of
                  None \<Rightarrow> target_fail TR_malformed_response ok None None [] ''target freshness probe is malformed''
                | Some p \<Rightarrow> target_transport fromiso a p approved_time evaluated_time max_age)))"

section \<open>Finalization\<close>

text \<open>A value of the dict \<open>approved_findings_by_id\<close>: a finding, or something else.\<close>

datatype approved_object = FindingObject classified_finding | OtherObject

definition preflight_item_error :: "posting_plan_item option \<Rightarrow> bool \<Rightarrow> string option" where
  "preflight_item_error item known =
     (case item of
        None \<Rightarrow> Some ''approval references an unknown approved item id''
      | Some i \<Rightarrow>
          if pi_destination i \<noteq> ReviewBodyItem \<or> pi_source_classification i \<noteq> classification_value PostableFinding
             \<or> \<not> pi_public_payload_eligible i then Some ''approval references a non-public approved item''
          else if pi_fingerprint i = None \<or> pi_fingerprint i = Some []
            then Some ''approved posting plan item is missing fingerprint''
          else if \<not> known then Some ''approval references an unknown approved item id''
          else None)"

definition preflight_finding_error :: "posting_plan_item option \<Rightarrow> approved_object option \<Rightarrow> string option" where
  "preflight_finding_error item obj =
     (case obj of
        Some (FindingObject f) \<Rightarrow>
          if cf_classification f \<noteq> PostableFinding then Some ''approval references a non-public approved item''
          else if cf_fingerprint f = [] then Some ''approved finding is missing fingerprint''
          else if (case item of None \<Rightarrow> True | Some i \<Rightarrow> pi_fingerprint i \<noteq> Some (cf_fingerprint f))
            then Some ''approved finding fingerprint does not match posting plan''
          else None
      | _ \<Rightarrow> Some ''approval references a non-public approved item'')"

fun first_some :: "('a \<Rightarrow> 'b option) \<Rightarrow> 'a list \<Rightarrow> 'b option" where
  "first_some f [] = None"
| "first_some f (x # xs) = (case f x of None \<Rightarrow> first_some f xs | Some y \<Rightarrow> Some y)"

definition object_fingerprint :: "approved_object option \<Rightarrow> string" where
  "object_fingerprint obj = (case obj of Some (FindingObject f) \<Rightarrow> cf_fingerprint f | _ \<Rightarrow> [])"

definition approval_preflight :: "approval_decision \<Rightarrow> posting_plan \<Rightarrow> (string \<Rightarrow> approved_object option) \<Rightarrow> string option" where
  "approval_preflight a plan findings =
     (let ids = ad_approved_item_ids a; items = items_by_id plan in
      if \<not> ad_approved a then Some ''approval is not approved''
      else if ids = [] then Some ''approval has no approved item ids''
      else if has_duplicates ids then Some ''approval has duplicate approved item ids''
      else case first_some (\<lambda>i. preflight_item_error (items i) (findings i \<noteq> None)) ids of
        Some e \<Rightarrow> Some e
      | None \<Rightarrow>
          (case first_some (\<lambda>i. preflight_finding_error (items i) (findings i)) ids of
             Some e \<Rightarrow> Some e
           | None \<Rightarrow> if has_duplicates (map (\<lambda>i. object_fingerprint (findings i)) ids)
                     then Some ''approval has duplicate approved fingerprints'' else None))"

fun marker_reason_value :: "marker_reason \<Rightarrow> string" where
  "marker_reason_value MR_safe_to_post = ''safe_to_post''"
| "marker_reason_value MR_matched_existing = ''matched_existing''"
| "marker_reason_value MR_pagination_incomplete = ''pagination_incomplete''"
| "marker_reason_value MR_repeated_cursor = ''repeated_cursor''"
| "marker_reason_value MR_page_cap_exceeded = ''page_cap_exceeded''"
| "marker_reason_value MR_comment_cap_exceeded = ''comment_cap_exceeded''"
| "marker_reason_value MR_malformed_page = ''malformed_page''"
| "marker_reason_value MR_timeout = ''timeout''"
| "marker_reason_value MR_rate_limited = ''rate_limited''"
| "marker_reason_value MR_forbidden = ''forbidden''"
| "marker_reason_value MR_not_found = ''not_found''"
| "marker_reason_value MR_unavailable = ''unavailable''"
| "marker_reason_value MR_transport_unknown = ''transport_unknown''"
| "marker_reason_value MR_trusted_marker_conflict = ''trusted_marker_conflict''"
| "marker_reason_value MR_trusted_marker_malformed = ''trusted_marker_malformed''"

text \<open>A result that does not release the writer input. All of them have no payload hash, the target of the approval, no
  approved actor and no payload.\<close>

definition not_released :: "approval_decision \<Rightarrow> actor_final_check option \<Rightarrow> target_check option \<Rightarrow> final_state
    \<Rightarrow> final_reason \<Rightarrow> string \<Rightarrow> payload_validation option \<Rightarrow> marker_result option \<Rightarrow> nat \<Rightarrow> dry_run_error option
    \<Rightarrow> finalize_result result" where
  "not_released a actor target state code reason validation marker calls error =
     bindE (mk_checked final_status_check
       \<lparr>fs_state = state, fs_payload_hash = None, fs_target_hash = Some (ad_review_target_hash a),
        fs_reason_code = Some code, fs_reason = Some reason\<rparr>) (\<lambda>s.
     Inr \<lparr>fz_actor_check = actor, fz_target_check = target, fz_status = s, fz_approved_actor = None,
          fz_payload_validation = validation, fz_marker = marker, fz_final_payload = None, fz_dry_run_error = error,
          fz_builder_calls = calls, fz_writer_input_released = False\<rparr>)"

definition plain_error :: "string \<Rightarrow> string \<Rightarrow> dry_run_error option" where
  "plain_error code kind = Some \<lparr>de_reason_code = code, de_retryable = False, de_endpoint_kind = kind,
     de_request_id = None, de_mismatched_fields = []\<rparr>"

text \<open>The last stage: what follows from the reconciled markers.\<close>

definition finalize_marker :: "approval_decision \<Rightarrow> actor_final_check \<Rightarrow> target_check \<Rightarrow> final_payload \<Rightarrow> payload_validation
    \<Rightarrow> bound_marker \<Rightarrow> finalize_result result" where
  "finalize_marker a actor target payload validation bound =
     (let m = bm_result bound;
          fail = (\<lambda>reason err. not_released a (Some actor) (Some target) FinalFailedClosed FR_marker_reconciliation_failed
                    reason (Some validation) (Some m) 1 err) in
      if bm_target_hash bound \<noteq> fp_marker_target_hash payload \<or> bm_payload_hash bound \<noteq> fp_marker_payload_hash payload
         \<or> bm_findings_hash bound \<noteq> fp_marker_findings_hash payload
      then fail ''marker reconciliation binding mismatch''
             (plain_error ''marker_reconciliation_binding_mismatch'' ''issue_comments'')
      else case mr_status m of
        SafeToPost \<Rightarrow>
          bindE (mk_checked final_status_check
            \<lparr>fs_state = Finalized, fs_payload_hash = Some (fp_final_payload_hash payload),
             fs_target_hash = Some (target_hash (fp_review_target payload)), fs_reason_code = None, fs_reason = None\<rparr>) (\<lambda>s.
          Inr \<lparr>fz_actor_check = Some actor, fz_target_check = Some target, fz_status = s,
               fz_approved_actor = Some (ad_github_actor a), fz_payload_validation = Some validation, fz_marker = Some m,
               fz_final_payload = Some payload, fz_dry_run_error = None, fz_builder_calls = 1,
               fz_writer_input_released = True\<rparr>)
      | ReconciledExisting \<Rightarrow>
          not_released a (Some actor) (Some target) NotReady FR_marker_reconciled_existing
            ''marker reconciliation matched an existing comment'' (Some validation) (Some m) 1 None
      | FailedClosed \<Rightarrow>
          fail ''marker reconciliation failed closed''
            (Some \<lparr>de_reason_code = marker_reason_value (mr_reason_code m), de_retryable = ms_retryable (mr_summary m),
               de_endpoint_kind = ms_endpoint_kind (mr_summary m), de_request_id = ms_request_id (mr_summary m),
               de_mismatched_fields = []\<rparr>))"

definition finalize_payload :: "approval_decision \<Rightarrow> actor_final_check \<Rightarrow> target_check \<Rightarrow> final_payload result option
    \<Rightarrow> (final_payload \<Rightarrow> bound_marker result) option \<Rightarrow> finalize_result result" where
  "finalize_payload a actor target builder reconciler =
     (let deferred = (\<lambda>calls. not_released a (Some actor) (Some target) NotReady FR_marker_reconciliation_deferred
                        ''marker reconciliation is deferred'' None None calls None);
          invalid = (\<lambda>reason validation. not_released a (Some actor) (Some target) FinalFailedClosed
                        FR_payload_validation_failed reason validation None 1
                        (plain_error ''payload_validation_failed'' ''final_payload'')) in
      case builder of
        None \<Rightarrow> deferred 0
      | Some built \<Rightarrow>
          bindE built (\<lambda>payload.
          if fp_final_payload_hash payload \<noteq> ad_final_payload_hash a
          then invalid ''final payload hash did not match approval'' None
          else case reconciler of
            None \<Rightarrow> deferred 1
          | Some reconcile \<Rightarrow>
              bindE (validate_final_issue_comment_payload payload) (\<lambda>v.
              if pv_status v \<noteq> GatePass then invalid ''final payload validation failed'' (Some v)
              else bindE (reconcile payload) (\<lambda>bound. finalize_marker a actor target payload v bound))))"

definition finalize_github_payload :: "(string \<Rightarrow> int option) \<Rightarrow> approval_decision \<Rightarrow> posting_plan
    \<Rightarrow> (string \<Rightarrow> approved_object option) \<Rightarrow> perm_probe \<Rightarrow> target_probe option \<Rightarrow> string
    \<Rightarrow> final_payload result option \<Rightarrow> (final_payload \<Rightarrow> bound_marker result) option \<Rightarrow> finalize_result result" where
  "finalize_github_payload fromiso a plan findings actor_probe target_probe evaluated_at builder reconciler =
     (case approval_preflight a plan findings of
        Some reason \<Rightarrow> not_released a None None FinalFailedClosed FR_approval_preflight_failed reason None None 0
          (plain_error ''approval_preflight_failed'' ''approval'')
      | None \<Rightarrow>
          bindE (validate_actor_permission_snapshot_for_finalization fromiso a actor_probe (ad_review_target a) evaluated_at
                   DEFAULT_MAX_PROOF_AGE_SECONDS) (\<lambda>actor.
          if afc_status actor \<noteq> GatePass
          then not_released a (Some actor) None FinalFailedClosed FR_actor_permission_failed
            ''actor permission finalization preflight failed'' None None 0
            (plain_error ''actor_permission_failed'' ''issue_comment_permission'')
          else bindE (validate_target_freshness_for_finalization fromiso a target_probe evaluated_at
                        DEFAULT_MAX_PROOF_AGE_SECONDS) (\<lambda>target.
          if tc_status target \<noteq> GatePass
          then not_released a (Some actor) (Some target) FinalFailedClosed FR_target_freshness_failed
            ''target freshness preflight failed'' None None 0
            (case (tc_reason_code target, tc_transport_summary target) of
               (Some r, Some s) \<Rightarrow>
                 Some \<lparr>de_reason_code = target_reason_value r, de_retryable = ts_retryable s,
                   de_endpoint_kind = ts_endpoint_kind s, de_request_id = ts_request_id s,
                   de_mismatched_fields = tc_mismatched_fields target\<rparr>
             | _ \<Rightarrow> None)
          else finalize_payload a actor target builder reconciler)))"

end
