(* ===== verification/Writer.thy ===== *)
theory Writer
  imports Finalization
begin

text \<open>
  The model of \<open>src/src/reviewgraph/post_interaction.py\<close>, of \<open>writer_input.py\<close>, which turns a finalized run into the
  input of a writer, and of the writer of \<open>writer_fake.py\<close>, which keeps its comments in memory.
\<close>

section \<open>The interaction gate\<close>

record interaction_context =
  ic_run_mode :: run_mode
  ic_interactive :: bool
  ic_reason :: string

definition interaction_context_check :: "interaction_context \<Rightarrow> string option" where
  "interaction_context_check c = first_failure [(ic_reason c \<noteq> [], ''post interaction reason is required'')]"

definition evaluate_post_mode_interaction_gate :: "interaction_context \<Rightarrow> interaction_gate result" where
  "evaluate_post_mode_interaction_gate c =
     (if ic_run_mode c \<noteq> PostMode then Inl (ValueError ''post interaction gate only runs for post mode'')
      else if ic_interactive c
      then mk_checked interaction_gate_check \<lparr>ig_status = GatePass, ig_interactive = True, ig_reason = None\<rparr>
      else mk_checked interaction_gate_check
        \<lparr>ig_status = GateFail, ig_interactive = False,
         ig_reason = Some (''non_interactive_posting_requires_future_policy:'' @ ic_reason c)\<rparr>)"

section \<open>The input of a writer\<close>

text \<open>The constructor of \<open>FinalizedIssueCommentWriterInput\<close> needs a token that only the builder below has.\<close>

record writer_input =
  wi_final_payload :: final_payload
  wi_payload_hash :: string
  wi_target_hash :: string
  wi_marker_status :: marker_status
  wi_approved_actor :: string
  wi_run_id :: string

definition writer_input_check :: "writer_input \<Rightarrow> string option" where
  "writer_input_check w = first_failure
     [(wi_payload_hash w = fp_final_payload_hash (wi_final_payload w), ''finalized writer input payload hash mismatch''),
      (wi_target_hash w = target_hash (fp_review_target (wi_final_payload w)), ''finalized writer input target hash mismatch''),
      (wi_marker_status w = SafeToPost, ''finalized writer input requires safe marker reconciliation''),
      (wi_approved_actor w \<noteq> [], ''finalized writer input approved_actor is required''),
      (wi_run_id w \<noteq> [], ''finalized writer input run_id is required'')]"

fun holds_some :: "('a \<Rightarrow> bool) \<Rightarrow> 'a option \<Rightarrow> bool" where
  "holds_some P None = False"
| "holds_some P (Some x) = P x"

lemma holds_some_iff: "holds_some P v \<longleftrightarrow> (\<exists>x. v = Some x \<and> P x)"
  by (cases v) simp_all

definition writer_input_guards :: "finalize_result \<Rightarrow> approval_decision \<Rightarrow> string \<Rightarrow> final_payload \<Rightarrow> (bool \<times> string) list" where
  "writer_input_guards f a run_id payload =
     [(holds_some (\<lambda>c. afc_status c = GatePass) (fz_actor_check f),
       ''finalized writer input requires passed actor permission finalization check''),
      (holds_some (\<lambda>c. tc_status c = GatePass) (fz_target_check f),
       ''finalized writer input requires passed target freshness check''),
      (holds_some (\<lambda>v. pv_status v = GatePass) (fz_payload_validation f),
       ''finalized writer input requires passed payload validation''),
      (fz_marker f \<noteq> None, ''finalized writer input requires marker reconciliation''),
      (holds_some (\<lambda>m. mr_status m = SafeToPost) (fz_marker f), ''finalized writer input requires safe marker reconciliation''),
      (fs_payload_hash (fz_status f) = Some (fp_final_payload_hash payload),
       ''finalized writer input finalization hash mismatch''),
      (fs_target_hash (fz_status f) = Some (target_hash (fp_review_target payload)),
       ''finalized writer input target hash mismatch''),
      (fz_approved_actor f = Some (ad_github_actor a), ''finalized writer input approved actor mismatch''),
      (ad_final_payload_hash a = fp_final_payload_hash payload, ''finalized writer input approval payload hash mismatch''),
      (ad_review_target_hash a = target_hash (fp_review_target payload),
       ''finalized writer input approval target hash mismatch''),
      (run_id = fp_marker_run_id payload, ''finalized writer input run_id must match final payload marker run_id'')]"

definition build_finalized_issue_comment_writer_input ::
    "finalize_result \<Rightarrow> approval_decision \<Rightarrow> string \<Rightarrow> writer_input result" where
  "build_finalized_issue_comment_writer_input f a run_id =
     (if \<not> ad_approved a then Inl (ValueError ''finalized writer input requires approved decision'')
      else if fs_state (fz_status f) \<noteq> Finalized then Inl (ValueError ''finalized writer input requires finalized state'')
      else if \<not> fz_writer_input_released f
        then Inl (ValueError ''finalized writer input requires released writer input'')
      else case fz_final_payload f of
        None \<Rightarrow> Inl (ValueError ''finalized writer input requires final payload'')
      | Some payload \<Rightarrow>
          (case first_failure (writer_input_guards f a run_id payload) of
             Some e \<Rightarrow> Inl (ValueError e)
           | None \<Rightarrow> mk_checked writer_input_check
               \<lparr>wi_final_payload = payload, wi_payload_hash = fp_final_payload_hash payload,
                wi_target_hash = target_hash (fp_review_target payload),
                wi_marker_status = mr_status (the (fz_marker f)), wi_approved_actor = ad_github_actor a,
                wi_run_id = run_id\<rparr>))"

section \<open>The fake writer\<close>

record fake_comment =
  fc_comment_id :: string
  fc_body :: string
  fc_author_login :: string
  fc_author_type :: string

record fake_writer =
  fw_author_login :: string
  fw_request_id :: string
  fw_call_count :: nat
  fw_comments :: "fake_comment list"

definition new_fake_writer :: "string \<Rightarrow> string \<Rightarrow> fake_writer result" where
  "new_fake_writer author_login request_id =
     (if author_login = [] then Inl (ValueError ''fake writer author_login is required'')
      else Inr \<lparr>fw_author_login = author_login, fw_request_id = request_id, fw_call_count = 0, fw_comments = []\<rparr>)"

text \<open>The values of \<open>PayloadValidationReasonCode\<close>.\<close>

fun validation_reason_value :: "payload_validation_reason \<Rightarrow> string" where
  "validation_reason_value PV_wrong_artifact_kind = ''wrong_artifact_kind''"
| "validation_reason_value PV_redaction_not_passed = ''redaction_not_passed''"
| "validation_reason_value PV_candidate_contains_marker = ''candidate_contains_marker''"
| "validation_reason_value PV_candidate_binding_mismatch = ''candidate_binding_mismatch''"
| "validation_reason_value PV_not_final_payload = ''not_final_payload''"
| "validation_reason_value PV_body_hash_mismatch = ''body_hash_mismatch''"
| "validation_reason_value PV_findings_hash_mismatch = ''findings_hash_mismatch''"
| "validation_reason_value PV_duplicate_fingerprints = ''duplicate_fingerprints''"
| "validation_reason_value PV_target_hash_mismatch = ''target_hash_mismatch''"
| "validation_reason_value PV_marker_not_final_line = ''marker_not_final_line''"
| "validation_reason_value PV_marker_field_mismatch = ''marker_field_mismatch''"
| "validation_reason_value PV_final_payload_hash_mismatch = ''final_payload_hash_mismatch''"
| "validation_reason_value PV_wrong_method = ''wrong_method''"
| "validation_reason_value PV_wrong_endpoint = ''wrong_endpoint''"
| "validation_reason_value PV_request_target_mismatch = ''request_target_mismatch''"
| "validation_reason_value PV_wrong_request_body = ''wrong_request_body''"
| "validation_reason_value PV_formal_review_payload_rejected = ''formal_review_payload_rejected''"

definition validation_error :: "payload_validation \<Rightarrow> string" where
  "validation_error v =
     (case pv_reason_code v of Some r \<Rightarrow> validation_reason_value r | None \<Rightarrow> ''payload_validation_failed'')"

definition writer_result_for :: "writer_input \<Rightarrow> writer_status \<Rightarrow> string option \<Rightarrow> string option \<Rightarrow> writer_result result" where
  "writer_result_for w status comment_id err = mk_checked writer_result_check
     \<lparr>wr_status = status, wr_artifact_kind = IssueComment, wr_target_hash = wi_target_hash w,
      wr_payload_hash = wi_payload_hash w, wr_comment_id = comment_id, wr_error = err\<rparr>"

definition fake_post_issue_comment :: "fake_writer \<Rightarrow> writer_input \<Rightarrow> writer_result result \<times> fake_writer" where
  "fake_post_issue_comment s w =
     (if fw_author_login s \<noteq> wi_approved_actor w
      then (writer_result_for w WriterFailed None (Some ''approved_actor_mismatch''), s)
      else case validate_final_issue_comment_payload (wi_final_payload w) of
        Inl e \<Rightarrow> (Inl e, s)
      | Inr v \<Rightarrow>
          if pv_status v \<noteq> GatePass then (writer_result_for w WriterFailed None (Some (validation_error v)), s)
          else
            (let cid = ''fake-comment-'' @ nat_str (length (fw_comments s) + 1);
                 s' = s\<lparr>fw_call_count := fw_call_count s + 1,
                        fw_comments := fw_comments s @ [\<lparr>fc_comment_id = cid, fc_body = fp_body (wi_final_payload w),
                          fc_author_login = fw_author_login s, fc_author_type = ''Bot''\<rparr>]\<rparr>
             in (writer_result_for w WriterPosted (Some cid) None, s')))"

definition fake_issue_comments_page :: "fake_writer \<Rightarrow> string option \<Rightarrow> marker_comment_page result" where
  "fake_issue_comments_page s cursor =
     (if cursor \<noteq> None
      then Inr \<lparr>mp_comments = [], mp_next_cursor = None, mp_completed = True, mp_request_id = Some (fw_request_id s)\<rparr>
      else bindE (mapE (\<lambda>c. mk_checked marker_comment_check
             \<lparr>mc_comment_id = fc_comment_id c, mc_body = fc_body c, mc_author_login = fc_author_login c,
              mc_author_type = fc_author_type c, mc_source_provider = ''github'', mc_author_association = None\<rparr>)
             (fw_comments s)) (\<lambda>cs.
        Inr \<lparr>mp_comments = cs, mp_next_cursor = None, mp_completed = True, mp_request_id = Some (fw_request_id s)\<rparr>))"
end
