(* ===== verification/GitHub_Writer.thy ===== *)
theory GitHub_Writer
  imports Writer
begin

text \<open>
  The model of \<open>src/src/reviewgraph/writer_github.py\<close>. One call of \<open>post_issue_comment\<close> validates the payload, claims the
  key of the input under the lock, and then either sends the POST request or, if the key was claimed before, only looks
  for the comment of the earlier attempt.
\<close>

section \<open>Data\<close>

datatype writer_outcome =
    WO_posted | WO_reconciled_existing | WO_validation_failed | WO_transport_failed | WO_retryable_unknown
  | WO_ambiguous_unresolved | WO_forbidden_second_post | WO_trusted_marker_conflict | WO_response_actor_mismatch
  | WO_malformed_response

datatype writer_reason =
    WR_validation_failed | WR_timeout | WR_rate_limited | WR_forbidden | WR_not_found | WR_unavailable
  | WR_malformed_response | WR_transport_unknown | WR_ambiguous_accepted | WR_ambiguous_unresolved
  | WR_forbidden_second_post | WR_trusted_marker_conflict | WR_response_actor_mismatch

fun writer_reason_value :: "writer_reason \<Rightarrow> string" where
  "writer_reason_value WR_validation_failed = ''validation_failed''"
| "writer_reason_value WR_timeout = ''timeout''"
| "writer_reason_value WR_rate_limited = ''rate_limited''"
| "writer_reason_value WR_forbidden = ''forbidden''"
| "writer_reason_value WR_not_found = ''not_found''"
| "writer_reason_value WR_unavailable = ''unavailable''"
| "writer_reason_value WR_malformed_response = ''malformed_response''"
| "writer_reason_value WR_transport_unknown = ''transport_unknown''"
| "writer_reason_value WR_ambiguous_accepted = ''ambiguous_accepted''"
| "writer_reason_value WR_ambiguous_unresolved = ''ambiguous_unresolved''"
| "writer_reason_value WR_forbidden_second_post = ''forbidden_second_post''"
| "writer_reason_value WR_trusted_marker_conflict = ''trusted_marker_conflict''"
| "writer_reason_value WR_response_actor_mismatch = ''response_actor_mismatch''"

definition retryable_writer_reasons :: "writer_reason list" where
  "retryable_writer_reasons = [WR_timeout, WR_rate_limited, WR_unavailable, WR_transport_unknown, WR_ambiguous_accepted,
     WR_ambiguous_unresolved]"

text \<open>The response of the transport; the code tests the type of the comment id and of the request id.\<close>

record post_response =
  pr_comment_id :: "string field"
  pr_author_login :: "string field"
  pr_request_id :: "string field"

text \<open>What a call of the transport does: a response, a \<open>GitHubIssueCommentPostTransportFailure\<close> with its arguments, another
  exception, or an object that is no response.\<close>

datatype post_call =
    PostResponse post_response
  | PostFailure writer_reason "string field" bool
  | PostException
  | NotAResponse

text \<open>The attribute \<open>ambiguous_accepted\<close> that the constructor of the failure computes.\<close>

definition ambiguous_accepted :: "writer_reason \<Rightarrow> bool \<Rightarrow> bool" where
  "ambiguous_accepted reason ambiguous \<longleftrightarrow> ambiguous \<or> reason = WR_ambiguous_accepted"

definition optional_safe_text :: "string option \<Rightarrow> string \<Rightarrow> (bool \<times> string) list" where
  "optional_safe_text v name =
     [(v \<noteq> Some [], name @ '' must be non-empty''), (opt_ok (\<lambda>s. \<not> has_secret_fragment s) v, name @ '' must be redacted'')]"

record writer_summary =
  wsm_endpoint_kind :: string
  wsm_method :: string
  wsm_endpoint :: string
  wsm_post_attempt_count :: int
  wsm_recovery_scan_count :: int
  wsm_retryable :: bool
  wsm_reason_code :: "string option"
  wsm_request_id :: "string option"

definition writer_summary_check :: "writer_summary \<Rightarrow> string option" where
  "writer_summary_check s = first_failure
     ([(wsm_endpoint_kind s = ''issue_comment'', ''writer transport summary endpoint_kind must be issue_comment''),
       (wsm_method s = ''POST'', ''writer transport summary method must be POST''),
       (starts_with ''/repos/'' (wsm_endpoint s), ''writer transport summary endpoint must be redacted REST path''),
       (0 \<le> wsm_post_attempt_count s, ''writer transport summary post_attempt_count must be non-negative''),
       (0 \<le> wsm_recovery_scan_count s, ''writer transport summary recovery_scan_count must be non-negative'')]
      @ optional_safe_text (wsm_reason_code s) ''writer transport summary reason_code''
      @ optional_safe_text (wsm_request_id s) ''writer transport summary request_id'')"

record attempt_result =
  at_writer_result :: writer_result
  at_outcome :: writer_outcome
  at_summary :: writer_summary
  at_marker :: "marker_result option"

section \<open>The writer\<close>

type_synonym retry_key = "string \<times> string \<times> string \<times> string"

text \<open>The constructor arguments: the transports, one outcome per call, the trusted bots, the timeout, and the limits of a
  recovery scan.\<close>

record writer_env =
  we_post :: "nat \<Rightarrow> post_call"
  we_recovery :: "(nat \<Rightarrow> marker_transport) option"
  we_trusted_bots :: "string list"
  we_timeout_seconds :: int
  we_limits :: "marker_scan_limits option"

definition writer_env_check :: "writer_env \<Rightarrow> string option" where
  "writer_env_check e = first_failure
     [(list_all non_empty (we_trusted_bots e), ''trusted bot authors must be non-empty strings''),
      (0 < we_timeout_seconds e, ''github issue-comment writer timeout_seconds must be positive'')]"

text \<open>The attempted keys, and what happened on the transports: the inputs whose POST was sent, in order, and the number of
  recovery scans.\<close>

record writer_state =
  ws_attempted :: "retry_key set"
  ws_posted :: "writer_input list"
  ws_scans :: nat

definition initial_writer :: writer_state where
  "initial_writer = \<lparr>ws_attempted = {}, ws_posted = [], ws_scans = 0\<rparr>"

definition retry_sequence_key :: "writer_input \<Rightarrow> retry_key" where
  "retry_sequence_key w = (wi_run_id w, fp_marker_target_hash (wi_final_payload w),
     fp_marker_payload_hash (wi_final_payload w), fp_marker_findings_hash (wi_final_payload w))"

definition writer_endpoint :: "writer_input \<Rightarrow> string" where
  "writer_endpoint w = (let t = fp_review_target (wi_final_payload w) in
     ''/repos/'' @ rt_owner_repo t @ ''/issues/'' @ int_str (rt_pr_number t) @ ''/comments'')"

text \<open>The arguments of the POST call.\<close>

record post_request =
  rq_owner_repo :: string
  rq_pr_number :: int
  rq_body :: string
  rq_timeout_seconds :: int

definition post_request_of :: "writer_env \<Rightarrow> writer_input \<Rightarrow> post_request" where
  "post_request_of e w = (let p = wi_final_payload w in
     \<lparr>rq_owner_repo = rt_owner_repo (fp_review_target p), rq_pr_number = rt_pr_number (fp_review_target p),
      rq_body = fp_body p, rq_timeout_seconds = we_timeout_seconds e\<rparr>)"

definition safe_writer_request_id :: "string field \<Rightarrow> string option" where
  "safe_writer_request_id v =
     (case v of
        Present s \<Rightarrow>
          if s = [] then None
          else if rr_redacted (redact_text s) then None
          else if has_secret_fragment s then None
          else if 128 < length s then None
          else if \<not> list_all marker_request_id_char s then None
          else Some s
      | _ \<Rightarrow> None)"

definition attempt_summary :: "writer_input \<Rightarrow> int \<Rightarrow> int \<Rightarrow> bool \<Rightarrow> string option \<Rightarrow> string field \<Rightarrow> writer_summary result" where
  "attempt_summary w posts scans retryable reason request_id = mk_checked writer_summary_check
     \<lparr>wsm_endpoint_kind = ''issue_comment'', wsm_method = ''POST'', wsm_endpoint = writer_endpoint w,
      wsm_post_attempt_count = posts, wsm_recovery_scan_count = scans, wsm_retryable = retryable,
      wsm_reason_code = reason, wsm_request_id = safe_writer_request_id request_id\<rparr>"

text \<open>\<open>_failed_result\<close>. Its argument \<open>endpoint\<close> is the endpoint of the input wherever it is given.\<close>

definition failed_attempt :: "writer_input \<Rightarrow> writer_outcome \<Rightarrow> string \<Rightarrow> bool \<Rightarrow> string field \<Rightarrow> int \<Rightarrow> int
    \<Rightarrow> marker_result option \<Rightarrow> attempt_result result" where
  "failed_attempt w outcome reason retryable request_id posts scans marker =
     bindE (writer_result_for w WriterFailed None (Some reason)) (\<lambda>r.
     bindE (attempt_summary w posts scans retryable (Some reason) request_id) (\<lambda>s.
     Inr \<lparr>at_writer_result = r, at_outcome = outcome, at_summary = s, at_marker = marker\<rparr>))"

section \<open>Recovery\<close>

definition DEFAULT_MARKER_SCAN_LIMITS :: marker_scan_limits where
  "DEFAULT_MARKER_SCAN_LIMITS = \<lparr>max_pages = 20, max_comments = 1000, timeout_seconds = 10\<rparr>"

definition recovery_params :: "writer_env \<Rightarrow> writer_input \<Rightarrow> scan_params" where
  "recovery_params e w =
     \<lparr>sp_approved_actor = wi_approved_actor w, sp_trusted_bots = we_trusted_bots e,
      sp_target_hash = fp_marker_target_hash (wi_final_payload w),
      sp_payload_hash = fp_marker_payload_hash (wi_final_payload w),
      sp_findings_hash = fp_marker_findings_hash (wi_final_payload w),
      sp_limits = (case we_limits e of None \<Rightarrow> DEFAULT_MARKER_SCAN_LIMITS | Some l \<Rightarrow> l)\<rparr>"

definition recovery_scan :: "writer_env \<Rightarrow> writer_input \<Rightarrow> marker_transport \<Rightarrow> marker_result result" where
  "recovery_scan e w tr = reconcile_paginated_trusted_markers tr (rt_owner_repo (fp_review_target (wi_final_payload w)))
     (rt_pr_number (fp_review_target (wi_final_payload w))) (recovery_params e w)"

definition optional_field :: "'a option \<Rightarrow> 'a field" where
  "optional_field v = (case v of None \<Rightarrow> Absent | Some x \<Rightarrow> Present x)"

text \<open>What follows from the scan.\<close>

definition recovered_attempt :: "writer_input \<Rightarrow> int \<Rightarrow> writer_outcome \<Rightarrow> string \<Rightarrow> bool \<Rightarrow> marker_result
    \<Rightarrow> attempt_result result" where
  "recovered_attempt w posts safe_detail safe_reason safe_retryable m =
     (let rid = optional_field (ms_request_id (mr_summary m)) in
      case mr_status m of
        ReconciledExisting \<Rightarrow>
          bindE (writer_result_for w WriterReconciled (mr_existing_comment_id m) None) (\<lambda>r.
          bindE (attempt_summary w posts 1 False (Some (marker_reason_value (mr_reason_code m))) rid) (\<lambda>s.
          Inr \<lparr>at_writer_result = r, at_outcome = WO_reconciled_existing, at_summary = s, at_marker = Some m\<rparr>))
      | SafeToPost \<Rightarrow> failed_attempt w safe_detail safe_reason safe_retryable rid posts 1 (Some m)
      | FailedClosed \<Rightarrow>
          failed_attempt w
            (if mr_reason_code m = MR_trusted_marker_conflict then WO_trusted_marker_conflict
             else if ms_retryable (mr_summary m) then WO_retryable_unknown else WO_transport_failed)
            (marker_reason_value (mr_reason_code m)) (ms_retryable (mr_summary m)) rid posts 1 (Some m))"

definition recover_after_potential_acceptance :: "writer_env \<Rightarrow> writer_input \<Rightarrow> int \<Rightarrow> writer_outcome \<Rightarrow> string \<Rightarrow> bool
    \<Rightarrow> string field \<Rightarrow> writer_state \<Rightarrow> attempt_result result \<times> writer_state" where
  "recover_after_potential_acceptance e w posts safe_detail safe_reason safe_retryable request_id st =
     (case we_recovery e of
        None \<Rightarrow> (failed_attempt w safe_detail safe_reason safe_retryable request_id posts 0 None, st)
      | Some transports \<Rightarrow>
          (bindE (recovery_scan e w (transports (ws_scans st)))
             (recovered_attempt w posts safe_detail safe_reason safe_retryable),
           st\<lparr>ws_scans := ws_scans st + 1\<rparr>))"

section \<open>Posting\<close>

text \<open>The critical section: claim the key, unless it was claimed before.\<close>

definition claim_key :: "writer_input \<Rightarrow> writer_state \<Rightarrow> bool \<times> writer_state" where
  "claim_key w st =
     (let k = retry_sequence_key w in
      if k \<in> ws_attempted st then (False, st) else (True, st\<lparr>ws_attempted := insert k (ws_attempted st)\<rparr>))"

definition handle_response :: "writer_input \<Rightarrow> post_response \<Rightarrow> attempt_result result" where
  "handle_response w r =
     (case field_value (pr_comment_id r) of
        None \<Rightarrow> failed_attempt w WO_malformed_response (writer_reason_value WR_malformed_response) False (pr_request_id r) 1 0 None
      | Some cid \<Rightarrow>
          if cid = []
          then failed_attempt w WO_malformed_response (writer_reason_value WR_malformed_response) False (pr_request_id r) 1 0 None
          else if pr_author_login r \<noteq> Present (wi_approved_actor w)
          then failed_attempt w WO_response_actor_mismatch (writer_reason_value WR_response_actor_mismatch) False
                 (pr_request_id r) 1 0 None
          else bindE (writer_result_for w WriterPosted (Some cid) None) (\<lambda>res.
               bindE (attempt_summary w 1 0 False None (pr_request_id r)) (\<lambda>s.
               Inr \<lparr>at_writer_result = res, at_outcome = WO_posted, at_summary = s, at_marker = None\<rparr>)))"

text \<open>Send the request and handle what comes back.\<close>

definition send_post :: "writer_env \<Rightarrow> writer_input \<Rightarrow> writer_state \<Rightarrow> attempt_result result \<times> writer_state" where
  "send_post e w st =
     (let st1 = st\<lparr>ws_posted := ws_posted st @ [w]\<rparr> in
      case we_post e (length (ws_posted st)) of
        PostFailure reason rid ambiguous \<Rightarrow>
          if ambiguous_accepted reason ambiguous
          then recover_after_potential_acceptance e w 1 WO_ambiguous_unresolved
                 (writer_reason_value WR_ambiguous_unresolved) True rid st1
          else (failed_attempt w WO_transport_failed (writer_reason_value reason)
                  (reason \<in> set retryable_writer_reasons) rid 1 0 None, st1)
      | PostException \<Rightarrow>
          (failed_attempt w WO_transport_failed (writer_reason_value WR_transport_unknown) True Absent 1 0 None, st1)
      | NotAResponse \<Rightarrow>
          (failed_attempt w WO_malformed_response (writer_reason_value WR_malformed_response) False Absent 1 0 None, st1)
      | PostResponse r \<Rightarrow> (handle_response w r, st1))"

definition post_issue_comment :: "writer_env \<Rightarrow> writer_input \<Rightarrow> writer_state \<Rightarrow> attempt_result result \<times> writer_state" where
  "post_issue_comment e w st =
     (case validate_final_issue_comment_payload (wi_final_payload w) of
        Inl err \<Rightarrow> (Inl err, st)
      | Inr v \<Rightarrow>
          if pv_status v \<noteq> GatePass
          then (failed_attempt w WO_validation_failed (validation_error v) False Absent 0 0 None, st)
          else
            (let (claimed, st1) = claim_key w st in
             if claimed then send_post e w st1
             else recover_after_potential_acceptance e w 0 WO_forbidden_second_post
                    (writer_reason_value WR_forbidden_second_post) False Absent st1))"

end
