(* ===== verification/Approval_Binding.thy ===== *)
theory Approval_Binding
  imports Approval Permission_Gate
begin

text \<open>
  What an approval promises: a passing proof is for exactly the selected public items of the plan and for the hash of the
  payload that they give, and a decision exists only for a passing proof, a passing fresh permission gate and the same
  target.
\<close>

section \<open>Failures\<close>

lemma proof_fail_ok: "reason \<noteq> [] \<Longrightarrow> \<exists>p. proof_fail code reason = Inr p \<and> ap_status p = GateFail"
  by (simp add: proof_fail_def mk_checked_def approval_proof_check_def proof_fields_def require_defs require_string_tuple_def)

lemma proof_fail_status: "proof_fail code reason = Inr p \<Longrightarrow> ap_status p = GateFail"
  by (auto simp: proof_fail_def mk_checked_Inr_iff)

section \<open>The selection\<close>

definition item_bound :: "string list \<Rightarrow> (string \<Rightarrow> classified_finding option) \<Rightarrow> posting_plan_item \<Rightarrow> bool" where
  "item_bound public_ids d i \<longleftrightarrow> pi_id i \<in> set public_ids \<and> pi_destination i = ReviewBodyItem
     \<and> pi_source_classification i = classification_value PostableFinding
     \<and> (\<exists>f. d (pi_id i) = Some f \<and> pi_fingerprint i = Some (cf_fingerprint f))"

lemma select_item_bound:
  "pi_id i \<in> set ids \<Longrightarrow> item_bound pub d i \<Longrightarrow> select_items ids pub d (i # items) =
     (case select_items ids pub d items of Inl e \<Rightarrow> Inl e | Inr rest \<Rightarrow> Inr (i # rest))"
  by (auto simp: item_bound_def)

lemma select_item_unbound:
  "pi_id i \<in> set ids \<Longrightarrow> \<not> item_bound pub d i \<Longrightarrow> select_items ids pub d (i # items) \<noteq> Inr sel"
  by (cases "d (pi_id i)") (simp_all add: item_bound_def)

lemma select_items_Inr_iff:
  "select_items ids pub d items = Inr sel \<longleftrightarrow>
     sel = filter (\<lambda>i. pi_id i \<in> set ids) items \<and> (\<forall>i \<in> set sel. item_bound pub d i)"
proof (induction items arbitrary: sel)
  case Nil
  show ?case by auto
next
  case (Cons i items)
  consider "pi_id i \<notin> set ids" | "pi_id i \<in> set ids" "item_bound pub d i" | "pi_id i \<in> set ids" "\<not> item_bound pub d i" by blast
  then show ?case
  proof cases
    case 1
    with Cons.IH show ?thesis by simp
  next
    case 2
    let ?rest = "filter (\<lambda>i. pi_id i \<in> set ids) items"
    show ?thesis
    proof (cases "\<forall>j \<in> set ?rest. item_bound pub d j")
      case True
      then have "select_items ids pub d items = Inr ?rest" using Cons.IH by blast
      with 2 True show ?thesis by (auto simp: select_item_bound simp del: select_items.simps)
    next
      case False
      then obtain e where "select_items ids pub d items = Inl e"
        using Cons.IH[of ?rest] by (cases "select_items ids pub d items") (auto simp: Cons.IH)
      with 2 False show ?thesis by (auto simp: select_item_bound simp del: select_items.simps)
    qed
  next
    case 3
    then show ?thesis using select_item_unbound[OF 3] by (auto simp del: select_items.simps)
  qed
qed

lemma select_items_reason: "select_items ids pub d items = Inl e \<Longrightarrow> snd e \<noteq> []"
proof (induction items)
  case (Cons i items)
  show ?case
  proof (cases "pi_id i \<in> set ids \<and> item_bound pub d i")
    case True
    with Cons show ?thesis
      by (cases "select_items ids pub d items") (simp_all add: select_item_bound del: select_items.simps)
  next
    case False
    with Cons show ?thesis
      by (cases "d (pi_id i)") (auto simp: item_bound_def split: if_split_asm)
  qed
qed simp

lemma selection_guard_reason: "selection_guard ids plan run_id v iv = Some (code, reason) \<Longrightarrow> reason \<noteq> []"
  by (auto simp: selection_guard_def split: if_split_asm option.split_asm)

lemma strict_zero_hash: "strict_sha256 zero_hash"
  by code_simp

lemma is_valid_run_id_iff: "is_valid_run_id r \<longleftrightarrow> valid_run_id r"
proof -
  let ?m = "\<lparr>mk_run_id = r, mk_target = zero_hash, mk_payload = zero_hash, mk_findings = zero_hash\<rparr>"
  have line: "''<!-- reviewgraph:v1 '' @ ''run_id='' @ r @ '' target='' @ zero_hash @ '' payload='' @ zero_hash
      @ '' findings='' @ zero_hash @ '' -->'' = marker_line_text ?m" by (simp add: marker_line_text_def)
  have "is_valid_run_id r \<longleftrightarrow> is_exact_reviewgraph_v1_marker_line (marker_line_text ?m)"
    unfolding is_valid_run_id_def line ..
  also have "\<dots> \<longleftrightarrow> wf_marker ?m"
    using exact_marker_wf[of ?m] strict_zero_hash by (auto simp: is_exact_marker_iff)
  finally show ?thesis by (simp add: wf_marker_def strict_zero_hash)
qed

lemma find_unknown_None: "find (\<lambda>i. i \<notin> A) ids = None \<longleftrightarrow> set ids \<subseteq> A"
  by (auto simp: find_None_iff)

lemma selection_guard_None:
  "selection_guard ids plan run_id v iv = None \<longleftrightarrow> valid_run_id run_id \<and> \<not> (iv \<and> v = Some VRequestChanges)
     \<and> \<not> plan_has_summary plan \<and> ids \<noteq> [] \<and> distinct ids \<and> set ids \<subseteq> pi_id ` set (pp_items plan)"
  using find_unknown_None[of "set (map pi_id (pp_items plan))" ids]
  by (cases "find (\<lambda>i. i \<notin> set (map pi_id (pp_items plan))) ids")
    (simp_all add: selection_guard_def is_valid_run_id_iff has_duplicates_iff)

section \<open>The approved build\<close>

lemma approved_build_ok:
  assumes "valid_run_id run_id" and sel: "\<forall>i \<in> set selected. \<exists>f. d (pi_id i) = Some f \<and> pi_fingerprint i = Some (cf_fingerprint f)"
    and fps: "distinct (map (\<lambda>i. the (pi_fingerprint i)) selected)" "\<forall>i \<in> set selected. pi_fingerprint i \<noteq> Some []"
  shows "\<exists>ab. build_approved_final_issue_comment run_id t d selected v iv = Inr ab"
proof -
  let ?fs = "map (\<lambda>i. the (d (pi_id i))) selected"
  have look: "mapE (lookup_finding d) selected = Inr ?fs"
    using sel by (intro mapE_ok) (auto simp: lookup_finding_def)
  have fp: "map cf_fingerprint ?fs = map (\<lambda>i. the (pi_fingerprint i)) selected" using sel by fastforce
  have "list_all non_empty (map cf_fingerprint ?fs)" unfolding fp using sel fps(2) by (fastforce simp: list_all_iff)
  moreover have "distinct (map cf_fingerprint ?fs)" unfolding fp by (rule fps(1))
  ultimately have "\<exists>p. build_final_issue_comment_payload run_id t b (map cf_fingerprint ?fs) rs = Inr p" for b rs
    using assms(1) by (simp add: build_final_Inr_iff findings_hash_ok del: map_map)
  then show ?thesis
    unfolding build_approved_final_issue_comment_def approved_visible_body_def Let_def look
    by (simp add: redaction_status_of_ok del: map_map) (metis bindE.simps(2))
qed

lemma approved_build_facts:
  assumes "build_approved_final_issue_comment run_id t d selected v iv = Inr ab"
  obtains b fps rs fh where "build_final_issue_comment_payload run_id t b fps rs = Inr (ab_payload ab)"
    and "ab_payload ab = built_payload run_id t b fps rs fh" and "valid_run_id run_id" and "findings_hash fps = Inr fh"
    and "ab_visible_body ab = b" and "ab_visible_body_hash ab = visible_body_hash b" and "ab_redaction_status ab = rs"
    and "red_status rs = GatePass"
proof -
  from assms obtain raw rs fs p where "approved_visible_body t d selected v iv = Inr raw" "mapE (lookup_finding d) selected = Inr fs"
    and *: "redaction_status_of (redact_text raw) = Inr rs"
    "build_final_issue_comment_payload run_id t (rstrip_lf (rr_text (redact_text raw)) @ [LF]) (map cf_fingerprint fs) rs = Inr p"
    "ab = \<lparr>ab_visible_body = rstrip_lf (rr_text (redact_text raw)) @ [LF],
       ab_visible_body_hash = visible_body_hash (rstrip_lf (rr_text (redact_text raw)) @ [LF]), ab_payload = p,
       ab_redaction_status = rs\<rparr>"
    by (auto simp: build_approved_final_issue_comment_def bindE_Inr_iff Let_def)
  from *(2) obtain fh where "valid_run_id run_id" "findings_hash (map cf_fingerprint fs) = Inr fh"
    "p = built_payload run_id t (rstrip_lf (rr_text (redact_text raw)) @ [LF]) (map cf_fingerprint fs) rs fh"
    by (auto simp: build_final_Inr_iff)
  moreover have "red_status rs = GatePass" using *(1) by (auto simp: redaction_status_of_ok)
  ultimately show ?thesis using * that by simp
qed

section \<open>The proof for a selection\<close>

definition pass_proof :: "posting_plan_item list \<Rightarrow> review_target \<Rightarrow> approved_build \<Rightarrow> string \<Rightarrow> string \<Rightarrow> bool \<Rightarrow> approval_proof" where
  "pass_proof selected t ab approved_by timestamp iv =
     \<lparr>ap_status = GatePass, ap_approved_item_ids = map pi_id selected, ap_review_target = Some t,
         ap_review_target_hash = Some (target_hash t),
         ap_final_payload_hash = Some (fp_final_payload_hash (ab_payload ab)),
         ap_final_visible_body_hash = Some (ab_visible_body_hash ab),
         ap_marker_payload_hash = Some (fp_marker_payload_hash (ab_payload ab)),
         ap_findings_hash = Some (fp_findings_hash (ab_payload ab)),
         ap_marker_line = Some (fp_marker_line (ab_payload ab)),
         ap_redaction_status = Some (ab_redaction_status ab), ap_include_public_verdict = iv,
         ap_approved_by = Some approved_by, ap_timestamp = Some timestamp, ap_reason_code = None, ap_reason = None\<rparr>"

lemma strict_checks_pass: "strict_sha256 h \<Longrightarrow> \<forall>c \<in> set (require_strict_sha256 h n). fst c"
  using strict_sha256_not_Nil[of h] strict_starts_with[of h]
  by (auto simp: require_strict_sha256_def require_defs strict_sha256_def)

lemma optional_hash_pass: "strict_sha256 h \<Longrightarrow> \<forall>c \<in> set (require_optional_hash_like (Some h) n). fst c"
  using strict_sha256_not_Nil[of h] strict_starts_with[of h] by (auto simp: require_defs)

lemma pass_proof_checked:
  assumes "build_approved_final_issue_comment run_id t d selected v iv = Inr ab" and "selected \<noteq> []"
    and "\<forall>i \<in> set selected. pi_id i \<noteq> []" and "approved_by \<noteq> []" and "timestamp \<noteq> []"
  shows "approval_proof_check (pass_proof selected t ab approved_by timestamp iv) = None"
proof -
  from approved_build_facts[OF assms(1)] obtain b fps rs fh where ab: "ab_payload ab = built_payload run_id t b fps rs fh"
    "valid_run_id run_id" "findings_hash fps = Inr fh" "ab_visible_body_hash ab = visible_body_hash b"
    "ab_redaction_status ab = rs" "red_status rs = GatePass" by metis
  let ?p = "pass_proof selected t ab approved_by timestamp iv" and ?m = "built_marker run_id t b fh"
  have fh: "strict_sha256 fh" using ab(3) by (rule strict_findings_hash)
  then have wf: "wf_marker ?m" using built_marker_wf_iff(2) ab(2) by blast
  have line: "fp_marker_line (ab_payload ab) = marker_line_text ?m" by (simp add: ab(1))
  have dict: "parse_reviewgraph_marker (marker_line_text ?m) = Some (marker_dict ?m)" by (rule parse_marker_dict_line[OF wf])
  have mp: "strict_sha256 (marker_payload_hash b)" by (simp add: marker_payload_hash_def)
  have fph: "strict_sha256 (fp_final_payload_hash (ab_payload ab))" by (simp add: ab(1))
  have fds: "map_of (marker_dict ?m) ''target'' = Some (target_hash t)"
    "map_of (marker_dict ?m) ''payload'' = Some (marker_payload_hash b)" "map_of (marker_dict ?m) ''findings'' = Some fh"
    by (simp_all add: marker_dict_def built_marker_def)
  have vis: "visible_body_hash b = marker_payload_hash b" by (simp add: marker_payload_hash_def)
  have p: "ap_review_target_hash ?p = Some (target_hash t)" "ap_final_payload_hash ?p = Some (fp_final_payload_hash (ab_payload ab))"
    "ap_final_visible_body_hash ?p = Some (marker_payload_hash b)" "ap_marker_payload_hash ?p = Some (marker_payload_hash b)"
    "ap_findings_hash ?p = Some fh" "ap_marker_line ?p = Some (marker_line_text ?m)" "ap_redaction_status ?p = Some rs"
    "ap_reason_code ?p = None" "ap_review_target ?p = Some t" "ap_status ?p = GatePass" "ap_reason ?p = None"
    "ap_approved_by ?p = Some approved_by" "ap_timestamp ?p = Some timestamp" "ap_approved_item_ids ?p = map pi_id selected"
    using ab(4,5) vis line by (simp_all add: pass_proof_def) (simp_all add: ab(1))
  have checks: "\<forall>c \<in> set (proof_pass_checks ?p). fst c"
    unfolding proof_pass_checks_def Let_def p option.sel dict set_append ball_Un
    using ab(6) fds strict_checks_pass[OF fh] strict_checks_pass[OF mp] strict_checks_pass[OF fph]
      strict_checks_pass[OF strict_target_hash] by simp
  have flds: "\<forall>c \<in> set (proof_fields ?p). fst c" unfolding proof_fields_def p using assms(2) by simp
  then have missing: "\<forall>c \<in> set (map (\<lambda>(present, n). (present, ''approval proof pass requires '' @ n)) (proof_fields ?p)). fst c"
    by auto
  have ids: "list_all non_empty (map pi_id selected)" using assms(3) by (auto simp: list_all_iff)
  show ?thesis
    unfolding approval_proof_check_def first_failure_None_iff p Let_def set_append ball_Un
    using checks missing ids assms(4,5) last_marker_line(2)[of ?m] optional_hash_pass[OF fh] optional_hash_pass[OF mp]
      optional_hash_pass[OF fph] optional_hash_pass[OF strict_target_hash]
    by (auto simp: require_string_tuple_def require_optional_non_empty_def)
qed

section \<open>What a valid candidate says about the plan\<close>

lemma index_findings_Inr:
  "index_findings fs d = Inr d' \<Longrightarrow> distinct (map fst d) \<Longrightarrow>
     d' = d @ map (\<lambda>f. (cf_id f, f)) fs \<and> distinct (map fst d')"
proof (induction fs arbitrary: d)
  case (Cons f fs)
  from Cons.prems have new: "cf_id f \<notin> fst ` set d" and rest: "index_findings fs (d @ [(cf_id f, f)]) = Inr d'"
    by (auto split: if_split_asm)
  from new Cons.prems(2) have "distinct (map fst (d @ [(cf_id f, f)]))" by simp
  note IH = Cons.IH[OF rest this]
  have "d' = d @ map (\<lambda>f. (cf_id f, f)) (f # fs)" using conjunct1[OF IH] by simp
  then show ?case using conjunct2[OF IH] by blast
qed simp

lemma candidate_lines_Inr:
  assumes "candidate_lines d items = Inr (ls, fps)" and "\<forall>i \<in> set items. pi_id i \<noteq> ''summary''"
  shows "fps = map (\<lambda>i. the (pi_fingerprint i)) items
    \<and> (\<forall>i \<in> set items. \<exists>f. map_of d (pi_id i) = Some f \<and> pi_fingerprint i = Some (cf_fingerprint f))"
  using assms
proof (induction items arbitrary: ls fps)
  case (Cons i items)
  then obtain f ls' fps' where f: "map_of d (pi_id i) = Some f" "pi_fingerprint i = Some (cf_fingerprint f)"
    "candidate_lines d items = Inr (ls', fps')" "fps = cf_fingerprint f # fps'"
    by (auto simp: bindE_Inr_iff split: option.split_asm if_split_asm)
  with Cons.IH[OF f(3)] Cons.prems(2) show ?case by auto
qed simp

lemma findings_hash_distinct: "findings_hash fps = Inr h \<Longrightarrow> distinct fps"
  by (auto simp: findings_hash_def has_duplicates_iff split: if_split_asm)

abbreviation current_findings :: "classified_finding list \<Rightarrow> string \<Rightarrow> classified_finding option" where
  "current_findings fs \<equiv> dict_get (map (\<lambda>f. (cf_id f, f)) fs)"

lemma candidate_public_items:
  assumes "build_candidate_issue_comment_payload t plan fs v iv kind = Inr c" and "\<not> plan_has_summary plan"
  shows "(\<forall>i \<in> set (public_payload_items plan).
      item_bound (map pi_id (public_payload_items plan)) (current_findings fs) i \<and> pi_fingerprint i \<noteq> Some [])
    \<and> distinct (map (\<lambda>i. the (pi_fingerprint i)) (public_payload_items plan)) \<and> \<not> (iv \<and> v = Some VRequestChanges)"
proof -
  let ?pub = "public_payload_items plan"
  from assms(1) obtain d ls fps fh where d: "index_findings fs [] = Inr d"
    and err: "checkE public_item_error ?pub = Inr ()" and lines: "candidate_lines d ?pub = Inr (ls, fps)"
    and fh: "posting_findings_hash (sort fps) = Inr fh" and rc: "\<not> (iv \<and> v = Some VRequestChanges)"
    by (auto simp: build_candidate_issue_comment_payload_def bindE_Inr_iff Let_def split: if_split_asm)
  from err have err: "\<forall>i \<in> set ?pub. public_item_error i = None" by (simp add: checkE_Inr_iff)
  have no: "\<forall>i \<in> set ?pub. pi_id i \<noteq> ''summary''"
  proof (intro ballI notI)
    fix i assume i: "i \<in> set ?pub" "pi_id i = ''summary''"
    with err have "pi_destination i = TopLevelSummaryItem" by (auto simp: public_item_error_def split: if_split_asm)
    with i(1) assms(2) show False by (auto simp: plan_has_summary_def public_payload_items_def list_ex_iff)
  qed
  from index_findings_Inr[OF d] have dd: "d = map (\<lambda>f. (cf_id f, f)) fs" "distinct (map fst d)" by auto
  have get: "map_of d k = current_findings fs k" for k
    unfolding dd(1)[symmetric] using dict_get_distinct[OF dd(2)] map_of_eq_Some_iff[OF dd(2)]
    by (intro option.expand) (metis option.exhaust_sel option.sel option.distinct(1))+
  from candidate_lines_Inr[OF lines no] get have fps: "fps = map (\<lambda>i. the (pi_fingerprint i)) ?pub"
    and cur: "\<forall>i \<in> set ?pub. \<exists>f. current_findings fs (pi_id i) = Some f \<and> pi_fingerprint i = Some (cf_fingerprint f)" by auto
  have "findings_hash (sort fps) = Inr fh"
    using fh by (auto simp: posting_findings_hash_def split: sum.split_asm py_error.split_asm)
  then have "distinct fps" using findings_hash_distinct by fastforce
  moreover have "pi_destination i = ReviewBodyItem \<and> pi_source_classification i = classification_value PostableFinding
      \<and> pi_fingerprint i \<noteq> Some []" if "i \<in> set ?pub" for i
    using err no that by (auto simp: public_item_error_def split: if_split_asm)
  ultimately show ?thesis using cur fps rc by (auto simp: item_bound_def)
qed

section \<open>The result of the proof\<close>

lemma build_proof_for_pass:
  assumes "build_proof_for selected t plan fs c run_id by' ts v iv = Inr p" and "ap_status p = GatePass"
  shows "\<exists>ab. build_candidate_issue_comment_payload t plan fs v iv ''issue_comment'' = Inr c
    \<and> build_approved_final_issue_comment run_id t (current_findings fs) selected v iv = Inr ab
    \<and> p = pass_proof selected t ab by' ts iv"
proof -
  from assms obtain val where val: "validate_candidate_issue_comment_payload c t plan fs v iv = Inr val"
    by (auto simp: build_proof_for_def bindE_Inr_iff Let_def)
  show ?thesis
  proof (cases "pv_status val = GatePass")
    case True
    then have "pv_passes (validate_candidate_issue_comment_payload c t plan fs v iv)" by (simp add: val pv_passes_def)
    with validate_candidate_pass have "build_candidate_issue_comment_payload t plan fs v iv ''issue_comment'' = Inr c" by blast
    with assms True val show ?thesis
      by (auto simp: build_proof_for_def bindE_Inr_iff Let_def mk_checked_Inr_iff pass_proof_def split: if_split_asm
          dest!: proof_fail_status)
  next
    case False
    with assms val show ?thesis by (auto simp: build_proof_for_def Let_def dest!: proof_fail_status)
  qed
qed

lemma build_proof_for_ok:
  assumes "pv_passes (validate_candidate_issue_comment_payload c t plan fs v iv)"
    and ab: "build_approved_final_issue_comment run_id t (current_findings fs) selected v iv = Inr ab"
    and "selected \<noteq> []" "\<forall>i \<in> set selected. pi_id i \<noteq> []" "by' \<noteq> []" "ts \<noteq> []"
  shows "build_proof_for selected t plan fs c run_id by' ts v iv = Inr (pass_proof selected t ab by' ts iv)"
proof -
  from assms(1) obtain val where val: "validate_candidate_issue_comment_payload c t plan fs v iv = Inr val" "pv_status val = GatePass"
    by (auto simp: pv_passes_def split: sum.split_asm)
  from approved_build_facts[OF ab] obtain b fps rs fh where f: "ab_payload ab = built_payload run_id t b fps rs fh"
    "valid_run_id run_id" "findings_hash fps = Inr fh" "ab_redaction_status ab = rs" "red_status rs = GatePass" by metis
  have "is_exact_reviewgraph_v1_marker_line (fp_marker_line (ab_payload ab))"
    using built_marker_wf_iff(1)[OF strict_findings_hash[OF f(3)]] f(1,2) by simp
  then show ?thesis
    using val ab f pass_proof_checked[OF ab assms(3-6)] by (simp add: build_proof_for_def Let_def mk_checked_def pass_proof_def)
qed

section \<open>The proof, in full\<close>

text \<open>The items of the plan that carry an approved id, in the order of the plan.\<close>

abbreviation approved_items :: "string list \<Rightarrow> posting_plan \<Rightarrow> posting_plan_item list" where
  "approved_items ids plan \<equiv> filter (\<lambda>i. pi_id i \<in> set ids) (pp_items plan)"

lemma build_approval_proof_pass:
  assumes "build_approval_proof ids t plan fs c run_id by' ts v iv = Inr p" and "ap_status p = GatePass"
  shows "selection_guard ids plan run_id v iv = None"
    and "\<forall>i \<in> set (approved_items ids plan). item_bound (map pi_id (public_payload_items plan)) (current_findings fs) i"
    and "distinct (map (\<lambda>i. the (pi_fingerprint i)) (approved_items ids plan))"
    and "build_proof_for (approved_items ids plan) t plan fs c run_id by' ts v iv = Inr p"
proof -
  have no: "proof_fail code reason = Inr p \<Longrightarrow> False" for code reason using proof_fail_status[of code reason p] assms(2) by simp
  have guard: "selection_guard ids plan run_id v iv = None"
    using assms(1) no by (cases "selection_guard ids plan run_id v iv") (auto simp: build_approval_proof_def)
  then obtain sel where sel: "select_items ids (map pi_id (public_payload_items plan)) (current_findings fs) (pp_items plan) = Inr sel"
    using assms(1) no
    by (cases "select_items ids (map pi_id (public_payload_items plan)) (current_findings fs) (pp_items plan)")
      (auto simp: build_approval_proof_def Let_def)
  note s = sel[unfolded select_items_Inr_iff]
  have "\<not> has_duplicates (sort (map (\<lambda>i. the (pi_fingerprint i)) sel))"
    using assms(1) no sel by (auto simp: build_approval_proof_def Let_def guard split: if_split_asm)
  then have d: "distinct (map (\<lambda>i. the (pi_fingerprint i)) sel)" by (simp add: has_duplicates_iff)
  have "build_proof_for sel t plan fs c run_id by' ts v iv = Inr p"
    using assms(1) no sel d by (auto simp: build_approval_proof_def Let_def guard has_duplicates_iff split: if_split_asm)
  with s d guard show "selection_guard ids plan run_id v iv = None"
    and "\<forall>i \<in> set (approved_items ids plan). item_bound (map pi_id (public_payload_items plan)) (current_findings fs) i"
    and "distinct (map (\<lambda>i. the (pi_fingerprint i)) (approved_items ids plan))"
    and "build_proof_for (approved_items ids plan) t plan fs c run_id by' ts v iv = Inr p" by simp_all
qed

lemma plan_items_ids:
  assumes "valid_plan plan"
  shows "distinct (map pi_id (pp_items plan))" "\<forall>i \<in> set (pp_items plan). pi_id i \<noteq> []"
  using assms by (auto simp: valid_plan_def posting_plan_check_def has_duplicates_iff item_check_iff first_failure_None_iff split: if_split_asm)

lemma filter_filter_same: "(\<forall>x \<in> set xs. P x \<longrightarrow> Q x) \<Longrightarrow> filter P xs = filter P (filter Q xs)"
  by (induction xs) auto

lemma approval_selection:
  assumes plan: "valid_plan plan" "\<not> plan_has_summary plan" and ids: "set ids \<subseteq> pi_id ` set (pp_items plan)"
    and c: "build_candidate_issue_comment_payload t plan fs v iv ''issue_comment'' = Inr c"
  shows "(\<forall>i \<in> set (approved_items ids plan). item_bound (map pi_id (public_payload_items plan)) (current_findings fs) i)
    \<longleftrightarrow> set ids \<subseteq> pi_id ` set (public_payload_items plan)" (is "?all \<longleftrightarrow> ?sub")
    and "set ids \<subseteq> pi_id ` set (public_payload_items plan) \<Longrightarrow> distinct (map (\<lambda>i. the (pi_fingerprint i)) (approved_items ids plan))"
proof -
  note pub = candidate_public_items[OF c plan(2)]
  have same: "i \<in> set (public_payload_items plan)"
    if "i \<in> set (pp_items plan)" "pi_id i \<in> pi_id ` set (public_payload_items plan)" for i
  proof -
    from that(2) obtain j where j: "j \<in> set (public_payload_items plan)" "pi_id i = pi_id j" by auto
    then have "j \<in> set (pp_items plan)" by (simp add: public_payload_items_def)
    with that(1) j plan_items_ids(1)[OF plan(1)] have "i = j" by (auto simp: distinct_map dest: inj_onD)
    with j show ?thesis by simp
  qed
  show "?all \<longleftrightarrow> ?sub"
  proof
    assume all: ?all
    show ?sub
    proof
      fix x assume x: "x \<in> set ids"
      with ids obtain i where "i \<in> set (pp_items plan)" "x = pi_id i" by auto
      with x all show "x \<in> pi_id ` set (public_payload_items plan)" by (auto simp: item_bound_def)
    qed
  next
    assume ?sub
    then show ?all using pub same by auto
  qed
  assume "set ids \<subseteq> pi_id ` set (public_payload_items plan)"
  with same have "\<forall>i \<in> set (pp_items plan). pi_id i \<in> set ids \<longrightarrow> pi_public_payload_eligible i"
    by (auto simp: public_payload_items_def)
  then have "approved_items ids plan = filter (\<lambda>i. pi_id i \<in> set ids) (public_payload_items plan)"
    unfolding public_payload_items_def by (rule filter_filter_same)
  with pub show "distinct (map (\<lambda>i. the (pi_fingerprint i)) (approved_items ids plan))"
    by (simp add: distinct_map_filter)
qed
text \<open>A plan with one public item, and its candidate.\<close>

definition sample_plan :: posting_plan where
  "sample_plan = \<lparr>pp_items = [body_item sample_finding]\<rparr>"

definition sample_candidate :: candidate_payload where
  "sample_candidate =
     (case build_candidate_issue_comment_payload sample_target sample_plan [sample_finding] None False ''issue_comment'' of
        Inr c \<Rightarrow> c | Inl _ \<Rightarrow> undefined)"

lemma sample_plan_facts: "valid_plan sample_plan" "\<not> plan_has_summary sample_plan"
  "public_payload_items sample_plan = [body_item sample_finding]" "approved_items [''f1''] sample_plan = [body_item sample_finding]"
  by (simp_all add: sample_plan_def valid_plan_def posting_plan_check_def has_duplicates_def item_check_iff body_item_def
      sample_finding_def plan_has_summary_def public_payload_items_def)

lemma sample_candidate_passes:
  "pv_passes (validate_candidate_issue_comment_payload sample_candidate sample_target sample_plan [sample_finding] None False)"
proof -
  have valid: "\<forall>f \<in> set [sample_finding]. valid_finding f \<and> cf_id f \<noteq> ''summary''"
    by (simp add: sample_finding_def classified_finding_check_def validate_priority_def)
  let ?r = "redact_text (candidate_text sample_target [sample_finding])"
  from build_candidate_ok[OF valid, of sample_plan sample_target]
  have c: "build_candidate_issue_comment_payload sample_target sample_plan [sample_finding] None False ''issue_comment''
      = Inr sample_candidate" and body: "cp_body sample_candidate = canonical_visible_body (rr_text ?r)"
    by (simp_all add: sample_plan_facts sample_candidate_def)
  have "CHR ''<'' \<notin> set (candidate_text sample_target [sample_finding])"
    by (simp add: candidate_text_def candidate_header_def finding_line_def sample_target_def sample_finding_def LF_def) code_simp
  then have "CHR ''<'' \<notin> set (rr_text ?r)"
    using redact_text_set[of "candidate_text sample_target [sample_finding]"] by (auto simp: REDACTION_TOKEN_def)
  then have "CHR ''<'' \<notin> set (cp_body sample_candidate)"
    using set_canonical_text_body[of "rr_text ?r"] by (auto simp: body no_lt_visible_body LF_def)
  then show ?thesis using validate_own_candidate[OF c] no_lt_no_marker
    by (simp add: pv_pass_ok strict_starts_with pv_passes_def)
qed

section \<open>Properties of the proof\<close>

lemma approval_proof_outcome:
  assumes "valid_plan plan" and c: "pv_passes (validate_candidate_issue_comment_payload c t plan fs v iv)"
    and "by' \<noteq> []" and "ts \<noteq> []"
  shows "\<exists>p. build_approval_proof ids t plan fs c run_id by' ts v iv = Inr p
    \<and> (ap_status p = GatePass \<longleftrightarrow> valid_run_id run_id \<and> ids \<noteq> [] \<and> distinct ids \<and> \<not> plan_has_summary plan
         \<and> set ids \<subseteq> pi_id ` set (public_payload_items plan))" (is "\<exists>p. ?build p \<and> (_ \<longleftrightarrow> ?good)")
proof -
  let ?pub = "public_payload_items plan" and ?sel = "approved_items ids plan"
  have pub: "pi_id ` set ?pub \<subseteq> pi_id ` set (pp_items plan)" by (auto simp: public_payload_items_def)
  from validate_candidate_pass[OF c] have cand: "build_candidate_issue_comment_payload t plan fs v iv ''issue_comment'' = Inr c" by blast
  have fail: ?thesis if "build_approval_proof ids t plan fs c run_id by' ts v iv = proof_fail code reason" "reason \<noteq> []" "\<not> ?good"
    for code reason using that proof_fail_ok[OF that(2), of code] by auto
  show ?thesis
  proof (cases "selection_guard ids plan run_id v iv")
    case (Some cr)
    obtain code reason where cr: "cr = (code, reason)" by (cases cr)
    have "\<not> ?good"
    proof
      assume g: ?good
      then have "\<not> (iv \<and> v = Some VRequestChanges)" using candidate_public_items[OF cand] by blast
      with g pub have "selection_guard ids plan run_id v iv = None" unfolding selection_guard_None by blast
      with Some show False by simp
    qed
    with Some cr selection_guard_reason show ?thesis by (intro fail[of code reason]) (auto simp: build_approval_proof_def)
  next
    case None
    then have g: "valid_run_id run_id" "\<not> plan_has_summary plan" "ids \<noteq> []" "distinct ids" "set ids \<subseteq> pi_id ` set (pp_items plan)"
      by (simp_all add: selection_guard_None)
    note sel = approval_selection[OF assms(1) g(2) g(5) cand]
    show ?thesis
    proof (cases "select_items ids (map pi_id ?pub) (current_findings fs) (pp_items plan)")
      case (Inl e)
      obtain code reason where e: "e = (code, reason)" by (cases e)
      have "\<not> set ids \<subseteq> pi_id ` set ?pub"
        using Inl select_items_Inr_iff[of ids "map pi_id ?pub" "current_findings fs" "pp_items plan" ?sel] sel(1) by auto
      with Inl None e select_items_reason[OF Inl] show ?thesis
        by (intro fail[of code reason]) (simp_all add: build_approval_proof_def)
    next
      case (Inr selected)
      then have s: "selected = ?sel" and all: "\<forall>i \<in> set ?sel. item_bound (map pi_id ?pub) (current_findings fs) i"
        unfolding select_items_Inr_iff by blast+
      from all sel(1) have sub: "set ids \<subseteq> pi_id ` set ?pub" by blast
      have ne: "?sel \<noteq> []" using g(3,5) by (cases ids) (auto simp: filter_empty_conv)
      have bound: "\<forall>i \<in> set ?sel. \<exists>f. current_findings fs (pi_id i) = Some f \<and> pi_fingerprint i = Some (cf_fingerprint f)"
        using all by (auto simp: item_bound_def)
      have fp: "\<forall>i \<in> set ?sel. pi_fingerprint i \<noteq> Some []"
      proof
        fix i assume i: "i \<in> set ?sel"
        with all have "pi_id i \<in> pi_id ` set ?pub" by (auto simp: item_bound_def)
        then obtain j where j: "j \<in> set ?pub" "pi_id i = pi_id j" by auto
        with i plan_items_ids(1)[OF assms(1)] have "i = j" by (auto simp: public_payload_items_def distinct_map dest: inj_onD)
        with j(1) show "pi_fingerprint i \<noteq> Some []" using candidate_public_items[OF cand g(2)] by blast
      qed
      from approved_build_ok[OF g(1) bound sel(2)[OF sub] fp] obtain ab
        where ab: "build_approved_final_issue_comment run_id t (current_findings fs) ?sel v iv = Inr ab" by blast
      have ids: "\<forall>i \<in> set ?sel. pi_id i \<noteq> []" using plan_items_ids(2)[OF assms(1)] by simp
      have "build_approval_proof ids t plan fs c run_id by' ts v iv = Inr (pass_proof ?sel t ab by' ts iv)"
        using build_proof_for_ok[OF c ab ne ids assms(3,4)] Inr None sel(2)[OF sub]
        by (simp add: build_approval_proof_def s has_duplicates_iff)
      with g sub show ?thesis by (simp add: pass_proof_def)
    qed
  qed
qed

text \<open>C34. A passing approval proof is for exactly what would be posted: the candidate is the one that the plan and the
  findings give; the approved ids are the selected ids, each of a public item of the plan that is still backed by a
  current finding with the same fingerprint; and the hashes and the marker line in the proof are those of the final
  comment that these items give for this run and target.\<close>

theorem approval_proof_binds_payload:
  assumes "build_approval_proof ids t plan fs c run_id by' ts v iv = Inr p" and "ap_status p = GatePass"
  shows "build_candidate_issue_comment_payload t plan fs v iv ''issue_comment'' = Inr c
    \<and> set (ap_approved_item_ids p) = set ids \<and> ids \<noteq> []
    \<and> (\<forall>i \<in> set (approved_items ids plan).
         item_bound (map pi_id (public_payload_items plan)) (current_findings fs) i)
    \<and> (\<exists>ab. build_approved_final_issue_comment run_id t (current_findings fs) (approved_items ids plan) v iv = Inr ab
         \<and> ap_final_payload_hash p = Some (final_payload_hash (fp_body (ab_payload ab)))
         \<and> ap_marker_line p = Some (fp_marker_line (ab_payload ab))
         \<and> ap_review_target_hash p = Some (target_hash t)
         \<and> ap_findings_hash p = Some (fp_findings_hash (ab_payload ab)))"
proof -
  note f = build_approval_proof_pass[OF assms]
  from f(1) have ids: "ids \<noteq> []" "set ids \<subseteq> pi_id ` set (pp_items plan)" by (simp_all add: selection_guard_None)
  from build_proof_for_pass[OF f(4) assms(2)] obtain ab where ab:
    "build_candidate_issue_comment_payload t plan fs v iv ''issue_comment'' = Inr c"
    "build_approved_final_issue_comment run_id t (current_findings fs) (approved_items ids plan) v iv = Inr ab"
    "p = pass_proof (approved_items ids plan) t ab by' ts iv" by blast
  have "set (map pi_id (approved_items ids plan)) = set ids" using ids(2) by auto
  moreover obtain b fps rs fh where "ab_payload ab = built_payload run_id t b fps rs fh"
    using approved_build_facts[OF ab(2)] by metis
  then have "fp_final_payload_hash (ab_payload ab) = final_payload_hash (fp_body (ab_payload ab))"
    by (simp add: built_payload_def Let_def)
  ultimately show ?thesis using ab f(2) ids(1) by (simp add: pass_proof_def)
qed

theorem approval_proof_binds_payload_witness:
  "\<exists>p. build_approval_proof [''f1''] sample_target sample_plan [sample_finding] sample_candidate ''run1'' ''me'' ''now'' None False = Inr p
     \<and> set (ap_approved_item_ids p) = {''f1''}"
proof -
  have "valid_run_id ''run1''" by (simp add: valid_run_id_def run_id_char_def str_defs)
  then obtain p where p: "build_approval_proof [''f1''] sample_target sample_plan [sample_finding] sample_candidate ''run1'' ''me'' ''now'' None False = Inr p"
    "ap_status p = GatePass"
    using approval_proof_outcome[OF sample_plan_facts(1) sample_candidate_passes, of "''me''" "''now''" "[''f1'']" "''run1''"]
    by (auto simp: sample_plan_facts body_item_def sample_finding_def)
  then have "set (ap_approved_item_ids p) = set [''f1'']" using approval_proof_binds_payload[OF p] by blast
  with p(1) show ?thesis by (intro exI[of _ p]) simp
qed

text \<open>C35. For a valid plan and a candidate that passes validation, the proof never raises, and it passes exactly if the run
  id fits the marker grammar, the plan has no summary item, and the ids are a non-empty list, without repetition, of
  public items of the plan.\<close>

theorem approval_proof_exact:
  assumes "valid_plan plan" and "pv_passes (validate_candidate_issue_comment_payload c t plan fs v iv)"
    and "by' \<noteq> []" and "ts \<noteq> []"
  shows "\<exists>p. build_approval_proof ids t plan fs c run_id by' ts v iv = Inr p
    \<and> (ap_status p = GatePass \<longleftrightarrow> valid_run_id run_id \<and> ids \<noteq> [] \<and> distinct ids \<and> \<not> plan_has_summary plan
         \<and> set ids \<subseteq> pi_id ` set (public_payload_items plan))"
  using assms by (rule approval_proof_outcome)

theorem approval_proof_exact_witness:
  "\<exists>p. build_approval_proof [''f2''] sample_target sample_plan [sample_finding] sample_candidate ''run1'' ''me'' ''now'' None False = Inr p
     \<and> ap_status p \<noteq> GatePass"
  using approval_proof_exact[OF sample_plan_facts(1) sample_candidate_passes, of "''me''" "''now''" "[''f2'']" "''run1''"]
  by (auto simp: sample_plan_facts body_item_def sample_finding_def)

end
