(* ===== verification/Approval_Decision.thy ===== *)
theory Approval_Decision
  imports Approval_Binding
begin

text \<open>
  The approval decision, the record that carries a human's approval to the finalization gates: it exists only for a passing
  proof and a passing permission gate that was evaluated for the same target, and not too long before the approval.
\<close>

section \<open>What checked passes contain\<close>

lemma gate_pass_facts:
  assumes "perm_gate_check g = None" and "pg_status g = GatePass"
  obtains actor permission checked_at prin cs d s where "pg_actor g = Some actor" "is_safe_identity actor"
    "pg_permission g = Some permission" "permission \<noteq> []" "pg_checked_at g = Some checked_at" "is_realistic_rfc3339_utc_z checked_at"
    "pg_credential_principal g = Some prin" "is_safe_identity prin" "pg_credential_source g = Some cs" "cs \<noteq> []"
    "pg_issue_comment_write g = Some True" "pg_check_method g = Some perm_check_method" "pg_endpoint_method g = Some perm_endpoint_method"
    "pg_checked_target g = Some d" "expected_endpoint d \<noteq> None" "pg_endpoint g = expected_endpoint d"
    "pg_endpoint_kind g = Some perm_endpoint_kind" "pg_transport_summary g = Some s" "ps_reason_code s = None" "\<not> ps_retryable s"
    "derived_permission (Some cs) (pg_repo_permission g) (pg_installation_permission g) (pg_endpoint_permission g) = Some permission"
    "\<forall>v \<in> {pg_repo_permission g, pg_installation_permission g, pg_endpoint_permission g}. v \<noteq> Some []"
proof -
  from assms have c: "\<forall>c \<in> set (gate_common_checks g). fst c" and p: "\<forall>c \<in> set (gate_pass_checks g). fst c"
    by (simp_all add: perm_gate_check_def first_failure_None_iff ball_Un)
  from p have pr: "\<forall>c \<in> set (pass_proof_checks g). fst c" "\<forall>c \<in> set (pass_target_checks g). fst c"
    "\<forall>c \<in> set (pass_transport_checks g). fst c" by (simp_all add: gate_pass_checks_def ball_Un)
  from p obtain actor permission checked_at prin cs d s where some: "pg_actor g = Some actor"
    "pg_permission g = Some permission" "pg_checked_at g = Some checked_at" 
    "pg_credential_principal g = Some prin" "pg_credential_source g = Some cs"
    "pg_checked_target g = Some d" "pg_transport_summary g = Some s" "pg_issue_comment_write g = Some True"
    by (simp add: gate_pass_checks_def ball_Un) blast
  from some c have "is_safe_identity actor" "is_safe_identity prin" "permission \<noteq> []" "cs \<noteq> []"
    by (simp_all add: gate_common_checks_def ball_Un require_defs)
  moreover have "\<forall>v \<in> {pg_repo_permission g, pg_installation_permission g, pg_endpoint_permission g}. v \<noteq> Some []"
    using c by (auto simp: gate_common_checks_def ball_Un require_defs split: option.split_asm)
  ultimately show ?thesis using some pr
    by (intro that[of actor permission checked_at prin cs d s])
      (simp_all add: pass_proof_checks_def pass_target_checks_def pass_transport_checks_def Let_def)
qed
lemma proof_pass_facts:
  assumes "approval_proof_check p = None" and "ap_status p = GatePass"
  obtains t th ph by' ts where "ap_review_target p = Some t" "ap_review_target_hash p = Some (target_hash t)"
    "ap_final_payload_hash p = Some ph" "strict_sha256 ph" "ap_approved_item_ids p \<noteq> []"
    "list_all non_empty (ap_approved_item_ids p)" "ap_approved_by p = Some by'" "by' \<noteq> []" "ap_timestamp p = Some ts" "ts \<noteq> []"
proof -
  let ?m = "map (\<lambda>(present, n). (present, ''approval proof pass requires '' @ n)) (proof_fields p)"
  from assms have all: "\<forall>c \<in> set ([require_string_tuple (ap_approved_item_ids p) ''approval proof approved_item_ids''] @
      [require_optional_non_empty (ap_marker_line p) ''approval proof marker_line'',
         require_optional_non_empty (ap_approved_by p) ''approval proof approved_by'',
         require_optional_non_empty (ap_timestamp p) ''approval proof timestamp'',
         require_optional_non_empty (ap_reason p) ''approval proof reason'']). fst c"
    and m: "first_failure ?m = None" and pc: "\<forall>c \<in> set (proof_pass_checks p). fst c"
    by (auto simp: approval_proof_check_def first_failure_None_iff ball_Un Let_def split: if_split_asm)
  from m obtain t th ph by' ts where some: "ap_review_target p = Some t" "ap_review_target_hash p = Some th"
    "ap_final_payload_hash p = Some ph" "ap_approved_by p = Some by'" "ap_timestamp p = Some ts" "ap_approved_item_ids p \<noteq> []"
    using iffD1[OF first_failure_None_iff m] by (auto simp: proof_fields_def)
  from pc have "th = target_hash t" "\<forall>c \<in> set (require_strict_sha256 ph ''approval proof approved_final_payload_hash''). fst c"
    unfolding proof_pass_checks_def Let_def some option.sel set_append ball_Un by simp_all
  with some all show ?thesis
    by (intro that[of t ph by' ts]) (auto simp: require_string_tuple_def require_optional_non_empty_def strict_sha256_check_None_iff
       first_failure_None_iff[symmetric])
qed
section \<open>The decision\<close>

definition decision_record :: "approval_proof \<Rightarrow> review_target \<Rightarrow> perm_gate \<Rightarrow> approval_decision" where
  "decision_record p t g =
     \<lparr>ad_approved = True, ad_approved_item_ids = ap_approved_item_ids p, ad_final_payload_hash = the (ap_final_payload_hash p),
        ad_review_target_hash = target_hash t, ad_review_target = t, ad_github_actor = the (pg_actor g),
        ad_permission = the (pg_permission g), ad_permission_checked_at = the (pg_checked_at g),
        ad_credential_principal = the (pg_credential_principal g), ad_credential_source = the (pg_credential_source g),
        ad_repo_permission = pg_repo_permission g, ad_installation_permission = pg_installation_permission g,
        ad_endpoint_permission = pg_endpoint_permission g, ad_issue_comment_write = the (pg_issue_comment_write g),
        ad_check_method = the (pg_check_method g), ad_endpoint_method = the (pg_endpoint_method g),
        ad_checked_target = the (pg_checked_target g), ad_checked_target_hash = the (pg_checked_target_hash g),
        ad_endpoint = the (pg_endpoint g), ad_endpoint_kind = the (pg_endpoint_kind g),
        ad_transport_summary = the (pg_transport_summary g), ad_include_public_verdict = ap_include_public_verdict p,
        ad_approved_by = the (ap_approved_by p), ad_timestamp = the (ap_timestamp p)\<rparr>"

text \<open>The gate was for the target of the proof.\<close>

definition same_target :: "perm_gate \<Rightarrow> review_target \<Rightarrow> bool" where
  "same_target g t \<longleftrightarrow> (\<exists>d. pg_checked_target g = Some d \<and> dict_eq d (to_ordered_dict t))
     \<and> pg_checked_target_hash g = Some (target_hash t) \<and> pg_endpoint g = Some (issue_comment_endpoint t)
     \<and> pg_endpoint_kind g = Some ''issue_comment''"

definition gate_age_ok :: "approval_proof \<Rightarrow> perm_gate \<Rightarrow> int \<Rightarrow> int \<Rightarrow> bool" where
  "gate_age_ok p g max_age max_skew \<longleftrightarrow> (\<exists>later earlier age. ap_timestamp p = Some later \<and> pg_checked_at g = Some earlier
     \<and> utc_z_age_seconds later earlier = Some age \<and> - rat_of_int max_skew \<le> age \<and> age \<le> rat_of_int max_age)"

lemma decision_of_ok:
  assumes p: "approval_proof_check p = None" "ap_status p = GatePass" and g: "perm_gate_check g = None" "pg_status g = GatePass"
    and t: "ap_review_target p = Some t" "same_target g t"
  shows "decision_of p t g = Inr (decision_record p t g)"
proof -
  from p obtain ph by' ts where pf: "ap_review_target_hash p = Some (target_hash t)" "ap_final_payload_hash p = Some ph"
    "strict_sha256 ph" "ap_approved_item_ids p \<noteq> []" "list_all non_empty (ap_approved_item_ids p)" "ap_approved_by p = Some by'"
    "by' \<noteq> []" "ap_timestamp p = Some ts" "ts \<noteq> []"
    by (rule proof_pass_facts) (use t(1) in simp)
  from g obtain actor permission checked_at prin cs d s where gf: "pg_actor g = Some actor" "is_safe_identity actor"
    "pg_permission g = Some permission" "permission \<noteq> []" "pg_checked_at g = Some checked_at" "is_realistic_rfc3339_utc_z checked_at"
    "pg_credential_principal g = Some prin" "is_safe_identity prin" "pg_credential_source g = Some cs" "cs \<noteq> []"
    "pg_issue_comment_write g = Some True" "pg_check_method g = Some perm_check_method" "pg_endpoint_method g = Some perm_endpoint_method"
    "pg_checked_target g = Some d" "expected_endpoint d \<noteq> None" "pg_endpoint g = expected_endpoint d"
    "pg_endpoint_kind g = Some perm_endpoint_kind" "pg_transport_summary g = Some s" "ps_reason_code s = None" "\<not> ps_retryable s"
    "derived_permission (Some cs) (pg_repo_permission g) (pg_installation_permission g) (pg_endpoint_permission g) = Some permission"
    "\<forall>v \<in> {pg_repo_permission g, pg_installation_permission g, pg_endpoint_permission g}. v \<noteq> Some []"
    by (rule gate_pass_facts)
  have tt: "dict_eq d (to_ordered_dict t)" "pg_checked_target_hash g = Some (target_hash t)" "pg_endpoint g = Some (issue_comment_endpoint t)"
    using t(2) gf(14) by (simp_all add: same_target_def)
  have ne: "checked_at \<noteq> []" "actor \<noteq> []" "prin \<noteq> []" "issue_comment_endpoint t \<noteq> []"
    using realistic_not_Nil[OF gf(6)] gf(2,8) by (auto simp: is_safe_identity_def issue_comment_endpoint_def split: prod.split)
  have cs: "cs \<in> set credential_sources" "opt_in (pg_repo_permission g) repo_permissions"
    "opt_in (pg_installation_permission g) endpoint_permissions" "opt_in (pg_endpoint_permission g) endpoint_permissions"
    using gf(21) by (auto simp: derived_permission_def split: if_split_asm)
  have opt: "\<forall>c \<in> set (optional_member v xs n). fst c" if "v \<noteq> Some []" "opt_in v xs" for v xs n
    using that by (cases v) (auto simp: optional_member_def require_optional_non_empty_def)
  have hash: "\<forall>c \<in> set (require_hash_like h n). fst c" if "strict_sha256 h" for h n
    using that hash_like_None_iff[of h n] strict_sha256_not_Nil strict_starts_with by (auto simp: first_failure_None_iff)
  let ?d = "decision_record p t g"
  note r = decision_record_def approval_decision.select_convs pf(2,6,8) gf(1,3,5,7,9,11-14,17,18) tt(2,3) option.sel
  have "approval_decision_check ?d = None"
    unfolding approval_decision_check_def first_failure_None_iff set_append ball_Un decision_target_checks_def
      decision_proof_checks_def decision_transport_checks_def r
    using pf gf tt ne cs methods_not_Nil hash[OF pf(3)]
    by (simp add: require_string_tuple_def require_non_empty_def) (intro conjI hash opt; simp)
  then have "mk_checked approval_decision_check ?d = Inr ?d" by (rule mk_checked_ok)
  then show ?thesis unfolding decision_of_def pf gf(1,3,5,7,9,11-14,17,18) tt req_def option.case bindE.simps by (simp add: r)
qed

lemma build_fail_ok:
  assumes "is_safe_reason reason" and "code = AB_actor_permission_gate_failed \<Longrightarrow> ac \<noteq> None"
    and "code = AB_approval_proof_failed \<Longrightarrow> pc \<noteq> None"
  shows "\<exists>b. build_fail code pc ac summary reason = Inr b \<and> bd_status b = GateFail \<and> bd_approval b = None"
  using assms
  by (auto simp: build_fail_def mk_checked_def approval_build_check_def require_optional_non_empty_def is_safe_reason_def)

lemma build_reasons: "list_all is_safe_reason [''approval proof did not pass'', ''actor permission gate did not pass'']"
  "list_all is_safe_reason [''actor permission proof is stale at approval time'',
     ''actor permission gate target did not match approval target'']"
  by code_simp+

lemma not_pass_reasons:
  "approval_proof_check p = None \<Longrightarrow> ap_status p \<noteq> GatePass \<Longrightarrow> ap_reason_code p \<noteq> None"
  "perm_gate_check g = None \<Longrightarrow> pg_status g \<noteq> GatePass \<Longrightarrow> pg_reason_code g \<noteq> None"
  by (auto simp: approval_proof_check_def perm_gate_check_def first_failure_None_iff ball_Un gate_fail_checks_def
      gate_common_checks_def split: gate_status.split_asm)

lemma decision_outcome:
  assumes "approval_proof_check p = None" and "perm_gate_check g = None"
  shows "\<exists>b. build_approval_decision p g max_age max_skew = Inr b \<and> bd_status b \<noteq> GateUnknown
    \<and> (bd_status b = GatePass \<longleftrightarrow> ap_status p = GatePass \<and> pg_status g = GatePass \<and> gate_age_ok p g max_age max_skew
         \<and> (\<exists>t. ap_review_target p = Some t \<and> same_target g t))
    \<and> bd_approval b = (if bd_status b = GatePass then Some (decision_record p (the (ap_review_target p)) g) else None)"
proof -
  have fail: ?thesis if f: "build_approval_decision p g max_age max_skew = build_fail code pc ac summary reason"
    "is_safe_reason reason" "code = AB_actor_permission_gate_failed \<Longrightarrow> ac \<noteq> None" "code = AB_approval_proof_failed \<Longrightarrow> pc \<noteq> None"
    "\<not> (ap_status p = GatePass \<and> pg_status g = GatePass \<and> gate_age_ok p g max_age max_skew
         \<and> (\<exists>t. ap_review_target p = Some t \<and> same_target g t))" for code pc ac summary reason
  proof -
    obtain b where "build_fail code pc ac summary reason = Inr b" "bd_status b = GateFail" "bd_approval b = None"
      using build_fail_ok[OF f(2,3,4), where summary = summary] by blast
    with f(1,5) show ?thesis by simp
  qed
  have safe: "is_safe_reason ''approval proof did not pass''" "is_safe_reason ''actor permission gate did not pass''"
    "is_safe_reason ''actor permission proof is stale at approval time''"
    "is_safe_reason ''actor permission gate target did not match approval target''" using build_reasons by (auto simp only: list.pred_inject)
  consider "ap_status p \<noteq> GatePass" | "ap_status p = GatePass" "pg_status g \<noteq> GatePass"
    | "ap_status p = GatePass" "pg_status g = GatePass" by blast
  then show ?thesis
  proof cases
    case 1
    then have "build_approval_decision p g max_age max_skew = build_fail AB_approval_proof_failed (ap_reason_code p) None None
        ''approval proof did not pass''" by (simp add: build_approval_decision_def)
    then show ?thesis by (rule fail) (use 1 safe not_pass_reasons(1)[OF assms(1)] in auto)
  next
    case 2
    then have "build_approval_decision p g max_age max_skew = build_fail AB_actor_permission_gate_failed None (pg_reason_code g)
        (pg_transport_summary g) ''actor permission gate did not pass''" by (simp add: build_approval_decision_def)
    then show ?thesis by (rule fail) (use 2 safe not_pass_reasons(2)[OF assms(2)] in auto)
  next
    case 3
    from assms(1) 3(1) obtain t ts where p: "ap_review_target p = Some t" "ap_timestamp p = Some ts" by (rule proof_pass_facts)
    from assms(2) 3(2) obtain checked_at where g: "pg_checked_at g = Some checked_at" by (rule gate_pass_facts)
    show ?thesis
    proof (cases "gate_age_ok p g max_age max_skew")
      case False
      then have "build_approval_decision p g max_age max_skew = build_fail AB_actor_permission_gate_failed None
          (Some PR_stale_cached_proof) (pg_transport_summary g) ''actor permission proof is stale at approval time''"
        using 3 p g by (auto simp: build_approval_decision_def gate_age_ok_def Let_def not_less split: option.split)
      then show ?thesis by (rule fail) (use safe False in auto)
    next
      case True
      then obtain age where age: "utc_z_age_seconds ts checked_at = Some age" "\<not> rat_of_int max_age < age" "\<not> age < - rat_of_int max_skew"
        using p g by (auto simp: gate_age_ok_def not_less)
      show ?thesis
      proof (cases "same_target g t")
        case False
        then have "build_approval_decision p g max_age max_skew = build_fail AB_actor_permission_target_mismatch None None None
            ''actor permission gate target did not match approval target''"
          using 3 p g age by (auto simp: build_approval_decision_def same_target_def Let_def split: option.split)
        then show ?thesis by (rule fail) (use safe False p in auto)
      next
        case same: True
        from decision_of_ok[OF assms(1) 3(1) assms(2) 3(2) p(1) same]
        have "build_approval_decision p g max_age max_skew = mk_checked approval_build_check
          \<lparr>bd_status = GatePass, bd_approval = Some (decision_record p t g), bd_reason_code = None, bd_proof_reason_code = None,
                      bd_actor_reason_code = None, bd_transport_summary = None, bd_reason = None\<rparr>"
          using 3 p g age same by (auto simp: build_approval_decision_def same_target_def Let_def)
        with True same 3 p show ?thesis by (simp add: mk_checked_def approval_build_check_def require_optional_non_empty_def)
      qed
    qed
  qed
qed
section \<open>Properties\<close>

text \<open>C36. Building the decision from a checked proof and a checked permission gate never raises. The decision exists exactly
  if both pass, the gate was evaluated for the target of the proof, and the permission was checked at most \<open>max_age\<close>
  seconds before and at most \<open>max_skew\<close> seconds after the approval; it then repeats the ids, hashes and target of the
  proof and the actor, credential and permission of the gate.\<close>

theorem approval_decision_exact:
  assumes "approval_proof_check p = None" and "perm_gate_check g = None"
  shows "\<exists>b. build_approval_decision p g max_age max_skew = Inr b
    \<and> (bd_status b = GatePass \<longleftrightarrow> ap_status p = GatePass \<and> pg_status g = GatePass \<and> gate_age_ok p g max_age max_skew
         \<and> (\<exists>t. ap_review_target p = Some t \<and> same_target g t))
    \<and> bd_approval b = (if bd_status b = GatePass then Some (decision_record p (the (ap_review_target p)) g) else None)"
  using decision_outcome[OF assms] by blast

text \<open>The proof, the gate and the decision of the sample run.\<close>

definition sample_approved_at :: string where
  "sample_approved_at = ''2024-05-01T10:01:00Z''"

lemma sample_age: "utc_z_age_seconds sample_approved_at ''2024-05-01T10:00:00Z'' = Some 60"
  by code_simp

lemma sample_proof:
  obtains p ab where "approval_proof_check p = None" "ap_status p = GatePass" "ap_review_target p = Some sample_target"
    "ap_timestamp p = Some sample_approved_at" "ap_approved_item_ids p = [''f1'']"
    "ap_final_payload_hash p = Some (fp_final_payload_hash (ab_payload ab))"
    "build_approved_final_issue_comment ''run1'' sample_target (current_findings [sample_finding]) [body_item sample_finding]
       None False = Inr ab"
proof -
  let ?items = "approved_items [''f1''] sample_plan"
  have run: "valid_run_id ''run1''" by (simp add: valid_run_id_def run_id_char_def str_defs)
  have ts: "sample_approved_at \<noteq> []" by (simp add: sample_approved_at_def)
  obtain p where p: "build_approval_proof [''f1''] sample_target sample_plan [sample_finding] sample_candidate ''run1'' ''me''
      sample_approved_at None False = Inr p" "ap_status p = GatePass"
    using approval_proof_outcome[OF sample_plan_facts(1) sample_candidate_passes, of "''me''" sample_approved_at "[''f1'']" "''run1''"]
      run ts by (auto simp: sample_plan_facts body_item_def sample_finding_def)
  from build_proof_for_pass[OF build_approval_proof_pass(4)[OF p] p(2)] obtain ab where
    ab: "build_approved_final_issue_comment ''run1'' sample_target (current_findings [sample_finding]) ?items None False = Inr ab"
    and p': "p = pass_proof ?items sample_target ab ''me'' sample_approved_at False" by blast
  have "approval_proof_check p = None"
    unfolding p' sample_plan_facts(4)
    by (rule pass_proof_checked[OF ab[unfolded sample_plan_facts(4)]])
      (simp_all add: body_item_def sample_finding_def sample_approved_at_def)
  then show ?thesis
    by (rule that[OF _ p(2) _ _ _ _ ab[unfolded sample_plan_facts(4)]])
      (simp_all add: p'[unfolded sample_plan_facts(4)] pass_proof_def body_item_def sample_finding_def)
qed

lemma sample_gate:
  obtains g where "perm_gate_check g = None" "pg_status g = GatePass" "same_target g sample_target"
    "pg_checked_at g = Some ''2024-05-01T10:00:00Z''" "pg_actor g = Some ''me''"
    "evaluate_actor_permission_gate sample_probe sample_target ''2024-05-01T10:05:00Z'' 300 = Inr g"
    "pg_checked_target g = Some (to_ordered_dict sample_target)"
proof -
  have "outcome sample_probe sample_target (evaluate_actor_permission_gate sample_probe sample_target ''2024-05-01T10:05:00Z'' 300) True"
    using gate_evaluated[OF sample_target_valid sample_probe_facts(1) _ sample_time_later, of 300] sample_probe_facts by simp
  then show ?thesis
  proof (cases rule: outcome_cases)
    case (pass actor cs prin permission)
    show ?thesis
      by (rule that[OF pass(3) _ _ _ _ pass(2)])
        (use pass(4) in \<open>simp_all add: pass_record_def sample_probe_def field_value_def same_target_def perm_endpoint_kind_def
            safe_identity_def keep_if_def clean_def split: if_split_asm\<close>)
  qed simp
qed

theorem approval_decision_exact_witness:
  "\<exists>p g b a. build_approval_decision p g 300 60 = Inr b \<and> bd_approval b = Some a
     \<and> ad_approved_item_ids a = [''f1''] \<and> ad_github_actor a = ''me''"
proof -
  obtain p where p: "approval_proof_check p = None" "ap_status p = GatePass" "ap_review_target p = Some sample_target"
    "ap_timestamp p = Some sample_approved_at" "ap_approved_item_ids p = [''f1'']" by (rule sample_proof) blast
  obtain g where g: "perm_gate_check g = None" "pg_status g = GatePass" "same_target g sample_target"
    "pg_checked_at g = Some ''2024-05-01T10:00:00Z''" "pg_actor g = Some ''me''" by (rule sample_gate) blast
  have "gate_age_ok p g 300 60" using p(4) g(4) sample_age by (simp add: gate_age_ok_def)
  with approval_decision_exact[OF p(1) g(1), of 300 60] p g obtain b where
    "build_approval_decision p g 300 60 = Inr b" "bd_approval b = Some (decision_record p sample_target g)" by auto
  with p(5) g(5) show ?thesis
    by (intro exI[of _ p] exI[of _ g] exI[of _ b] exI[of _ "decision_record p sample_target g"]) (simp add: decision_record_def)
qed

end
