(* ===== verification/Finalization_Checks.thy ===== *)
theory Finalization_Checks
  imports Finalization Approval_Decision
begin

text \<open>
  The two checks right before posting. Each comes with the exact condition under which it passes: the target that was
  approved is confirmed by a fresh probe taken after the approval, and the permission gate passes again with the
  snapshot of the approval and does not go back in time.
\<close>

section \<open>The freshness of the target\<close>

lemma target_mismatched_Nil [simp]: "target_mismatched_fields a b = [] \<longleftrightarrow> a = b"
  by (cases a; cases b) (simp add: target_mismatched_fields_def filter_empty_conv)

lemma target_fail_status: "target_fail code s t c m reason = Inr r \<Longrightarrow> tc_status r = GateFail"
  by (auto simp: target_fail_def bindE_Inr_iff mk_checked_Inr_iff)

text \<open>What a passing check of the target says.\<close>

definition target_confirmed :: "(string \<Rightarrow> int option) \<Rightarrow> approval_decision \<Rightarrow> target_probe \<Rightarrow> string \<Rightarrow> int \<Rightarrow> bool" where
  "target_confirmed fromiso a p evaluated_at max_age \<longleftrightarrow>
     tp_current_target p = Present (ad_review_target a) \<and> rt_merge_base_sha (ad_review_target a) \<noteq> None
     \<and> tp_check_method p = Present target_check_method \<and> tp_transport_reason_code p = Absent
     \<and> tp_unknown_retryable p \<in> range Present
     \<and> (case (parse_optional_time fromiso (Present evaluated_at), parse_optional_time fromiso (Present (ad_timestamp a)),
              parse_optional_time fromiso (tp_checked_at p)) of
          (Some now, Some approved, Some checked) \<Rightarrow>
            now - checked \<le> max_age * 1000000 \<and> checked - now \<le> 60 * 1000000 \<and> approved \<le> checked
        | _ \<Rightarrow> False)"

lemma parse_time_Present: "parse_optional_time fromiso v = Some n \<Longrightarrow> \<exists>s. v = Present s"
  by (cases v) (simp_all add: parse_optional_time_def)

lemma target_freshness_pass:
  assumes "validate_target_freshness_for_finalization fromiso a probe evaluated_at max_age = Inr c" and "tc_status c = GatePass"
  shows "\<exists>p. probe = Some p \<and> target_confirmed fromiso a p evaluated_at max_age"
proof -
  have no [simp]: "target_fail code s t ch m reason \<noteq> Inr c" for code s t ch m reason
    using target_fail_status[of code s t ch m reason c] assms(2) by auto
  from assms(1) obtain now approved p where times: "parse_optional_time fromiso (Present evaluated_at) = Some now"
    "parse_optional_time fromiso (Present (ad_timestamp a)) = Some approved" "probe = Some p"
    and tr: "target_transport fromiso a p approved now max_age = Inr c"
    by (auto simp: validate_target_freshness_for_finalization_def Let_def split: option.split_asm)
  have "tp_unknown_retryable p \<notin> {Absent, Malformed}" "tp_transport_reason_code p = Absent"
    and cur: "target_current fromiso a (target_transport_summary (tp_request_id p) None False) p approved now max_age = Inr c"
    using tr by (auto simp: target_transport_def Let_def split: if_split_asm field.split_asm)
  then have unk: "tp_unknown_retryable p \<in> range Present" "tp_transport_reason_code p = Absent"
    by (cases "tp_unknown_retryable p", auto)
  from cur obtain t where t: "tp_current_target p = Present t" "tp_check_method p = Present target_check_method"
    "rt_merge_base_sha t \<noteq> None" "rt_merge_base_sha (ad_review_target a) \<noteq> None"
    and tm: "target_times fromiso a (target_transport_summary (tp_request_id p) None False) t (tp_checked_at p) approved now max_age = Inr c"
    unfolding target_current_def by (auto split: if_split_asm field.split_asm)
  from tm obtain checked ch where ch: "parse_optional_time fromiso (tp_checked_at p) = Some checked" "field_value (tp_checked_at p) = Some ch"
    "now - checked \<le> max_age * 1000000" "checked - now \<le> 60 * 1000000" "approved \<le> checked"
    and cmp: "target_compare a (target_transport_summary (tp_request_id p) None False) t ch = Inr c"
    unfolding target_times_def TARGET_MAX_FUTURE_SKEW_SECONDS_def
    by (auto split: if_split_asm option.split_asm)
  from cmp have "ad_review_target a = t" by (auto simp: target_compare_def Let_def split: if_split_asm)
  with times unk t ch show ?thesis by (auto simp: target_confirmed_def)
qed
text \<open>The check of the target neither raises nor hangs on a time stamp that is in the format of the program's own time
  stamps, RFC 3339 with a trailing \<open>Z\<close>.\<close>

definition strict_checked_at :: "(string \<Rightarrow> int option) \<Rightarrow> target_probe \<Rightarrow> bool" where
  "strict_checked_at fromiso p \<longleftrightarrow> (\<forall>s. tp_checked_at p = Present s \<longrightarrow> parse_optional_time fromiso (Present s) \<noteq> None \<longrightarrow>
     is_realistic_rfc3339_utc_z s)"

lemma target_summary_ok:
  assumes "(case r of None \<Rightarrow> \<not> retry | Some x \<Rightarrow> x = TR_unknown_freshness
      \<or> x \<in> set target_transport_reasons \<and> retry = (x \<in> set target_retryable_reasons))"
  shows "target_transport_summary rid r retry = Inr \<lparr>ts_endpoint_kind = target_transport_kind, ts_retryable = retry,
    ts_reason_code = r, ts_request_id = safe_request_id rid\<rparr>"
proof -
  have rid: "opt_ok (\<lambda>s. s \<noteq> [] \<and> length s \<le> 128 \<and> list_all request_id_chars s \<and> \<not> has_secret_fragment s) (safe_request_id rid)"
    using safe_request_id_field[of rid] by (auto simp: opt_ok_iff safe_request_id_text_def)
  have reason: "opt_ok (\<lambda>r. r \<in> set target_transport_reasons \<or> r = TR_unknown_freshness) r"
    "r = Some TR_unknown_freshness \<or> retry = opt_mem r target_retryable_reasons"
    using assms by (cases r; auto)+
  show ?thesis
    using rid reason
    by (simp add: target_transport_summary_def mk_checked_def target_summary_check_def target_transport_kind_def require_defs
        opt_ok_iff)
qed

lemma target_fail_ok:
  assumes "summary = Inr s" and "opt_ok is_realistic_rfc3339_utc_z ch" and "is_safe_reason reason"
    and "\<forall>f \<in> set m. f \<in> set target_mismatch_fields" and "code = TR_target_mismatch \<Longrightarrow> m \<noteq> []"
    and "code = TR_checked_at_before_approval \<Longrightarrow> m = [''checked_at'']"
  shows "\<exists>c. target_fail code summary t ch m reason = Inr c"
proof -
  have h: "\<forall>c \<in> set (require_optional_hash_like (map_option target_hash t) n). fst c" for n
    using optional_hash_pass[OF strict_target_hash] by (cases t) (auto simp: require_defs)
  have m: "\<forall>c \<in> set (require_allowed_str_tuple m n target_mismatch_fields). fst c" for n
    using assms(4) by (fastforce simp: require_allowed_str_tuple_def require_string_tuple_def list_all_iff target_mismatch_fields_def)
  have ch: "opt_ok non_empty ch" using assms(2) realistic_not_Nil by (auto simp: opt_ok_iff)
  have r: "reason \<noteq> []" using assms(3) by (simp add: is_safe_reason_def)
  have "target_check_check \<lparr>tc_status = GateFail, tc_reason_code = Some code, tc_transport_summary = Some s, tc_current_target = t,
        tc_current_target_hash = map_option target_hash t, tc_checked_at = ch,
        tc_check_method = Some target_check_method, tc_mismatched_fields = m, tc_reason = Some reason\<rparr> = None"
    unfolding target_check_check_def first_failure_None_iff set_append ball_Un target_check.select_convs
    using h m ch r assms(2,3,5,6)
    by (auto simp: target_fail_checks_def require_optional_non_empty_def opt_in_def target_check_method_def opt_ok_iff)
  then show ?thesis by (simp add: target_fail_def assms(1) mk_checked_def)
qed
lemma target_reasons_safe: "list_all is_safe_reason [''approval timestamp is malformed'', ''target freshness probe is malformed'',
    ''target freshness retryability is malformed'', ''target freshness transport reason is malformed'',
    ''target freshness transport reason is unsupported'', ''target freshness is unknown'']"
  "list_all is_safe_reason [''target freshness current target is malformed'', ''target freshness check method is malformed'',
    ''target freshness requires merge base'', ''target freshness checked_at is missing'',
    ''target freshness checked_at is malformed'', ''target freshness proof is stale'']"
  "list_all is_safe_reason [''target freshness proof is from the future'', ''target freshness proof predates approval'',
    ''current target differs from approved target'', ''current actor permission gate failed'',
    ''current actor permission proof predates approval proof'', ''current actor permission snapshot differs from approved snapshot'']"
  "list_all (\<lambda>r. is_safe_reason (''target freshness transport failed: '' @ target_reason_value r)) target_transport_reasons"
  by code_simp+

lemma target_reason_safe [simp]:
  "is_safe_reason ''approval timestamp is malformed''" "is_safe_reason ''target freshness probe is malformed''"
  "is_safe_reason ''target freshness retryability is malformed''"
  "is_safe_reason ''target freshness transport reason is malformed''"
  "is_safe_reason ''target freshness transport reason is unsupported''" "is_safe_reason ''target freshness is unknown''"
  "is_safe_reason ''target freshness current target is malformed''" "is_safe_reason ''target freshness check method is malformed''"
  "is_safe_reason ''target freshness requires merge base''" "is_safe_reason ''target freshness checked_at is missing''"
  "is_safe_reason ''target freshness checked_at is malformed''" "is_safe_reason ''target freshness proof is stale''"
  "is_safe_reason ''target freshness proof is from the future''" "is_safe_reason ''target freshness proof predates approval''"
  "is_safe_reason ''current target differs from approved target''" "is_safe_reason ''current actor permission gate failed''"
  "is_safe_reason ''current actor permission proof predates approval proof''"
  "is_safe_reason ''current actor permission snapshot differs from approved snapshot''"
  using target_reasons_safe(1-3) by (auto simp only: list.pred_inject)

lemma target_transport_reason_safe:
  "r \<in> set target_transport_reasons \<Longrightarrow> is_safe_reason (''target freshness transport failed: '' @ target_reason_value r)"
  using target_reasons_safe(4) by (auto simp: list_all_iff)

lemma target_mismatched_allowed: "\<forall>f \<in> set (target_mismatched_fields a b). f \<in> set target_mismatch_fields"
  by (auto simp: target_mismatched_fields_def target_mismatch_fields_def)

definition target_passed :: "review_target \<Rightarrow> string \<Rightarrow> target_summary \<Rightarrow> target_check" where
  "target_passed t checked_at s = \<lparr>tc_status = GatePass, tc_reason_code = None, tc_transport_summary = Some s,
     tc_current_target = Some t, tc_current_target_hash = Some (target_hash t), tc_checked_at = Some checked_at,
     tc_check_method = Some target_check_method, tc_mismatched_fields = [], tc_reason = None\<rparr>"

lemma target_passed_check:
  assumes "is_realistic_rfc3339_utc_z ch" and "ts_reason_code s = None" and "\<not> ts_retryable s"
  shows "target_check_check (target_passed t ch s) = None"
proof -
  have h: "\<forall>c \<in> set (require_optional_hash_like (Some (target_hash t)) n). fst c" for n
    by (rule optional_hash_pass[OF strict_target_hash])
  show ?thesis
    unfolding target_check_check_def first_failure_None_iff set_append ball_Un target_passed_def target_check.select_convs
    using h assms realistic_not_Nil[OF assms(1)]
    by (auto simp: target_pass_checks_def require_defs opt_in_def target_check_method_def require_string_tuple_def
        require_allowed_str_tuple_def)
qed

lemma target_compare_outcome:
  assumes "is_realistic_rfc3339_utc_z ch" and "ok = target_transport_summary rid None False"
  shows "\<exists>c. target_compare a ok t ch = Inr c \<and> (tc_status c = GatePass \<longleftrightarrow> ad_review_target a = t)"
proof (cases "ad_review_target a = t")
  case True
  with assms target_passed_check[OF assms(1)] show ?thesis
    by (simp add: target_compare_def target_summary_ok mk_checked_def target_passed_def)
next
  case False
  have "\<exists>c. target_fail TR_target_mismatch ok (Some t) (Some ch) (target_mismatched_fields (ad_review_target a) t)
      ''current target differs from approved target'' = Inr c"
    using False assms by (intro target_fail_ok) (auto simp: target_summary_ok target_mismatched_allowed)
  then show ?thesis using False target_fail_status by (fastforce simp: target_compare_def Let_def)
qed

text \<open>A stage that fails: it returns a result, and the result is no pass.\<close>

lemma target_fails:
  assumes "summary = Inr s" and "opt_ok is_realistic_rfc3339_utc_z ch" and "is_safe_reason reason"
    and "code \<notin> {TR_target_mismatch, TR_checked_at_before_approval} \<and> m = []
      \<or> code = TR_checked_at_before_approval \<and> m = [''checked_at'']"
  shows "\<exists>c. target_fail code summary t ch m reason = Inr c \<and> tc_status c \<noteq> GatePass"
proof -
  have "\<exists>c. target_fail code summary t ch m reason = Inr c"
    using assms by (intro target_fail_ok) (auto simp: target_mismatch_fields_def)
  then show ?thesis using target_fail_status by fastforce
qed

lemma target_times_outcome:
  assumes ok: "ok = target_transport_summary rid None False" "ok = Inr s" and strict: "strict_checked_at fromiso p"
  shows "\<exists>c. target_times fromiso a ok t (tp_checked_at p) approved now max_age = Inr c \<and>
    (tc_status c = GatePass \<longleftrightarrow> ad_review_target a = t \<and> (\<exists>checked. parse_optional_time fromiso (tp_checked_at p) = Some checked
        \<and> now - checked \<le> max_age * 1000000 \<and> checked - now \<le> 60 * 1000000 \<and> approved \<le> checked))"
proof (cases "parse_optional_time fromiso (tp_checked_at p)")
  case None
  have "\<exists>c. target_times fromiso a ok t (tp_checked_at p) approved now max_age = Inr c \<and> tc_status c \<noteq> GatePass"
    using None by (cases "tp_checked_at p") (auto simp: target_times_def intro!: target_fails[OF ok(2)])
  then show ?thesis using None by auto
next
  case (Some checked)
  then obtain ch where ch: "tp_checked_at p = Present ch" using parse_time_Present by blast
  then have real: "is_realistic_rfc3339_utc_z ch" using strict Some by (simp add: strict_checked_at_def)
  note eq = target_times_def ch field_value_def TARGET_MAX_FUTURE_SKEW_SECONDS_def Some[unfolded ch]
  consider "max_age * 1000000 < now - checked" | "\<not> max_age * 1000000 < now - checked" "now - checked < - 60000000"
    | "\<not> max_age * 1000000 < now - checked" "\<not> now - checked < - 60000000" "checked < approved"
    | "\<not> max_age * 1000000 < now - checked" "\<not> now - checked < - 60000000" "\<not> checked < approved" by blast
  then show ?thesis
  proof cases
    case 1
    with target_fails[OF ok(2), of "Some ch" "''target freshness proof is stale''" TR_stale_cached_target "[]" "Some t"] real
    show ?thesis by (simp add: eq)
  next
    case 2
    with target_fails[OF ok(2), of "Some ch" "''target freshness proof is from the future''" TR_future_checked_at "[]" "Some t"] real
    show ?thesis by (simp add: eq)
  next
    case 3
    with target_fails[OF ok(2), of "Some ch" "''target freshness proof predates approval''" TR_checked_at_before_approval
        "[''checked_at'']" "Some t"] real
    show ?thesis by (simp add: eq)
  next
    case 4
    with target_compare_outcome[OF real ok(1), of a t] show ?thesis by (simp add: eq not_less)
  qed
qed

lemma target_check_outcome:
  assumes "parse_optional_time fromiso (Present evaluated_at) \<noteq> None" and "\<forall>p. probe = Some p \<longrightarrow> strict_checked_at fromiso p"
  shows "\<exists>c. validate_target_freshness_for_finalization fromiso a probe evaluated_at max_age = Inr c
    \<and> (tc_status c = GatePass \<longleftrightarrow> (\<exists>p. probe = Some p \<and> target_confirmed fromiso a p evaluated_at max_age))"
proof -
  obtain now where now: "parse_optional_time fromiso (Present evaluated_at) = Some now" using assms(1) by auto
  have ok: "target_transport_summary rid None False = Inr \<lparr>ts_endpoint_kind = target_transport_kind, ts_retryable = False,
    ts_reason_code = None, ts_request_id = safe_request_id rid\<rparr>" for rid by (simp add: target_summary_ok)
  let ?v = "validate_target_freshness_for_finalization fromiso a probe evaluated_at max_age"
  have fails: "\<exists>c. target_fail code summary t ch [] reason = Inr c"
    if "\<exists>s. summary = Inr s" "is_safe_reason reason" "code \<notin> {TR_target_mismatch, TR_checked_at_before_approval}"
      "opt_ok is_realistic_rfc3339_utc_z ch" for code summary t reason ch
    using that target_fails[of summary _ ch reason code "[]" t] by auto
  have current: "\<exists>c. target_current fromiso a (target_transport_summary (tp_request_id p) None False) p approved now max_age = Inr c"
    if "probe = Some p" for p approved
  proof (cases "tp_current_target p")
    case (Present t)
    have ch: "opt_ok is_realistic_rfc3339_utc_z (if parse_optional_time fromiso (tp_checked_at p) \<noteq> None
        then field_value (tp_checked_at p) else None)"
      using assms(2) that by (cases "tp_checked_at p") (auto simp: strict_checked_at_def field_value_def)
    have "\<exists>c. target_times fromiso a (target_transport_summary (tp_request_id p) None False) t (tp_checked_at p) approved now max_age = Inr c"
      using target_times_outcome[OF refl ok, where p = p and t = t and fromiso = fromiso] assms(2) that by blast
    with Present ch ok show ?thesis unfolding target_current_def by (auto intro!: fails)
  qed (auto simp: target_current_def target_summary_ok intro!: fails)
  have "\<exists>c. target_transport fromiso a p approved now max_age = Inr c" if "probe = Some p" for p approved
  proof (cases "tp_transport_reason_code p")
    case Absent
    then show ?thesis using current[OF that, of approved] ok
      by (auto simp: target_transport_def Let_def intro!: fails)
  next
    case (Present r)
    have mal: "TR_malformed_response \<in> set target_transport_reasons" "TR_malformed_response \<notin> set target_retryable_reasons"
      by (simp_all add: target_transport_reasons_def target_retryable_reasons_def)
    have codes: "r \<in> set target_transport_reasons \<Longrightarrow> r \<notin> {TR_target_mismatch, TR_checked_at_before_approval}"
      by (auto simp: target_transport_reasons_def)
    show ?thesis using Present ok mal codes
      by (auto simp: target_transport_def Let_def target_summary_ok target_transport_reason_safe[simplified] intro!: fails)
  qed (auto simp: target_transport_def Let_def target_summary_ok target_transport_reasons_def target_retryable_reasons_def intro!: fails)
  then have "\<exists>c. ?v = Inr c"
    using now ok by (auto simp: validate_target_freshness_for_finalization_def Let_def intro!: fails split: option.split)
  then obtain c where c: "?v = Inr c" ..
  have "tc_status c = GatePass" if p: "probe = Some p" and conf: "target_confirmed fromiso a p evaluated_at max_age" for p
  proof -
    from conf now obtain approved checked where times: "parse_optional_time fromiso (Present (ad_timestamp a)) = Some approved"
      "parse_optional_time fromiso (tp_checked_at p) = Some checked" "now - checked \<le> max_age * 1000000"
      "checked - now \<le> 60 * 1000000" "approved \<le> checked" by (auto simp: target_confirmed_def split: option.split_asm)
    have "?v = target_times fromiso a (target_transport_summary (tp_request_id p) None False) (ad_review_target a) (tp_checked_at p)
        approved now max_age"
      using conf p now times
      by (auto simp: validate_target_freshness_for_finalization_def Let_def target_transport_def target_current_def target_confirmed_def)
    moreover have "strict_checked_at fromiso p" using assms(2) p by simp
    from target_times_outcome[OF refl ok this, where t = "ad_review_target a" and a = a and rid = "tp_request_id p"
        and approved = approved and now = now and max_age = max_age] times
    obtain c' where "target_times fromiso a (target_transport_summary (tp_request_id p) None False) (ad_review_target a) (tp_checked_at p)
        approved now max_age = Inr c'" "tc_status c' = GatePass" by auto
    ultimately show ?thesis using c by simp
  qed
  with c target_freshness_pass[OF c] show ?thesis by blast
qed
section \<open>The snapshot of the permission\<close>

text \<open>The documented behaviour of \<open>fromisoformat\<close> that the program relies on: a timestamp in the format of
  \<open>permissions.py\<close> is read as the same point in time.\<close>

definition reads_rfc3339 :: "(string \<Rightarrow> int option) \<Rightarrow> bool" where
  "reads_rfc3339 fromiso \<longleftrightarrow> (\<forall>v time. parse_optional_utc_z (Some v) = Some time \<longrightarrow>
     fromiso (remove_suffix_Z v @ ''+00:00'') = Some time)"

definition permission_reconfirmed :: "(string \<Rightarrow> int option) \<Rightarrow> approval_decision \<Rightarrow> perm_probe \<Rightarrow> string \<Rightarrow> int \<Rightarrow> perm_gate \<Rightarrow> bool" where
  "permission_reconfirmed fromiso a p evaluated_at max_age g \<longleftrightarrow>
     evaluate_actor_permission_gate p (ad_review_target a) evaluated_at max_age = Inr g \<and> pg_status g = GatePass
     \<and> (\<forall>c \<in> set (snapshot_comparisons a g). snd c)
     \<and> (case (parse_utc_z fromiso (the (pg_checked_at g)), parse_utc_z fromiso (ad_permission_checked_at a)) of
          (Inr current, Inr approved) \<Rightarrow> approved \<le> current | _ \<Rightarrow> False)"

lemma mismatched_fields_Nil: "mismatched_fields a g = [] \<longleftrightarrow> (\<forall>c \<in> set (snapshot_comparisons a g). snd c)"
proof -
  have "\<forall>c \<in> set (snapshot_comparisons a g). fst c \<in> set actor_mismatch_fields"
    by (simp add: snapshot_comparisons_def actor_mismatch_fields_def)
  then show ?thesis by (auto simp: mismatched_fields_def filter_empty_conv)
qed

lemma mismatched_fields_allowed: "set (mismatched_fields a g) \<subseteq> set actor_mismatch_fields"
  by (auto simp: mismatched_fields_def)

lemma actor_check_ok:
  assumes "afc_status c = GateFail" and "afc_reason_code c = Some code" and "opt_ok is_realistic_rfc3339_utc_z (afc_checked_at c)"
    and "set (afc_mismatched_fields c) \<subseteq> set actor_mismatch_fields" and "afc_reason c = Some reason" "is_safe_reason reason"
    and "afc_transport_summary c \<noteq> None" and "code = AF_actor_permission_gate_failed \<Longrightarrow> afc_actor_reason_code c \<noteq> None"
    and "code = AF_actor_permission_snapshot_mismatch \<Longrightarrow> afc_mismatched_fields c \<noteq> []"
    and "code = AF_actor_permission_checked_at_regressed \<Longrightarrow> afc_mismatched_fields c = [''checked_at'']"
  shows "actor_final_check_check c = None"
proof -
  have m: "\<forall>x \<in> set (require_allowed_str_tuple (afc_mismatched_fields c) n actor_mismatch_fields). fst x" for n
    using assms(4) by (fastforce simp: require_allowed_str_tuple_def require_string_tuple_def list_all_iff actor_mismatch_fields_def)
  have "opt_ok non_empty (afc_checked_at c)" using assms(3) realistic_not_Nil by (auto simp: opt_ok_iff)
  moreover have "reason \<noteq> []" using assms(6) by (simp add: is_safe_reason_def)
  ultimately show ?thesis
    unfolding actor_final_check_check_def first_failure_None_iff set_append ball_Un
    using assms m by (auto simp: require_optional_non_empty_def)
qed

lemma actor_fails:
  assumes "opt_ok is_realistic_rfc3339_utc_z ch" and "set m \<subseteq> set actor_mismatch_fields" and "is_safe_reason reason"
    and "s \<noteq> None" and "code = AF_actor_permission_gate_failed \<Longrightarrow> ac \<noteq> None"
    and "code = AF_actor_permission_snapshot_mismatch \<Longrightarrow> m \<noteq> []"
    and "code = AF_actor_permission_checked_at_regressed \<Longrightarrow> m = [''checked_at'']"
  shows "\<exists>c. mk_checked actor_final_check_check \<lparr>afc_status = GateFail, afc_reason_code = Some code, afc_actor_reason_code = ac,
     afc_transport_summary = s, afc_checked_at = ch, afc_mismatched_fields = m, afc_reason = Some reason\<rparr> = Inr c
     \<and> afc_status c \<noteq> GatePass"
  using actor_check_ok[of "\<lparr>afc_status = GateFail, afc_reason_code = Some code, afc_actor_reason_code = ac,
     afc_transport_summary = s, afc_checked_at = ch, afc_mismatched_fields = m, afc_reason = Some reason\<rparr>" code reason] assms
  by (simp add: mk_checked_def)

lemma actor_check_pass_ok:
  assumes "is_realistic_rfc3339_utc_z ch" and "s \<noteq> None"
  shows "actor_final_check_check \<lparr>afc_status = GatePass, afc_reason_code = None, afc_actor_reason_code = None,
        afc_transport_summary = s, afc_checked_at = Some ch, afc_mismatched_fields = [], afc_reason = None\<rparr> = None"
  using assms realistic_not_Nil[OF assms(1)]
  by (simp add: actor_final_check_check_def require_defs require_allowed_str_tuple_def require_string_tuple_def)

lemma gate_fail_facts:
  assumes "perm_gate_check g = None" and "pg_status g \<noteq> GatePass"
  shows "pg_reason_code g \<noteq> None" "pg_transport_summary g \<noteq> None" "opt_ok is_realistic_rfc3339_utc_z (pg_checked_at g)"
  using assms
  by (auto simp: perm_gate_check_def first_failure_None_iff ball_Un gate_fail_checks_def failure_metadata_checks_def
      gate_common_checks_def split: gate_status.split_asm)

lemma actor_check_pass:
  assumes "validate_actor_permission_snapshot_for_finalization fromiso a p (ad_review_target a) evaluated_at max_age = Inr c"
    and "afc_status c = GatePass"
  shows "\<exists>g. permission_reconfirmed fromiso a p evaluated_at max_age g"
  using assms
  by (auto simp: validate_actor_permission_snapshot_for_finalization_def bindE_Inr_iff mk_checked_Inr_iff snapshot_mismatch_def
      permission_reconfirmed_def mismatched_fields_Nil split: if_split_asm intro!: exI)

lemma actor_check_outcome:
  assumes target: "valid_target (ad_review_target a)" and probe: "wf_probe p" and age: "0 < max_age"
    and now: "parse_optional_utc_z (Some evaluated_at) = Some now" and iso: "reads_rfc3339 fromiso"
    and approved: "parse_optional_utc_z (Some (ad_permission_checked_at a)) = Some approved"
  shows "\<exists>c. validate_actor_permission_snapshot_for_finalization fromiso a p (ad_review_target a) evaluated_at max_age = Inr c
    \<and> (afc_status c = GatePass \<longleftrightarrow> (\<exists>g. permission_reconfirmed fromiso a p evaluated_at max_age g))"
proof -
  let ?v = "validate_actor_permission_snapshot_for_finalization fromiso a p (ad_review_target a) evaluated_at max_age"
  have appr: "parse_utc_z fromiso (ad_permission_checked_at a) = Inr approved"
    using iso approved by (simp add: reads_rfc3339_def parse_utc_z_def)
  from gate_evaluated[OF target probe age now] obtain g where g: "evaluate_actor_permission_gate p (ad_review_target a) evaluated_at max_age = Inr g"
    and pass: "pg_status g = GatePass \<Longrightarrow> \<exists>ch time. pg_checked_at g = Some ch \<and> parse_optional_utc_z (Some ch) = Some time"
  proof (cases rule: outcome_cases)
    case (pass actor cs prin permission)
    then show ?thesis
      by (intro that[of "pass_record p (ad_review_target a) actor cs prin permission"])
        (auto simp: pass_record_def proof_fresh_def field_value_def parse_no_value split: option.split_asm field.split_asm)
  qed (use that in auto)
  note chk = gate_checked[OF g]
  show ?thesis
  proof (cases "pg_status g = GatePass")
    case False
    have "\<exists>c. ?v = Inr c \<and> afc_status c \<noteq> GatePass"
      using False gate_fail_facts[OF chk False] g
      by (simp add: validate_actor_permission_snapshot_for_finalization_def del: not_None_eq) (rule actor_fails; simp del: not_None_eq)
    with False g show ?thesis by (auto simp: permission_reconfirmed_def)
  next
    case True
    from pass[OF True] obtain ch time where ch: "pg_checked_at g = Some ch" "parse_optional_utc_z (Some ch) = Some time" by blast
    have cur: "parse_utc_z fromiso ch = Inr time" using iso ch(2) by (simp add: reads_rfc3339_def parse_utc_z_def)
    have real: "is_realistic_rfc3339_utc_z ch" using ch(2) by (rule parsed_realistic)
    from chk True obtain s where s: "pg_transport_summary g = Some s" by (rule gate_pass_facts)
    note eq = validate_actor_permission_snapshot_for_finalization_def g bindE.simps ch(1) cur appr option.sel
    consider "mismatched_fields a g \<noteq> []" | "mismatched_fields a g = []" "time < approved"
      | "mismatched_fields a g = []" "\<not> time < approved" by blast
    then show ?thesis
    proof cases
      case 1
      have "\<exists>c. ?v = Inr c \<and> afc_status c \<noteq> GatePass"
        using 1 True s ch real mismatched_fields_allowed[of a g]
        by (simp add: eq snapshot_mismatch_def) (rule actor_fails; simp)
      with 1 g show ?thesis by (auto simp: permission_reconfirmed_def mismatched_fields_Nil)
    next
      case 2
      have "\<exists>c. ?v = Inr c \<and> afc_status c \<noteq> GatePass"
        using 2 True s real by (simp add: eq) (rule actor_fails; simp add: actor_mismatch_fields_def)
      with 2 g ch cur appr show ?thesis by (auto simp: permission_reconfirmed_def)
    next
      case 3
      then have "permission_reconfirmed fromiso a p evaluated_at max_age g"
        using g True ch cur appr by (simp add: permission_reconfirmed_def mismatched_fields_Nil)
      moreover have "\<exists>c. ?v = Inr c \<and> afc_status c = GatePass"
        using 3 True s actor_check_pass_ok[OF real, of "Some s"] by (simp add: eq mk_checked_def)
      ultimately show ?thesis by blast
    qed
  qed
qed

end
