(* ===== verification/Finalization_Safety.thy ===== *)
theory Finalization_Safety
  imports Finalization_Checks
begin

text \<open>
  The composition of the gates: the writer input is released only if every gate passed, for exactly the approved payload
  hash, and a released result carries everything the writer checks again.
\<close>

section \<open>Every other outcome withholds the input\<close>

lemma not_released_Inr:
  "not_released a actor target state code reason v m calls err = Inr r \<Longrightarrow>
     \<not> fz_writer_input_released r \<and> fz_final_payload r = None \<and> fs_state (fz_status r) = state"
  by (auto simp: not_released_def bindE_Inr_iff mk_checked_Inr_iff)

lemma not_released_ok:
  assumes "starts_with ''sha256:'' (ad_review_target_hash a)" and "state \<noteq> Finalized" and "reason \<noteq> []"
  shows "\<exists>r. not_released a actor target state code reason v m calls err = Inr r \<and> \<not> fz_writer_input_released r"
proof -
  have "ad_review_target_hash a \<noteq> []" using assms(1) by (auto simp: starts_with_iff)
  with assms show ?thesis by (auto simp: not_released_def mk_checked_def final_status_check_def require_defs)
qed

definition released_result :: "approval_decision \<Rightarrow> actor_final_check \<Rightarrow> target_check \<Rightarrow> final_payload \<Rightarrow> payload_validation
    \<Rightarrow> marker_result \<Rightarrow> finalize_result" where
  "released_result a actor target payload v m =
     \<lparr>fz_actor_check = Some actor, fz_target_check = Some target,
      fz_status = \<lparr>fs_state = Finalized, fs_payload_hash = Some (fp_final_payload_hash payload),
         fs_target_hash = Some (target_hash (fp_review_target payload)), fs_reason_code = None, fs_reason = None\<rparr>,
      fz_approved_actor = Some (ad_github_actor a), fz_payload_validation = Some v, fz_marker = Some m,
      fz_final_payload = Some payload, fz_dry_run_error = None, fz_builder_calls = 1, fz_writer_input_released = True\<rparr>"

definition bound_to :: "bound_marker \<Rightarrow> final_payload \<Rightarrow> bool" where
  "bound_to b p \<longleftrightarrow> bm_target_hash b = fp_marker_target_hash p \<and> bm_payload_hash b = fp_marker_payload_hash p
     \<and> bm_findings_hash b = fp_marker_findings_hash p"

lemma finalize_marker_released:
  assumes "finalize_marker a actor target payload v b = Inr r" and "fz_writer_input_released r"
  shows "bound_to b payload \<and> mr_status (bm_result b) = SafeToPost \<and> r = released_result a actor target payload v (bm_result b)"
  using assms
  by (auto simp: finalize_marker_def Let_def bound_to_def bindE_Inr_iff mk_checked_Inr_iff released_result_def
      split: if_split_asm marker_status.split_asm dest!: not_released_Inr)

lemma finalize_payload_released:
  assumes "finalize_payload a actor target builder reconciler = Inr r" and "fz_writer_input_released r"
  obtains payload reconcile b v where "builder = Some (Inr payload)" "reconciler = Some reconcile"
    "fp_final_payload_hash payload = ad_final_payload_hash a" "validate_final_issue_comment_payload payload = Inr v"
    "pv_status v = GatePass" "reconcile payload = Inr b" "finalize_marker a actor target payload v b = Inr r"
  using assms
  by (auto simp: finalize_payload_def Let_def bindE_Inr_iff split: option.split_asm if_split_asm dest!: not_released_Inr)

lemma finalize_released:
  assumes "finalize_github_payload fromiso a plan findings probe tprobe evaluated_at builder reconciler = Inr r"
    and "fz_writer_input_released r"
  obtains actor target where "approval_preflight a plan findings = None"
    "validate_actor_permission_snapshot_for_finalization fromiso a probe (ad_review_target a) evaluated_at 300 = Inr actor"
    "afc_status actor = GatePass" "validate_target_freshness_for_finalization fromiso a tprobe evaluated_at 300 = Inr target"
    "tc_status target = GatePass" "finalize_payload a actor target builder reconciler = Inr r"
  using assms
  by (auto simp: finalize_github_payload_def DEFAULT_MAX_PROOF_AGE_SECONDS_def bindE_Inr_iff
      split: option.split_asm if_split_asm dest!: not_released_Inr)

text \<open>The gates of the release, in the order of the code.\<close>

definition release_gates :: "(string \<Rightarrow> int option) \<Rightarrow> approval_decision \<Rightarrow> posting_plan \<Rightarrow> (string \<Rightarrow> approved_object option)
    \<Rightarrow> perm_probe \<Rightarrow> target_probe option \<Rightarrow> string \<Rightarrow> bool" where
  "release_gates fromiso a plan findings probe tprobe evaluated_at \<longleftrightarrow>
     approval_preflight a plan findings = None \<and> (\<exists>g. permission_reconfirmed fromiso a probe evaluated_at 300 g)
     \<and> (\<exists>p. tprobe = Some p \<and> target_confirmed fromiso a p evaluated_at 300)"

definition payload_gates :: "approval_decision \<Rightarrow> final_payload \<Rightarrow> bound_marker \<Rightarrow> bool" where
  "payload_gates a payload b \<longleftrightarrow> fp_final_payload_hash payload = ad_final_payload_hash a
     \<and> pv_passes (validate_final_issue_comment_payload payload) \<and> bound_to b payload \<and> mr_status (bm_result b) = SafeToPost"

lemma release_facts:
  assumes "finalize_github_payload fromiso a plan findings probe tprobe evaluated_at builder reconciler = Inr r"
    and "fz_writer_input_released r"
  shows "release_gates fromiso a plan findings probe tprobe evaluated_at
    \<and> (\<exists>payload reconcile b. builder = Some (Inr payload) \<and> reconciler = Some reconcile \<and> reconcile payload = Inr b
        \<and> payload_gates a payload b \<and> fz_final_payload r = Some payload \<and> fz_approved_actor r = Some (ad_github_actor a)
        \<and> fs_state (fz_status r) = Finalized \<and> fs_payload_hash (fz_status r) = Some (ad_final_payload_hash a))"
proof -
  obtain actor target where st: "approval_preflight a plan findings = None"
    "validate_actor_permission_snapshot_for_finalization fromiso a probe (ad_review_target a) evaluated_at 300 = Inr actor"
    "afc_status actor = GatePass" "validate_target_freshness_for_finalization fromiso a tprobe evaluated_at 300 = Inr target"
    "tc_status target = GatePass" "finalize_payload a actor target builder reconciler = Inr r"
    using finalize_released[OF assms] .
  obtain payload reconcile b v where pl: "builder = Some (Inr payload)" "reconciler = Some reconcile"
    "fp_final_payload_hash payload = ad_final_payload_hash a" "validate_final_issue_comment_payload payload = Inr v"
    "pv_status v = GatePass" "reconcile payload = Inr b" "finalize_marker a actor target payload v b = Inr r"
    using finalize_payload_released[OF st(6) assms(2)] .
  note fm = finalize_marker_released[OF pl(7) assms(2)]
  have "release_gates fromiso a plan findings probe tprobe evaluated_at"
    using st(1) actor_check_pass[OF st(2,3)] target_freshness_pass[OF st(4,5)] by (simp add: release_gates_def)
  then show ?thesis using pl fm by (auto simp: payload_gates_def pv_passes_def released_result_def)
qed

lemma finalize_payload_outcome:
  assumes hash: "starts_with ''sha256:'' (ad_review_target_hash a)" and payload: "final_payload_check payload = None"
    and bound: "reconcile payload = Inr b"
  shows "\<exists>r. finalize_payload a actor target (Some (Inr payload)) (Some reconcile) = Inr r
    \<and> (fz_writer_input_released r \<longleftrightarrow> payload_gates a payload b)"
proof -
  note fails = not_released_ok[OF hash]
  obtain v where v: "validate_final_issue_comment_payload payload = Inr v"
    using validate_final_total[of payload] by (auto simp: is_ok_iff)
  have passes: "pv_passes (validate_final_issue_comment_payload payload) \<longleftrightarrow> pv_status v = GatePass" by (simp add: v pv_passes_def)
  have ok: "final_status_check \<lparr>fs_state = Finalized, fs_payload_hash = Some (fp_final_payload_hash payload),
      fs_target_hash = Some (target_hash (fp_review_target payload)), fs_reason_code = None, fs_reason = None\<rparr> = None"
  proof -
    have "starts_with ''sha256:'' (fp_final_payload_hash payload)" using payload by (simp add: final_payload_check_iff)
    moreover from this have "fp_final_payload_hash payload \<noteq> []" by (auto simp: starts_with_iff)
    ultimately show ?thesis using strict_starts_with[OF strict_target_hash] strict_sha256_not_Nil[OF strict_target_hash]
      by (simp add: final_status_check_def require_defs)
  qed
  have "\<exists>r. finalize_marker a actor target payload v b = Inr r
      \<and> (fz_writer_input_released r \<longleftrightarrow> bound_to b payload \<and> mr_status (bm_result b) = SafeToPost)"
    using ok by (cases "mr_status (bm_result b)") (auto simp: finalize_marker_def Let_def bound_to_def mk_checked_def
        intro!: fails dest!: not_released_Inr)
  then show ?thesis
    using bound v passes
    by (auto simp: finalize_payload_def Let_def payload_gates_def intro!: fails)
qed

lemma iso_reads_time:
  assumes "parse_optional_utc_z (Some v) = Some time" and "reads_rfc3339 fromiso"
  shows "parse_optional_time fromiso (Present v) = Some time"
proof -
  from assms(1) have "rfc3339_shape v" by (auto simp: parse_optional_utc_z_def split: if_split_asm)
  then have "ends_with ''Z'' v" "CHR ''T'' \<in> set v"
    by (auto simp: shape_iff_stamp stamp_def ends_with_iff)
  with assms show ?thesis by (simp add: parse_optional_time_def reads_rfc3339_def)
qed

lemma first_some_pred: "first_some f xs = Some y \<Longrightarrow> \<exists>x \<in> set xs. f x = Some y"
  by (induction xs) (auto split: option.split_asm)

lemma preflight_reason_not_Nil: "approval_preflight a plan findings = Some reason \<Longrightarrow> reason \<noteq> []"
  by (auto simp: approval_preflight_def Let_def preflight_item_error_def preflight_finding_error_def dest!: first_some_pred
      split: if_split_asm option.split_asm approved_object.split_asm)

lemma finalization_outcome:
  assumes target: "valid_target (ad_review_target a)" and hash: "starts_with ''sha256:'' (ad_review_target_hash a)"
    and approved: "parse_optional_utc_z (Some (ad_permission_checked_at a)) \<noteq> None"
    and probes: "wf_probe probe" "\<forall>p. tprobe = Some p \<longrightarrow> strict_checked_at fromiso p"
    and now: "parse_optional_utc_z (Some evaluated_at) \<noteq> None" and iso: "reads_rfc3339 fromiso"
    and payload: "final_payload_check payload = None" and bound: "reconcile payload = Inr b"
  shows "\<exists>r. finalize_github_payload fromiso a plan findings probe tprobe evaluated_at (Some (Inr payload)) (Some reconcile) = Inr r
    \<and> (fz_writer_input_released r \<longleftrightarrow>
         release_gates fromiso a plan findings probe tprobe evaluated_at \<and> payload_gates a payload b)"
proof -
  note fails = not_released_ok[OF hash]
  from now obtain t0 where t0: "parse_optional_utc_z (Some evaluated_at) = Some t0" by auto
  from approved obtain t1 where t1: "parse_optional_utc_z (Some (ad_permission_checked_at a)) = Some t1" by auto
  have "parse_optional_time fromiso (Present evaluated_at) \<noteq> None" using iso_reads_time[OF t0 iso] by simp
  from target_check_outcome[OF this probes(2), of a 300] obtain tc where tc:
    "validate_target_freshness_for_finalization fromiso a tprobe evaluated_at 300 = Inr tc"
    "tc_status tc = GatePass \<longleftrightarrow> (\<exists>p. tprobe = Some p \<and> target_confirmed fromiso a p evaluated_at 300)" by blast
  from actor_check_outcome[OF target probes(1) _ t0 iso t1, of 300] obtain ac where ac:
    "validate_actor_permission_snapshot_for_finalization fromiso a probe (ad_review_target a) evaluated_at 300 = Inr ac"
    "afc_status ac = GatePass \<longleftrightarrow> (\<exists>g. permission_reconfirmed fromiso a probe evaluated_at 300 g)" by auto
  from finalize_payload_outcome[where actor = ac and target = tc and reconcile = reconcile and payload = payload, OF hash payload bound] obtain r where r:
    "finalize_payload a ac tc (Some (Inr payload)) (Some reconcile) = Inr r"
    "fz_writer_input_released r \<longleftrightarrow> payload_gates a payload b" by blast
  let ?f = "finalize_github_payload fromiso a plan findings probe tprobe evaluated_at (Some (Inr payload)) (Some reconcile)"
  have fail: "\<exists>x. ?f = Inr x \<and> \<not> fz_writer_input_released x"
    if "?f = not_released a ca ct FinalFailedClosed code reason v m calls err" "reason \<noteq> []" for ca ct code reason v m calls err
    using that fails[of FinalFailedClosed reason ca ct code v m calls err] by auto
  note eq = finalize_github_payload_def DEFAULT_MAX_PROOF_AGE_SECONDS_def ac(1) tc(1) bindE.simps
  consider reason where "approval_preflight a plan findings = Some reason"
    | "approval_preflight a plan findings = None" "afc_status ac \<noteq> GatePass"
    | "approval_preflight a plan findings = None" "afc_status ac = GatePass" "tc_status tc \<noteq> GatePass"
    | "approval_preflight a plan findings = None" "afc_status ac = GatePass" "tc_status tc = GatePass" by fastforce
  then show ?thesis
  proof cases
    case 1
    have "reason \<noteq> []" using 1 by (rule preflight_reason_not_Nil)
    with 1 fail[OF _ this] show ?thesis by (force simp: eq release_gates_def)
  next
    case 2
    with ac(2) have "\<not> release_gates fromiso a plan findings probe tprobe evaluated_at" by (auto simp: release_gates_def)
    moreover have "\<exists>x. ?f = Inr x \<and> \<not> fz_writer_input_released x" by (rule fail, (simp add: eq 2)+)
    ultimately show ?thesis by blast
  next
    case 3
    with tc(2) have "\<not> release_gates fromiso a plan findings probe tprobe evaluated_at" by (auto simp: release_gates_def)
    moreover have "\<exists>x. ?f = Inr x \<and> \<not> fz_writer_input_released x" by (rule fail, (simp add: eq 3)+)
    ultimately show ?thesis by blast
  next
    case 4
    with ac(2) tc(2) have "release_gates fromiso a plan findings probe tprobe evaluated_at" by (auto simp: release_gates_def)
    with 4 r show ?thesis by (simp add: eq)
  qed
qed
section \<open>A run that releases\<close>

definition sample_fromiso :: "string \<Rightarrow> int option" where
  "sample_fromiso v = parse_optional_utc_z (Some (take (length v - 6) v @ ''Z''))"

lemma sample_fromiso_reads: "reads_rfc3339 sample_fromiso"
proof -
  have "remove_suffix_Z v @ ''Z'' = v" if "parse_optional_utc_z (Some v) = Some time" for v time
  proof -
    from that have "rfc3339_shape v" by (auto simp: parse_optional_utc_z_def split: if_split_asm)
    then show ?thesis by (auto simp: shape_iff_stamp stamp_def remove_suffix_Z_def ends_with_iff butlast_append)
  qed
  then show ?thesis by (simp add: reads_rfc3339_def sample_fromiso_def)
qed

definition sample_target_probe :: target_probe where
  "sample_target_probe = \<lparr>tp_current_target = Present sample_target, tp_checked_at = Present ''2024-05-01T10:02:00Z'',
     tp_check_method = Present target_check_method, tp_transport_reason_code = Absent, tp_request_id = Absent,
     tp_unknown_retryable = Present False, tp_reason = Absent\<rparr>"

definition sample_reconcile :: "final_payload \<Rightarrow> bound_marker result" where
  "sample_reconcile p = Inr
     \<lparr>bm_result = \<lparr>mr_status = SafeToPost, mr_reason_code = MR_safe_to_post,
        mr_summary = \<lparr>ms_endpoint_kind = ''issue_comments'', ms_page_count = 1, ms_comment_count = 0, ms_marker_count = 0,
          ms_retryable = False, ms_reason_code = None, ms_request_id = None\<rparr>,
        mr_trusted_actor = None, mr_existing_comment_id = None, mr_duplicate_comment_ids = [],
        mr_writer_input_released = False, mr_finalization_passed = False, mr_reason = None\<rparr>,
      bm_target_hash = fp_marker_target_hash p, bm_payload_hash = fp_marker_payload_hash p,
      bm_findings_hash = fp_marker_findings_hash p\<rparr>"

lemma sample_times: "parse_optional_utc_z (Some ''2024-05-01T10:01:00Z'') = Some 63850240860000000"
  "parse_optional_utc_z (Some ''2024-05-01T10:02:00Z'') = Some 63850240920000000"
  by code_simp+

lemma approved_comment_validates:
  assumes "build_approved_final_issue_comment run_id t d selected v iv = Inr ab"
    and "approved_visible_body t d selected v iv = Inr raw" and "CHR ''<'' \<notin> set raw"
  shows "pv_passes (validate_final_issue_comment_payload (ab_payload ab)) \<and> final_payload_check (ab_payload ab) = None"
proof -
  from assms(1,2) obtain rs fs p where ok: "redaction_status_of (redact_text raw) = Inr rs"
    "build_final_issue_comment_payload run_id t (rstrip_lf (rr_text (redact_text raw)) @ [LF]) (map cf_fingerprint fs) rs = Inr p"
    "mapE (lookup_finding d) selected = Inr fs" "p = ab_payload ab"
    by (auto simp: build_approved_final_issue_comment_def bindE_Inr_iff Let_def)
  note * = ok(1) ok(2)[unfolded ok(4)]
  have "CHR ''<'' \<notin> set (rr_text (redact_text raw))"
    using redact_text_set[of raw] assms(3) by (auto simp: REDACTION_TOKEN_def)
  then have "\<not> contains_marker_line (rstrip_lf (rr_text (redact_text raw)) @ [LF])"
    using set_rstrip_lf[of "rr_text (redact_text raw)"] by (intro no_lt_no_marker) (auto simp: LF_def)
  moreover have "red_status rs = GatePass" using *(1) by (auto simp: redaction_status_of_ok)
  ultimately have "pv_passes (validate_final_issue_comment_payload (ab_payload ab))"
    using validate_built_payload[OF *(2)] by (simp add: pv_pass_ok strict_starts_with pv_passes_def)
  moreover have "final_payload_check (ab_payload ab) = None"
    using *(2) by (auto simp: build_final_issue_comment_payload_def Let_def bindE_Inr_iff mk_checked_Inr_iff)
  ultimately show ?thesis ..
qed

lemma sample_body:
  obtains raw where "approved_visible_body sample_target (current_findings [sample_finding]) [body_item sample_finding] None False
    = Inr raw" "CHR ''<'' \<notin> set raw"
proof -
  have "case approved_visible_body sample_target (current_findings [sample_finding]) [body_item sample_finding] None False of
      Inl _ \<Rightarrow> False | Inr raw \<Rightarrow> CHR ''<'' \<notin> set raw"
    by code_simp
  then show ?thesis using that by (auto split: sum.split_asm)
qed

lemma sample_dict_eq: "dict_eq (to_ordered_dict sample_target) (to_ordered_dict sample_target)"
  by code_simp

lemma sample_release:
  obtains a payload where "valid_target (ad_review_target a)" "starts_with ''sha256:'' (ad_review_target_hash a)"
    "parse_optional_utc_z (Some (ad_permission_checked_at a)) \<noteq> None" "ad_github_actor a = ''me''"
    "final_payload_check payload = None" "approval_decision_check a = None"
    "fp_review_target payload = sample_target" "ad_review_target_hash a = target_hash sample_target"
    "fp_marker_run_id payload = ''run1''"
    "release_gates sample_fromiso a sample_plan [''f1'' \<mapsto> FindingObject sample_finding] sample_probe (Some sample_target_probe)
       ''2024-05-01T10:05:00Z''"
    "payload_gates a payload (projr (sample_reconcile payload))"
proof -
  obtain p ab where p: "approval_proof_check p = None" "ap_status p = GatePass" "ap_review_target p = Some sample_target"
    "ap_timestamp p = Some sample_approved_at" "ap_approved_item_ids p = [''f1'']"
    "ap_final_payload_hash p = Some (fp_final_payload_hash (ab_payload ab))"
    and ab: "build_approved_final_issue_comment ''run1'' sample_target (current_findings [sample_finding]) [body_item sample_finding]
       None False = Inr ab" by (rule sample_proof)
  obtain g where g: "perm_gate_check g = None" "pg_status g = GatePass" "same_target g sample_target"
    "pg_checked_at g = Some ''2024-05-01T10:00:00Z''" "pg_actor g = Some ''me''"
    "evaluate_actor_permission_gate sample_probe sample_target ''2024-05-01T10:05:00Z'' 300 = Inr g"
    "pg_checked_target g = Some (to_ordered_dict sample_target)" by (rule sample_gate)
  let ?a = "decision_record p sample_target g"
  have a: "ad_approved ?a" "ad_approved_item_ids ?a = [''f1'']" "ad_review_target ?a = sample_target"
    "ad_review_target_hash ?a = target_hash sample_target" "ad_permission_checked_at ?a = ''2024-05-01T10:00:00Z''"
    "ad_github_actor ?a = ''me''" "ad_timestamp ?a = sample_approved_at"
    "ad_final_payload_hash ?a = fp_final_payload_hash (ab_payload ab)"
    by (simp_all add: decision_record_def p g)
  have chk: "approval_decision_check ?a = None"
    using decision_of_ok[OF p(1,2) g(1,2) p(3) g(3)] by (auto simp: decision_of_def bindE_Inr_iff mk_checked_Inr_iff)
  note reads = iso_reads_time[OF _ sample_fromiso_reads]
  have pre: "approval_preflight ?a sample_plan [''f1'' \<mapsto> FindingObject sample_finding] = None"
    by (simp add: approval_preflight_def Let_def dict_get_def a sample_plan_def items_by_id_def has_duplicates_def preflight_item_error_def
        preflight_finding_error_def body_item_def sample_finding_def object_fingerprint_def)
  have same: "\<forall>c \<in> set (snapshot_comparisons ?a g). snd c"
    using g(1,2) by (rule gate_pass_facts) (use g(3) in \<open>auto simp: snapshot_comparisons_def decision_record_def sample_dict_eq same_target_def g(7)\<close>)
  have perm: "permission_reconfirmed sample_fromiso ?a sample_probe ''2024-05-01T10:05:00Z'' 300 g"
    using same g sample_time sample_fromiso_reads
    by (simp add: permission_reconfirmed_def a parse_utc_z_def reads_rfc3339_def)
  have target: "target_confirmed sample_fromiso ?a sample_target_probe ''2024-05-01T10:05:00Z'' 300"
    using reads[OF sample_time_later] reads[OF sample_times(1)] reads[OF sample_times(2)]
    by (simp add: target_confirmed_def a sample_target_probe_def sample_approved_at_def rangeI) (simp add: sample_target_def)
  obtain raw where raw: "approved_visible_body sample_target (current_findings [sample_finding]) [body_item sample_finding] None False
    = Inr raw" "CHR ''<'' \<notin> set raw" by (rule sample_body)
  note val = approved_comment_validates[OF ab raw]
  obtain b fps rs fh where built: "ab_payload ab = built_payload ''run1'' sample_target b fps rs fh"
    using approved_build_facts[OF ab] by metis
  show ?thesis
  proof (rule that[of ?a "ab_payload ab"])
    show "release_gates sample_fromiso ?a sample_plan [''f1'' \<mapsto> FindingObject sample_finding] sample_probe (Some sample_target_probe)
       ''2024-05-01T10:05:00Z''" using pre perm target by (auto simp: release_gates_def)
    show "payload_gates ?a (ab_payload ab) (projr (sample_reconcile (ab_payload ab)))"
      using val by (simp add: payload_gates_def a sample_reconcile_def bound_to_def)
  qed (use val chk in \<open>simp_all add: a sample_target_valid sample_time strict_starts_with built built_payload_def Let_def\<close>)
qed

lemma sample_strict: "strict_checked_at sample_fromiso sample_target_probe"
  using parsed_realistic[OF sample_times(2)] by (simp add: strict_checked_at_def sample_target_probe_def)

lemma sample_reconcile_ok: "sample_reconcile p = Inr (projr (sample_reconcile p))"
  by (simp add: sample_reconcile_def)

lemma sample_finalized:
  obtains a payload r where "finalize_github_payload sample_fromiso a sample_plan [''f1'' \<mapsto> FindingObject sample_finding] sample_probe
       (Some sample_target_probe) ''2024-05-01T10:05:00Z'' (Some (Inr payload)) (Some sample_reconcile) = Inr r"
    "fz_writer_input_released r" "approval_decision_check a = None" "ad_github_actor a = ''me''"
    "fp_review_target payload = sample_target" "ad_review_target_hash a = target_hash sample_target"
    "fp_marker_run_id payload = ''run1''" "final_payload_check payload = None"
proof -
  obtain a payload where s: "valid_target (ad_review_target a)" "starts_with ''sha256:'' (ad_review_target_hash a)"
    "parse_optional_utc_z (Some (ad_permission_checked_at a)) \<noteq> None" "ad_github_actor a = ''me''"
    "final_payload_check payload = None" "approval_decision_check a = None"
    "fp_review_target payload = sample_target" "ad_review_target_hash a = target_hash sample_target"
    "fp_marker_run_id payload = ''run1''"
    "release_gates sample_fromiso a sample_plan [''f1'' \<mapsto> FindingObject sample_finding] sample_probe (Some sample_target_probe)
       ''2024-05-01T10:05:00Z''" "payload_gates a payload (projr (sample_reconcile payload))"
    by (rule sample_release)
  have "parse_optional_utc_z (Some ''2024-05-01T10:05:00Z'') \<noteq> None"
    "\<forall>p. Some sample_target_probe = Some p \<longrightarrow> strict_checked_at sample_fromiso p"
    using sample_time_later sample_strict by simp_all
  from finalization_outcome[where a = a and tprobe = "Some sample_target_probe" and payload = payload and reconcile = sample_reconcile
      and plan = sample_plan and findings = "[''f1'' \<mapsto> FindingObject sample_finding]", OF s(1-3) sample_probe_facts(1) this(2,1)
      sample_fromiso_reads s(5) sample_reconcile_ok] s that
  show ?thesis by blast
qed

section \<open>Properties\<close>

text \<open>C37. Whatever the probes, the builder and the reconciler return: if finalization releases the writer input, then the
  approval passed its preflight against the plan and the findings, the permission gate passed again with the approved
  snapshot, a probe of the target taken after the approval confirmed the approved target, the payload has the approved
  hash and passes validation, and a marker scan bound to this very payload said \<open>safe_to_post\<close>.\<close>

theorem release_passes_every_gate:
  assumes "finalize_github_payload fromiso a plan findings probe tprobe evaluated_at builder reconciler = Inr r"
    and "fz_writer_input_released r"
  shows "release_gates fromiso a plan findings probe tprobe evaluated_at
    \<and> (\<exists>payload reconcile b. builder = Some (Inr payload) \<and> reconciler = Some reconcile \<and> reconcile payload = Inr b
        \<and> payload_gates a payload b \<and> fz_final_payload r = Some payload \<and> fz_approved_actor r = Some (ad_github_actor a)
        \<and> fs_state (fz_status r) = Finalized \<and> fs_payload_hash (fz_status r) = Some (ad_final_payload_hash a))"
  using assms by (rule release_facts)

theorem release_passes_every_gate_witness:
  "\<exists>(a :: approval_decision) (r :: finalize_result). fz_writer_input_released r \<and> fz_approved_actor r = Some ''me''
     \<and> release_gates sample_fromiso a sample_plan [''f1'' \<mapsto> FindingObject sample_finding] sample_probe (Some sample_target_probe)
         ''2024-05-01T10:05:00Z''"
proof -
  obtain a payload r where s: "finalize_github_payload sample_fromiso a sample_plan [''f1'' \<mapsto> FindingObject sample_finding] sample_probe
       (Some sample_target_probe) ''2024-05-01T10:05:00Z'' (Some (Inr payload)) (Some sample_reconcile) = Inr r"
    "fz_writer_input_released r" "ad_github_actor a = ''me''" by (rule sample_finalized)
  from release_passes_every_gate[OF s(1,2)] s(2,3) show ?thesis by auto
qed



end
