(* ===== verification/Marker_Safety.thy ===== *)
theory Marker_Safety
  imports Markers
begin

text \<open>
  What the scan for existing markers promises: it never raises and ends by its page cap, a comment is only declared safe
  to post after a complete listing in which no trusted comment carries a marker for the same findings, and an existing
  comment is only reconciled if it is in the listing, trusted, and carries exactly the expected hashes.
\<close>

section \<open>Scans as folds over comments\<close>

text \<open>The interface of a loop over comments that collects some of them: \<open>holds s cs\<close> says that the state \<open>s\<close> has collected
  exactly \<open>cs\<close>. The three collections of the two scans share its one law.\<close>

locale comment_scan =
  fixes step :: "'s \<Rightarrow> 'c \<Rightarrow> 's"
    and picks :: "'c \<Rightarrow> bool"
    and holds :: "'s \<Rightarrow> 'c list \<Rightarrow> bool"
  assumes holds_step: "holds s cs \<Longrightarrow> holds (step s c) (cs @ filter picks [c])"
begin

lemma holds_foldl: "holds s cs \<Longrightarrow> holds (foldl step s ds) (cs @ filter picks ds)"
proof (induction ds arbitrary: s cs)
  case (Cons d ds)
  from Cons.IH[OF holds_step[OF Cons.prems, of d]] show ?case by (simp split: if_splits)
qed simp

lemma holds_from_empty: "holds s [] \<Longrightarrow> holds (foldl step s ds) (filter picks ds)"
  using holds_foldl[of s "[]" ds] by simp

end

section \<open>Which comments count\<close>

definition comment_trusted :: "scan_params \<Rightarrow> marker_comment \<Rightarrow> bool" where
  "comment_trusted P c \<longleftrightarrow> is_trusted_marker_author c (sp_approved_actor P) (sp_trusted_bots P)"

definition same_findings :: "string \<Rightarrow> string \<Rightarrow> marker_fields \<Rightarrow> bool" where
  "same_findings target findings m \<longleftrightarrow> mk_target m = target \<and> mk_findings m = findings"

definition looks_malformed :: "string \<Rightarrow> bool" where
  "looks_malformed body \<longleftrightarrow> scan_final_line_marker body = None \<and> looks_like_reviewgraph_marker (marker_body_final_line body)"

definition body_conflicts :: "string \<Rightarrow> string \<Rightarrow> string \<Rightarrow> string \<Rightarrow> bool" where
  "body_conflicts target payload findings body \<longleftrightarrow>
     (\<exists>m. scan_final_line_marker body = Some m \<and> same_findings target findings m \<and> mk_payload m \<noteq> payload)"

definition body_matches :: "string \<Rightarrow> string \<Rightarrow> string \<Rightarrow> string \<Rightarrow> bool" where
  "body_matches target payload findings body \<longleftrightarrow>
     (\<exists>m. scan_final_line_marker body = Some m \<and> same_findings target findings m \<and> mk_payload m = payload)"

text \<open>A trusted comment that stops the run, and one that is the comment of this run.\<close>

definition comment_blocks :: "scan_params \<Rightarrow> marker_comment \<Rightarrow> bool" where
  "comment_blocks P c \<longleftrightarrow> comment_trusted P c
     \<and> (looks_malformed (mc_body c) \<or> body_conflicts (sp_target_hash P) (sp_payload_hash P) (sp_findings_hash P) (mc_body c))"

definition comment_matches :: "scan_params \<Rightarrow> marker_comment \<Rightarrow> bool" where
  "comment_matches P c \<longleftrightarrow> comment_trusted P c
     \<and> body_matches (sp_target_hash P) (sp_payload_hash P) (sp_findings_hash P) (mc_body c)"

lemmas body_class_defs = looks_malformed_def body_conflicts_def body_matches_def same_findings_def

definition holds_matches :: "scan_state \<Rightarrow> marker_comment list \<Rightarrow> bool" where
  "holds_matches st cs \<longleftrightarrow>
     (case cs of [] \<Rightarrow> sc_match st = None \<and> sc_duplicates st = []
      | c # ds \<Rightarrow> (\<exists>m. sc_match st = Some (c, m)) \<and> sc_duplicates st = map mc_comment_id ds)"

definition holds_blocks :: "scan_state \<Rightarrow> marker_comment list \<Rightarrow> bool" where
  "holds_blocks st cs \<longleftrightarrow> (sc_deferred st = None \<longleftrightarrow> cs = [])"

lemma defer_failure_match [simp]:
  "sc_match (defer_failure r st) = sc_match st" "sc_duplicates (defer_failure r st) = sc_duplicates st"
  "sc_deferred (defer_failure r st) \<noteq> None"
  by (simp_all add: defer_failure_def)

lemma scan_comment_matches:
  "holds_matches st cs \<Longrightarrow> holds_matches (scan_comment P st c) (cs @ filter (comment_matches P) [c])"
  by (cases "scan_final_line_marker (mc_body c)"; cases cs)
    (auto simp: scan_comment_def Let_def holds_matches_def comment_matches_def comment_trusted_def body_class_defs)

lemma scan_comment_blocks:
  "holds_blocks st cs \<Longrightarrow> holds_blocks (scan_comment P st c) (cs @ filter (comment_blocks P) [c])"
  by (cases "scan_final_line_marker (mc_body c)")
    (auto simp: scan_comment_def Let_def holds_blocks_def comment_blocks_def comment_trusted_def body_class_defs
      defer_failure_def)

interpretation match_scan: comment_scan "scan_comment P" "comment_matches P" holds_matches for P
  by unfold_locales (rule scan_comment_matches)

interpretation block_scan: comment_scan "scan_comment P" "comment_blocks P" holds_blocks for P
  by unfold_locales (rule scan_comment_blocks)

lemma scan_comment_counts [simp]:
  "sc_comment_count (scan_comment P st c) = sc_comment_count st"
  "sc_seen (scan_comment P st c) = sc_seen st"
  "sc_request_id (scan_comment P st c) = sc_request_id st"
  "sc_cursor (scan_comment P st c) = sc_cursor st"
  by (simp_all add: scan_comment_def defer_failure_def Let_def split: option.split)

lemma scan_comments_counts [simp]:
  "sc_comment_count (foldl (scan_comment P) st cs) = sc_comment_count st"
  "sc_seen (foldl (scan_comment P) st cs) = sc_seen st"
  "sc_request_id (foldl (scan_comment P) st cs) = sc_request_id st"
  "sc_cursor (foldl (scan_comment P) st cs) = sc_cursor st"
  by (induction cs arbitrary: st) simp_all

section \<open>Results never raise\<close>

definition summary_of :: "scan_state \<Rightarrow> string option \<Rightarrow> marker_reason option \<Rightarrow> marker_summary" where
  "summary_of st rid reason =
     \<lparr>ms_endpoint_kind = ''issue_comments'', ms_page_count = sc_page_count st, ms_comment_count = sc_comment_count st,
      ms_marker_count = sc_marker_count st,
      ms_retryable = (case reason of None \<Rightarrow> False | Some r \<Rightarrow> r \<in> set retryable_marker_reasons),
      ms_reason_code = reason, ms_request_id = safe_marker_request_id rid\<rparr>"

lemma safe_request_id_Some:
  assumes "safe_marker_request_id v = Some s"
  shows "s \<noteq> []" and "length s \<le> 128" and "list_all request_id_chars s" and "\<not> has_secret_fragment s"
proof -
  have chars: "marker_request_id_char c \<Longrightarrow> request_id_chars c" for c
    by (auto simp: marker_request_id_char_def request_id_chars_def)
  from assms have *: "s \<noteq> [] \<and> length s \<le> 128 \<and> list_all marker_request_id_char s \<and> \<not> has_secret_fragment s"
    by (auto simp: safe_marker_request_id_def split: option.split_asm if_split_asm)
  then show "s \<noteq> []" "length s \<le> 128" "\<not> has_secret_fragment s" by simp_all
  from * chars show "list_all request_id_chars s" by (auto simp: list_all_iff)
qed

lemma summary_of_check: "marker_summary_check (summary_of st rid reason) = None"
proof (cases "safe_marker_request_id rid")
  case None
  then show ?thesis
    by (cases reason) (simp_all add: marker_summary_check_def summary_of_def require_non_empty_def require_optional_non_empty_def)
next
  case (Some s)
  with safe_request_id_Some[OF Some] show ?thesis
    by (cases reason) (simp_all add: marker_summary_check_def summary_of_def require_non_empty_def require_optional_non_empty_def)
qed

lemma marker_scan_summary_ok: "marker_scan_summary st rid reason = Inr (summary_of st rid reason)"
  using summary_of_check[of st rid reason] by (simp add: marker_scan_summary_def mk_checked_def summary_of_def)

definition failed_result :: "marker_reason \<Rightarrow> scan_state \<Rightarrow> string option \<Rightarrow> marker_result" where
  "failed_result r st rid =
     \<lparr>mr_status = FailedClosed, mr_reason_code = r, mr_summary = summary_of st rid (Some r), mr_trusted_actor = None,
      mr_existing_comment_id = None, mr_duplicate_comment_ids = [], mr_writer_input_released = False,
      mr_finalization_passed = False, mr_reason = None\<rparr>"

lemmas result_check_defs = marker_result_check_def require_optional_non_empty_def require_string_tuple_def
  no_existing_data_def no_summary_failure_def

lemma trusted_marker_failure_ok:
  "r \<notin> {MR_safe_to_post, MR_matched_existing} \<Longrightarrow> trusted_marker_failure r st rid = Inr (failed_result r st rid)"
  by (simp add: trusted_marker_failure_def marker_scan_summary_ok mk_checked_def result_check_defs failed_result_def
      summary_of_def)

text \<open>What every state of a scan keeps: what it holds can be put into a result.\<close>

definition scan_ok :: "scan_state \<Rightarrow> bool" where
  "scan_ok st \<longleftrightarrow>
     (case sc_deferred st of None \<Rightarrow> True | Some (r, rid) \<Rightarrow> r \<in> {MR_trusted_marker_malformed, MR_trusted_marker_conflict})
     \<and> (case sc_match st of None \<Rightarrow> True | Some (c, m) \<Rightarrow> mc_author_login c \<noteq> [] \<and> mc_comment_id c \<noteq> [])
     \<and> list_all non_empty (sc_duplicates st)"

lemma trusted_login: "is_trusted_marker_author c a bs \<Longrightarrow> mc_author_login c \<noteq> []"
  by (auto simp: is_trusted_marker_author_def split: if_split_asm)

lemma scan_ok_comment: "scan_ok st \<Longrightarrow> marker_comment_check c = None \<Longrightarrow> scan_ok (scan_comment P st c)"
  using trusted_login[of c "sp_approved_actor P" "sp_trusted_bots P"]
  by (cases "scan_final_line_marker (mc_body c)"; cases "sc_match st"; cases "sc_deferred st")
    (auto simp: scan_ok_def scan_comment_def Let_def defer_failure_def marker_comment_check_def)

lemma scan_ok_comments: "scan_ok st \<Longrightarrow> \<forall>c \<in> set cs. marker_comment_check c = None \<Longrightarrow> scan_ok (foldl (scan_comment P) st cs)"
  by (induction cs arbitrary: st) (simp_all add: scan_ok_comment)

lemma scan_finish_deferred:
  "scan_ok st \<Longrightarrow> sc_deferred st = Some (r, rid) \<Longrightarrow> scan_finish st = Inr (failed_result r st rid)"
  by (auto simp: scan_finish_def scan_ok_def trusted_marker_failure_ok)

definition finished_result :: "scan_state \<Rightarrow> marker_result" where
  "finished_result st =
     \<lparr>mr_status = (if sc_match st = None then SafeToPost else ReconciledExisting),
      mr_reason_code = (if sc_match st = None then MR_safe_to_post else MR_matched_existing),
      mr_summary = summary_of st (sc_request_id st) None,
      mr_trusted_actor = map_option (mc_author_login \<circ> fst) (sc_match st),
      mr_existing_comment_id = map_option (mc_comment_id \<circ> fst) (sc_match st),
      mr_duplicate_comment_ids = (if sc_match st = None then [] else sc_duplicates st),
      mr_writer_input_released = False, mr_finalization_passed = False, mr_reason = None\<rparr>"

lemma scan_finish_clean:
  "scan_ok st \<Longrightarrow> sc_deferred st = None \<Longrightarrow> scan_finish st = Inr (finished_result st)"
  by (cases "sc_match st")
    (auto simp: scan_finish_def scan_ok_def marker_scan_summary_ok mk_checked_def result_check_defs finished_result_def
      summary_of_def)

lemma scan_ok_update [simp]:
  "scan_ok (st\<lparr>sc_page_count := n\<rparr>) = scan_ok st" "scan_ok (st\<lparr>sc_comment_count := k\<rparr>) = scan_ok st"
  "scan_ok (st\<lparr>sc_request_id := i\<rparr>) = scan_ok st" "scan_ok (st\<lparr>sc_seen := e\<rparr>) = scan_ok st"
  "scan_ok (st\<lparr>sc_cursor := d\<rparr>) = scan_ok st"
  by (simp_all add: scan_ok_def)

lemma scan_ok_initial: "scan_ok initial_scan"
  by (simp add: scan_ok_def initial_scan_def)

section \<open>One page\<close>

definition page_state :: "scan_params \<Rightarrow> scan_state \<Rightarrow> marker_comment_page \<Rightarrow> scan_state" where
  "page_state P st p = foldl (scan_comment P)
     (st\<lparr>sc_page_count := Suc (sc_page_count st), sc_request_id := safe_marker_request_id (mp_request_id p),
         sc_comment_count := sc_comment_count st + length (mp_comments p)\<rparr>) (mp_comments p)"

definition follow_cursor :: "string \<Rightarrow> scan_state \<Rightarrow> scan_state" where
  "follow_cursor d st = st\<lparr>sc_seen := Some d # sc_seen st, sc_cursor := Some d\<rparr>"

definition page_within_cap :: "scan_params \<Rightarrow> scan_state \<Rightarrow> marker_comment_page \<Rightarrow> bool" where
  "page_within_cap P st p \<longleftrightarrow> int (sc_comment_count st + length (mp_comments p)) \<le> max_comments (sp_limits P)"

lemma page_state_simps [simp]:
  "sc_page_count (page_state P st p) = Suc (sc_page_count st)"
  "sc_comment_count (page_state P st p) = sc_comment_count st + length (mp_comments p)"
  "sc_seen (page_state P st p) = sc_seen st"
  by (simp_all add: page_state_def)

lemma holds_matches_update [simp]:
  "holds_matches (st\<lparr>sc_page_count := n\<rparr>) cs = holds_matches st cs"
  "holds_matches (st\<lparr>sc_comment_count := k\<rparr>) cs = holds_matches st cs"
  "holds_matches (st\<lparr>sc_request_id := i\<rparr>) cs = holds_matches st cs"
  "holds_matches (st\<lparr>sc_seen := e\<rparr>) cs = holds_matches st cs"
  "holds_matches (st\<lparr>sc_cursor := d\<rparr>) cs = holds_matches st cs"
  by (cases cs; simp add: holds_matches_def)+

lemma holds_blocks_update [simp]:
  "holds_blocks (st\<lparr>sc_page_count := n\<rparr>) cs = holds_blocks st cs"
  "holds_blocks (st\<lparr>sc_comment_count := k\<rparr>) cs = holds_blocks st cs"
  "holds_blocks (st\<lparr>sc_request_id := i\<rparr>) cs = holds_blocks st cs"
  "holds_blocks (st\<lparr>sc_seen := e\<rparr>) cs = holds_blocks st cs"
  "holds_blocks (st\<lparr>sc_cursor := d\<rparr>) cs = holds_blocks st cs"
  by (simp_all add: holds_blocks_def)

lemma follow_cursor_simps [simp]:
  "sc_page_count (follow_cursor d st) = sc_page_count st"
  "sc_comment_count (follow_cursor d st) = sc_comment_count st"
  "sc_seen (follow_cursor d st) = Some d # sc_seen st"
  "sc_cursor (follow_cursor d st) = Some d"
  "scan_ok (follow_cursor d st) = scan_ok st"
  "holds_matches (follow_cursor d st) cs = holds_matches st cs"
  "holds_blocks (follow_cursor d st) cs = holds_blocks st cs"
  by (simp_all add: follow_cursor_def)

lemma scan_ok_page_state:
  "scan_ok st \<Longrightarrow> \<forall>c \<in> set (mp_comments p). marker_comment_check c = None \<Longrightarrow> scan_ok (page_state P st p)"
  by (simp add: page_state_def scan_ok_comments)

lemma holds_page_state:
  assumes "holds_matches st ms" and "holds_blocks st bs"
  shows "holds_matches (page_state P st p) (ms @ filter (comment_matches P) (mp_comments p))"
    and "holds_blocks (page_state P st p) (bs @ filter (comment_blocks P) (mp_comments p))"
  using assms by (simp_all add: page_state_def match_scan.holds_foldl block_scan.holds_foldl)

text \<open>A page that ends the listing, and one that is followed by the page at the cursor \<open>d\<close>.\<close>

definition last_page :: "marker_comment_page \<Rightarrow> bool" where
  "last_page p \<longleftrightarrow> mp_completed p \<and> mp_next_cursor p = None"

definition linked_page :: "marker_comment_page \<Rightarrow> string \<Rightarrow> bool" where
  "linked_page p d \<longleftrightarrow> \<not> mp_completed p \<and> mp_next_cursor p = Some (CursorStr d) \<and> d \<noteq> []"

lemma scan_page_last:
  "last_page p \<Longrightarrow> page_within_cap P st p \<Longrightarrow> scan_page P st (Page p) = ScanDone (page_state P st p)"
  by (simp add: scan_page_def Let_def last_page_def page_within_cap_def page_state_def)

lemma scan_page_linked:
  "linked_page p d \<Longrightarrow> page_within_cap P st p \<Longrightarrow> Some d \<notin> set (sc_seen st)
   \<Longrightarrow> scan_page P st (Page p) = ScanNext (follow_cursor d (page_state P st p))"
  by (simp add: scan_page_def Let_def linked_page_def page_within_cap_def page_state_def follow_cursor_def)

definition stops_failed :: "page_outcome \<Rightarrow> bool" where
  "stops_failed out \<longleftrightarrow> (\<exists>r. out = ScanStop (Inr r) \<and> mr_status r = FailedClosed)"

lemma stops_failed_failure:
  "r \<notin> {MR_safe_to_post, MR_matched_existing} \<Longrightarrow> stops_failed (ScanStop (trusted_marker_failure r st rid))"
  by (auto simp: stops_failed_def trusted_marker_failure_ok failed_result_def)

lemma scan_page_stop_page:
  assumes "\<not> (last_page p \<and> page_within_cap P st p)"
    and "\<forall>d. \<not> (linked_page p d \<and> page_within_cap P st p \<and> Some d \<notin> set (sc_seen st))"
  shows "stops_failed (scan_page P st (Page p))"
proof (cases "mp_next_cursor p")
  case None
  with assms show ?thesis
    by (auto simp: scan_page_def Let_def last_page_def page_within_cap_def intro!: stops_failed_failure)
next
  case (Some co)
  with assms show ?thesis
    by (cases co) (auto simp: scan_page_def Let_def linked_page_def page_within_cap_def intro!: stops_failed_failure)
qed

lemma scan_page_stop_fetch:
  assumes "wf_fetch f" and "\<forall>p. f \<noteq> Page p"
  shows "stops_failed (scan_page P st f)"
  using assms
  by (cases f) (auto simp: scan_page_def wf_fetch_def transport_marker_reasons_def intro!: stops_failed_failure)

lemma scan_page_cases:
  assumes "wf_fetch f"
  obtains (stop) r where "scan_page P st f = ScanStop (Inr r)" and "mr_status r = FailedClosed"
    and "\<And>p. f = Page p \<Longrightarrow> \<not> (last_page p \<and> page_within_cap P st p)"
    and "\<And>p d. f = Page p \<Longrightarrow> \<not> (linked_page p d \<and> page_within_cap P st p \<and> Some d \<notin> set (sc_seen st))"
  | (complete) p where "f = Page p" and "last_page p" and "page_within_cap P st p"
      and "scan_page P st f = ScanDone (page_state P st p)"
  | (follow) p d where "f = Page p" and "linked_page p d" and "page_within_cap P st p" and "Some d \<notin> set (sc_seen st)"
      and "scan_page P st f = ScanNext (follow_cursor d (page_state P st p))"
proof (cases "\<exists>p. f = Page p \<and> last_page p \<and> page_within_cap P st p")
  case True
  then show ?thesis by (metis complete scan_page_last)
next
  case no_last: False
  show ?thesis
  proof (cases "\<exists>p d. f = Page p \<and> linked_page p d \<and> page_within_cap P st p \<and> Some d \<notin> set (sc_seen st)")
    case True
    then show ?thesis by (metis follow scan_page_linked)
  next
    case False
    with no_last assms have "stops_failed (scan_page P st f)"
      by (cases "\<exists>p. f = Page p") (metis scan_page_stop_page, metis scan_page_stop_fetch)
    with no_last False show ?thesis by (auto simp: stops_failed_def intro: stop)
  qed
qed

section \<open>Complete listings\<close>

text \<open>\<open>listing tr n cur ds ps\<close>: from call \<open>n\<close> with cursor \<open>cur\<close> the transport lists the pages \<open>ps\<close> to the end, along the
  cursors \<open>ds\<close>.\<close>

inductive listing :: "marker_transport \<Rightarrow> nat \<Rightarrow> string option \<Rightarrow> string list \<Rightarrow> marker_comment_page list \<Rightarrow> bool"
  for tr where
  listing_last: "tr n cur = Page p \<Longrightarrow> last_page p \<Longrightarrow> listing tr n cur [] [p]"
| listing_next: "tr n cur = Page p \<Longrightarrow> linked_page p d \<Longrightarrow> listing tr (Suc n) (Some d) ds ps
    \<Longrightarrow> listing tr n cur (d # ds) (p # ps)"

inductive_cases listing_cases: "listing tr n cur ds ps"

definition listed :: "marker_comment_page list \<Rightarrow> marker_comment list" where
  "listed ps = concat (map mp_comments ps)"

lemma listed_simps [simp]: "listed [] = []" "listed (p # ps) = mp_comments p @ listed ps"
  by (simp_all add: listed_def)

text \<open>A listing that the scan reads to the end from the state \<open>st\<close>: within its caps, along new cursors.\<close>

definition readable :: "scan_params \<Rightarrow> scan_state \<Rightarrow> string list \<Rightarrow> marker_comment_page list \<Rightarrow> bool" where
  "readable P st ds ps \<longleftrightarrow>
     int (sc_page_count st + length ps) \<le> max_pages (sp_limits P)
     \<and> int (sc_comment_count st + length (listed ps)) \<le> max_comments (sp_limits P)
     \<and> distinct ds \<and> Some ` set ds \<inter> set (sc_seen st) = {}"

text \<open>What the result says, for a listing with the matching comments \<open>ms\<close>.\<close>

definition reports :: "marker_result \<Rightarrow> marker_comment list \<Rightarrow> bool" where
  "reports r ms \<longleftrightarrow>
     (case ms of
        [] \<Rightarrow> mr_status r = SafeToPost \<and> mr_existing_comment_id r = None \<and> mr_duplicate_comment_ids r = []
      | c # ds \<Rightarrow> mr_status r = ReconciledExisting \<and> mr_existing_comment_id r = Some (mc_comment_id c)
          \<and> mr_trusted_actor r = Some (mc_author_login c) \<and> mr_duplicate_comment_ids r = map mc_comment_id ds)"

lemma reports_not_failed: "reports r ms \<Longrightarrow> mr_status r \<noteq> FailedClosed"
  by (cases ms) (auto simp: reports_def)

lemma finished_result_reports:
  assumes "holds_matches st ms"
  shows "reports (finished_result st) ms"
  using assms by (cases ms) (auto simp: holds_matches_def reports_def finished_result_def)

lemma scan_finish_reports:
  assumes "scan_ok st" and "holds_matches st ms" and "holds_blocks st bs"
  shows "\<exists>r. scan_finish st = Inr r \<and> (if bs = [] then reports r ms else mr_status r = FailedClosed)"
proof (cases "sc_deferred st")
  case None
  with assms show ?thesis
    using scan_finish_clean[OF assms(1) None] finished_result_reports[OF assms(2)] by (auto simp: holds_blocks_def)
next
  case (Some d)
  with assms show ?thesis
    by (cases d) (auto simp: holds_blocks_def scan_finish_deferred failed_result_def)
qed

lemma marker_scan_sound:
  assumes "wf_transport tr" and "scan_ok st" and "holds_matches st ms" and "holds_blocks st bs"
  shows "\<exists>r. marker_scan tr P st = Inr r \<and> (mr_status r \<noteq> FailedClosed \<longrightarrow>
    (\<exists>ds ps. listing tr (sc_page_count st) (sc_cursor st) ds ps \<and> readable P st ds ps
      \<and> bs = [] \<and> filter (comment_blocks P) (listed ps) = [] \<and> reports r (ms @ filter (comment_matches P) (listed ps))))"
  using assms
proof (induction tr P st arbitrary: ms bs rule: marker_scan.induct)
  case (1 tr P st)
  let ?n = "sc_page_count st" and ?f = "tr (sc_page_count st) (sc_cursor st)"
  show ?case
  proof (cases "max_pages (sp_limits P) \<le> int ?n")
    case True
    then show ?thesis
      by (subst marker_scan.simps) (simp add: trusted_marker_failure_ok failed_result_def)
  next
    case cap: False
    from \<open>wf_transport tr\<close> have wf: "wf_fetch ?f" by (simp add: wf_transport_def)
    then show ?thesis
    proof (cases rule: scan_page_cases[where P = P and st = st])
      case (stop r)
      with cap show ?thesis by (subst marker_scan.simps) auto
    next
      case (complete p)
      let ?st = "page_state P st p"
      have page_ok: "\<forall>c \<in> set (mp_comments p). marker_comment_check c = None"
        using wf complete by (simp add: wf_fetch_def)
      obtain r where r: "scan_finish ?st = Inr r"
        "if bs @ filter (comment_blocks P) (mp_comments p) = [] then reports r (ms @ filter (comment_matches P) (mp_comments p))
         else mr_status r = FailedClosed"
        using scan_finish_reports[OF scan_ok_page_state[OF 1(3) page_ok] holds_page_state[OF 1(4,5)]] by blast
      have eq: "marker_scan tr P st = Inr r"
        using cap complete r by (subst marker_scan.simps) simp
      have "listing tr ?n (sc_cursor st) [] [p]" using complete by (intro listing_last)
      moreover have "readable P st [] [p]"
        using complete cap by (simp add: readable_def page_within_cap_def)
      ultimately show ?thesis using eq r(2)
        by (auto split: if_splits intro!: exI[of _ "[]"] exI[of _ "[p]"])
    next
      case (follow p d)
      let ?st = "follow_cursor d (page_state P st p)"
      have page_ok: "\<forall>c \<in> set (mp_comments p). marker_comment_check c = None"
        using wf follow by (simp add: wf_fetch_def)
      have eq: "marker_scan tr P st = marker_scan tr P ?st"
        using cap follow by (subst marker_scan.simps) simp
      have "\<exists>r. marker_scan tr P ?st = Inr r \<and> (mr_status r \<noteq> FailedClosed \<longrightarrow>
        (\<exists>ds ps. listing tr (Suc ?n) (Some d) ds ps \<and> readable P ?st ds ps
          \<and> bs @ filter (comment_blocks P) (mp_comments p) = [] \<and> filter (comment_blocks P) (listed ps) = []
          \<and> reports r ((ms @ filter (comment_matches P) (mp_comments p)) @ filter (comment_matches P) (listed ps))))"
        using 1(1)[OF cap follow(5) 1(2), of "ms @ filter (comment_matches P) (mp_comments p)"
            "bs @ filter (comment_blocks P) (mp_comments p)"] scan_ok_page_state[OF 1(3) page_ok] holds_page_state[OF 1(4,5)]
        by simp
      then obtain r where r: "marker_scan tr P ?st = Inr r" and imp: "mr_status r \<noteq> FailedClosed \<longrightarrow>
        (\<exists>ds ps. listing tr (Suc ?n) (Some d) ds ps \<and> readable P ?st ds ps
          \<and> bs @ filter (comment_blocks P) (mp_comments p) = [] \<and> filter (comment_blocks P) (listed ps) = []
          \<and> reports r ((ms @ filter (comment_matches P) (mp_comments p)) @ filter (comment_matches P) (listed ps)))"
        by blast
      show ?thesis
      proof (intro exI[of _ r] conjI impI)
        show "marker_scan tr P st = Inr r" using eq r by simp
        assume "mr_status r \<noteq> FailedClosed"
        with imp obtain ds ps where *: "listing tr (Suc ?n) (Some d) ds ps" "readable P ?st ds ps"
          "bs @ filter (comment_blocks P) (mp_comments p) = []" "filter (comment_blocks P) (listed ps) = []"
          "reports r ((ms @ filter (comment_matches P) (mp_comments p)) @ filter (comment_matches P) (listed ps))"
          by blast
        have "listing tr ?n (sc_cursor st) (d # ds) (p # ps)"
          using follow *(1) by (intro listing_next)
        moreover have "readable P st (d # ds) (p # ps)"
          using *(2) follow(4) by (auto simp: readable_def)
        ultimately show "\<exists>ds ps. listing tr ?n (sc_cursor st) ds ps \<and> readable P st ds ps
          \<and> bs = [] \<and> filter (comment_blocks P) (listed ps) = [] \<and> reports r (ms @ filter (comment_matches P) (listed ps))"
          using *(3,4,5) by (intro exI[of _ "d # ds"] exI[of _ "p # ps"]) simp
      qed
    qed
  qed
qed

lemma marker_scan_step:
  "int (sc_page_count st) < max_pages (sp_limits P) \<Longrightarrow> tr (sc_page_count st) (sc_cursor st) = Page p
   \<Longrightarrow> scan_page P st (Page p) = ScanDone st' \<Longrightarrow> marker_scan tr P st = scan_finish st'"
  "int (sc_page_count st) < max_pages (sp_limits P) \<Longrightarrow> tr (sc_page_count st) (sc_cursor st) = Page p
   \<Longrightarrow> scan_page P st (Page p) = ScanNext st' \<Longrightarrow> marker_scan tr P st = marker_scan tr P st'"
  by (subst marker_scan.simps, simp)+

lemma marker_scan_complete:
  assumes "listing tr n cur ds ps" and "n = sc_page_count st" and "cur = sc_cursor st" and "readable P st ds ps"
    and "wf_transport tr" and "scan_ok st" and "holds_matches st ms" and "holds_blocks st []"
    and "filter (comment_blocks P) (listed ps) = []"
  shows "\<exists>r. marker_scan tr P st = Inr r \<and> reports r (ms @ filter (comment_matches P) (listed ps))"
  using assms
proof (induction arbitrary: st ms rule: listing.induct)
  case (listing_last n cur p)
  have page_ok: "\<forall>c \<in> set (mp_comments p). marker_comment_check c = None"
    using listing_last(1,6) by (auto simp: wf_transport_def wf_fetch_def dest!: spec[of _ n] spec[of _ cur])
  have "scan_page P st (Page p) = ScanDone (page_state P st p)"
    using listing_last(2,5) by (intro scan_page_last) (auto simp: readable_def page_within_cap_def)
  then have "marker_scan tr P st = scan_finish (page_state P st p)"
    using listing_last(1,3,4,5) by (intro marker_scan_step) (auto simp: readable_def)
  then show ?case
    using scan_finish_reports[OF scan_ok_page_state[OF listing_last(7) page_ok, of P]
        holds_page_state[OF listing_last(8,9), of P p]] listing_last(10) by simp
next
  case (listing_next n cur p d ds ps)
  have page_ok: "\<forall>c \<in> set (mp_comments p). marker_comment_check c = None"
    using listing_next(1,8) by (auto simp: wf_transport_def wf_fetch_def dest!: spec[of _ n] spec[of _ cur])
  let ?st = "follow_cursor d (page_state P st p)"
  have "scan_page P st (Page p) = ScanNext ?st"
    using listing_next(2,7) by (intro scan_page_linked) (auto simp: readable_def page_within_cap_def)
  then have eq: "marker_scan tr P st = marker_scan tr P ?st"
    using listing_next(1,5,6,7) by (intro marker_scan_step(2)) (auto simp: readable_def)
  have "readable P ?st ds ps" using listing_next(7) by (auto simp: readable_def)
  then have "\<exists>r. marker_scan tr P ?st = Inr r
      \<and> reports r ((ms @ filter (comment_matches P) (mp_comments p)) @ filter (comment_matches P) (listed ps))"
    using listing_next scan_ok_page_state[OF listing_next(9) page_ok, of P] holds_page_state[OF listing_next(10,11), of P p]
    by (intro listing_next.IH) auto
  with eq show ?case by simp
qed

text \<open>From the first call on.\<close>

lemma initial_holds: "holds_matches initial_scan []" "holds_blocks initial_scan []"
  by (simp_all add: initial_scan_def holds_matches_def holds_blocks_def)

definition complete_listing ::
    "marker_transport \<Rightarrow> marker_scan_limits \<Rightarrow> marker_comment_page list \<Rightarrow> bool" where
  "complete_listing tr lim ps \<longleftrightarrow>
     (\<exists>ds. listing tr 0 None ds ps \<and> distinct ds) \<and> int (length ps) \<le> max_pages lim
     \<and> int (length (listed ps)) \<le> max_comments lim"

lemma complete_listing_iff:
  "complete_listing tr (sp_limits P) ps \<longleftrightarrow> (\<exists>ds. listing tr 0 None ds ps \<and> readable P initial_scan ds ps)"
  by (auto simp: complete_listing_def readable_def initial_scan_def)

lemma marker_scan_iff:
  assumes "wf_transport tr"
  shows "\<exists>r. marker_scan tr P initial_scan = Inr r \<and> (mr_status r \<noteq> FailedClosed \<longleftrightarrow>
    (\<exists>ps. complete_listing tr (sp_limits P) ps \<and> \<not> (\<exists>c \<in> set (listed ps). comment_blocks P c)))"
    (is "\<exists>r. ?scan = Inr r \<and> (?ok r \<longleftrightarrow> ?listed)")
proof -
  have init: "sc_page_count initial_scan = 0" "sc_cursor initial_scan = None" by (simp_all add: initial_scan_def)
  from marker_scan_sound[OF assms scan_ok_initial initial_holds, of P]
  obtain r where r: "?scan = Inr r" and sound: "?ok r \<longrightarrow> ?listed"
    by (auto simp: init complete_listing_iff filter_empty_conv)
  have "?ok r" if listed: ?listed
  proof -
    from listed obtain ds ps where "listing tr 0 None ds ps" "readable P initial_scan ds ps"
      "filter (comment_blocks P) (listed ps) = []" by (auto simp: complete_listing_iff filter_empty_conv)
    from marker_scan_complete[OF this(1) _ _ this(2) assms scan_ok_initial initial_holds this(3)] r
    show ?thesis by (auto simp: init dest: reports_not_failed)
  qed
  with r sound show ?thesis by blast
qed

lemma listing_unique:
  "listing tr n cur ds ps \<Longrightarrow> listing tr n cur ds' ps' \<Longrightarrow> ds = ds' \<and> ps = ps'"
proof (induction arbitrary: ds' ps' rule: listing.induct)
  case (listing_last n cur p)
  from listing_last.prems listing_last.hyps show ?case by (cases rule: listing.cases) (auto simp: last_page_def linked_page_def)
next
  case (listing_next n cur p d ds ps)
  from listing_next.prems listing_next.hyps(1,2) obtain ds0 ps0
    where "ds' = d # ds0" "ps' = p # ps0" "listing tr (Suc n) (Some d) ds0 ps0"
    by (cases rule: listing.cases) (auto simp: last_page_def linked_page_def)
  with listing_next.IH show ?case by blast
qed

lemma complete_listing_unique: "complete_listing tr lim ps \<Longrightarrow> complete_listing tr lim ps' \<Longrightarrow> ps = ps'"
  by (auto simp: complete_listing_def dest: listing_unique)

lemma reconcile_scan:
  "first_failure (reconcile_checks repo n P) = None
   \<Longrightarrow> reconcile_paginated_trusted_markers tr repo n P = marker_scan tr P initial_scan"
  by (simp add: reconcile_paginated_trusted_markers_def)

lemma reconcile_not_failed:
  assumes "wf_transport tr" and "reconcile_paginated_trusted_markers tr repo n P = Inr r" and "mr_status r \<noteq> FailedClosed"
  obtains ps where "complete_listing tr (sp_limits P) ps" and "\<forall>c \<in> set (listed ps). \<not> comment_blocks P c"
    and "reports r (filter (comment_matches P) (listed ps))"
proof -
  from assms(2) have "marker_scan tr P initial_scan = Inr r"
    by (auto simp: reconcile_paginated_trusted_markers_def split: option.split_asm)
  moreover have "sc_page_count initial_scan = 0" "sc_cursor initial_scan = None" by (simp_all add: initial_scan_def)
  ultimately show ?thesis
    using marker_scan_sound[OF assms(1) scan_ok_initial initial_holds, of P] assms(3) that
    by (auto simp: complete_listing_iff filter_empty_conv)
qed

lemma marker_scan_checked: "marker_scan tr P st = Inr r \<Longrightarrow> wf_transport tr \<Longrightarrow> scan_ok st \<Longrightarrow> marker_result_check r = None"
proof (induction tr P st rule: marker_scan.induct)
  case (1 tr P st)
  have failure: "trusted_marker_failure c s i = Inr r \<Longrightarrow> marker_result_check r = None" for c s i
    by (auto simp: trusted_marker_failure_def bindE_Inr_iff mk_checked_Inr_iff)
  have finish: "scan_finish s = Inr r \<Longrightarrow> marker_result_check r = None" for s
    by (auto simp: scan_finish_def bindE_Inr_iff mk_checked_Inr_iff failure split: option.split_asm)
  have stop: "scan_page P st f = ScanStop (Inr r) \<Longrightarrow> marker_result_check r = None" for f
    by (auto simp: scan_page_def Let_def failure dest!: failure[OF sym] split: page_fetch.split_asm if_split_asm option.split_asm cursor_object.split_asm)
  let ?f = "tr (sc_page_count st) (sc_cursor st)"
  have wf: "wf_fetch ?f" using 1(3) by (simp add: wf_transport_def)
  show ?case
  proof (cases "max_pages (sp_limits P) \<le> int (sc_page_count st)")
    case True
    with 1(2) show ?thesis by (subst (asm) marker_scan.simps) (simp add: failure)
  next
    case cap: False
    show ?thesis
    proof (cases "scan_page P st ?f")
      case (ScanStop x)
      with 1(2) cap stop show ?thesis by (subst (asm) marker_scan.simps) simp
    next
      case (ScanDone st')
      with 1(2) cap finish show ?thesis by (subst (asm) marker_scan.simps) simp
    next
      case (ScanNext st')
      with 1(2) cap have "marker_scan tr P st' = Inr r" by (subst (asm) marker_scan.simps) simp
      moreover have "scan_ok st'" using wf
      proof (cases rule: scan_page_cases[where P = P and st = st])
        case (follow p d)
        with ScanNext 1(4) wf show ?thesis by (auto simp: scan_ok_page_state wf_fetch_def)
      qed (use ScanNext in auto)
      ultimately show ?thesis using 1(1)[OF cap ScanNext _ 1(3)] by blast
    qed
  qed
qed

section \<open>The scan of a list of comments\<close>

definition existing_next :: "string \<Rightarrow> string \<Rightarrow> string \<Rightarrow> existing_scan \<Rightarrow> existing_comment \<Rightarrow> existing_scan" where
  "existing_next t p f st c =
     (let m = scan_final_line_marker (ec_body c); found = (\<lambda>s reason. Some (existing_result s (Some (ec_comment_id c)) m reason)) in
      if looks_malformed (ec_body c) then st\<lparr>es_malformed := found DeferredMalformed ''malformed reviewgraph marker final line''\<rparr>
      else if body_matches t p f (ec_body c) then st\<lparr>es_matched := found ScanMatched ''matching marker''\<rparr>
      else if body_conflicts t p f (ec_body c)
      then st\<lparr>es_conflict := found DeferredConflict ''same target and findings with different payload''\<rparr>
      else st)"

lemma existing_step_next:
  "existing_comment_check c = None \<Longrightarrow> existing_step t p f st c = Inr (existing_next t p f st c)"
  by (cases "scan_final_line_marker (ec_body c)")
    (auto simp: existing_step_def existing_next_def Let_def body_class_defs existing_comment_check_def mk_checked_def
      marker_scan_result_check_def existing_result_def)

text \<open>A slot of the state holds the result of the last comment it collected.\<close>

definition holds_slot :: "(existing_scan \<Rightarrow> marker_scan_result option) \<Rightarrow> marker_scan_status \<Rightarrow> existing_scan \<Rightarrow> existing_comment list \<Rightarrow> bool" where
  "holds_slot slot s st cs \<longleftrightarrow>
     (case slot st of None \<Rightarrow> cs = []
      | Some r \<Rightarrow> cs \<noteq> [] \<and> ms_status r = s \<and> ms_existing_comment_id r = Some (ec_comment_id (last cs)))"

lemmas slot_defs = holds_slot_def existing_next_def Let_def existing_result_def

interpretation matched_slot: comment_scan "existing_next t p f" "\<lambda>c. body_matches t p f (ec_body c)"
  "holds_slot es_matched ScanMatched" for t p f
  by unfold_locales (auto simp: slot_defs body_class_defs split: option.split_asm)

interpretation conflict_slot: comment_scan "existing_next t p f" "\<lambda>c. body_conflicts t p f (ec_body c)"
  "holds_slot es_conflict DeferredConflict" for t p f
  by unfold_locales (auto simp: slot_defs body_class_defs split: option.split_asm)

interpretation malformed_slot: comment_scan "existing_next t p f" "\<lambda>c. looks_malformed (ec_body c)"
  "holds_slot es_malformed DeferredMalformed" for t p f
  by unfold_locales (auto simp: slot_defs body_class_defs split: option.split_asm)

lemma foldE_existing:
  "\<forall>c \<in> set cs. existing_comment_check c = None \<Longrightarrow> foldE (existing_step t p f) st cs = Inr (foldl (existing_next t p f) st cs)"
  by (rule foldE_ok) (simp add: existing_step_next)

definition bad_body :: "string \<Rightarrow> string \<Rightarrow> string \<Rightarrow> existing_comment \<Rightarrow> bool" where
  "bad_body t p f c \<longleftrightarrow> looks_malformed (ec_body c) \<or> body_conflicts t p f (ec_body c)"

lemma reconcile_existing_result:
  fixes t p f :: string
  assumes "\<forall>c \<in> set cs. existing_comment_check c = None"
  defines "ms \<equiv> filter (\<lambda>c. body_matches t p f (ec_body c)) cs"
  shows "\<exists>e. reconcile_existing_markers cs t p f = Inr e
    \<and> (ms_status e \<in> {DeferredMalformed, DeferredConflict} \<longleftrightarrow> (\<exists>c \<in> set cs. bad_body t p f c))
    \<and> (\<not> (\<exists>c \<in> set cs. bad_body t p f c) \<longrightarrow>
        (if ms = [] then ms_status e = ScanNoMatch
         else ms_status e = ScanMatched \<and> ms_existing_comment_id e = Some (ec_comment_id (last ms))))"
proof -
  let ?init = "\<lparr>es_matched = None, es_conflict = None, es_malformed = None\<rparr>"
  let ?st = "foldl (existing_next t p f) ?init cs"
  have mal: "holds_slot es_malformed DeferredMalformed ?st (filter (\<lambda>c. looks_malformed (ec_body c)) cs)"
    by (rule malformed_slot.holds_from_empty) (simp add: holds_slot_def)
  have con: "holds_slot es_conflict DeferredConflict ?st (filter (\<lambda>c. body_conflicts t p f (ec_body c)) cs)"
    by (rule conflict_slot.holds_from_empty) (simp add: holds_slot_def)
  have mat: "holds_slot es_matched ScanMatched ?st ms"
    unfolding ms_def by (rule matched_slot.holds_from_empty) (simp add: holds_slot_def)
  have bad: "(\<exists>c \<in> set cs. bad_body t p f c) \<longleftrightarrow>
      filter (\<lambda>c. looks_malformed (ec_body c)) cs \<noteq> [] \<or> filter (\<lambda>c. body_conflicts t p f (ec_body c)) cs \<noteq> []"
    by (auto simp: bad_body_def filter_empty_conv)
  show ?thesis
    unfolding bad reconcile_existing_markers_def foldE_existing[OF assms(1)] bindE.simps
  proof (cases "es_malformed ?st"; cases "es_conflict ?st"; cases "es_matched ?st")
  qed (use mal con mat in \<open>simp_all add: holds_slot_def mk_checked_def marker_scan_result_check_def existing_result_def\<close>)
qed

section \<open>A listing on one page\<close>

definition one_page :: "marker_comment list \<Rightarrow> marker_transport" where
  "one_page cs n cur = Page \<lparr>mp_comments = cs, mp_next_cursor = None, mp_completed = True, mp_request_id = None\<rparr>"

definition plain_comment :: "marker_comment \<Rightarrow> existing_comment" where
  "plain_comment c = \<lparr>ec_comment_id = mc_comment_id c, ec_body = mc_body c\<rparr>"


abbreviation only_page :: "marker_comment list \<Rightarrow> marker_comment_page" where
  "only_page cs \<equiv> \<lparr>mp_comments = cs, mp_next_cursor = None, mp_completed = True, mp_request_id = None\<rparr>"

lemma listing_one_page: "listing (one_page cs) n cur [] [only_page cs]"
  by (intro listing_last) (simp_all add: one_page_def last_page_def)

lemma one_page_listing:
  "complete_listing (one_page cs) lim ps \<longleftrightarrow>
     ps = [only_page cs] \<and> 1 \<le> max_pages lim \<and> int (length cs) \<le> max_comments lim"
proof
  assume *: "complete_listing (one_page cs) lim ps"
  then have "ps = [only_page cs]"
    unfolding complete_listing_def using listing_unique[OF listing_one_page] by blast
  with * show "ps = [only_page cs] \<and> 1 \<le> max_pages lim \<and> int (length cs) \<le> max_comments lim"
    by (simp add: complete_listing_def)
next
  assume "ps = [only_page cs] \<and> 1 \<le> max_pages lim \<and> int (length cs) \<le> max_comments lim"
  then show "complete_listing (one_page cs) lim ps"
    unfolding complete_listing_def by (intro conjI exI[of _ "[]"]) (simp_all add: listing_one_page)
qed

lemma plain_comment_valid: "marker_comment_check c = None \<Longrightarrow> existing_comment_check (plain_comment c) = None"
  by (simp add: plain_comment_def existing_comment_check_def marker_comment_check_def split: if_split_asm)

lemma one_page_wf: "\<forall>c \<in> set cs. marker_comment_check c = None \<Longrightarrow> wf_transport (one_page cs)"
  by (simp add: wf_transport_def wf_fetch_def one_page_def)

text \<open>The comments of a complete listing were built by the transport.\<close>

lemma listing_valid:
  "listing tr n cur ds ps \<Longrightarrow> wf_transport tr \<Longrightarrow> \<forall>c \<in> set (listed ps). marker_comment_check c = None"
proof (induction rule: listing.induct)
  case (listing_last n cur p)
  have "wf_fetch (tr n cur)" using listing_last.prems by (simp add: wf_transport_def)
  with listing_last.hyps(1) show ?case by (simp add: wf_fetch_def)
next
  case (listing_next n cur p d ds ps)
  have "wf_fetch (tr n cur)" using listing_next.prems by (simp add: wf_transport_def)
  with listing_next show ?case by (auto simp: wf_fetch_def)
qed

lemma complete_listing_valid:
  "complete_listing tr lim ps \<Longrightarrow> wf_transport tr \<Longrightarrow> \<forall>c \<in> set (listed ps). marker_comment_check c = None"
  using listing_valid by (auto simp: complete_listing_def)

text \<open>A transport that lists two pages.\<close>

definition two_pages :: "marker_comment list \<Rightarrow> marker_comment list \<Rightarrow> marker_transport" where
  "two_pages cs ds n cur =
     (if n = 0 then Page \<lparr>mp_comments = cs, mp_next_cursor = Some (CursorStr ''p2''), mp_completed = False, mp_request_id = None\<rparr>
      else Page (only_page ds))"

lemma listing_two_pages: "listing (two_pages cs ds) 0 None [''p2'']
    [\<lparr>mp_comments = cs, mp_next_cursor = Some (CursorStr ''p2''), mp_completed = False, mp_request_id = None\<rparr>, only_page ds]"
  by (intro listing_next listing_last) (simp_all add: two_pages_def last_page_def linked_page_def)

lemma two_pages_wf: "\<forall>c \<in> set (cs @ ds). marker_comment_check c = None \<Longrightarrow> wf_transport (two_pages cs ds)"
  by (auto simp: wf_transport_def wf_fetch_def two_pages_def)

lemma payload_marker:
  assumes "pv_passes (validate_final_issue_comment_payload p)"
  shows "scan_final_line_marker (fp_body p) = Some \<lparr>mk_run_id = fp_marker_run_id p,
    mk_target = target_hash (fp_review_target p), mk_payload = visible_body_hash (fp_body p), mk_findings = fp_findings_hash p\<rparr>"
proof -
  have pb: "payload_bound p" using assms by (simp only: validate_final_pass_iff)
  have "fp_body p \<noteq> []" using pb not_exact_marker_Nil by (auto simp: payload_bound_def body_final_line_def drop_final_lf_def
      normalize_line_endings_def replace_cr_def is_exact_reviewgraph_v1_marker_line_def)
  with pb show ?thesis by (simp add: payload_bound_def scan_final_line_marker_def marker_body_final_line_def)
qed

lemma sample_payload_passes: "pv_passes (validate_final_issue_comment_payload sample_payload)"
  using validate_built_payload[OF sample_built] sample_no_marker
  by (simp add: pass_redaction_def pv_pass_ok strict_starts_with pv_passes_def)

definition sample_scan :: scan_params where
  "sample_scan = \<lparr>sp_approved_actor = ''me'', sp_trusted_bots = [], sp_target_hash = target_hash (fp_review_target sample_payload),
     sp_payload_hash = fp_marker_payload_hash sample_payload, sp_findings_hash = fp_findings_hash sample_payload,
     sp_limits = \<lparr>max_pages = 20, max_comments = 1000, timeout_seconds = 10\<rparr>\<rparr>"

definition sample_posted :: marker_comment where
  "sample_posted = \<lparr>mc_comment_id = ''1'', mc_body = fp_body sample_payload, mc_author_login = ''me'', mc_author_type = ''Bot'',
     mc_source_provider = ''github'', mc_author_association = None\<rparr>"

lemma sample_bound: "payload_bound sample_payload"
  using sample_payload_passes by (simp only: validate_final_pass_iff)

lemma sample_scan_checks: "first_failure (reconcile_checks ''o/r'' 7 sample_scan) = None"
proof -
  have "strict_sha256 (sp_target_hash sample_scan)" "strict_sha256 (sp_payload_hash sample_scan)" "strict_sha256 (sp_findings_hash sample_scan)"
    using sample_bound strict_findings_hash[of "fp_item_fingerprints sample_payload"]
    by (simp_all add: sample_scan_def target_hash_def payload_bound_def)
  then show ?thesis by (simp add: reconcile_checks_def strict_sha256_not_Nil) (simp add: sample_scan_def)
qed

lemma casefold_Bot: "casefold ''Bot'' = ''bot''"
  by code_simp

lemma sample_posted_facts: "marker_comment_check sample_posted = None" "comment_trusted sample_scan sample_posted"
  "comment_matches sample_scan sample_posted" "\<not> comment_blocks sample_scan sample_posted"
proof -
  have "fp_body sample_payload \<noteq> []"
    using payload_marker[OF sample_payload_passes] by (auto simp: scan_final_line_marker_def marker_body_final_line_def)
  then show "marker_comment_check sample_posted = None" by (simp add: marker_comment_check_def sample_posted_def)
  show t: "comment_trusted sample_scan sample_posted"
    by (simp add: comment_trusted_def is_trusted_marker_author_def sample_posted_def sample_scan_def casefold_Bot)
  have m: "scan_final_line_marker (mc_body sample_posted) = Some \<lparr>mk_run_id = fp_marker_run_id sample_payload,
    mk_target = target_hash (fp_review_target sample_payload), mk_payload = visible_body_hash (fp_body sample_payload),
    mk_findings = fp_findings_hash sample_payload\<rparr>"
    using payload_marker[OF sample_payload_passes] by (simp add: sample_posted_def)
  have "fp_marker_payload_hash sample_payload = visible_body_hash (fp_body sample_payload)"
    using sample_bound by (simp only: payload_bound_def)
  with t m show "comment_matches sample_scan sample_posted" "\<not> comment_blocks sample_scan sample_posted"
    by (simp_all add: comment_matches_def comment_blocks_def body_class_defs) (simp_all add: sample_scan_def)
qed

lemma sample_scan_result:
  assumes "cs = [] \<or> cs = [sample_posted]"
  obtains r where "reconcile_paginated_trusted_markers (one_page cs) ''o/r'' 7 sample_scan = Inr r" and "reports r cs"
    and "wf_transport (one_page cs)" and "complete_listing (one_page cs) (sp_limits sample_scan) [only_page cs]"
proof -
  have wf: "wf_transport (one_page cs)" using assms sample_posted_facts by (intro one_page_wf) auto
  have "filter (comment_blocks sample_scan) cs = []" "filter (comment_matches sample_scan) cs = cs"
    using assms sample_posted_facts by auto
  moreover have "complete_listing (one_page cs) (sp_limits sample_scan) [only_page cs]"
    using assms by (auto simp: one_page_listing sample_scan_def)
  moreover obtain r where "reconcile_paginated_trusted_markers (one_page cs) ''o/r'' 7 sample_scan = Inr r"
    and "mr_status r \<noteq> FailedClosed \<longleftrightarrow> (\<exists>ps. complete_listing (one_page cs) (sp_limits sample_scan) ps
      \<and> \<not> (\<exists>c \<in> set (listed ps). comment_blocks sample_scan c))"
    using marker_scan_iff[OF wf, of sample_scan] reconcile_scan[OF sample_scan_checks] by metis
  ultimately show ?thesis using that wf reconcile_not_failed[OF wf, of "''o/r''" 7 sample_scan r]
    by (auto simp: one_page_listing filter_empty_conv)
qed

lemma paginated_scan_outcome:
  assumes "wf_transport tr" and "first_failure (reconcile_checks repo n P) = None"
  shows "\<exists>r. reconcile_paginated_trusted_markers tr repo n P = Inr r
    \<and> marker_result_check r = None \<and> \<not> mr_writer_input_released r
    \<and> (mr_status r \<noteq> FailedClosed \<longleftrightarrow>
        (\<exists>ps. complete_listing tr (sp_limits P) ps \<and> \<not> (\<exists>c \<in> set (listed ps). comment_blocks P c)))"
proof -
  from marker_scan_iff[OF assms(1), of P] obtain r where r: "marker_scan tr P initial_scan = Inr r"
    "mr_status r \<noteq> FailedClosed \<longleftrightarrow>
        (\<exists>ps. complete_listing tr (sp_limits P) ps \<and> \<not> (\<exists>c \<in> set (listed ps). comment_blocks P c))" by blast
  moreover have checked: "marker_result_check r = None" by (rule marker_scan_checked[OF r(1) assms(1) scan_ok_initial])
  moreover have "\<not> mr_writer_input_released r"
    using checked by (auto simp: marker_result_check_def first_failure_None_iff)
  ultimately show ?thesis using reconcile_scan[OF assms(2)] by auto
qed

lemma safe_scan_absent:
  assumes "wf_transport tr" and "reconcile_paginated_trusted_markers tr repo n P = Inr r" and "mr_status r = SafeToPost"
  shows "\<exists>ps. complete_listing tr (sp_limits P) ps \<and> (\<forall>c \<in> set (listed ps). comment_trusted P c \<longrightarrow>
    \<not> looks_malformed (mc_body c) \<and> (\<forall>m. scan_final_line_marker (mc_body c) = Some m
      \<longrightarrow> \<not> (mk_target m = sp_target_hash P \<and> mk_findings m = sp_findings_hash P)))"
proof -
  from assms(3) have "mr_status r \<noteq> FailedClosed" by simp
  from reconcile_not_failed[OF assms(1,2) this] obtain ps where ps: "complete_listing tr (sp_limits P) ps"
    "\<forall>c \<in> set (listed ps). \<not> comment_blocks P c" "reports r (filter (comment_matches P) (listed ps))" by blast
  from ps(3) assms(3) have "filter (comment_matches P) (listed ps) = []"
    by (cases "filter (comment_matches P) (listed ps)") (auto simp: reports_def)
  with ps(1,2) show ?thesis
    by (intro exI[of _ ps]) (auto simp: filter_empty_conv comment_blocks_def comment_matches_def body_class_defs)
qed

section \<open>Properties\<close>

text \<open>C27. The scan of the issue comments for a well-formed transport never raises and ends, its result passes its own
  checks and never releases writer input, and it is not \<open>failed_closed\<close> exactly if the transport lists all comments,
  along cursors that do not repeat and within the caps on pages and comments, and no trusted comment in that listing
  ends with a malformed marker or with a marker for the same target and findings but another payload.\<close>

theorem marker_scan_outcome:
  assumes "wf_transport tr" and "first_failure (reconcile_checks repo n P) = None"
  shows "\<exists>r. reconcile_paginated_trusted_markers tr repo n P = Inr r
    \<and> marker_result_check r = None \<and> \<not> mr_writer_input_released r
    \<and> (mr_status r \<noteq> FailedClosed \<longleftrightarrow>
        (\<exists>ps. complete_listing tr (sp_limits P) ps \<and> \<not> (\<exists>c \<in> set (listed ps). comment_blocks P c)))"
  using assms by (rule paginated_scan_outcome)

theorem marker_scan_outcome_witness:
  "\<exists>r. reconcile_paginated_trusted_markers (one_page [sample_posted]) ''o/r'' 7 sample_scan = Inr r \<and> mr_status r \<noteq> FailedClosed"
proof -
  from sample_scan_result[of "[sample_posted]"] obtain r where "wf_transport (one_page [sample_posted])"
    and "complete_listing (one_page [sample_posted]) (sp_limits sample_scan) [only_page [sample_posted]]" by blast
  with marker_scan_outcome[OF this(1) sample_scan_checks] sample_posted_facts show ?thesis by fastforce
qed

text \<open>C28. A scan that says \<open>safe_to_post\<close> has read a complete listing, and in it no trusted comment ends with a marker
  for the same target and findings, nor with anything that looks like a marker but is malformed.\<close>

theorem safe_to_post_means_absent:
  assumes "wf_transport tr" and "reconcile_paginated_trusted_markers tr repo n P = Inr r" and "mr_status r = SafeToPost"
  shows "\<exists>ps. complete_listing tr (sp_limits P) ps \<and> (\<forall>c \<in> set (listed ps). comment_trusted P c \<longrightarrow>
    \<not> looks_malformed (mc_body c) \<and> (\<forall>m. scan_final_line_marker (mc_body c) = Some m
      \<longrightarrow> \<not> (mk_target m = sp_target_hash P \<and> mk_findings m = sp_findings_hash P)))"
  using assms by (rule safe_scan_absent)

theorem safe_to_post_means_absent_witness:
  "\<exists>r ps. reconcile_paginated_trusted_markers (one_page []) ''o/r'' 7 sample_scan = Inr r \<and> mr_status r = SafeToPost
    \<and> complete_listing (one_page []) (sp_limits sample_scan) ps"
proof -
  from sample_scan_result[of "[]"] obtain r where r: "reconcile_paginated_trusted_markers (one_page []) ''o/r'' 7 sample_scan = Inr r"
    "reports r []" "wf_transport (one_page [])" by blast
  then have "mr_status r = SafeToPost" by (simp add: reports_def)
  with safe_to_post_means_absent[OF r(3,1) this] r(1) show ?thesis by blast
qed

text \<open>C29. A scan that says \<open>reconciled_existing\<close> names the first comment of a complete listing that is trusted and ends
  with a marker of exactly the expected target, payload and findings hashes; the duplicates are the other such
  comments, in order, and nothing else.\<close>

theorem reconciled_comment_is_ours:
  assumes "wf_transport tr" and "reconcile_paginated_trusted_markers tr repo n P = Inr r"
    and "mr_status r = ReconciledExisting"
  shows "\<exists>ps c ds m. complete_listing tr (sp_limits P) ps \<and> filter (comment_matches P) (listed ps) = c # ds
    \<and> mr_existing_comment_id r = Some (mc_comment_id c) \<and> mr_trusted_actor r = Some (mc_author_login c)
    \<and> mr_duplicate_comment_ids r = map mc_comment_id ds \<and> comment_trusted P c
    \<and> scan_final_line_marker (mc_body c) = Some m \<and> mk_target m = sp_target_hash P
    \<and> mk_payload m = sp_payload_hash P \<and> mk_findings m = sp_findings_hash P"
proof -
  from assms(3) have "mr_status r \<noteq> FailedClosed" by simp
  from reconcile_not_failed[OF assms(1,2) this] obtain ps where ps: "complete_listing tr (sp_limits P) ps"
    "reports r (filter (comment_matches P) (listed ps))" by blast
  from ps(2) assms(3) obtain c ds where c: "filter (comment_matches P) (listed ps) = c # ds"
    by (cases "filter (comment_matches P) (listed ps)") (auto simp: reports_def)
  have "c \<in> set (filter (comment_matches P) (listed ps))" unfolding c by simp
  then have "comment_matches P c" by simp
  with ps c show ?thesis by (auto simp: reports_def comment_matches_def body_class_defs)
qed

theorem reconciled_comment_is_ours_witness:
  "\<exists>r c. reconcile_paginated_trusted_markers (one_page [sample_posted]) ''o/r'' 7 sample_scan = Inr r
    \<and> mr_existing_comment_id r = Some (mc_comment_id c) \<and> comment_trusted sample_scan c"
proof -
  from sample_scan_result[of "[sample_posted]"] obtain r
    where r: "reconcile_paginated_trusted_markers (one_page [sample_posted]) ''o/r'' 7 sample_scan = Inr r"
    "reports r [sample_posted]" "wf_transport (one_page [sample_posted])" by blast
  then have "mr_status r = ReconciledExisting" by (simp add: reports_def)
  with reconciled_comment_is_ours[OF r(3,1) this] r(1) show ?thesis by blast
qed



text \<open>C31. The scan of the pages and the scan of a list agree: wherever the transport lists all comments, over any number of
  pages, the paginated scan and the list scan of the trusted comments of all pages both find nothing, or both find a
  match, or both stop; and the list scan names the last of the matching comments, where the scan of the pages names the
  first and lists the others.\<close>

theorem scans_agree:
  assumes "wf_transport tr" and "first_failure (reconcile_checks repo n P) = None" and "complete_listing tr (sp_limits P) ps"
  shows "\<exists>r e. reconcile_paginated_trusted_markers tr repo n P = Inr r
    \<and> reconcile_existing_markers (map plain_comment (filter (comment_trusted P) (listed ps)))
        (sp_target_hash P) (sp_payload_hash P) (sp_findings_hash P) = Inr e
    \<and> (mr_status r = SafeToPost \<longleftrightarrow> ms_status e = ScanNoMatch)
    \<and> (mr_status r = ReconciledExisting \<longleftrightarrow> ms_status e = ScanMatched)
    \<and> (\<forall>i. mr_existing_comment_id r = Some i \<longrightarrow> ms_existing_comment_id e = Some (last (i # mr_duplicate_comment_ids r)))"
proof -
  let ?t = "sp_target_hash P" and ?p = "sp_payload_hash P" and ?f = "sp_findings_hash P"
  let ?cs = "filter (comment_trusted P) (listed ps)"
  have blocks: "(\<exists>c \<in> set (listed ps). comment_blocks P c) \<longleftrightarrow> (\<exists>c \<in> set (map plain_comment ?cs). bad_body ?t ?p ?f c)"
    by (auto simp: comment_blocks_def bad_body_def plain_comment_def)
  have ms: "filter (\<lambda>c. body_matches ?t ?p ?f (ec_body c)) (map plain_comment ?cs)
      = map plain_comment (filter (comment_matches P) (listed ps))"
    by (auto simp: filter_map comp_def plain_comment_def comment_matches_def intro!: arg_cong[where f = "map _"] filter_cong)
  have valid: "\<forall>c \<in> set (map plain_comment ?cs). existing_comment_check c = None"
    using complete_listing_valid[OF assms(3,1)] by (simp add: plain_comment_valid)
  from paginated_scan_outcome[OF assms(1,2)] obtain r
    where r: "reconcile_paginated_trusted_markers tr repo n P = Inr r"
      and ok: "mr_status r \<noteq> FailedClosed \<longleftrightarrow> \<not> (\<exists>c \<in> set (listed ps). comment_blocks P c)"
      and chk: "marker_result_check r = None"
    using assms(3) complete_listing_unique[OF assms(3)] by blast
  from reconcile_existing_result[OF valid, of ?t ?p ?f] obtain e
    where e: "reconcile_existing_markers (map plain_comment ?cs) ?t ?p ?f = Inr e"
      and bad: "ms_status e \<in> {DeferredMalformed, DeferredConflict} \<longleftrightarrow> (\<exists>c \<in> set (listed ps). comment_blocks P c)"
      and found: "\<not> (\<exists>c \<in> set (listed ps). comment_blocks P c) \<longrightarrow> (if filter (comment_matches P) (listed ps) = [] then ms_status e = ScanNoMatch
         else ms_status e = ScanMatched \<and> ms_existing_comment_id e = Some (ec_comment_id (last (map plain_comment (filter (comment_matches P) (listed ps))))))"
    unfolding ms blocks by auto
  show ?thesis
  proof (cases "mr_status r = FailedClosed")
    case True
    then have "mr_existing_comment_id r = None"
      using chk by (auto simp: marker_result_check_def first_failure_None_iff no_existing_data_def)
    with True r e ok bad show ?thesis by (intro exI[of _ r] exI[of _ e]) auto
  next
    case False
    from reconcile_not_failed[OF assms(1) r False] obtain ps' where "complete_listing tr (sp_limits P) ps'"
      "reports r (filter (comment_matches P) (listed ps'))" by blast
    then have "reports r (filter (comment_matches P) (listed ps))" using complete_listing_unique[OF assms(3)] by blast
    with False r e ok found show ?thesis
      by (intro exI[of _ r] exI[of _ e])
        (cases "filter (comment_matches P) (listed ps)"; auto simp: reports_def plain_comment_def last_map)
  qed
qed

theorem scans_agree_witness:
  "\<exists>r. reconcile_paginated_trusted_markers (two_pages [] [sample_posted]) ''o/r'' 7 sample_scan = Inr r
     \<and> mr_status r = ReconciledExisting"
proof -
  let ?ps = "[\<lparr>mp_comments = [], mp_next_cursor = Some (CursorStr ''p2''), mp_completed = False, mp_request_id = None\<rparr>,
    only_page [sample_posted]]"
  have "complete_listing (two_pages [] [sample_posted]) (sp_limits sample_scan) ?ps"
    using listing_two_pages[of "[]" "[sample_posted]"] by (auto simp: complete_listing_def sample_scan_def)
  moreover have wf: "wf_transport (two_pages [] [sample_posted])" using sample_posted_facts(1) by (simp add: two_pages_wf)
  ultimately obtain r e where re: "reconcile_paginated_trusted_markers (two_pages [] [sample_posted]) ''o/r'' 7 sample_scan = Inr r"
    "reconcile_existing_markers [plain_comment sample_posted]
        (sp_target_hash sample_scan) (sp_payload_hash sample_scan) (sp_findings_hash sample_scan) = Inr e"
    "mr_status r = ReconciledExisting \<longleftrightarrow> ms_status e = ScanMatched"
    using scans_agree[OF wf sample_scan_checks, of ?ps] sample_posted_facts(2) by auto
  have "ms_status e = ScanMatched"
  proof -
    have "\<not> bad_body t p f c \<Longrightarrow> body_matches t p f (ec_body c) \<Longrightarrow> existing_comment_check c = None
      \<Longrightarrow> reconcile_existing_markers [c] t p f = Inr e \<Longrightarrow> ms_status e = ScanMatched" for t p f c
      using reconcile_existing_result[of "[c]" t p f] by auto
    from this[OF _ _ _ re(2)] show ?thesis using sample_posted_facts
      by (auto simp: plain_comment_valid comment_blocks_def comment_matches_def bad_body_def) (auto simp: plain_comment_def)
  qed
  with re show ?thesis by blast
qed

end
