(* ===== verification/GitHub_Writer_Safety.thy ===== *)
theory GitHub_Writer_Safety
  imports GitHub_Writer Finalization_Safety Marker_Safety
begin

text \<open>
  What the writer of GitHub comments promises. Whatever the transports do and however concurrent calls interleave, no
  key and no comment body is posted twice, and only validated payloads are posted; a call on a valid input never raises;
  and what a finalized run hands to the writer is posted as approved.
\<close>

section \<open>Inputs\<close>

definition built_input :: "writer_input \<Rightarrow> bool" where
  "built_input w \<longleftrightarrow> (\<exists>f a run_id. build_finalized_issue_comment_writer_input f a run_id = Inr w)"

lemma build_input_Inr:
  assumes "build_finalized_issue_comment_writer_input f a run_id = Inr w"
  obtains payload where "fz_final_payload f = Some payload" "ad_approved a" "fs_state (fz_status f) = Finalized"
    "fz_writer_input_released f" "\<forall>c \<in> set (writer_input_guards f a run_id payload). fst c"
    "w = \<lparr>wi_final_payload = payload, wi_payload_hash = fp_final_payload_hash payload,
       wi_target_hash = target_hash (fp_review_target payload), wi_marker_status = mr_status (the (fz_marker f)),
       wi_approved_actor = ad_github_actor a, wi_run_id = run_id\<rparr>" "writer_input_check w = None"
  using assms
  by (auto simp: build_finalized_issue_comment_writer_input_def mk_checked_Inr_iff first_failure_None_iff
      split: if_split_asm option.split_asm)

lemma built_input_facts:
  assumes "built_input w"
  shows "wi_run_id w = fp_marker_run_id (wi_final_payload w)" "writer_input_check w = None"
proof -
  from assms obtain f a run_id where "build_finalized_issue_comment_writer_input f a run_id = Inr w"
    by (auto simp: built_input_def)
  then obtain payload where p: "\<forall>c \<in> set (writer_input_guards f a run_id payload). fst c" "wi_final_payload w = payload"
    "wi_run_id w = run_id" "writer_input_check w = None"
    by (rule build_input_Inr) simp
  from p show "wi_run_id w = fp_marker_run_id (wi_final_payload w)" by (simp add: writer_input_guards_def)
  from p show "writer_input_check w = None" by simp
qed

text \<open>An input with a well-formed payload.\<close>

definition valid_input :: "writer_input \<Rightarrow> bool" where
  "valid_input w \<longleftrightarrow> writer_input_check w = None \<and> final_payload_check (wi_final_payload w) = None
     \<and> valid_target (fp_review_target (wi_final_payload w))"

section \<open>Results\<close>

lemma writer_result_ok:
  assumes "valid_input w" and "opt_ok non_empty cid" and "opt_ok non_empty err"
    and "s \<in> {WriterPosted, WriterReconciled} \<Longrightarrow> cid \<noteq> None" and "s = WriterFailed \<Longrightarrow> err \<noteq> None"
  shows "writer_result_for w s cid err = Inr \<lparr>wr_status = s, wr_artifact_kind = IssueComment, wr_target_hash = wi_target_hash w,
      wr_payload_hash = wi_payload_hash w, wr_comment_id = cid, wr_error = err\<rparr>"
proof -
  have h: "wi_target_hash w = target_hash (fp_review_target (wi_final_payload w))"
    "wi_payload_hash w = fp_final_payload_hash (wi_final_payload w)"
    "starts_with ''sha256:'' (fp_final_payload_hash (wi_final_payload w))"
    using assms(1) by (auto simp: valid_input_def writer_input_check_def final_payload_check_iff split: if_split_asm)
  have p: "\<forall>c \<in> set (require_hash_like h n). fst c" if "starts_with ''sha256:'' h" for h n
    using that by (auto simp: require_defs starts_with_iff)
  show ?thesis
    unfolding writer_result_for_def mk_checked_def writer_result_check_def
    using p[OF h(3)] p[OF strict_starts_with[OF strict_target_hash]] assms h
    by (auto simp: first_failure_None_iff ball_Un require_optional_non_empty_def split: option.split)
qed

definition safe_text :: "string \<Rightarrow> bool" where
  "safe_text s \<longleftrightarrow> s \<noteq> [] \<and> \<not> has_secret_fragment s"

lemma reason_values_safe: "list_all (\<lambda>r. safe_text (writer_reason_value r)) [WR_validation_failed, WR_timeout, WR_rate_limited,
     WR_forbidden, WR_not_found, WR_unavailable]"
  "list_all (\<lambda>r. safe_text (writer_reason_value r)) [WR_malformed_response, WR_transport_unknown,
     WR_ambiguous_accepted, WR_ambiguous_unresolved, WR_forbidden_second_post, WR_trusted_marker_conflict, WR_response_actor_mismatch]"
  "list_all (\<lambda>r. safe_text (marker_reason_value r)) [MR_safe_to_post, MR_matched_existing, MR_pagination_incomplete,
     MR_repeated_cursor, MR_page_cap_exceeded, MR_comment_cap_exceeded, MR_malformed_page, MR_timeout]"
  "list_all (\<lambda>r. safe_text (marker_reason_value r)) [MR_rate_limited, MR_forbidden,
     MR_not_found, MR_unavailable, MR_transport_unknown, MR_trusted_marker_conflict, MR_trusted_marker_malformed]"
  "list_all (\<lambda>r. safe_text (validation_reason_value r)) [PV_wrong_artifact_kind, PV_redaction_not_passed, PV_candidate_contains_marker,
     PV_candidate_binding_mismatch, PV_not_final_payload, PV_body_hash_mismatch, PV_findings_hash_mismatch, PV_duplicate_fingerprints]"
  "list_all (\<lambda>r. safe_text (validation_reason_value r)) [PV_target_hash_mismatch, PV_marker_not_final_line,
     PV_marker_field_mismatch, PV_final_payload_hash_mismatch, PV_wrong_method, PV_wrong_endpoint, PV_request_target_mismatch,
     PV_wrong_request_body, PV_formal_review_payload_rejected]"
  "safe_text ''payload_validation_failed''"
  by code_simp+

lemma safe_reason_values [simp]: "safe_text (writer_reason_value wr)" "safe_text (marker_reason_value mr)"
  "safe_text (validation_reason_value pv)" "safe_text (validation_error v)"
proof -
  show "safe_text (writer_reason_value wr)" using reason_values_safe(1,2) by (cases wr) (simp_all del: writer_reason_value.simps)
  show "safe_text (marker_reason_value mr)" using reason_values_safe(3,4) by (cases mr) (simp_all del: marker_reason_value.simps)
  show pv: "safe_text (validation_reason_value pv)" for pv
    using reason_values_safe(5,6) by (cases pv) (simp_all del: validation_reason_value.simps)
  show "safe_text (validation_error v)" using pv reason_values_safe(7) by (auto simp: validation_error_def split: option.split)
qed

lemma safe_writer_request_id_ok: "opt_ok safe_text (safe_writer_request_id v)"
  by (auto simp: safe_writer_request_id_def safe_text_def split: field.split)

lemma attempt_summary_ok:
  assumes "0 \<le> posts" and "0 \<le> scans" and "opt_ok safe_text reason"
  shows "\<exists>s. attempt_summary w posts scans retryable reason rid = Inr s \<and> wsm_post_attempt_count s = posts"
proof -
  have safe: "\<forall>c \<in> set (optional_safe_text v n). fst c" if "opt_ok safe_text v" for v n
    using that by (cases v) (auto simp: optional_safe_text_def safe_text_def)
  have "starts_with ''/repos/'' (writer_endpoint w)" by (simp add: writer_endpoint_def Let_def starts_with_iff)
  then show ?thesis
    using assms safe[OF assms(3)] safe[OF safe_writer_request_id_ok[of rid]]
    by (auto simp: attempt_summary_def mk_checked_def writer_summary_check_def first_failure_None_iff ball_Un
        split: option.split)
qed

lemma failed_attempt_ok:
  assumes "valid_input w" and "safe_text reason" and "0 \<le> posts" and "0 \<le> scans"
  shows "\<exists>x. failed_attempt w detail reason retryable rid posts scans m = Inr x
    \<and> wr_status (at_writer_result x) = WriterFailed \<and> at_outcome x = detail \<and> wr_comment_id (at_writer_result x) = None"
proof -
  obtain s where "attempt_summary w posts scans retryable (Some reason) rid = Inr s"
    using attempt_summary_ok[OF assms(3,4), where reason = "Some reason" and w = w and retryable = retryable and rid = rid]
      assms(2) by auto
  then show ?thesis
    using writer_result_ok[OF assms(1), of None "Some reason" WriterFailed] assms(2)
    by (simp add: failed_attempt_def safe_text_def)
qed

section \<open>Recovery\<close>

definition valid_env :: "writer_env \<Rightarrow> bool" where
  "valid_env e \<longleftrightarrow> writer_env_check e = None \<and> (\<forall>ts n. we_recovery e = Some ts \<longrightarrow> wf_transport (ts n))"

lemma payload_strict:
  assumes "payload_bound p"
  shows "strict_sha256 (fp_marker_target_hash p)" "strict_sha256 (fp_marker_payload_hash p)" "strict_sha256 (fp_marker_findings_hash p)"
  using assms strict_findings_hash[of "fp_item_fingerprints p"] by (auto simp: payload_bound_def target_hash_def)

lemma recovery_checks:
  assumes "valid_input w" and "valid_env e" and "pv_passes (validate_final_issue_comment_payload (wi_final_payload w))"
  shows "first_failure (reconcile_checks (rt_owner_repo (fp_review_target (wi_final_payload w)))
     (rt_pr_number (fp_review_target (wi_final_payload w))) (recovery_params e w)) = None"
proof -
  let ?t = "fp_review_target (wi_final_payload w)"
  have "rt_owner_repo ?t \<noteq> []" "0 < rt_pr_number ?t" "wi_approved_actor w \<noteq> []"
    using assms(1) by (auto simp: valid_input_def review_target_check_def writer_input_check_def require_defs split: if_split_asm)
  moreover have "list_all non_empty (we_trusted_bots e)"
    using assms(2) by (auto simp: valid_env_def writer_env_check_def split: if_split_asm)
  ultimately show ?thesis
    using payload_strict[of "wi_final_payload w"] strict_sha256_not_Nil assms(3)
    by (auto simp: reconcile_checks_def recovery_params_def validate_final_pass_iff)
qed

lemma reconciled_data:
  assumes "marker_result_check m = None" and "mr_status m = ReconciledExisting"
  obtains cid where "mr_existing_comment_id m = Some cid" "cid \<noteq> []"
  using assms unfolding marker_result_check_def first_failure_None_iff set_append ball_Un
  by (auto simp: require_optional_non_empty_def)

lemma recovered_attempt_ok:
  assumes "valid_input w" and "marker_result_check m = None" and "safe_text reason" and "0 \<le> posts"
  shows "\<exists>x. recovered_attempt w posts detail reason retryable m = Inr x
    \<and> (if mr_status m = ReconciledExisting
        then wr_status (at_writer_result x) = WriterReconciled \<and> wr_comment_id (at_writer_result x) = mr_existing_comment_id m
        else wr_status (at_writer_result x) = WriterFailed)"
proof (cases "mr_status m = ReconciledExisting")
  case True
  with assms(2) obtain cid where cid: "mr_existing_comment_id m = Some cid" "cid \<noteq> []" by (rule reconciled_data)
  obtain s where "attempt_summary w posts 1 False (Some (marker_reason_value (mr_reason_code m)))
      (optional_field (ms_request_id (mr_summary m))) = Inr s"
    using attempt_summary_ok[OF assms(4), where scans = 1 and w = w and retryable = False
        and reason = "Some (marker_reason_value (mr_reason_code m))" and rid = "optional_field (ms_request_id (mr_summary m))"] by auto
  then show ?thesis
    using True cid writer_result_ok[OF assms(1), of "Some cid" None WriterReconciled] by (simp add: recovered_attempt_def Let_def)
next
  case False
  have fails: "\<exists>x. failed_attempt w d r b rid posts 1 (Some m) = Inr x \<and> wr_status (at_writer_result x) = WriterFailed"
    if "safe_text r" for d r b rid
    using failed_attempt_ok[OF assms(1) that assms(4), where scans = 1 and detail = d and retryable = b and rid = rid and m = "Some m"] by auto
  show ?thesis
    using False assms(3) by (cases "mr_status m")
      (auto simp: recovered_attempt_def Let_def simp del: marker_reason_value.simps intro!: fails)
qed

lemma recovery_ok:
  assumes "valid_input w" and "valid_env e" and "pv_passes (validate_final_issue_comment_payload (wi_final_payload w))"
    and "safe_text reason" and "0 \<le> posts"
  shows "\<exists>x st'. recover_after_potential_acceptance e w posts detail reason retryable rid st = (Inr x, st')
    \<and> ws_posted st' = ws_posted st \<and> ws_attempted st' = ws_attempted st"
proof (cases "we_recovery e")
  case None
  with failed_attempt_ok[OF assms(1,4,5), where scans = 0 and detail = detail and retryable = retryable and rid = rid and m = None]
  show ?thesis by (auto simp: recover_after_potential_acceptance_def)
next
  case (Some ts)
  let ?tr = "ts (ws_scans st)"
  have wf: "wf_transport ?tr" using assms(2) Some by (simp add: valid_env_def)
  from paginated_scan_outcome[OF wf recovery_checks[OF assms(1-3)]] obtain m where
    m: "recovery_scan e w ?tr = Inr m" "marker_result_check m = None" by (auto simp: recovery_scan_def)
  from recovered_attempt_ok[OF assms(1) m(2) assms(4,5), where detail = detail and retryable = retryable] Some m(1)
  show ?thesis by (auto simp: recover_after_potential_acceptance_def)
qed

lemma recover_frame:
  "recover_after_potential_acceptance e w posts detail reason retryable rid st = (r, st') \<Longrightarrow>
     ws_posted st' = ws_posted st \<and> ws_attempted st' = ws_attempted st"
  by (auto simp: recover_after_potential_acceptance_def split: option.split_asm)

section \<open>Sending\<close>

lemma send_frame:
  "send_post e w st = (r, st') \<Longrightarrow> ws_posted st' = ws_posted st @ [w] \<and> ws_attempted st' = ws_attempted st"
  by (auto simp: send_post_def Let_def dest: recover_frame split: post_call.split_asm if_split_asm)

lemma handle_response_ok:
  assumes "valid_input w"
  shows "\<exists>x. handle_response w r = Inr x \<and> (wr_status (at_writer_result x) = WriterPosted \<longleftrightarrow>
     pr_comment_id r \<in> Present ` {c. c \<noteq> []} \<and> pr_author_login r = Present (wi_approved_actor w))"
proof -
  have fails: "\<exists>x. failed_attempt w d (writer_reason_value v) b rid 1 0 None = Inr x \<and> wr_status (at_writer_result x) \<noteq> WriterPosted" for d v b rid
    using failed_attempt_ok[OF assms, where posts = 1 and scans = 0 and detail = d and retryable = b and rid = rid and m = None
        and reason = "writer_reason_value v"] by auto
  consider cid where "pr_comment_id r = Present cid" "cid \<noteq> []" "pr_author_login r = Present (wi_approved_actor w)"
    | "pr_comment_id r \<notin> Present ` {c. c \<noteq> []}"
    | cid where "pr_comment_id r = Present cid" "cid \<noteq> []" "pr_author_login r \<noteq> Present (wi_approved_actor w)" by blast
  then show ?thesis
  proof cases
    case 1
    obtain s where "attempt_summary w 1 0 False None (pr_request_id r) = Inr s"
      using attempt_summary_ok[of 1 0 None w False "pr_request_id r"] by auto
    with 1 writer_result_ok[OF assms, of "Some cid" None WriterPosted] show ?thesis
      by (auto simp: handle_response_def field_value_def)
  next
    case 2
    then show ?thesis
      using fails by (cases "pr_comment_id r") (auto simp: handle_response_def field_value_def simp del: writer_reason_value.simps)
  next
    case 3
    then show ?thesis using fails by (auto simp: handle_response_def field_value_def simp del: writer_reason_value.simps)
  qed
qed

lemma send_post_ok:
  assumes "valid_input w" and "valid_env e" and "pv_passes (validate_final_issue_comment_payload (wi_final_payload w))"
  shows "\<exists>x st'. send_post e w st = (Inr x, st')"
proof -
  have recovers: "\<exists>x st'. recover_after_potential_acceptance e w 1 d (writer_reason_value v) b rid s = (Inr x, st')" for d v b rid s
    using recovery_ok[OF assms, where posts = 1 and detail = d and reason = "writer_reason_value v" and retryable = b and rid = rid and st = s]
    by auto
  have fails: "\<exists>x. failed_attempt w d (writer_reason_value v) b rid 1 0 None = Inr x" for d v b rid
    using failed_attempt_ok[OF assms(1), where posts = 1 and scans = 0 and detail = d and retryable = b and rid = rid and m = None
        and reason = "writer_reason_value v"] by auto
  have "\<exists>x. handle_response w r = Inr x" for r using handle_response_ok[OF assms(1)] by blast
  with recovers fails show ?thesis
    by (cases "we_post e (length (ws_posted st))") (auto simp: send_post_def Let_def simp del: writer_reason_value.simps)
qed

lemma post_issue_comment_ok:
  assumes "valid_input w" and "valid_env e"
  shows "\<exists>x st'. post_issue_comment e w st = (Inr x, st')"
proof -
  obtain v where v: "validate_final_issue_comment_payload (wi_final_payload w) = Inr v"
    using validate_final_total[of "wi_final_payload w"] by (auto simp: is_ok_iff)
  show ?thesis
  proof (cases "pv_status v = GatePass")
    case False
    with v failed_attempt_ok[OF assms(1), where posts = 0 and scans = 0 and detail = WO_validation_failed and retryable = False
        and rid = Absent and m = None and reason = "validation_error v"]
    show ?thesis by (auto simp: post_issue_comment_def)
  next
    case True
    with v have pass: "pv_passes (validate_final_issue_comment_payload (wi_final_payload w))" by (simp add: pv_passes_def)
    obtain claimed st1 where "claim_key w st = (claimed, st1)" by fastforce
    with v True send_post_ok[OF assms pass, of st1]
      recovery_ok[OF assms pass, where posts = 0 and detail = WO_forbidden_second_post
        and reason = "writer_reason_value WR_forbidden_second_post" and retryable = False and rid = Absent and st = st1]
    show ?thesis by (cases claimed) (auto simp: post_issue_comment_def simp del: writer_reason_value.simps)
  qed
qed

lemma claim_key_cases:
  "claim_key w st = (c, st') \<Longrightarrow>
     (if retry_sequence_key w \<in> ws_attempted st then \<not> c \<and> st' = st
      else c \<and> st' = st\<lparr>ws_attempted := insert (retry_sequence_key w) (ws_attempted st)\<rparr>)"
  by (auto simp: claim_key_def Let_def split: if_split_asm)

text \<open>What a call that returns has done.\<close>

lemma writer_result_status: "writer_result_for w s cid err = Inr r \<Longrightarrow> wr_status r = s"
  by (auto simp: writer_result_for_def mk_checked_Inr_iff)

lemma failed_attempt_status: "failed_attempt w d reason b rid posts scans m = Inr x \<Longrightarrow> wr_status (at_writer_result x) = WriterFailed"
  by (auto simp: failed_attempt_def bindE_Inr_iff dest: writer_result_status)

lemma recovered_attempt_status: "recovered_attempt w posts d reason b m = Inr x \<Longrightarrow> wr_status (at_writer_result x) \<noteq> WriterPosted"
  by (auto simp: recovered_attempt_def Let_def bindE_Inr_iff split: marker_status.split_asm
      dest: writer_result_status failed_attempt_status)

lemma recover_status:
  "recover_after_potential_acceptance e w posts d reason b rid st = (Inr x, st') \<Longrightarrow> wr_status (at_writer_result x) \<noteq> WriterPosted"
  by (auto simp: recover_after_potential_acceptance_def bindE_Inr_iff split: option.split_asm
      dest: failed_attempt_status recovered_attempt_status)

definition accepts_post :: "writer_env \<Rightarrow> writer_input \<Rightarrow> writer_state \<Rightarrow> bool" where
  "accepts_post e w st \<longleftrightarrow> (\<exists>r cid. we_post e (length (ws_posted st)) = PostResponse r \<and> pr_comment_id r = Present cid \<and> cid \<noteq> []
     \<and> pr_author_login r = Present (wi_approved_actor w))"

lemma post_effect:
  assumes "valid_input w" and "post_issue_comment e w st = (Inr x, st')"
    and "pv_passes (validate_final_issue_comment_payload (wi_final_payload w))"
  shows "ws_posted st' = (if retry_sequence_key w \<in> ws_attempted st then ws_posted st else ws_posted st @ [w])"
    and "wr_status (at_writer_result x) = WriterPosted \<longleftrightarrow> retry_sequence_key w \<notin> ws_attempted st \<and> accepts_post e w st"
proof -
  obtain v where v: "validate_final_issue_comment_payload (wi_final_payload w) = Inr v" "pv_status v = GatePass"
    using assms(3) by (auto simp: pv_passes_def split: sum.split_asm)
  obtain claimed st1 where c: "claim_key w st = (claimed, st1)" by fastforce
  note claim = claim_key_cases[OF c]
  have posted: "wr_status (at_writer_result y) = WriterPosted \<longleftrightarrow> accepts_post e w st"
    if "send_post e w st1 = (Inr y, st2)" "ws_posted st1 = ws_posted st" for y st2
  proof (cases "we_post e (length (ws_posted st))")
    case (PostResponse r)
    with that have "handle_response w r = Inr y" by (simp add: send_post_def Let_def)
    with handle_response_ok[OF assms(1), of r] show ?thesis using PostResponse by (auto simp: accepts_post_def)
  qed (use that in \<open>auto simp: send_post_def Let_def accepts_post_def simp del: writer_reason_value.simps
        dest: failed_attempt_status recover_status split: if_split_asm\<close>)
  show "ws_posted st' = (if retry_sequence_key w \<in> ws_attempted st then ws_posted st else ws_posted st @ [w])"
    using assms(2) v c claim send_frame[of e w st1 "Inr x" st']
      recover_frame[of e w 0 WO_forbidden_second_post "writer_reason_value WR_forbidden_second_post" False Absent st1 "Inr x" st']
    by (auto simp: post_issue_comment_def simp del: writer_reason_value.simps split: if_split_asm)
  show "wr_status (at_writer_result x) = WriterPosted \<longleftrightarrow> retry_sequence_key w \<notin> ws_attempted st \<and> accepts_post e w st"
    using assms(2) v c claim posted[of x st']
      recover_status[of e w 0 WO_forbidden_second_post "writer_reason_value WR_forbidden_second_post" False Absent st1 x st']
    by (auto simp: post_issue_comment_def simp del: writer_reason_value.simps split: if_split_asm)
qed

section \<open>Interleaved calls\<close>

text \<open>The steps of a writer that several threads use: a call claims the key of its input under the lock; a call that
  claimed it sends the request at some later time; a call that found the key claimed looks for the earlier comment. Inputs
  exist only as results of their builder. The second component lists the inputs whose key is claimed and whose request is
  not sent yet.\<close>

inductive writer_step :: "writer_env \<Rightarrow> writer_state \<times> writer_input list \<Rightarrow> writer_state \<times> writer_input list \<Rightarrow> bool" for e where
  step_claim: "built_input w \<Longrightarrow> pv_passes (validate_final_issue_comment_payload (wi_final_payload w)) \<Longrightarrow>
    claim_key w st = (True, st') \<Longrightarrow> writer_step e (st, pending) (st', w # pending)"
| step_send: "w \<in> set pending \<Longrightarrow> send_post e w st = (r, st') \<Longrightarrow> writer_step e (st, pending) (st', remove1 w pending)"
| step_refuse: "built_input w \<Longrightarrow> pv_passes (validate_final_issue_comment_payload (wi_final_payload w)) \<Longrightarrow>
    claim_key w st = (False, st1) \<Longrightarrow>
    recover_after_potential_acceptance e w 0 WO_forbidden_second_post (writer_reason_value WR_forbidden_second_post) False Absent st1
      = (r, st') \<Longrightarrow> writer_step e (st, pending) (st', pending)"

inductive_cases writer_stepE: "writer_step e (st, pending) s'"

text \<open>A call that runs alone is a sequence of such steps.\<close>

lemma sequential_call_steps:
  assumes "built_input w" and "post_issue_comment e w st = (r, st')"
  shows "(writer_step e)\<^sup>*\<^sup>* (st, pending) (st', pending)"
proof -
  obtain v where v: "validate_final_issue_comment_payload (wi_final_payload w) = Inr v"
    using validate_final_total[of "wi_final_payload w"] by (auto simp: is_ok_iff)
  show ?thesis
  proof (cases "pv_status v = GatePass")
    case False
    with v assms(2) show ?thesis by (simp add: post_issue_comment_def)
  next
    case True
    with v have pass: "pv_passes (validate_final_issue_comment_payload (wi_final_payload w))" by (simp add: pv_passes_def)
    obtain claimed st1 where c: "claim_key w st = (claimed, st1)" by fastforce
    show ?thesis
    proof (cases claimed)
      case claimed: True
      with v True c assms(2) have "send_post e w st1 = (r, st')" by (simp add: post_issue_comment_def)
      then have "writer_step e (st1, w # pending) (st', remove1 w (w # pending))" by (intro step_send) simp_all
      moreover have "writer_step e (st, pending) (st1, w # pending)" using c claimed by (intro step_claim assms(1) pass) simp
      ultimately show ?thesis by simp
    next
      case False
      with v True c assms(2) have "writer_step e (st, pending) (st', pending)"
        by (intro step_refuse[OF assms(1) pass]) (simp_all add: post_issue_comment_def)
      then show ?thesis by blast
    qed
  qed
qed

definition writer_reachable :: "writer_env \<Rightarrow> writer_state \<Rightarrow> writer_input list \<Rightarrow> bool" where
  "writer_reachable e st pending \<longleftrightarrow> (writer_step e)\<^sup>*\<^sup>* (initial_writer, []) (st, pending)"

definition good_input :: "writer_input \<Rightarrow> bool" where
  "good_input w \<longleftrightarrow> built_input w \<and> pv_passes (validate_final_issue_comment_payload (wi_final_payload w))"

definition writer_invariant :: "writer_state \<times> writer_input list \<Rightarrow> bool" where
  "writer_invariant s = (case s of (st, pending) \<Rightarrow>
     distinct (map retry_sequence_key (ws_posted st @ pending))
     \<and> ws_attempted st = retry_sequence_key ` set (ws_posted st @ pending)
     \<and> (\<forall>w \<in> set (ws_posted st @ pending). good_input w))"

lemma distinct_move:
  assumes "distinct (map f (xs @ ys))" and "y \<in> set ys"
  shows "distinct (map f ((xs @ [y]) @ remove1 y ys)) \<and> set ((xs @ [y]) @ remove1 y ys) = set (xs @ ys)"
proof -
  from assms(1) have d: "distinct xs" "distinct ys" "set xs \<inter> set ys = {}" "inj_on f (set (xs @ ys))"
    by (auto simp: distinct_map inj_on_Un)
  then have "distinct ((xs @ [y]) @ remove1 y ys)" and eq: "set ((xs @ [y]) @ remove1 y ys) = set (xs @ ys)"
    using assms(2) by (auto simp: set_remove1_eq)
  with d(4) show ?thesis by (simp only: distinct_map)
qed

lemma writer_invariantD:
  assumes "writer_invariant (st, pending)"
  shows "distinct (map retry_sequence_key (ws_posted st @ pending))"
    "ws_attempted st = retry_sequence_key ` set (ws_posted st @ pending)" "\<forall>w \<in> set (ws_posted st @ pending). good_input w"
  using assms unfolding writer_invariant_def prod.case by blast+

lemma writer_invariant_claim:
  assumes "writer_invariant (st, pending)" and "good_input w" and "claim_key w st = (True, st')"
  shows "writer_invariant (st', w # pending)"
proof -
  from claim_key_cases[OF assms(3)] have new: "retry_sequence_key w \<notin> ws_attempted st"
    and st': "st' = st\<lparr>ws_attempted := insert (retry_sequence_key w) (ws_attempted st)\<rparr>" by (simp_all split: if_split_asm)
  note inv = writer_invariantD[OF assms(1)]
  have "distinct (map retry_sequence_key (ws_posted st @ w # pending))" using inv(1) new unfolding inv(2) by auto
  then show ?thesis using inv(2,3) assms(2) by (auto simp only: writer_invariant_def prod.case st' writer_state.simps) auto
qed

lemma writer_invariant_send:
  assumes "writer_invariant (st, pending)" and "w \<in> set pending" and "send_post e w st = (r, st')"
  shows "writer_invariant (st', remove1 w pending)"
proof -
  note inv = writer_invariantD[OF assms(1)]
  from send_frame[OF assms(3)] have st': "ws_posted st' = ws_posted st @ [w]" "ws_attempted st' = ws_attempted st" by simp_all
  from distinct_move[OF inv(1) assms(2)] inv(2,3) show ?thesis by (simp only: writer_invariant_def prod.case st')
qed

lemma writer_invariant_step:
  assumes "writer_step e s s'" and "writer_invariant s"
  shows "writer_invariant s'"
  using assms
proof (induction rule: writer_step.induct)
  case (step_claim w st st' pending)
  then show ?case by (intro writer_invariant_claim) (simp_all only: good_input_def)
next
  case (step_send w pending st r st')
  then show ?case by (intro writer_invariant_send)
next
  case (step_refuse w st st1 r st' pending)
  have "ws_posted st' = ws_posted st" "ws_attempted st' = ws_attempted st"
    using recover_frame[OF step_refuse.hyps(4)] claim_key_cases[OF step_refuse.hyps(3)] by (simp_all split: if_split_asm)
  with step_refuse.prems show ?case by (simp add: writer_invariant_def)
qed

lemma writer_invariant_reachable: "writer_reachable e st pending \<Longrightarrow> writer_invariant (st, pending)"
proof -
  assume "writer_reachable e st pending"
  moreover have "writer_invariant (initial_writer, [])" by (simp add: writer_invariant_def initial_writer_def)
  moreover have "(writer_step e)\<^sup>*\<^sup>* s s' \<Longrightarrow> writer_invariant s \<Longrightarrow> writer_invariant s'" for s s'
    by (induction rule: rtranclp_induct) (auto intro: writer_invariant_step)
  ultimately show ?thesis unfolding writer_reachable_def by blast
qed

text \<open>The key of an input is a function of the body it posts.\<close>

lemma same_body_same_key:
  assumes "built_input v" and "built_input w" and "pv_passes (validate_final_issue_comment_payload (wi_final_payload v))"
    and "pv_passes (validate_final_issue_comment_payload (wi_final_payload w))"
    and "fp_body (wi_final_payload v) = fp_body (wi_final_payload w)"
  shows "retry_sequence_key v = retry_sequence_key w"
proof -
  let ?p = "wi_final_payload v" and ?q = "wi_final_payload w"
  have "Some \<lparr>mk_run_id = fp_marker_run_id ?p, mk_target = target_hash (fp_review_target ?p), mk_payload = visible_body_hash (fp_body ?p),
      mk_findings = fp_findings_hash ?p\<rparr> = Some \<lparr>mk_run_id = fp_marker_run_id ?q, mk_target = target_hash (fp_review_target ?q),
      mk_payload = visible_body_hash (fp_body ?q), mk_findings = fp_findings_hash ?q\<rparr>"
    by (rule trans[OF payload_marker[OF assms(3), symmetric]
        trans[OF arg_cong[OF assms(5), of scan_final_line_marker] payload_marker[OF assms(4)]]])
  then have same: "fp_marker_run_id ?p = fp_marker_run_id ?q" "target_hash (fp_review_target ?p) = target_hash (fp_review_target ?q)"
    "visible_body_hash (fp_body ?p) = visible_body_hash (fp_body ?q)" "fp_findings_hash ?p = fp_findings_hash ?q" by simp_all
  have bound: "fp_marker_target_hash p = target_hash (fp_review_target p) \<and> fp_marker_payload_hash p = visible_body_hash (fp_body p)
      \<and> fp_marker_findings_hash p = fp_findings_hash p" if "pv_passes (validate_final_issue_comment_payload p)" for p
    using that by (simp only: validate_final_pass_iff payload_bound_def)
  show ?thesis
    unfolding retry_sequence_key_def built_input_facts(1)[OF assms(1)] built_input_facts(1)[OF assms(2)]
    using bound[OF assms(3)] bound[OF assms(4)] same by simp
qed

lemma distinct_bodies:
  assumes "writer_invariant (st, pending)"
  shows "distinct (map (\<lambda>w. fp_body (wi_final_payload w)) (ws_posted st))"
proof -
  have "distinct (ws_posted st)" "inj_on retry_sequence_key (set (ws_posted st))"
    using assms by (simp_all add: writer_invariant_def distinct_map inj_on_Un)
  moreover have "inj_on (\<lambda>w. fp_body (wi_final_payload w)) (set (ws_posted st))"
  proof (rule inj_onI)
    fix v w assume *: "v \<in> set (ws_posted st)" "w \<in> set (ws_posted st)" "fp_body (wi_final_payload v) = fp_body (wi_final_payload w)"
    with assms have "retry_sequence_key v = retry_sequence_key w"
      by (intro same_body_same_key) (auto simp: writer_invariant_def good_input_def)
    with * calculation(2) show "v = w" by (auto dest: inj_onD)
  qed
  ultimately show ?thesis by (simp add: distinct_map)
qed

section \<open>From the finalized run to the request\<close>

lemma released_input_built:
  assumes fin: "finalize_github_payload fromiso a plan findings probe tprobe evaluated_at builder reconciler = Inr f"
    and rel: "fz_writer_input_released f" and actor: "ad_github_actor a \<noteq> []"
  shows "\<exists>payload. builder = Some (Inr payload) \<and> fz_final_payload f = Some payload \<and> payload_bound payload
    \<and> fp_final_payload_hash payload = ad_final_payload_hash a
    \<and> (case build_finalized_issue_comment_writer_input f a run_id of
         Inr w \<Rightarrow> wi_final_payload w = payload \<and> run_id = fp_marker_run_id payload
           \<and> ad_review_target_hash a = target_hash (fp_review_target payload)
       | Inl e \<Rightarrow> run_id \<noteq> fp_marker_run_id payload \<or> ad_review_target_hash a \<noteq> target_hash (fp_review_target payload))"
proof -
  obtain actor target where st: "approval_preflight a plan findings = None" "afc_status actor = GatePass" "tc_status target = GatePass"
    "finalize_payload a actor target builder reconciler = Inr f"
    using finalize_released[OF fin rel] by blast
  obtain payload reconcile b v where pb: "builder = Some (Inr payload)" and "reconciler = Some reconcile"
    and pl: "fp_final_payload_hash payload = ad_final_payload_hash a"
    "validate_final_issue_comment_payload payload = Inr v" "pv_status v = GatePass" and "reconcile payload = Inr b"
    and pf: "finalize_marker a actor target payload v b = Inr f"
    using finalize_payload_released[OF st(4) rel] .
  note fm = finalize_marker_released[OF pf rel]
  then have f: "f = released_result a actor target payload v (bm_result b)" and safe: "mr_status (bm_result b) = SafeToPost" by blast+
  have approved: "ad_approved a" using st(1) by (auto simp: approval_preflight_def Let_def split: if_split_asm)
  have bound: "payload_bound payload" using pl(2,3) by (simp add: pv_passes_def flip: validate_final_pass_iff)
  have rid: "fp_marker_run_id payload \<noteq> []"
  proof -
    have "parse_reviewgraph_v1_marker_line (body_final_line (fp_body payload)) = Some \<lparr>mk_run_id = fp_marker_run_id payload,
        mk_target = target_hash (fp_review_target payload), mk_payload = visible_body_hash (fp_body payload),
        mk_findings = fp_findings_hash payload\<rparr>" using bound by (simp only: payload_bound_def)
    then show ?thesis by (auto simp only: parse_marker_Some_iff wf_marker_def valid_run_id_def marker_fields.select_convs)
  qed
  let ?good = "run_id = fp_marker_run_id payload \<and> ad_review_target_hash a = target_hash (fp_review_target payload)"
  have guards: "(\<forall>c \<in> set (writer_input_guards f a run_id payload). fst c) \<longleftrightarrow> ?good"
    using st(2,3) pl(1,3) safe by (auto simp: f released_result_def writer_input_guards_def)
  have flds: "fz_final_payload f = Some payload" "fs_state (fz_status f) = Finalized" "fz_writer_input_released f"
    "mr_status (the (fz_marker f)) = SafeToPost" using safe by (simp_all add: f released_result_def)
  have "case build_finalized_issue_comment_writer_input f a run_id of
      Inr w \<Rightarrow> wi_final_payload w = payload \<and> ?good | Inl e \<Rightarrow> \<not> ?good"
  proof (cases ?good)
    case True
    then have "first_failure (writer_input_guards f a run_id payload) = None" using guards by (simp add: first_failure_None_iff)
    then show ?thesis
      using True approved flds actor rid
      by (simp add: build_finalized_issue_comment_writer_input_def mk_checked_def writer_input_check_def)
  next
    case False
    then obtain e where "first_failure (writer_input_guards f a run_id payload) = Some e"
      using guards first_failure_None_iff by fastforce
    then show ?thesis using False approved flds by (simp add: build_finalized_issue_comment_writer_input_def)
  qed
  then show ?thesis using flds(1) bound pl(1) pb by (auto split: sum.split_asm)
qed

section \<open>A concrete run\<close>

text \<open>A transport that accepts every request as the user \<open>me\<close>, and no recovery.\<close>

definition sample_env :: writer_env where
  "sample_env = \<lparr>we_post = (\<lambda>n. PostResponse \<lparr>pr_comment_id = Present ''100'', pr_author_login = Present ''me'', pr_request_id = Absent\<rparr>),
     we_recovery = None, we_trusted_bots = [], we_timeout_seconds = 10, we_limits = None\<rparr>"

lemma sample_env_valid: "valid_env sample_env"
  by (simp add: valid_env_def writer_env_check_def sample_env_def)

lemma approved_actor_not_empty: "approval_decision_check a = None \<Longrightarrow> ad_github_actor a \<noteq> []"
  by (auto simp: approval_decision_check_def first_failure_None_iff require_non_empty_def)

lemma sample_input:
  obtains w where "built_input w" "pv_passes (validate_final_issue_comment_payload (wi_final_payload w))"
proof -
  obtain a :: approval_decision and payload and r :: finalize_result where s:
    "finalize_github_payload sample_fromiso a sample_plan [''f1'' \<mapsto> FindingObject sample_finding] sample_probe
       (Some sample_target_probe) ''2024-05-01T10:05:00Z'' (Some (Inr payload)) (Some sample_reconcile) = Inr r"
    "fz_writer_input_released r" "approval_decision_check a = None" "fp_review_target payload = sample_target"
    "ad_review_target_hash a = target_hash sample_target" "fp_marker_run_id payload = ''run1''"
    by (rule sample_finalized)
  from released_input_built[OF s(1,2) approved_actor_not_empty[OF s(3)], where run_id = "''run1''"] s(4-6)
  obtain w where "build_finalized_issue_comment_writer_input r a ''run1'' = Inr w" "wi_final_payload w = payload" "payload_bound payload"
    by (auto split: sum.split_asm)
  with that show thesis by (auto simp: built_input_def validate_final_pass_iff)
qed

lemma posted_once_more:
  assumes "writer_reachable e st pending" and "built_input w"
    and "fp_body (wi_final_payload w) \<in> (\<lambda>v. fp_body (wi_final_payload v)) ` set (ws_posted st @ pending)"
  shows "ws_posted (snd (post_issue_comment e w st)) = ws_posted st"
proof -
  obtain v where v: "validate_final_issue_comment_payload (wi_final_payload w) = Inr v"
    using validate_final_total[of "wi_final_payload w"] by (auto simp: is_ok_iff)
  show ?thesis
  proof (cases "pv_status v = GatePass")
    case False
    with v show ?thesis by (simp add: post_issue_comment_def)
  next
    case True
    with v have pass: "pv_passes (validate_final_issue_comment_payload (wi_final_payload w))" by (simp add: pv_passes_def)
    note inv = writer_invariantD[OF writer_invariant_reachable[OF assms(1)]]
    from assms(3) obtain u where u: "u \<in> set (ws_posted st @ pending)" "fp_body (wi_final_payload w) = fp_body (wi_final_payload u)"
      by blast
    then have "built_input u" "pv_passes (validate_final_issue_comment_payload (wi_final_payload u))"
      using inv(3) by (auto simp: good_input_def)
    from same_body_same_key[OF assms(2) this(1) pass this(2) u(2)] u(1) have "retry_sequence_key w \<in> ws_attempted st"
      using inv(2) by auto
    then have claim: "claim_key w st = (False, st)" by (simp add: claim_key_def Let_def)
    obtain r st' where rec: "recover_after_potential_acceptance e w 0 WO_forbidden_second_post
        (writer_reason_value WR_forbidden_second_post) False Absent st = (r, st')" by fastforce
    from recover_frame[OF rec] v True claim rec show ?thesis
      by (simp add: post_issue_comment_def del: writer_reason_value.simps)
  qed
qed

section \<open>Properties\<close>

text \<open>C39. At most one POST. In every state that a writer reaches from its construction, whatever the transports answer and
  however the steps of concurrent calls interleave (claiming a key, sending its request, or looking for an earlier comment),
  the requests sent have pairwise different keys and pairwise different bodies, every payload sent passes validation, and
  a further call with a body that was sent, or whose request is about to be sent, sends nothing. The witness posts a
  finalized payload and calls the writer with it again.\<close>

theorem at_most_one_post:
  assumes "writer_reachable e st pending"
  shows "distinct (map retry_sequence_key (ws_posted st)) \<and> distinct (map (\<lambda>w. fp_body (wi_final_payload w)) (ws_posted st))
    \<and> (\<forall>w \<in> set (ws_posted st). pv_passes (validate_final_issue_comment_payload (wi_final_payload w)))
    \<and> (\<forall>w. built_input w \<and> fp_body (wi_final_payload w) \<in> (\<lambda>v. fp_body (wi_final_payload v)) ` set (ws_posted st @ pending)
         \<longrightarrow> ws_posted (snd (post_issue_comment e w st)) = ws_posted st)"
proof -
  note inv = writer_invariant_reachable[OF assms]
  have "distinct (map retry_sequence_key (ws_posted st))" using writer_invariantD(1)[OF inv] by simp
  moreover have "\<forall>w \<in> set (ws_posted st). pv_passes (validate_final_issue_comment_payload (wi_final_payload w))"
    using writer_invariantD(3)[OF inv] by (auto simp: good_input_def)
  ultimately show ?thesis using distinct_bodies[OF inv] posted_once_more[OF assms] by blast
qed

theorem at_most_one_post_witness:
  "\<exists>st w. writer_reachable sample_env st [] \<and> ws_posted st = [w] \<and> built_input w
     \<and> ws_posted (snd (post_issue_comment sample_env w st)) = [w]"
proof -
  obtain w where w: "built_input w" "pv_passes (validate_final_issue_comment_payload (wi_final_payload w))"
    by (rule sample_input)
  obtain r st where call: "post_issue_comment sample_env w initial_writer = (r, st)" by fastforce
  obtain v where "validate_final_issue_comment_payload (wi_final_payload w) = Inr v" "pv_status v = GatePass"
    using w(2) by (auto simp: pv_passes_def split: sum.split_asm)
  with call have "send_post sample_env w (initial_writer\<lparr>ws_attempted := {retry_sequence_key w}\<rparr>) = (r, st)"
    by (simp add: post_issue_comment_def claim_key_def initial_writer_def)
  from send_frame[OF this] have posted: "ws_posted st = [w]" by (simp add: initial_writer_def)
  from sequential_call_steps[OF w(1) call] have reach: "writer_reachable sample_env st []" by (simp add: writer_reachable_def)
  from at_most_one_post[OF reach] w(1) posted have "ws_posted (snd (post_issue_comment sample_env w st)) = [w]" by simp
  with reach posted w(1) show ?thesis by blast
qed

text \<open>C40. What was approved is what is posted. Once finalization has released a payload of a valid approval, the writer
  input is built exactly if the run id and the target hash are those of the payload. The request of the input then goes to
  the repository and the pull request of the payload's target, and its body has exactly the approved hash. Posting never
  raises, sends this one request if the key was not claimed before and nothing otherwise, and reports \<open>posted\<close> exactly if
  the request was sent and the transport answers with a comment id and the approved actor as the author.\<close>

theorem approved_payload_is_posted:
  assumes "finalize_github_payload fromiso a plan findings probe tprobe evaluated_at (Some (Inr payload)) reconciler = Inr f"
    and "fz_writer_input_released f" and "approval_decision_check a = None"
    and "final_payload_check payload = None" and "valid_target (fp_review_target payload)" and "valid_env e"
  shows "if run_id = fp_marker_run_id payload \<and> ad_review_target_hash a = target_hash (fp_review_target payload)
    then \<exists>w. build_finalized_issue_comment_writer_input f a run_id = Inr w
      \<and> post_request_of e w = \<lparr>rq_owner_repo = rt_owner_repo (fp_review_target payload),
          rq_pr_number = rt_pr_number (fp_review_target payload), rq_body = fp_body payload, rq_timeout_seconds = we_timeout_seconds e\<rparr>
      \<and> final_payload_hash (fp_body payload) = ad_final_payload_hash a
      \<and> (\<forall>st. \<exists>x st'. post_issue_comment e w st = (Inr x, st')
           \<and> ws_posted st' = (if retry_sequence_key w \<in> ws_attempted st then ws_posted st else ws_posted st @ [w])
           \<and> (wr_status (at_writer_result x) = WriterPosted \<longleftrightarrow> retry_sequence_key w \<notin> ws_attempted st \<and> accepts_post e w st))
    else \<exists>err. build_finalized_issue_comment_writer_input f a run_id = Inl err"
proof -
  from released_input_built[OF assms(1,2) approved_actor_not_empty[OF assms(3)], where run_id = run_id]
  have bound: "payload_bound payload" "fp_final_payload_hash payload = ad_final_payload_hash a"
    and built: "case build_finalized_issue_comment_writer_input f a run_id of
         Inr w \<Rightarrow> wi_final_payload w = payload \<and> run_id = fp_marker_run_id payload
           \<and> ad_review_target_hash a = target_hash (fp_review_target payload)
       | Inl e \<Rightarrow> run_id \<noteq> fp_marker_run_id payload \<or> ad_review_target_hash a \<noteq> target_hash (fp_review_target payload)" by auto
  show ?thesis
  proof (cases "build_finalized_issue_comment_writer_input f a run_id")
    case (Inl err)
    with built show ?thesis by auto
  next
    case (Inr w)
    with built have w: "wi_final_payload w = payload"
      "run_id = fp_marker_run_id payload \<and> ad_review_target_hash a = target_hash (fp_review_target payload)" by simp_all
    from built_input_facts(2) Inr have "writer_input_check w = None" by (auto simp: built_input_def)
    with assms(4,5) w(1) have valid: "valid_input w" by (simp add: valid_input_def)
    have pass: "pv_passes (validate_final_issue_comment_payload (wi_final_payload w))"
      using bound(1) w(1) by (simp add: validate_final_pass_iff)
    have posts: "\<exists>x st'. post_issue_comment e w st = (Inr x, st')
        \<and> ws_posted st' = (if retry_sequence_key w \<in> ws_attempted st then ws_posted st else ws_posted st @ [w])
        \<and> (wr_status (at_writer_result x) = WriterPosted \<longleftrightarrow> retry_sequence_key w \<notin> ws_attempted st \<and> accepts_post e w st)" for st
      using post_issue_comment_ok[OF valid assms(6), of st] post_effect[OF valid _ pass, of e st] by blast
    have "fp_final_payload_hash payload = final_payload_hash (fp_body payload)" using bound(1) by (simp only: payload_bound_def)
    with Inr w posts bound(2) show ?thesis by (simp add: post_request_of_def Let_def)
  qed
qed

theorem approved_payload_is_posted_witness:
  "\<exists>w x st'. built_input w \<and> post_issue_comment sample_env w initial_writer = (Inr x, st') \<and> ws_posted st' = [w]
     \<and> wr_status (at_writer_result x) = WriterPosted"
proof -
  obtain a :: approval_decision and payload and r :: finalize_result where s:
    "finalize_github_payload sample_fromiso a sample_plan [''f1'' \<mapsto> FindingObject sample_finding] sample_probe
       (Some sample_target_probe) ''2024-05-01T10:05:00Z'' (Some (Inr payload)) (Some sample_reconcile) = Inr r"
    "fz_writer_input_released r" "approval_decision_check a = None" "fp_review_target payload = sample_target"
    "ad_review_target_hash a = target_hash sample_target" "fp_marker_run_id payload = ''run1''" "final_payload_check payload = None"
    "ad_github_actor a = ''me''"
    by (rule sample_finalized)
  have "valid_target (fp_review_target payload)" using s(4) by (simp add: sample_target_def review_target_check_def)
  note posts = approved_payload_is_posted[OF s(1-3,7) this sample_env_valid, where run_id = "''run1''"]
  from posts s(4-6) obtain w where w: "build_finalized_issue_comment_writer_input r a ''run1'' = Inr w"
    "\<forall>st. \<exists>x st'. post_issue_comment sample_env w st = (Inr x, st')
       \<and> ws_posted st' = (if retry_sequence_key w \<in> ws_attempted st then ws_posted st else ws_posted st @ [w])
       \<and> (wr_status (at_writer_result x) = WriterPosted \<longleftrightarrow> retry_sequence_key w \<notin> ws_attempted st \<and> accepts_post sample_env w st)"
    by auto
  from w(1) have "wi_approved_actor w = ''me''" by (rule build_input_Inr) (simp add: s(8))
  then have "accepts_post sample_env w initial_writer" by (simp add: accepts_post_def sample_env_def)
  with w(2)[rule_format, of initial_writer] w(1) show ?thesis by (auto simp: built_input_def initial_writer_def)
qed

end
