(* ===== verification/Spec2Isabelle.thy ===== *)
theory Spec2Isabelle
  imports Reviewer_Runs Marker_Parsers Permission_Gate GitHub_Writer_Safety
begin

text \<open>
  A verification development for ReviewGraph, the Python package under \<open>src/src/reviewgraph\<close>. ReviewGraph reviews a pull
  request in stages and can, at the end, publish one issue comment; this comment is its only effect on the outside world,
  and it is released through a chain of gates that fail closed. All file names below are relative to that directory.

  \<^bold>\<open>The program and its parts\<close>

  A run walks a cursor over three review stages (\<open>state.py\<close>). In every stage the runner (\<open>runner.py\<close>) selects reviewers,
  registers their runs in a ledger (\<open>reviewer_runs.py\<close>), executes them and classifies what they say. Reviewers may ask
  for clarification; a gate over the requests (\<open>clarification.py\<close>) decides if a blocking one is open, and an answer
  schedules a clarification review. From the findings, the gate and the errors of the run follow the verdict and the
  decision to publish at all (\<open>verdict.py\<close>). Findings get anchors in the diff (\<open>diff_anchor.py\<close>), the posting plan
  (\<open>posting.py\<close>) says where every output goes, texts are redacted (\<open>redaction.py\<close>), and a candidate comment is built.

  To publish, a human approves items of the plan (\<open>approval.py\<close>). The approval binds the hash of the final comment
  (\<open>final_payload.py\<close>, \<open>hashing.py\<close>), the review target and the permission of the actor (\<open>permissions.py\<close>). Finalization
  (\<open>finalization.py\<close>) checks everything again right before posting: the approval, the actor, the target, the payload
  (\<open>payload_validation.py\<close>), and that no comment with the same findings exists (\<open>markers.py\<close>). Only then an input for
  the writer is built (\<open>writer_input.py\<close>), and a writer (\<open>writer_github.py\<close>, \<open>writer_fake.py\<close>) posts it once.

  \<^bold>\<open>Theories and sources\<close>

  \<^item> \<open>Prelude\<close>: exceptions as values, checks of dataclasses, string operations. \<open>Keyed_Dict\<close>: the locale of dicts whose
    entries carry their key. \<open>Sha256\<close>: the hash function, concrete. \<open>Json\<close>: \<open>json.dumps\<close> in both escaping modes.
    \<open>Timestamps\<close>: the three readings of RFC 3339 times in \<open>models.py\<close>, \<open>permissions.py\<close> and \<open>approval.py\<close>.
  \<^item> \<open>Hashing\<close>: \<open>hashing.py\<close>, canonical texts, the marker line, the hashes. \<open>Hash_Texts\<close>: the texts that are hashed are
    uniquely readable. \<open>Stable_Key\<close>: so is \<open>ReviewerRunKey.stable_key\<close>. \<open>Marker_Parsers\<close>: the second parser of marker
    lines, in \<open>models.py\<close>, agrees with that of \<open>hashing.py\<close>.
  \<^item> \<open>Models_Review\<close>, \<open>Models_Payload\<close>, \<open>Models_Permission\<close>, \<open>Models_Markers\<close>, \<open>Models_Approval\<close>, \<open>Models_Finalization\<close>: the
    dataclasses of \<open>models.py\<close>, one record each, with its \<open>__post_init__\<close> as a function \<open>..._check\<close>.
  \<^item> \<open>Stage_Cursor\<close>: \<open>state.py\<close>. \<open>Clarification\<close>: \<open>clarification.py\<close> and the recording of answers in \<open>runner.py\<close>.
    \<open>Stage_Loop\<close>: \<open>_run_review_stages\<close> of \<open>runner.py\<close>. \<open>Reviewer_Runs\<close>: \<open>reviewer_runs.py\<close>. \<open>Verdict\<close>: \<open>verdict.py\<close>.
  \<^item> \<open>Diff_Anchors\<close>: \<open>diff_anchor.py\<close> and the changed files of \<open>fixtures.py\<close>. \<open>Redaction\<close>: \<open>redaction.py\<close>. \<open>Posting\<close>: \<open>posting.py\<close>
    and the steps of \<open>runner.py\<close> that make a plan local. \<open>Payloads\<close>: \<open>payload_validation.py\<close>, \<open>final_payload.py\<close> and the
    payload half of \<open>markers.py\<close>.
  \<^item> \<open>Markers\<close>: the scans of \<open>markers.py\<close>; \<open>Marker_Safety\<close>: what they promise. \<open>Permissions\<close>: \<open>permissions.py\<close>;
    \<open>Permission_Gate\<close>: its gate. \<open>Approval\<close>: \<open>approval.py\<close>; \<open>Approval_Binding\<close> and \<open>Approval_Decision\<close>: the proof and
    the decision. \<open>Finalization\<close>: \<open>finalization.py\<close>; \<open>Finalization_Checks\<close>: its two checks of target and actor;
    \<open>Finalization_Safety\<close>: the composition of all gates.
  \<^item> \<open>Writer\<close>: \<open>post_interaction.py\<close>, \<open>writer_input.py\<close>, \<open>writer_fake.py\<close>. \<open>GitHub_Writer\<close>: \<open>writer_github.py\<close>;
    \<open>GitHub_Writer_Safety\<close>: at most one request per comment, and the way from the approval to the request.

  Operations keep the names of the source. State is passed explicitly: the cursor and \<open>review_state\<close> (of which it is the
  parent record), the run of the stage loop, the state of a marker scan, the attempted keys of the writer.

  \<^bold>\<open>What the lemmas show\<close>

  \<^item> Stages (C1 to C7): the cursor refines an abstract machine of phases, its validator accepts exactly the states of that
    machine, advances never raise and finish every run; the stage loop ends for all reviewers, its two outcomes are exact,
    and an answer to a clarification of the last stage is never reviewed, which the documents say it should be.
  \<^item> Ledger and verdict (C8 to C13): run keys are told apart, retries are bounded, registration is idempotent; posting
    is enabled exactly for publishable verdicts, and \<open>request_changes\<close> needs authority and evidence.
  \<^item> Anchors, redaction and plans (C14 to C20): anchors are sound; a redaction replaces exactly the leftmost matches of its
    patterns and reports just that; structured data keeps its entries; only findings are public; nothing is public in a
    disabled run.
  \<^item> Payloads and markers (C21 to C31): built payloads validate, the body determines what a payload is about, the request
    validators are exact, the parsers agree; a marker scan always ends, declares a comment safe to post only after a
    complete listing without a trusted marker, and finds every posted comment again.
  \<^item> Gates (C32 to C38): the permission gate, the approval proof, the decision and the finalization are exact, never raise,
    and what they release passed every gate.
  \<^item> Writer (C39, C40): no key and no body is posted twice however concurrent calls interleave, and what was approved is
    what is posted.

  \<^bold>\<open>Decisions of the model\<close>

  \<^item> A \<open>str\<close> is the list of its UTF-8 bytes. Case folding, \<open>isdecimal\<close> and the classes of regular expressions are those of
    ASCII text; where a property depends on it (the redaction of C15 and C16, the keys of C8) it is a hypothesis.
  \<^item> A call that may raise returns \<open>py_error + 'a\<close>. The checks of \<open>__post_init__\<close> run in the order of the source and the first
    that fails decides. Checks by \<open>isinstance\<close> are discharged by types, except on values from outside, such as probes and
    responses: their fields are \<open>Absent\<close>, \<open>Present\<close> or \<open>Malformed\<close>.
  \<^item> Integers are Python's, hence \<open>int\<close>; SHA-256 works on 32-bit words. Nothing is assumed about SHA-256: where equal
    hashes should mean equal data, the statement names the two texts that would have to collide.
  \<^item> Loops over data are structural recursion. The stage loop has fuel \<open>5 + 2 * n\<close> for \<open>n\<close> answers, because three
    stages take four advances and every answer schedules at most one clarification review of two advances; C5 proves
    that it never runs out. The page loop of a marker scan has the page cap as its bound; the suffixes of a redacted key have one
    try per entry, which is enough. The substitution of a pattern terminates because matches are not empty.
  \<^item> Parameters stand for what is not in the repository or runs outside: the marker transports (any answer to each call), the
    transports of the writer, the builder and the reconciler that finalization is given, and \<open>datetime.fromisoformat\<close>,
    of which C38 uses that it reads an RFC 3339 time as what it says. The reviewing part of the stage loop
    is a parameter too; C5 to C7 hold for every such part.
  \<^item> Ages are compared exactly, in microseconds or rationals, where the source divides into floats. An error text for the
    case that a checked approval proof lacks a field stands for a branch that cannot be reached.
  \<^item> The writer's lock is the atomicity of its critical section \<open>claim_key\<close>; threads are the steps of \<open>writer_step\<close>.

  \<^bold>\<open>What is not modelled\<close>

  Reading GitHub and posting over HTTP (\<open>github.py\<close>, \<open>github_live.py\<close>, \<open>github_live_post.py\<close>), the choice of reviewers
  (\<open>risk.py\<close>, \<open>routing.py\<close>), the context they see (\<open>context_budget.py\<close>, \<open>memory.py\<close>, \<open>memory_provenance.py\<close>,
  \<open>read_gaps.py\<close>, \<open>reviewer_context.py\<close>), the reviewers themselves and the models behind them (\<open>reviewers.py\<close>,
  \<open>reviewer_boundaries.py\<close>, \<open>llm.py\<close>, \<open>llm_http.py\<close>, \<open>llm_policy.py\<close>), the reading and rating of their raw output
  (\<open>findings.py\<close>, \<open>quality.py\<close>), and configuration, fixtures, rendering and the command line. What they deliver to the
  modelled parts is arbitrary data there, so the properties hold for all of it. Of \<open>runner.py\<close> the selection and
  execution inside a stage, the check for raw output of unselected reviewers after the loop, and the assembly of the
  JSON result are left out.
\<close>

end
